(* ===== verification/Prelude.thy ===== *)
theory Prelude
  imports Complex_Main "HOL-Library.Sublist" "HOL-Library.Char_ord" "HOL-Library.Product_Lexorder" "HOL-Library.List_Lexorder"
begin

text \<open>
  Shared vocabulary of the development: the JSON values the backend stores in text columns and
  sends over HTTP, the JavaScript string operations the code uses, decimal rendering of
  identifiers, and generic facts about lists.

  Strings are HOL's \<open>char list\<close> and stand for ASCII text: the addresses, asset codes, stream
  identifiers and environment values the code compares are ASCII, and the case conversions below
  are the ASCII part of JavaScript's. The collection \<open>step_defs\<close> gathers the definitions of the
  state-changing operations, \<open>frame_simps\<close> the facts that an operation leaves a field alone, and
  \<open>inv_intros\<close> the facts that an operation keeps an invariant.
\<close>

named_theorems step_defs
named_theorems frame_simps
named_theorems inv_intros

section \<open>JSON values and text columns\<close>

datatype json =
    JNull
  | JBool bool
  | JNum rat
  | JStr string
  | JArr "json list"
  | JObj "(string \<times> json) list"

text \<open>
  A text column that holds the output of \<open>JSON.stringify\<close> is represented by the value that was
  written, of the type the column's writers use; text that \<open>JSON.parse\<close> rejects is kept as it is.
\<close>

datatype 'a jsonText = Encoded 'a | RawText string

definition stringify :: "'a \<Rightarrow> 'a jsonText" where
  "stringify j = Encoded j"

fun parse :: "'a jsonText \<Rightarrow> 'a option" where
  "parse (Encoded j) = Some j"
| "parse (RawText s) = None"

lemma parse_stringify [simp]: "parse (stringify j) = Some j"
  by (simp add: stringify_def)

text \<open>JavaScript truthiness of a text column: only the empty text is falsy.\<close>

fun text_truthy :: "'a jsonText \<Rightarrow> bool" where
  "text_truthy (Encoded j) = True"
| "text_truthy (RawText s) = (s \<noteq> [])"

lemma text_truthy_stringify [simp]: "text_truthy (stringify j)"
  by (simp add: stringify_def)

section \<open>JavaScript strings\<close>

definition lower_char :: "char \<Rightarrow> char" where
  "lower_char c = (let n = (of_char c :: nat) in if 65 \<le> n \<and> n \<le> 90 then char_of (n + 32) else c)"

definition upper_char :: "char \<Rightarrow> char" where
  "upper_char c = (let n = (of_char c :: nat) in if 97 \<le> n \<and> n \<le> 122 then char_of (n - 32) else c)"

definition toLowerCase :: "string \<Rightarrow> string" where
  "toLowerCase s = map lower_char s"

definition toUpperCase :: "string \<Rightarrow> string" where
  "toUpperCase s = map upper_char s"

definition is_space :: "char \<Rightarrow> bool" where
  "is_space c = (c = CHR '' '' \<or> (CHR 0x09 \<le> c \<and> c \<le> CHR 0x0D))"

definition trim :: "string \<Rightarrow> string" where
  "trim s = rev (dropWhile is_space (rev (dropWhile is_space s)))"

definition includes_str :: "string \<Rightarrow> string \<Rightarrow> bool" where
  "includes_str s pat = sublist pat s"

definition startsWith :: "string \<Rightarrow> string \<Rightarrow> bool" where
  "startsWith s pat = prefix pat s"

definition endsWith :: "string \<Rightarrow> string \<Rightarrow> bool" where
  "endsWith s pat = suffix pat s"

text \<open>\<open>s.split(c)\<close> for a one-character separator: always at least one piece.\<close>

fun split_on :: "char \<Rightarrow> string \<Rightarrow> string list" where
  "split_on c [] = [[]]"
| "split_on c (x # xs) =
     (if x = c then [] # split_on c xs
      else (case split_on c xs of [] \<Rightarrow> [[x]] | p # ps \<Rightarrow> (x # p) # ps))"

definition is_digit :: "char \<Rightarrow> bool" where
  "is_digit c = (CHR ''0'' \<le> c \<and> c \<le> CHR ''9'')"

definition is_alnum :: "char \<Rightarrow> bool" where
  "is_alnum c = (is_digit c \<or> (CHR ''A'' \<le> c \<and> c \<le> CHR ''Z'') \<or> (CHR ''a'' \<le> c \<and> c \<le> CHR ''z''))"

lemma split_on_nonempty [simp]: "split_on c s \<noteq> []"
  by (induction s) (auto split: list.splits)

lemma split_on_no_sep: "c \<notin> set s \<Longrightarrow> split_on c s = [s]"
  by (induction s) auto

lemma split_on_append: "c \<notin> set p \<Longrightarrow> split_on c (p @ c # s) = p # split_on c s"
  by (induction p) auto

lemma lower_char_idem [simp]: "lower_char (lower_char c) = lower_char c"
  by (simp add: lower_char_def Let_def)

lemma upper_char_idem [simp]: "upper_char (upper_char c) = upper_char c"
proof (cases "97 \<le> (of_char c :: nat) \<and> (of_char c :: nat) \<le> 122")
  case True
  then have "(of_char c - 32) mod 256 = (of_char c - 32 :: nat)"
    by (intro mod_less) arith
  with True show ?thesis by (auto simp: upper_char_def Let_def)
qed (auto simp: upper_char_def Let_def)

lemma toLowerCase_idem [simp]: "toLowerCase (toLowerCase s) = toLowerCase s"
  by (simp add: toLowerCase_def)

lemma toUpperCase_idem [simp]: "toUpperCase (toUpperCase s) = toUpperCase s"
  by (simp add: toUpperCase_def)

section \<open>Decimal identifiers\<close>

text \<open>\<open>n.toString()\<close> for a non-negative integer, and reading digits back.\<close>

definition digit_char :: "nat \<Rightarrow> char" where
  "digit_char d = char_of (48 + d)"

definition digit_val :: "char \<Rightarrow> nat" where
  "digit_val c = of_char c - 48"

fun nat_to_string :: "nat \<Rightarrow> string" where
  "nat_to_string n =
     (if n < 10 then [digit_char n] else nat_to_string (n div 10) @ [digit_char (n mod 10)])"

declare nat_to_string.simps [simp del]

fun int_to_string :: "int \<Rightarrow> string" where
  "int_to_string i = (if i < 0 then CHR ''-'' # nat_to_string (nat (- i)) else nat_to_string (nat i))"

definition digits_val :: "string \<Rightarrow> nat" where
  "digits_val ds = foldl (\<lambda>a c. 10 * a + digit_val c) 0 ds"

lemma digit_val_char [simp]: "d < 10 \<Longrightarrow> digit_val (digit_char d) = d"
  by (simp add: digit_val_def digit_char_def)

lemma is_digit_char [simp]: "d < 10 \<Longrightarrow> is_digit (digit_char d)"
  by (simp add: is_digit_def digit_char_def less_eq_char_def)

lemma nat_to_string_digits: "\<forall>c \<in> set (nat_to_string n). is_digit c"
proof (induction n rule: nat_to_string.induct)
  case (1 n)
  then show ?case by (subst nat_to_string.simps) auto
qed

lemma digits_val_nat_to_string [simp]: "digits_val (nat_to_string n) = n"
proof (induction n rule: nat_to_string.induct)
  case (1 n)
  show ?case
  proof (cases "n < 10")
    case True
    then show ?thesis by (simp add: nat_to_string.simps [of n] digits_val_def)
  next
    case False
    with "1.IH" have "digits_val (nat_to_string (n div 10)) = n div 10" by simp
    with False show ?thesis
      by (simp add: nat_to_string.simps [of n] digits_val_def)
  qed
qed

lemma nat_to_string_inject [simp]: "nat_to_string m = nat_to_string n \<longleftrightarrow> m = n"
  by (metis digits_val_nat_to_string)

lemma nat_to_string_nonempty [simp]: "nat_to_string n \<noteq> []"
  by (subst nat_to_string.simps) simp

text \<open>
  SQLite's \<open>CAST(t AS INTEGER)\<close> on text: the value of the longest prefix that reads as an
  integer, after leading spaces, and 0 when there is none.
\<close>

definition cast_integer :: "string \<Rightarrow> int" where
  "cast_integer t =
     (let u = dropWhile is_space t in
      case u of
        [] \<Rightarrow> 0
      | c # cs \<Rightarrow>
          if c = CHR ''-'' then - int (digits_val (takeWhile is_digit cs))
          else if c = CHR ''+'' then int (digits_val (takeWhile is_digit cs))
          else int (digits_val (takeWhile is_digit u)))"

lemma digit_not_space: "is_digit c \<Longrightarrow> \<not> is_space c \<and> c \<noteq> CHR ''-'' \<and> c \<noteq> CHR ''+''"
  by (auto simp: is_digit_def is_space_def less_eq_char_def)

lemma cast_integer_nat_to_string [simp]: "cast_integer (nat_to_string n) = int n"
proof -
  obtain c cs where s: "nat_to_string n = c # cs"
    using nat_to_string_nonempty by (cases "nat_to_string n") auto
  have d: "\<forall>x \<in> set (c # cs). is_digit x"
    using nat_to_string_digits [of n] s by simp
  then have tw: "takeWhile is_digit cs = cs"
    by (simp add: takeWhile_eq_all_conv)
  have v: "digits_val (c # cs) = n"
    using s digits_val_nat_to_string [of n] by simp
  show ?thesis
    using d digit_not_space [of c] by (simp add: cast_integer_def s tw v)
qed

text \<open>\<open>parseInt(s, 10)\<close>: the longest integer prefix after leading spaces.\<close>

definition parseInt :: "string \<Rightarrow> int option" where
  "parseInt s =
     (let u = dropWhile is_space s;
          (neg, ds) = (case u of [] \<Rightarrow> (False, [])
            | c # cs \<Rightarrow> if c = CHR ''-'' then (True, cs) else if c = CHR ''+'' then (False, cs) else (False, u));
          digits = takeWhile is_digit ds
      in if digits = [] then None
         else Some (if neg then - int (digits_val digits) else int (digits_val digits)))"

lemma takeWhile_digits [simp]: "takeWhile is_digit (nat_to_string n) = nat_to_string n"
  using nat_to_string_digits [of n] by (simp add: takeWhile_eq_all_conv)

lemma parseInt_nat_to_string [simp]: "parseInt (nat_to_string n) = Some (int n)"
proof -
  obtain c cs where s: "nat_to_string n = c # cs"
    using nat_to_string_nonempty by (cases "nat_to_string n") auto
  then have "is_digit c" using nat_to_string_digits [of n] by simp
  then have d: "\<not> is_space c \<and> c \<noteq> CHR ''-'' \<and> c \<noteq> CHR ''+''" by (rule digit_not_space)
  have tw: "takeWhile is_digit cs = cs"
    using nat_to_string_digits [of n] s by (simp add: takeWhile_eq_all_conv)
  have v: "digits_val (c # cs) = n" using digits_val_nat_to_string [of n] s by simp
  show ?thesis
    using d \<open>is_digit c\<close> by (simp add: parseInt_def s Let_def tw v)
qed

lemma int_to_string_nonempty [simp]: "int_to_string i \<noteq> []"
  by simp

lemma parseInt_int_to_string [simp]: "parseInt (int_to_string i) = Some i"
proof (cases "i < 0")
  case True
  then show ?thesis by (simp add: parseInt_def is_space_def Let_def less_eq_char_def)
next
  case False
  then show ?thesis by simp
qed

section \<open>Lists\<close>

lemma filter_eq_nil_iff: "filter P xs = [] \<longleftrightarrow> (\<forall>x \<in> set xs. \<not> P x)"
  by (simp add: filter_empty_conv)

text \<open>A page of a list: \<open>xs.slice(offset, offset + limit)\<close> for non-negative bounds.\<close>

definition slice :: "nat \<Rightarrow> nat \<Rightarrow> 'a list \<Rightarrow> 'a list" where
  "slice offset limit xs = take limit (drop offset xs)"

lemma length_slice: "length (slice k n xs) = min n (length xs - k)"
  by (simp add: slice_def)

lemma slice_all [simp]: "slice 0 (length xs) xs = xs"
  by (simp add: slice_def)

lemma length_filter_split:
  "(\<And>x. x \<in> set xs \<Longrightarrow> P x \<longleftrightarrow> (Q x \<or> R x)) \<Longrightarrow> (\<And>x. x \<in> set xs \<Longrightarrow> \<not> (Q x \<and> R x)) \<Longrightarrow>
   length (filter P xs) = length (filter Q xs) + length (filter R xs)"
  by (induction xs) auto

lemma strictly_increasing_distinct:
  "sorted_wrt (<) (xs :: 'a::linorder list) \<Longrightarrow> distinct xs"
  by (simp add: strict_sorted_iff)

section \<open>Reading digits\<close>

lemma digits_val_snoc: "digits_val (ds @ [c]) = 10 * digits_val ds + digit_val c"
  by (simp add: digits_val_def)

lemma digits_val_append: "digits_val (as @ bs) = digits_val as * 10 ^ length bs + digits_val bs"
proof (induction bs rule: rev_induct)
  case (snoc b bs)
  have "digits_val (as @ bs @ [b]) = 10 * digits_val (as @ bs) + digit_val b"
    using digits_val_snoc [of "as @ bs" b] by simp
  with snoc show ?case by (simp add: digits_val_snoc algebra_simps)
qed (simp add: digits_val_def)

lemma digits_val_zeros: "digits_val (replicate k CHR ''0'') = 0"
  by (induction k) (simp_all add: digit_val_def digits_val_def)

lemma length_nat_to_string: "n < 10 ^ Suc k \<Longrightarrow> length (nat_to_string n) \<le> Suc k"
proof (induction k arbitrary: n)
  case (Suc k)
  then have "n div 10 < 10 ^ Suc k" by (simp add: less_mult_imp_div_less)
  from Suc.IH [OF this] show ?case by (subst nat_to_string.simps) simp
qed (subst nat_to_string.simps, simp)

end
