(* ===== verification/JsNumber.thy ===== *)
theory JsNumber
  imports Prelude "HOL-Library.Log_Nat"
begin

text \<open>
  JavaScript numbers. A finite double is the rational it denotes; every arithmetic operation of
  the code is the exact operation followed by \<open>fl\<close>, rounding to the nearest double (53-bit
  significand, ties to even, gradual underflow at \<open>2^-1074\<close>). Magnitudes at or above \<open>2^1024\<close>,
  where a double becomes \<open>Infinity\<close>, are outside the model. \<open>fl\<close> is executable, so witnesses
  compute with the same roundings as the program. The locale \<open>rounding\<close> is what the vesting
  arithmetic needs to know about it.
\<close>

type_synonym jsnum = rat

section \<open>Rounding to a double\<close>

text \<open>The exponent of the leading binary digit of a positive rational.\<close>

definition ilog2 :: "rat \<Rightarrow> int" where
  "ilog2 x = (let (a, b) = quotient_of x; d = bitlen a - bitlen b
     in if x < 2 powi d then d - 1 else d)"

text \<open>Round half to even.\<close>

definition rne :: "rat \<Rightarrow> int" where
  "rne x = (let n = \<lfloor>x\<rfloor>; r = x - of_int n in
     if r < 1 / 2 then n else if 1 / 2 < r then n + 1 else if even n then n else n + 1)"

text \<open>The exponent of the unit in the last place.\<close>

definition ulp_exp :: "rat \<Rightarrow> int" where
  "ulp_exp x = max (ilog2 x - 52) (- 1074)"

definition fl_pos :: "rat \<Rightarrow> rat" where
  "fl_pos x = of_int (rne (x / 2 powi (ulp_exp x))) * 2 powi (ulp_exp x)"

definition fl :: "rat \<Rightarrow> jsnum" where
  "fl x = (if x = 0 then 0 else if 0 < x then fl_pos x else - fl_pos (- x))"

text \<open>For evaluation: a power of two as one quotient of integers.\<close>

definition pow2 :: "int \<Rightarrow> rat" where
  "pow2 e = (if 0 \<le> e then of_int (2 ^ nat e) else 1 / of_int (2 ^ nat (- e)))"

lemma powi_pow2: "2 powi e = pow2 e"
  by (simp add: pow2_def power_int_def power_one_over)

lemma ilog2_code [code]:
  "ilog2 x = (let (a, b) = quotient_of x; d = bitlen a - bitlen b in if x < pow2 d then d - 1 else d)"
  by (simp add: ilog2_def powi_pow2)

lemma fl_pos_code [code]:
  "fl_pos x = (let e = ulp_exp x in of_int (rne (x / pow2 e)) * pow2 e)"
  by (simp add: fl_pos_def powi_pow2 Let_def)

subsection \<open>Facts about the pieces\<close>

lemma rne_bounds: "\<lfloor>x\<rfloor> \<le> rne x \<and> rne x \<le> \<lfloor>x\<rfloor> + 1"
  by (simp add: rne_def Let_def)

lemma rne_int [simp]: "rne (of_int n) = n"
  by (simp add: rne_def Let_def)

lemma rne_mono: "x \<le> y \<Longrightarrow> rne x \<le> rne y"
proof -
  assume xy: "x \<le> y"
  show ?thesis
  proof (cases "\<lfloor>x\<rfloor> = \<lfloor>y\<rfloor>")
    case True
    with xy show ?thesis by (auto simp: rne_def Let_def)
  next
    case False
    with xy have "\<lfloor>x\<rfloor> + 1 \<le> \<lfloor>y\<rfloor>" using floor_mono [OF xy] by simp
    then show ?thesis using rne_bounds [of x] rne_bounds [of y] by linarith
  qed
qed

lemma rne_near: "\<bar>of_int (rne x) - x\<bar> \<le> 1 / 2"
proof -
  have f: "of_int \<lfloor>x\<rfloor> \<le> x" "x < of_int \<lfloor>x\<rfloor> + 1"
    using floor_correct [of x] by simp_all
  then show ?thesis by (auto simp: rne_def Let_def abs_le_iff) 
qed

lemma quotient_of_pos:
  assumes "0 < x" and "quotient_of x = (a, b)"
  shows "0 < a" and "0 < b" and "x = of_int a / of_int b"
proof -
  show b: "0 < b" using assms(2) quotient_of_denom_pos by blast
  show x: "x = of_int a / of_int b" using assms(2) quotient_of_div by blast
  with assms(1) b show "0 < a"
    by (simp add: zero_less_divide_iff)
qed

lemma powi_mono: "d \<le> e \<Longrightarrow> (2::rat) powi d \<le> 2 powi e"
  by (rule power_int_increasing) auto

lemma powi_pos [simp]: "0 < (2::rat) powi e"
  by simp

lemma bitlen_powi_bounds:
  assumes "0 < a"
  shows "(2::rat) powi (bitlen a - 1) \<le> of_int a" and "of_int a < (2::rat) powi (bitlen a)"
proof -
  from assms have bb: "2 ^ nat (bitlen a - 1) \<le> a \<and> a < 2 ^ nat (bitlen a)"
    by (rule bitlen_bounds)
  have p: "1 \<le> bitlen a" using assms bitlen_ge_iff_power [of 1 a] by simp
  have "(2::rat) powi (bitlen a - 1) = of_int (2 ^ nat (bitlen a - 1))"
    using p by (simp add: power_int_def)
  with bb show "(2::rat) powi (bitlen a - 1) \<le> of_int a"
    by (metis of_int_le_iff)
  have "(2::rat) powi (bitlen a) = of_int (2 ^ nat (bitlen a))"
    using p by (simp add: power_int_def)
  with bb show "of_int a < (2::rat) powi (bitlen a)"
    by (metis of_int_less_iff)
qed

lemma ilog2_bounds:
  assumes "0 < x"
  shows "2 powi (ilog2 x) \<le> x \<and> x < 2 powi (ilog2 x + 1)"
proof -
  obtain a b where q: "quotient_of x = (a, b)" by fastforce
  note ab = quotient_of_pos [OF assms q]
  let ?d = "bitlen a - bitlen b"
  have lo: "(2::rat) powi (?d - 1) * of_int b \<le> of_int a"
  proof -
    have "(2::rat) powi (?d - 1) * of_int b \<le> 2 powi (?d - 1) * 2 powi (bitlen b)"
      using bitlen_powi_bounds(2) [OF ab(2)] by (intro mult_left_mono) auto
    also have "\<dots> = 2 powi (bitlen a - 1)"
      by (simp add: power_int_add [symmetric])
    also have "\<dots> \<le> of_int a" by (rule bitlen_powi_bounds(1) [OF ab(1)])
    finally show ?thesis .
  qed
  have hi: "of_int a < (2::rat) powi (?d + 1) * of_int b"
  proof -
    have "of_int a < (2::rat) powi (bitlen a)" by (rule bitlen_powi_bounds(2) [OF ab(1)])
    also have "\<dots> = 2 powi (?d + 1) * 2 powi (bitlen b - 1)"
      by (simp add: power_int_add [symmetric])
    also have "\<dots> \<le> 2 powi (?d + 1) * of_int b"
      using bitlen_powi_bounds(1) [OF ab(2)] by (intro mult_left_mono) auto
    finally show ?thesis .
  qed
  have "0 < (of_int b :: rat)" using ab(2) by simp
  then have "2 powi (?d - 1) \<le> x" "x < 2 powi (?d + 1)"
    unfolding ab(3) using lo hi by (simp_all only: pos_le_divide_eq pos_divide_less_eq)
  then show ?thesis by (auto simp: ilog2_def q Let_def)
qed

lemma ilog2_mono: "0 < x \<Longrightarrow> x \<le> y \<Longrightarrow> ilog2 x \<le> ilog2 y"
proof (rule ccontr)
  assume xy: "0 < x" "x \<le> y" and "\<not> ilog2 x \<le> ilog2 y"
  then have "ilog2 y + 1 \<le> ilog2 x" by simp
  then have "(2::rat) powi (ilog2 y + 1) \<le> 2 powi (ilog2 x)" by (rule powi_mono)
  with ilog2_bounds [of x] ilog2_bounds [of y] xy show False by linarith
qed

subsection \<open>Monotonicity, exactness on integers\<close>

lemma ulp_exp_mono: "0 < x \<Longrightarrow> x \<le> y \<Longrightarrow> ulp_exp x \<le> ulp_exp y"
  using ilog2_mono [of x y] by (simp add: ulp_exp_def)

lemma ilog2_le: "x < 2 powi (k + 1) \<Longrightarrow> 0 < x \<Longrightarrow> ilog2 x \<le> k"
proof (rule ccontr)
  assume x: "x < 2 powi (k + 1)" "0 < x" and "\<not> ilog2 x \<le> k"
  then have "(2::rat) powi (k + 1) \<le> 2 powi (ilog2 x)" by (intro powi_mono) simp
  with ilog2_bounds [OF x(2)] x(1) show False by linarith
qed

text \<open>Rounding never crosses a power of two at or above the unit in the last place.\<close>

lemma fl_pos_le_powi:
  assumes "0 < x" "x \<le> 2 powi k" "ulp_exp x \<le> k"
  shows "fl_pos x \<le> 2 powi k"
proof -
  let ?u = "ulp_exp x"
  have k: "(2::rat) powi k = of_int (2 ^ nat (k - ?u)) * 2 powi ?u"
  proof -
    have "of_int (2 ^ nat (k - ?u)) = (2::rat) powi (k - ?u)"
      using assms(3) by (simp add: power_int_def)
    then show ?thesis by (simp add: power_int_add [symmetric])
  qed
  have "x / 2 powi ?u \<le> of_int (2 ^ nat (k - ?u))"
    using assms(2) unfolding k by (simp add: field_simps)
  then have "rne (x / 2 powi ?u) \<le> rne (of_int (2 ^ nat (k - ?u)))" by (rule rne_mono)
  then have "rne (x / 2 powi ?u) \<le> 2 ^ nat (k - ?u)" by (simp only: rne_int)
  then have "(of_int (rne (x / 2 powi ?u)) :: rat) \<le> of_int (2 ^ nat (k - ?u))"
    by (simp only: of_int_le_iff)
  then show ?thesis unfolding fl_pos_def k by (rule mult_right_mono) simp
qed

lemma fl_pos_ge_powi:
  assumes "2 powi k \<le> x" "ulp_exp x \<le> k"
  shows "2 powi k \<le> fl_pos x"
proof -
  let ?u = "ulp_exp x"
  have k: "(2::rat) powi k = of_int (2 ^ nat (k - ?u)) * 2 powi ?u"
  proof -
    have "of_int (2 ^ nat (k - ?u)) = (2::rat) powi (k - ?u)"
      using assms(2) by (simp add: power_int_def)
    then show ?thesis by (simp add: power_int_add [symmetric])
  qed
  have "of_int (2 ^ nat (k - ?u)) \<le> x / 2 powi ?u"
    using assms(1) unfolding k by (simp add: field_simps)
  then have "rne (of_int (2 ^ nat (k - ?u))) \<le> rne (x / 2 powi ?u)" by (rule rne_mono)
  then have "2 ^ nat (k - ?u) \<le> rne (x / 2 powi ?u)" by (simp only: rne_int)
  then have "(of_int (2 ^ nat (k - ?u)) :: rat) \<le> of_int (rne (x / 2 powi ?u))"
    by (simp only: of_int_le_iff)
  then show ?thesis unfolding fl_pos_def k by (rule mult_right_mono) simp
qed

lemma fl_pos_mono:
  assumes "0 < x" "x \<le> y"
  shows "fl_pos x \<le> fl_pos y"
proof (cases "ulp_exp x = ulp_exp y")
  case True
  have "x / 2 powi (ulp_exp y) \<le> y / 2 powi (ulp_exp y)"
    using assms(2) by (rule divide_right_mono) simp
  then have "rne (x / 2 powi (ulp_exp y)) \<le> rne (y / 2 powi (ulp_exp y))" by (rule rne_mono)
  then show ?thesis unfolding fl_pos_def True by (intro mult_right_mono) simp_all
next
  case False
  with ulp_exp_mono [OF assms] have lt: "ulp_exp x < ulp_exp y" by simp
  then have uy: "ulp_exp y = ilog2 y - 52" and lx: "ilog2 x + 1 \<le> ilog2 y"
    by (auto simp: ulp_exp_def max_def split: if_splits)
  have "x < 2 powi (ilog2 x + 1)" using ilog2_bounds [OF assms(1)] by simp
  also have "\<dots> \<le> 2 powi (ilog2 y)" using lx by (rule powi_mono)
  finally have "fl_pos x \<le> 2 powi (ilog2 y)"
    using assms lt uy by (intro fl_pos_le_powi) auto
  also have "\<dots> \<le> fl_pos y"
    using ilog2_bounds [of y] assms uy by (intro fl_pos_ge_powi) auto
  finally show ?thesis .
qed

lemma fl_pos_nonneg: "0 < x \<Longrightarrow> 0 \<le> fl_pos x"
proof -
  assume "0 < x"
  then have "0 \<le> x / 2 powi (ulp_exp x)" by simp
  then have "rne 0 \<le> rne (x / 2 powi (ulp_exp x))" by (rule rne_mono)
  then have "0 \<le> rne (x / 2 powi (ulp_exp x))" using rne_int [of 0] by simp
  then show ?thesis by (simp add: fl_pos_def)
qed

lemma fl_zero [simp]: "fl 0 = 0"
  by (simp add: fl_def)

lemma fl_nonneg: "0 \<le> x \<Longrightarrow> 0 \<le> fl x"
  by (auto simp: fl_def fl_pos_nonneg)

lemma fl_minus: "fl (- x) = - fl x"
  by (auto simp: fl_def)

lemma fl_mono: "x \<le> y \<Longrightarrow> fl x \<le> fl y"
proof -
  assume xy: "x \<le> y"
  consider "0 < x" | "x \<le> 0" "0 \<le> y" | "y < 0" by linarith
  then show ?thesis
  proof cases
    case 1
    with xy show ?thesis by (simp add: fl_def fl_pos_mono)
  next
    case 2
    then have "fl x \<le> 0" using fl_nonneg [of "- x"] by (simp add: fl_minus)
    with fl_nonneg [OF 2(2)] show ?thesis by simp
  next
    case 3
    with xy have "fl_pos (- y) \<le> fl_pos (- x)" by (intro fl_pos_mono) auto
    with 3 xy show ?thesis by (simp add: fl_def)
  qed
qed

text \<open>A multiple of its own unit in the last place is a double: it rounds to itself.\<close>

lemma fl_pos_exact:
  assumes "x = of_int m * 2 powi (ulp_exp x)"
  shows "fl_pos x = x"
proof -
  have "x / 2 powi (ulp_exp x) = of_int m" by (subst assms) simp
  then show ?thesis using assms by (simp add: fl_pos_def)
qed

lemma ulp_exp_int_le_0:
  assumes "0 < n" "n \<le> 2 ^ 53"
  shows "n = 2 ^ 53 \<or> ulp_exp (of_int n) \<le> 0"
proof (cases "n = 2 ^ 53")
  case False
  with assms have "n < 2 ^ 53" by simp
  then have "(of_int n :: rat) < of_int (2 ^ 53)" by (simp only: of_int_less_iff)
  then have "(of_int n :: rat) < 2 powi (52 + 1)" by (simp add: power_int_def)
  then have "ilog2 (of_int n) \<le> 52" using assms by (intro ilog2_le) auto
  then show ?thesis by (simp add: ulp_exp_def)
qed simp

lemma fl_int: "\<bar>n\<bar> \<le> 2 ^ 53 \<Longrightarrow> fl (of_int n) = of_int n"
proof -
  have pos: "fl_pos (of_int n) = of_int n" if n: "0 < n" "n \<le> 2 ^ 53" for n :: int
  proof (cases "n = 2 ^ 53")
    case True
    have "fl_pos ((2::rat) ^ 53) = 2 ^ 53" by code_simp
    with True show ?thesis by simp
  next
    case False
    with n ulp_exp_int_le_0 [of n] have u: "ulp_exp (of_int n) \<le> 0" by blast
    let ?u = "ulp_exp (of_int n)"
    have "of_int (n * 2 ^ nat (- ?u)) * (2::rat) powi ?u = of_int n * (2 powi (- ?u) * 2 powi ?u)"
      using u by (simp add: power_int_def field_simps)
    also have "\<dots> = of_int n" by (simp add: power_int_add [symmetric])
    finally show ?thesis by (intro fl_pos_exact [of _ "n * 2 ^ nat (- ?u)"]) simp
  qed
  assume "\<bar>n\<bar> \<le> 2 ^ 53"
  then show ?thesis using pos [of n] pos [of "- n"] by (auto simp: fl_def)
qed

lemma fl_one [simp]: "fl 1 = 1"
  using fl_int [of 1] by simp

text \<open>The result of a rounding is a double: rounding it again changes nothing.\<close>

lemma fl_pos_exact_powi:
  assumes "x = of_int m * 2 powi k" "ulp_exp x \<le> k"
  shows "fl_pos x = x"
proof -
  let ?u = "ulp_exp x"
  have "(2::rat) powi k = of_int (2 ^ nat (k - ?u)) * 2 powi ?u"
  proof -
    have "of_int (2 ^ nat (k - ?u)) = (2::rat) powi (k - ?u)"
      using assms(2) by (simp add: power_int_def)
    then show ?thesis by (simp add: power_int_add [symmetric])
  qed
  with assms(1) have "x = of_int (m * 2 ^ nat (k - ?u)) * 2 powi ?u" by simp
  then show ?thesis by (rule fl_pos_exact)
qed

lemma fl_pos_idem:
  assumes "0 < x" "0 < fl_pos x"
  shows "fl_pos (fl_pos x) = fl_pos x"
proof -
  let ?k = "ulp_exp x" and ?j = "max (ilog2 x + 1) (ulp_exp x)"
  have "x \<le> 2 powi ?j"
    using ilog2_bounds [OF assms(1)] powi_mono [of "ilog2 x + 1" ?j] by simp
  then have le: "fl_pos x \<le> 2 powi ?j"
    using assms(1) by (intro fl_pos_le_powi) auto
  show ?thesis
  proof (cases "fl_pos x = 2 powi ?j")
    case True
    have "ulp_exp (2 powi ?j) \<le> ?j"
    proof -
      have "ilog2 (2 powi ?j) \<le> ?j"
        by (rule ilog2_le) (simp_all add: power_int_strict_increasing)
      then show ?thesis by (simp add: ulp_exp_def)
    qed
    then have "fl_pos (2 powi ?j) = 2 powi ?j"
      by (intro fl_pos_exact_powi [of _ 1 ?j]) simp_all
    with True show ?thesis by simp
  next
    case False
    with le have lt: "fl_pos x < 2 powi ?j" by simp
    have "ulp_exp (fl_pos x) \<le> ?k"
    proof (cases "ilog2 x + 1 \<le> ?k")
      case True
      with lt have "fl_pos x < 2 powi ((?k - 1) + 1)" by simp
      then have "ilog2 (fl_pos x) \<le> ?k - 1" using assms(2) by (intro ilog2_le) auto
      then show ?thesis by (simp add: ulp_exp_def)
    next
      case False
      with lt have "fl_pos x < 2 powi (ilog2 x + 1)" by simp
      then have "ilog2 (fl_pos x) \<le> ilog2 x" using assms(2) by (intro ilog2_le) auto
      then show ?thesis by (simp add: ulp_exp_def)
    qed
    then show ?thesis by (intro fl_pos_exact_powi [of _ "rne (x / 2 powi ?k)" ?k])
        (simp_all add: fl_pos_def)
  qed
qed

lemma fl_idem [simp]: "fl (fl x) = fl x"
proof -
  have pos: "fl (fl_pos x) = fl_pos x" if "0 < x" for x
    using fl_pos_nonneg [OF that] fl_pos_idem [OF that] by (auto simp: fl_def)
  show ?thesis
    using pos [of x] pos [of "- x"] by (auto simp: fl_def [of x] fl_minus)
qed

section \<open>toFixed(6) and Math.round\<close>

text \<open>
  \<open>Number(value.toFixed(6))\<close>: the decimal with six digits nearest to the exact value of the
  double (the larger one on a tie), read back as a double. \<open>toFixed\<close> works on the magnitude and
  falls back to the full decimal rendering, which reads back unchanged, from \<open>10^21\<close> on.
\<close>

definition round6_pos :: "rat \<Rightarrow> jsnum" where
  "round6_pos x = fl (of_int \<lfloor>x * 1000000 + 1 / 2\<rfloor> / 1000000)"

definition round6 :: "jsnum \<Rightarrow> jsnum" where
  "round6 x = (if 10 ^ 21 \<le> \<bar>x\<bar> then x else if x < 0 then - round6_pos (- x) else round6_pos x)"

definition math_round :: "jsnum \<Rightarrow> jsnum" where
  "math_round x = of_int \<lfloor>x + 1 / 2\<rfloor>"

lemma round6_pos_mono: "x \<le> y \<Longrightarrow> round6_pos x \<le> round6_pos y"
  unfolding round6_pos_def
  by (intro fl_mono divide_right_mono) (auto intro!: floor_mono)

lemma round6_pos_nonneg: "0 \<le> x \<Longrightarrow> 0 \<le> round6_pos x"
  unfolding round6_pos_def by (intro fl_nonneg divide_nonneg_nonneg) auto

lemma round6_zero [simp]: "round6 0 = 0"
proof -
  have "\<lfloor>(1 / 2 :: rat)\<rfloor> = 0" by (simp add: floor_eq_iff)
  then show ?thesis by (simp add: round6_def round6_pos_def)
qed

lemma round6_nonneg: "0 \<le> x \<Longrightarrow> 0 \<le> round6 x"
  by (simp add: round6_def round6_pos_nonneg)

lemma round6_mono_small: "0 \<le> x \<Longrightarrow> x \<le> y \<Longrightarrow> y < 10 ^ 21 \<Longrightarrow> round6 x \<le> round6 y"
  by (simp add: round6_def round6_pos_mono)

lemma round6_int: "\<bar>n\<bar> \<le> 2 ^ 53 \<Longrightarrow> round6 (of_int n) = of_int n"
proof -
  have pos: "round6_pos (of_int n) = of_int n" if "0 \<le> n" "n \<le> 2 ^ 53" for n :: int
  proof -
    have "\<lfloor>(of_int n :: rat) * 1000000 + 1 / 2\<rfloor> = n * 1000000"
      by (rule floor_unique) simp_all
    then have "round6_pos (of_int n) = fl (of_int (n * 1000000) / 1000000)"
      by (simp add: round6_pos_def)
    also have "\<dots> = fl (of_int n)" by simp
    finally show ?thesis using that fl_int [of n] by simp
  qed
  assume "\<bar>n\<bar> \<le> 2 ^ 53"
  then show ?thesis using pos [of n] pos [of "- n"] by (auto simp: round6_def)
qed

section \<open>What the vesting arithmetic needs of rounding\<close>

text \<open>
  The interface between the number system and the progress calculation: \<open>rnd\<close> rounds one
  arithmetic result to a double, \<open>disp\<close> is the rounding to six decimals of the reported figures
  on amounts below \<open>lim\<close>.
\<close>

locale rounding =
  fixes rnd :: "rat \<Rightarrow> rat" and disp :: "rat \<Rightarrow> rat" and lim :: rat
  assumes rnd_mono: "x \<le> y \<Longrightarrow> rnd x \<le> rnd y"
    and rnd_idem: "rnd (rnd x) = rnd x"
    and rnd_0: "rnd 0 = 0"
    and rnd_1: "rnd 1 = 1"
    and disp_mono: "0 \<le> x \<Longrightarrow> x \<le> y \<Longrightarrow> y < lim \<Longrightarrow> disp x \<le> disp y"
    and disp_0: "disp 0 = 0"
begin

lemma rnd_nonneg: "0 \<le> x \<Longrightarrow> 0 \<le> rnd x"
  using rnd_mono [of 0 x] rnd_0 by simp

text \<open>The rounded ratio of an elapsed time to a duration stays in the unit interval.\<close>

lemma ratio_unit:
  "0 \<le> e \<Longrightarrow> 0 \<le> d \<Longrightarrow> 0 \<le> min 1 (rnd (e / d)) \<and> min 1 (rnd (e / d)) \<le> 1"
  using rnd_nonneg [of "e / d"] by simp

lemma ratio_mono:
  "e \<le> f \<Longrightarrow> 0 \<le> d \<Longrightarrow> min 1 (rnd (e / d)) \<le> min 1 (rnd (f / d))"
  using rnd_mono [of "e / d" "f / d"] by (simp add: divide_right_mono min_le_iff_disj)

lemma ratio_full: "d \<le> e \<Longrightarrow> 0 < d \<Longrightarrow> min 1 (rnd (e / d)) = 1"
  using rnd_mono [of 1 "e / d"] rnd_1 by simp

text \<open>A share of a double amount never rounds above the amount, and grows with the ratio.\<close>

lemma share_le:
  assumes "rnd a = a" "0 \<le> a" "0 \<le> r" "r \<le> 1"
  shows "0 \<le> rnd (a * r) \<and> rnd (a * r) \<le> a"
proof -
  have "a * r \<le> a" using assms by (simp add: mult_left_le)
  then have "rnd (a * r) \<le> a" using rnd_mono [of "a * r" a] assms(1) by simp
  with assms show ?thesis by (simp add: rnd_nonneg)
qed

lemma share_mono: "0 \<le> a \<Longrightarrow> r \<le> s \<Longrightarrow> rnd (a * r) \<le> rnd (a * s)"
  by (intro rnd_mono mult_left_mono)

lemma disp_nonneg: "0 \<le> x \<Longrightarrow> x < lim \<Longrightarrow> 0 \<le> disp x"
  using disp_mono [of 0 x] disp_0 by simp

end

interpretation dbl: rounding fl round6 "10 ^ 21"
  by unfold_locales (auto simp: fl_mono round6_mono_small)

text \<open>Rounding is off by at most one part in $2^{53}$, far from the smallest doubles.\<close>

lemma fl_pos_near:
  assumes "2 powi (- 1000) \<le> x"
  shows "\<bar>fl_pos x - x\<bar> \<le> x / 2 ^ 53"
proof -
  have pos: "0 < x" using assms powi_pos [of "- 1000"] by linarith
  have "- 1001 \<le> ilog2 x"
  proof (rule ccontr)
    assume "\<not> - 1001 \<le> ilog2 x"
    then have "(2 :: rat) powi (ilog2 x + 1) \<le> 2 powi (- 1000)" by (intro powi_mono) simp
    with ilog2_bounds [OF pos] assms show False by linarith
  qed
  then have e: "ulp_exp x = ilog2 x - 52" by (simp add: ulp_exp_def)
  have "\<bar>of_int (rne (x / 2 powi ulp_exp x)) - x / 2 powi ulp_exp x\<bar> \<le> 1 / 2" by (rule rne_near)
  then have "\<bar>of_int (rne (x / 2 powi ulp_exp x)) - x / 2 powi ulp_exp x\<bar> * 2 powi ulp_exp x \<le> 1 / 2 * 2 powi ulp_exp x"
    by (rule mult_right_mono) (simp add: less_imp_le)
  also have "\<bar>of_int (rne (x / 2 powi ulp_exp x)) - x / 2 powi ulp_exp x\<bar> * 2 powi ulp_exp x =
      \<bar>(of_int (rne (x / 2 powi ulp_exp x)) - x / 2 powi ulp_exp x) * 2 powi ulp_exp x\<bar>"
    by (simp add: abs_mult)
  also have "(of_int (rne (x / 2 powi ulp_exp x)) - x / 2 powi ulp_exp x) * 2 powi ulp_exp x = fl_pos x - x"
    by (simp add: fl_pos_def left_diff_distrib)
  finally have "\<bar>fl_pos x - x\<bar> \<le> 2 powi ulp_exp x / 2" by simp
  also have "2 powi ulp_exp x / 2 = (2 :: rat) powi ilog2 x / 2 ^ 53"
    by (simp add: e power_int_diff)
  also have "\<dots> \<le> x / 2 ^ 53"
    using ilog2_bounds [OF pos] by (simp add: divide_right_mono)
  finally show ?thesis .
qed

end
