(* ===== verification/Streams.thy ===== *)
theory Streams
  imports JsNumber
begin

text \<open>
  Payment streams: the records of \<open>backend/src/services/streamStore.ts\<close>, the conversion between
  a database row and a record, the derived status and the vesting progress. Timestamps and
  durations are whole seconds (\<open>int\<close>); amounts are doubles (\<open>jsnum\<close>).
\<close>

section \<open>Types\<close>

datatype StreamStatus = Scheduled | Active | Paused | Completed | Canceled

record StreamInput =
  in_sender :: string
  in_recipient :: string
  in_assetCode :: string
  in_totalAmount :: jsnum
  in_durationSeconds :: int
  in_startAt :: "int option"
  in_cliffSeconds :: "int option"

record StreamRecord =
  stream_id :: string
  sender :: string
  recipient :: string
  assetCode :: string
  totalAmount :: jsnum
  durationSeconds :: int
  startAt :: int
  createdAt :: int
  canceledAt :: "int option"
  completedAt :: "int option"
  refundedAmount :: "jsnum option"
  pausedAt :: "int option"
  pausedDuration :: int
  cliffSeconds :: int
  metadata :: "(string \<times> string) list option"

text \<open>JavaScript's \<open>Infinity\<close> is the one non-finite value a rate can take.\<close>

datatype rate = Finite jsnum | PosInfinity

record StreamProgress =
  status :: StreamStatus
  ratePerSecond :: rate
  elapsedSeconds :: int
  vestedAmount :: jsnum
  remainingAmount :: jsnum
  percentComplete :: jsnum

record StreamRow =
  row_id :: string
  row_sender :: string
  row_recipient :: string
  asset_code :: string
  total_amount :: jsnum
  duration_seconds :: int
  start_at :: int
  created_at :: int
  canceled_at :: "int option"
  completed_at :: "int option"
  refunded_amount :: "jsnum option"
  archived_at :: "int option"
  paused_at :: "int option"
  paused_duration :: int
  cliff_seconds :: int
  row_metadata :: "(string \<times> string) list jsonText option"

section \<open>Rows and records\<close>

definition rowToRecord :: "StreamRow \<Rightarrow> StreamRecord" where
  "rowToRecord row =
     (let meta = (case row_metadata row of
          None \<Rightarrow> None
        | Some t \<Rightarrow> if text_truthy t then parse t else None)
      in \<lparr> stream_id = row_id row, sender = row_sender row, recipient = row_recipient row,
           assetCode = asset_code row, totalAmount = total_amount row,
           durationSeconds = duration_seconds row, startAt = start_at row,
           createdAt = created_at row, canceledAt = canceled_at row,
           completedAt = completed_at row, refundedAmount = refunded_amount row,
           pausedAt = paused_at row, pausedDuration = paused_duration row,
           cliffSeconds = cliff_seconds row, metadata = meta \<rparr>)"

text \<open>
  The values \<open>upsertStream\<close> binds. \<open>archived_at\<close> is always bound to NULL, whatever the stored row
  has.
\<close>

definition recordToRow :: "StreamRecord \<Rightarrow> StreamRow" where
  "recordToRow r =
     \<lparr> row_id = stream_id r, row_sender = sender r, row_recipient = recipient r,
       asset_code = assetCode r, total_amount = totalAmount r,
       duration_seconds = durationSeconds r, start_at = startAt r,
       created_at = createdAt r, canceled_at = canceledAt r,
       completed_at = completedAt r, refunded_amount = refundedAmount r,
       archived_at = None, paused_at = pausedAt r, paused_duration = pausedDuration r,
       cliff_seconds = cliffSeconds r, row_metadata = map_option stringify (metadata r) \<rparr>"

lemma rowToRecord_recordToRow [simp]: "rowToRecord (recordToRow r) = r"
  by (cases r) (auto simp: rowToRecord_def recordToRow_def split: option.splits)

lemma recordToRow_sel [simp]:
  "row_id (recordToRow r) = stream_id r" "archived_at (recordToRow r) = None"
  "completed_at (recordToRow r) = completedAt r" "canceled_at (recordToRow r) = canceledAt r"
  "row_sender (recordToRow r) = sender r" "row_recipient (recordToRow r) = recipient r"
  by (simp_all add: recordToRow_def)

lemma rowToRecord_sel [simp]:
  "stream_id (rowToRecord row) = row_id row" "sender (rowToRecord row) = row_sender row"
  "recipient (rowToRecord row) = row_recipient row" "assetCode (rowToRecord row) = asset_code row"
  "totalAmount (rowToRecord row) = total_amount row"
  "durationSeconds (rowToRecord row) = duration_seconds row"
  "startAt (rowToRecord row) = start_at row" "createdAt (rowToRecord row) = created_at row"
  "canceledAt (rowToRecord row) = canceled_at row"
  "completedAt (rowToRecord row) = completed_at row"
  "refundedAmount (rowToRecord row) = refunded_amount row"
  "pausedAt (rowToRecord row) = paused_at row"
  "pausedDuration (rowToRecord row) = paused_duration row"
  "cliffSeconds (rowToRecord row) = cliff_seconds row"
  by (simp_all add: rowToRecord_def Let_def)

section \<open>Status\<close>

definition computeStatus :: "StreamRecord \<Rightarrow> int \<Rightarrow> StreamStatus" where
  "computeStatus stream t =
     (if canceledAt stream \<noteq> None then Canceled
      else if completedAt stream \<noteq> None then Completed
      else if pausedAt stream \<noteq> None then Paused
      else if t < startAt stream then Scheduled
      else if startAt stream + durationSeconds stream + pausedDuration stream \<le> t then Completed
      else Active)"

section \<open>Vesting progress\<close>

definition effectiveAt :: "StreamRecord \<Rightarrow> int \<Rightarrow> int" where
  "effectiveAt stream t = (case pausedAt stream of None \<Rightarrow> t | Some p \<Rightarrow> min t p)"

definition elapsed :: "StreamRecord \<Rightarrow> int \<Rightarrow> int" where
  "elapsed stream t =
     max 0 (max 0 (effectiveAt stream t - startAt stream) - pausedDuration stream)"

definition ratio :: "StreamRecord \<Rightarrow> int \<Rightarrow> jsnum" where
  "ratio stream t =
     (if durationSeconds stream \<le> 0 then 1
      else min 1 (fl (of_int (elapsed stream t) / of_int (durationSeconds stream))))"

definition vestedRaw :: "StreamRecord \<Rightarrow> int \<Rightarrow> jsnum" where
  "vestedRaw stream t = fl (totalAmount stream * ratio stream t)"

definition calculateProgress :: "StreamRecord \<Rightarrow> int \<Rightarrow> StreamProgress" where
  "calculateProgress stream t =
     (let vested = vestedRaw stream t in
      \<lparr> status = computeStatus stream t,
        ratePerSecond =
          (if durationSeconds stream \<le> 0 then PosInfinity
           else Finite (round6 (fl (totalAmount stream / of_int (durationSeconds stream))))),
        elapsedSeconds =
          (if durationSeconds stream \<le> 0 then 0
           else min (elapsed stream t) (durationSeconds stream)),
        vestedAmount = round6 vested,
        remainingAmount = round6 (max 0 (fl (totalAmount stream - vested))),
        percentComplete = round6 (fl (ratio stream t * 100)) \<rparr>)"

lemma calculateProgress_sel [simp]:
  "status (calculateProgress s t) = computeStatus s t"
  "vestedAmount (calculateProgress s t) = round6 (vestedRaw s t)"
  "percentComplete (calculateProgress s t) = round6 (fl (ratio s t * 100))"
  "remainingAmount (calculateProgress s t) = round6 (max 0 (fl (totalAmount s - vestedRaw s t)))"
  by (simp_all add: calculateProgress_def Let_def)

text \<open>
  The amounts the number model covers: a non-negative double below \<open>10^21\<close>, where \<open>toFixed\<close>
  still renders decimals.
\<close>

definition amount_ok :: "StreamRecord \<Rightarrow> bool" where
  "amount_ok s = (fl (totalAmount s) = totalAmount s \<and> 0 \<le> totalAmount s \<and> totalAmount s < 10 ^ 21)"

subsection \<open>Bounds and monotonicity\<close>

lemma effectiveAt_mono: "t \<le> t' \<Longrightarrow> effectiveAt s t \<le> effectiveAt s t'"
  by (auto simp: effectiveAt_def split: option.splits)

lemma elapsed_mono: "t \<le> t' \<Longrightarrow> elapsed s t \<le> elapsed s t'"
  using effectiveAt_mono [of t t' s] by (auto simp: elapsed_def)

lemma elapsed_nonneg [simp]: "0 \<le> elapsed s t"
  by (simp add: elapsed_def)

lemma ratio_bounds: "0 \<le> ratio s t \<and> ratio s t \<le> 1"
  using dbl.ratio_unit [of "of_int (elapsed s t)" "of_int (durationSeconds s)"]
  by (simp add: ratio_def)

lemma stream_ratio_mono: "t \<le> t' \<Longrightarrow> ratio s t \<le> ratio s t'"
  using dbl.ratio_mono [of "of_int (elapsed s t)" "of_int (elapsed s t')" "of_int (durationSeconds s)"]
    elapsed_mono [of t t' s]
  by (simp add: ratio_def)

lemma vestedRaw_bounds: "amount_ok s \<Longrightarrow> 0 \<le> vestedRaw s t \<and> vestedRaw s t \<le> totalAmount s"
  using dbl.share_le [of "totalAmount s" "ratio s t"] ratio_bounds [of s t]
  by (simp add: vestedRaw_def amount_ok_def)

lemma vestedRaw_mono: "amount_ok s \<Longrightarrow> t \<le> t' \<Longrightarrow> vestedRaw s t \<le> vestedRaw s t'"
  unfolding vestedRaw_def using stream_ratio_mono [of t t' s]
  by (intro dbl.share_mono) (auto simp: amount_ok_def)

lemma elapsed_full:
  assumes "pausedAt s = None" "startAt s + durationSeconds s + pausedDuration s \<le> t"
    "0 \<le> durationSeconds s"
  shows "durationSeconds s \<le> elapsed s t"
  using assms by (simp add: elapsed_def effectiveAt_def)

lemma stream_ratio_full:
  assumes "pausedAt s = None" "startAt s + durationSeconds s + pausedDuration s \<le> t"
  shows "ratio s t = 1"
proof (cases "durationSeconds s \<le> 0")
  case False
  with elapsed_full [OF assms]
  have "(of_int (durationSeconds s) :: rat) \<le> of_int (elapsed s t)"
    by simp
  with False show ?thesis using dbl.ratio_full by (simp add: ratio_def)
qed (simp add: ratio_def)

end
