(* ===== verification/Tables.thy ===== *)
theory Tables
  imports Streams
begin

text \<open>
  The SQLite database of the backend (schema in \<open>backend/migrations\<close>) and the statements the
  services run on it: the rows of each table in rowid order, the AUTOINCREMENT counters, the
  uniqueness and foreign-key checks. A statement that fails is an \<open>Inl\<close> of the error the driver
  throws and leaves the database as it was. Two interfaces are stated as locales: a table with a
  primary key that rows are upserted into, and a log whose identifiers a counter hands out.

  AUTOINCREMENT promises growing identifiers; the model hands out consecutive ones.
\<close>

section \<open>Rows\<close>

record EventRow =
  event_id :: nat
  ev_stream_id :: string
  event_type :: string
  ledger_sequence :: "int option"
  timestamp :: int
  actor :: "string option"
  amount :: "jsnum option"
  ev_metadata :: "json jsonText option"

record DeliveryRow =
  delivery_id :: nat
  dl_stream_id :: string
  dl_event :: string
  dl_payload :: "json jsonText"
  attempt :: nat
  max_attempts :: nat
  dl_status :: string
  next_retry_at :: "int option"
  dl_created_at :: int
  last_attempt_at :: "int option"
  error_message :: "string option"

record DeadLetterRow =
  letter_id :: nat
  letter_url :: string
  letter_payload :: "json jsonText"
  last_error :: "string option"
  failed_at :: int
  letter_stream_id :: string
  letter_event :: string

record ArchiveRow =
  ar_id :: string
  ar_sender :: string
  ar_recipient :: string
  ar_asset_code :: string
  ar_total_amount :: jsnum
  ar_duration_seconds :: int
  ar_start_at :: int
  ar_created_at :: int
  ar_canceled_at :: "int option"
  ar_completed_at :: "int option"
  ar_refunded_amount :: "jsnum option"
  ar_archived_at :: int

text \<open>\<open>indexer_cursor\<close> is the column of the one row that \<open>CHECK (id = 1)\<close> admits, if it is there.\<close>

record Db =
  streams :: "StreamRow list"
  stream_archive :: "ArchiveRow list"
  stream_events :: "EventRow list"
  events_seq :: nat
  webhook_deliveries :: "DeliveryRow list"
  deliveries_seq :: nat
  webhook_dead_letters :: "DeadLetterRow list"
  dead_letters_seq :: nat
  indexer_cursor :: "int option"

datatype dbError = ForeignKeyViolation | UniqueViolation | TooFewParameters

definition empty_db :: Db where
  "empty_db = \<lparr> streams = [], stream_archive = [], stream_events = [], events_seq = 0,
     webhook_deliveries = [], deliveries_seq = 0, webhook_dead_letters = [],
     dead_letters_seq = 0, indexer_cursor = None \<rparr>"

section \<open>Tables with a primary key\<close>

definition lookup_by :: "('r \<Rightarrow> 'k) \<Rightarrow> 'k \<Rightarrow> 'r list \<Rightarrow> 'r option" where
  "lookup_by key k rs = List.find (\<lambda>r. key r = k) rs"

definition upsert_by :: "('r \<Rightarrow> 'k) \<Rightarrow> 'r \<Rightarrow> 'r list \<Rightarrow> 'r list" where
  "upsert_by key r rs =
     (if key r \<in> key ` set rs then map (\<lambda>x. if key x = key r then r else x) rs else rs @ [r])"

definition update_where :: "('r \<Rightarrow> bool) \<Rightarrow> ('r \<Rightarrow> 'r) \<Rightarrow> 'r list \<Rightarrow> 'r list" where
  "update_where P f rs = map (\<lambda>x. if P x then f x else x) rs"

lemma lookup_by_upsert:
  "lookup_by key k (upsert_by key r rs) = (if k = key r then Some r else lookup_by key k rs)"
proof -
  let ?f = "\<lambda>x. if key x = key r then r else x"
  have other: "k \<noteq> key r \<Longrightarrow> List.find (\<lambda>x. key x = k) (map ?f rs) = List.find (\<lambda>x. key x = k) rs" for rs
    by (induction rs) auto
  have same: "key r \<in> key ` set rs \<Longrightarrow> List.find (\<lambda>x. key x = key r) (map ?f rs) = Some r" for rs
    by (induction rs) auto
  have absent: "key r \<notin> key ` set rs \<Longrightarrow> List.find (\<lambda>x. key x = k) (rs @ [r]) =
      (if k = key r then Some r else List.find (\<lambda>x. key x = k) rs)" for rs
    by (induction rs) auto
  show ?thesis
    using other [of rs] same [of rs] absent [of rs] by (auto simp: lookup_by_def upsert_by_def)
qed

lemma lookup_by_Some:
  "lookup_by key k rs = Some r \<Longrightarrow> r \<in> set rs \<and> key r = k"
  by (auto simp: lookup_by_def find_Some_iff)

lemma lookup_by_None:
  "lookup_by key k rs = None \<longleftrightarrow> k \<notin> key ` set rs"
  by (auto simp: lookup_by_def find_None_iff)

lemma lookup_by_mem:
  "distinct (map key rs) \<Longrightarrow> r \<in> set rs \<Longrightarrow> lookup_by key (key r) rs = Some r"
  by (induction rs) (auto simp: lookup_by_def)

lemma keys_upsert:
  "map key (upsert_by key r rs) =
     (if key r \<in> key ` set rs then map key rs else map key rs @ [key r])"
  by (auto simp: upsert_by_def)

lemma keys_update_where:
  "(\<And>x. key (f x) = key x) \<Longrightarrow> map key (update_where P f rs) = map key rs"
  by (auto simp: update_where_def)

lemma set_upsert: "x \<in> set (upsert_by key r rs) \<Longrightarrow> x = r \<or> x \<in> set rs"
  by (auto simp: upsert_by_def split: if_splits)

text \<open>The interface of a table whose rows are found and upserted by a key.\<close>

locale keyed_table =
  fixes key :: "'r \<Rightarrow> 'k" and rows :: "'db \<Rightarrow> 'r list"
    and find_row :: "'k \<Rightarrow> 'db \<Rightarrow> 'r option" and put :: "'r \<Rightarrow> 'db \<Rightarrow> 'db"
  assumes find_put: "find_row k (put r d) = (if k = key r then Some r else find_row k d)"
    and find_key: "find_row k d = Some r \<Longrightarrow> r \<in> set (rows d) \<and> key r = k"
    and find_none: "find_row k d = None \<longleftrightarrow> k \<notin> key ` set (rows d)"
    and keys_put: "map key (rows (put r d)) =
      (if key r \<in> key ` set (rows d) then map key (rows d) else map key (rows d) @ [key r])"
begin

lemma distinct_put: "distinct (map key (rows d)) \<Longrightarrow> distinct (map key (rows (put r d)))"
  by (simp add: keys_put)

lemma key_set_put: "key ` set (rows (put r d)) = insert (key r) (key ` set (rows d))"
  by (metis keys_put insert_absorb list.set_map list.simps(15) rotate1.simps(2) set_rotate1)

lemma find_put_same [simp]: "find_row (key r) (put r d) = Some r"
  by (simp add: find_put)

lemma put_twice: "key r = key r' \<Longrightarrow> find_row k (put r (put r' d)) = find_row k (put r d)"
  by (simp add: find_put)

end

section \<open>Logs with identifiers from a counter\<close>

definition id_log :: "nat list \<Rightarrow> nat \<Rightarrow> bool" where
  "id_log ks n = (sorted_wrt (<) ks \<and> (\<forall>k \<in> set ks. 0 < k \<and> k \<le> n))"

lemma id_log_nil [simp]: "id_log [] n"
  by (simp add: id_log_def)

lemma id_log_snoc: "id_log ks n \<Longrightarrow> id_log (ks @ [Suc n]) (Suc n)"
  by (auto simp: id_log_def sorted_wrt_append intro: le_SucI)

lemma id_log_filter: "id_log (map k rs) n \<Longrightarrow> id_log (map k (filter P rs)) n"
  by (auto simp: id_log_def sorted_wrt_map intro: sorted_wrt_filter)

lemma id_log_distinct: "id_log ks n \<Longrightarrow> distinct ks"
  by (simp add: id_log_def strictly_increasing_distinct)

locale log_table =
  fixes key :: "'r \<Rightarrow> nat" and rows :: "'db \<Rightarrow> 'r list" and counter :: "'db \<Rightarrow> nat"
    and push :: "'r \<Rightarrow> 'db \<Rightarrow> 'db"
  assumes keys_push: "map key (rows (push r d)) = map key (rows d) @ [Suc (counter d)]"
    and counter_push: "counter (push r d) = Suc (counter d)"
begin

lemma push_log [inv_intros]:
  "id_log (map key (rows d)) (counter d) \<Longrightarrow>
   id_log (map key (rows (push r d))) (counter (push r d))"
  by (simp add: keys_push counter_push id_log_snoc)

lemma push_fresh:
  "id_log (map key (rows d)) (counter d) \<Longrightarrow> x \<in> set (rows d) \<Longrightarrow> key x < counter (push r d)"
  by (auto simp: id_log_def counter_push less_Suc_eq_le)

lemma length_push: "length (rows (push r d)) = Suc (length (rows d))"
  using arg_cong [OF keys_push [of r d], of length] by simp

end

section \<open>The statements\<close>

definition find_stream :: "string \<Rightarrow> Db \<Rightarrow> StreamRow option" where
  "find_stream sid d = lookup_by row_id sid (streams d)"

definition upsert_stream_row :: "StreamRow \<Rightarrow> Db \<Rightarrow> Db" where
  "upsert_stream_row row d = d\<lparr>streams := upsert_by row_id row (streams d)\<rparr>"

definition set_archived_at :: "string \<Rightarrow> int \<Rightarrow> Db \<Rightarrow> Db" where
  "set_archived_at sid t d =
     d\<lparr>streams := update_where (\<lambda>r. row_id r = sid) (\<lambda>r. r\<lparr>archived_at := Some t\<rparr>) (streams d)\<rparr>"

text \<open>
  The unique index \<open>idx_stream_events_dedup\<close>: it covers only rows whose ledger sequence is not
  NULL.
\<close>

definition same_ledger_event :: "EventRow \<Rightarrow> EventRow \<Rightarrow> bool" where
  "same_ledger_event a b =
     (ledger_sequence a \<noteq> None \<and> ev_stream_id a = ev_stream_id b \<and> event_type a = event_type b \<and>
      ledger_sequence a = ledger_sequence b)"

definition stream_exists :: "string \<Rightarrow> Db \<Rightarrow> bool" where
  "stream_exists sid d = (\<exists>r \<in> set (streams d). row_id r = sid)"

definition push_event :: "EventRow \<Rightarrow> Db \<Rightarrow> Db" where
  "push_event e d = d\<lparr>stream_events := stream_events d @ [e\<lparr>event_id := Suc (events_seq d)\<rparr>],
     events_seq := Suc (events_seq d)\<rparr>"

text \<open>
  \<open>INSERT OR IGNORE\<close>: a duplicate of the unique index is skipped without error; the clause does
  not cover the foreign key, whose violation is still an error.
\<close>

definition insert_or_ignore_event :: "EventRow \<Rightarrow> Db \<Rightarrow> dbError + Db" where
  "insert_or_ignore_event e d =
     (if \<exists>x \<in> set (stream_events d). same_ledger_event e x then Inr d
      else if \<not> stream_exists (ev_stream_id e) d then Inl ForeignKeyViolation
      else Inr (push_event e d))"

definition push_delivery :: "DeliveryRow \<Rightarrow> Db \<Rightarrow> Db" where
  "push_delivery r d = d\<lparr>webhook_deliveries :=
       webhook_deliveries d @ [r\<lparr>delivery_id := Suc (deliveries_seq d)\<rparr>],
     deliveries_seq := Suc (deliveries_seq d)\<rparr>"

definition insert_delivery :: "DeliveryRow \<Rightarrow> Db \<Rightarrow> dbError + Db" where
  "insert_delivery r d =
     (if stream_exists (dl_stream_id r) d then Inr (push_delivery r d) else Inl ForeignKeyViolation)"

definition push_dead_letter :: "DeadLetterRow \<Rightarrow> Db \<Rightarrow> Db" where
  "push_dead_letter r d = d\<lparr>webhook_dead_letters :=
       webhook_dead_letters d @ [r\<lparr>letter_id := Suc (dead_letters_seq d)\<rparr>],
     dead_letters_seq := Suc (dead_letters_seq d)\<rparr>"

definition insert_archive :: "ArchiveRow \<Rightarrow> Db \<Rightarrow> dbError + Db" where
  "insert_archive r d =
     (if \<exists>x \<in> set (stream_archive d). ar_id x = ar_id r then Inl UniqueViolation
      else Inr (d\<lparr>stream_archive := stream_archive d @ [r]\<rparr>))"

section \<open>The interfaces on the backend's tables\<close>

lemma find_stream_upsert:
  "find_stream k (upsert_stream_row r d) = (if k = row_id r then Some r else find_stream k d)"
  by (simp add: find_stream_def upsert_stream_row_def lookup_by_upsert)

lemma find_stream_key: "find_stream k d = Some r \<Longrightarrow> r \<in> set (streams d) \<and> row_id r = k"
  unfolding find_stream_def by (rule lookup_by_Some)

lemma find_stream_none: "find_stream k d = None \<longleftrightarrow> k \<notin> row_id ` set (streams d)"
  by (simp add: find_stream_def lookup_by_None)

lemma ids_upsert:
  "map row_id (streams (upsert_stream_row r d)) =
     (if row_id r \<in> row_id ` set (streams d) then map row_id (streams d)
      else map row_id (streams d) @ [row_id r])"
  by (simp add: upsert_stream_row_def keys_upsert)

lemma ids_set_archived [simp]: "map row_id (streams (set_archived_at s t d)) = map row_id (streams d)"
  by (simp add: set_archived_at_def keys_update_where)

interpretation streams_table: keyed_table row_id streams find_stream upsert_stream_row
  by unfold_locales (fact find_stream_upsert find_stream_key find_stream_none ids_upsert)+

interpretation events_log: log_table event_id stream_events events_seq push_event
  by unfold_locales (simp_all add: push_event_def)

interpretation deliveries_log: log_table delivery_id webhook_deliveries deliveries_seq push_delivery
  by unfold_locales (simp_all add: push_delivery_def)

interpretation dead_letters_log:
    log_table letter_id webhook_dead_letters dead_letters_seq push_dead_letter
  by unfold_locales (simp_all add: push_dead_letter_def)

lemma find_stream_exists: "find_stream sid d \<noteq> None \<longleftrightarrow> stream_exists sid d"
  using streams_table.find_none [of sid d] by (auto simp: stream_exists_def)

lemma find_stream_Some:
  "find_stream sid d = Some row \<Longrightarrow> row_id row = sid \<and> row \<in> set (streams d) \<and> stream_exists sid d"
  using streams_table.find_key by (auto simp: stream_exists_def)

lemma stream_exists_iff: "stream_exists sid d \<longleftrightarrow> sid \<in> row_id ` set (streams d)"
  by (auto simp: stream_exists_def)

lemma stream_exists_upsert [simp]:
  "stream_exists sid (upsert_stream_row row d) \<longleftrightarrow> sid = row_id row \<or> stream_exists sid d"
  by (simp add: stream_exists_iff streams_table.key_set_put)

lemma stream_exists_set_archived [simp]:
  "stream_exists sid (set_archived_at s t d) \<longleftrightarrow> stream_exists sid d"
  by (metis ids_set_archived list.set_map stream_exists_iff)

lemma stream_frames [simp, frame_simps]:
  "events_seq (push_delivery r d) = events_seq d" "events_seq (push_dead_letter l d) = events_seq d"
  "deliveries_seq (push_event e d) = deliveries_seq d"
  "deliveries_seq (push_dead_letter l d) = deliveries_seq d"
  "dead_letters_seq (push_event e d) = dead_letters_seq d"
  "dead_letters_seq (push_delivery r d) = dead_letters_seq d"
  "stream_archive (push_dead_letter l d) = stream_archive d"
  "streams (push_event e d) = streams d" "streams (push_delivery r d) = streams d"
  "streams (push_dead_letter l d) = streams d"
  "stream_events (push_delivery r d) = stream_events d"
  "stream_events (push_dead_letter l d) = stream_events d"
  "stream_events (upsert_stream_row row d) = stream_events d"
  "stream_events (set_archived_at s t d) = stream_events d"
  "events_seq (upsert_stream_row row d) = events_seq d"
  "events_seq (set_archived_at s t d) = events_seq d"
  "deliveries_seq (upsert_stream_row row d) = deliveries_seq d"
  "deliveries_seq (set_archived_at s t d) = deliveries_seq d"
  "dead_letters_seq (upsert_stream_row row d) = dead_letters_seq d"
  "dead_letters_seq (set_archived_at s t d) = dead_letters_seq d"
  "webhook_deliveries (set_archived_at s t d) = webhook_deliveries d"
  "webhook_dead_letters (set_archived_at s t d) = webhook_dead_letters d"
  "stream_archive (set_archived_at s t d) = stream_archive d"
  "indexer_cursor (set_archived_at s t d) = indexer_cursor d"
  "webhook_deliveries (push_event e d) = webhook_deliveries d"
  "webhook_deliveries (upsert_stream_row row d) = webhook_deliveries d"
  "webhook_deliveries (push_dead_letter l d) = webhook_deliveries d"
  "webhook_dead_letters (push_event e d) = webhook_dead_letters d"
  "webhook_dead_letters (push_delivery r d) = webhook_dead_letters d"
  "webhook_dead_letters (upsert_stream_row row d) = webhook_dead_letters d"
  "stream_archive (push_event e d) = stream_archive d"
  "stream_archive (push_delivery r d) = stream_archive d"
  "stream_archive (upsert_stream_row row d) = stream_archive d"
  "indexer_cursor (push_event e d) = indexer_cursor d"
  "indexer_cursor (upsert_stream_row row d) = indexer_cursor d"
  by (simp_all add: push_event_def push_delivery_def push_dead_letter_def
      upsert_stream_row_def set_archived_at_def)

lemma webhook_deliveries_push:
  "webhook_deliveries (push_delivery r d) =
     webhook_deliveries d @ [r\<lparr>delivery_id := Suc (deliveries_seq d)\<rparr>]"
  by (simp add: push_delivery_def)

lemma stream_events_push:
  "stream_events (push_event e d) = stream_events d @ [e\<lparr>event_id := Suc (events_seq d)\<rparr>]"
  by (simp add: push_event_def)

lemma stream_exists_push [simp]:
  "stream_exists sid (push_event e d) = stream_exists sid d"
  "stream_exists sid (push_delivery r d) = stream_exists sid d"
  "stream_exists sid (push_dead_letter l d) = stream_exists sid d"
  by (simp_all add: stream_exists_def)

section \<open>Well-formed databases\<close>

definition ledger_key :: "EventRow \<Rightarrow> string \<times> string \<times> int" where
  "ledger_key e = (ev_stream_id e, event_type e, the (ledger_sequence e))"

definition ledger_events :: "Db \<Rightarrow> EventRow list" where
  "ledger_events d = filter (\<lambda>e. ledger_sequence e \<noteq> None) (stream_events d)"

text \<open>
  What the schema promises: one row per primary key, log identifiers that grow, no two events
  with the same stream, type and ledger, and no event or delivery without its stream.
\<close>

definition keys_ok :: "Db \<Rightarrow> bool" where
  "keys_ok d = (distinct (map row_id (streams d)) \<and> distinct (map ar_id (stream_archive d)))"

definition logs_ok :: "Db \<Rightarrow> bool" where
  "logs_ok d =
     (id_log (map event_id (stream_events d)) (events_seq d) \<and>
      id_log (map delivery_id (webhook_deliveries d)) (deliveries_seq d) \<and>
      id_log (map letter_id (webhook_dead_letters d)) (dead_letters_seq d))"

definition refs_ok :: "Db \<Rightarrow> bool" where
  "refs_ok d =
     ((\<forall>e \<in> set (stream_events d). stream_exists (ev_stream_id e) d) \<and>
      (\<forall>r \<in> set (webhook_deliveries d). stream_exists (dl_stream_id r) d))"

definition dedup_ok :: "Db \<Rightarrow> bool" where
  "dedup_ok d = distinct (map ledger_key (ledger_events d))"

definition db_ok :: "Db \<Rightarrow> bool" where
  "db_ok d = (keys_ok d \<and> logs_ok d \<and> refs_ok d \<and> dedup_ok d)"

lemmas db_ok_defs = db_ok_def keys_ok_def logs_ok_def refs_ok_def dedup_ok_def

lemma empty_db_ok: "db_ok empty_db"
  by (simp add: db_ok_defs empty_db_def ledger_events_def)

lemma db_ok_upsert [inv_intros]: "db_ok d \<Longrightarrow> db_ok (upsert_stream_row row d)"
  using streams_table.distinct_put [of d row]
  by (auto simp: db_ok_defs ledger_events_def)

lemma db_ok_set_archived [inv_intros]: "db_ok d \<Longrightarrow> db_ok (set_archived_at sid t d)"
  by (auto simp: db_ok_defs ledger_events_def)

lemma db_ok_push_event:
  assumes "db_ok d" "stream_exists (ev_stream_id e) d"
    "\<forall>x \<in> set (stream_events d). \<not> same_ledger_event e x"
  shows "db_ok (push_event e d)"
proof -
  have "refs_ok (push_event e d)"
    using assms by (auto simp: db_ok_def refs_ok_def push_event_def stream_exists_def)
  moreover have "logs_ok (push_event e d)"
    using assms events_log.push_log [of d e] by (simp add: db_ok_def logs_ok_def push_event_def)
  moreover have "dedup_ok (push_event e d)"
    using assms
    by (auto simp: db_ok_def dedup_ok_def push_event_def ledger_events_def ledger_key_def
        same_ledger_event_def)
  ultimately show ?thesis using assms by (simp add: db_ok_def keys_ok_def)
qed

lemma db_ok_insert_event [inv_intros]:
  "db_ok d \<Longrightarrow> insert_or_ignore_event e d = Inr d' \<Longrightarrow> db_ok d'"
  by (auto simp: insert_or_ignore_event_def intro: db_ok_push_event split: if_splits)

lemma db_ok_insert_delivery [inv_intros]:
  "db_ok d \<Longrightarrow> insert_delivery r d = Inr d' \<Longrightarrow> db_ok d'"
  using deliveries_log.push_log [of d r]
  by (auto simp: insert_delivery_def db_ok_defs ledger_events_def webhook_deliveries_push
      split: if_splits)

lemma db_ok_push_dead_letter [inv_intros]: "db_ok d \<Longrightarrow> db_ok (push_dead_letter l d)"
  using dead_letters_log.push_log [of d l]
  by (auto simp: db_ok_defs ledger_events_def)

lemma db_ok_insert_archive [inv_intros]:
  "db_ok d \<Longrightarrow> insert_archive r d = Inr d' \<Longrightarrow> db_ok d'"
  by (auto simp: insert_archive_def db_ok_defs ledger_events_def stream_exists_def split: if_splits)
    metis

lemma insert_event_cases:
  assumes "insert_or_ignore_event e d = Inr d'"
  obtains "d' = d" | "d' = push_event e d" "stream_exists (ev_stream_id e) d"
  using assms by (auto simp: insert_or_ignore_event_def split: if_splits)

lemma insert_event_no_ledger:
  "ledger_sequence e = None \<Longrightarrow> stream_exists (ev_stream_id e) d \<Longrightarrow>
   insert_or_ignore_event e d = Inr (push_event e d)"
  by (simp add: insert_or_ignore_event_def same_ledger_event_def)

end
