(* ===== verification/EventHistory.thy ===== *)
theory EventHistory
  imports Tables
begin

text \<open>
  The event log of \<open>backend/src/services/eventHistory.ts\<close>: recording an event, reading a stream's
  history and the global feed page by page, counting, the per-type summary and the claimed total.
  Event types are the strings stored in the column. \<open>rowToEvent\<close> is \<open>None\<close> where \<open>JSON.parse\<close>
  throws, and so is a listing that contains such a row. SQLite's \<open>SUM\<close> over doubles is a
  parameter, since how it accumulates depends on the SQLite version.
\<close>

section \<open>Events\<close>

record StreamEvent =
  se_id :: nat
  se_streamId :: string
  se_eventType :: string
  se_ledgerSequence :: "int option"
  se_timestamp :: int
  se_actor :: "string option"
  se_amount :: "jsnum option"
  se_metadata :: "json option"

definition rowToEvent :: "EventRow \<Rightarrow> StreamEvent option" where
  "rowToEvent row =
     (let ev = (\<lambda>m. \<lparr> se_id = event_id row, se_streamId = ev_stream_id row,
          se_eventType = event_type row, se_ledgerSequence = ledger_sequence row,
          se_timestamp = timestamp row, se_actor = actor row, se_amount = amount row,
          se_metadata = m \<rparr>)
      in case ev_metadata row of
           None \<Rightarrow> Some (ev None)
         | Some t \<Rightarrow> if text_truthy t then map_option (\<lambda>j. ev (Some j)) (parse t) else Some (ev None))"

definition mk_event ::
  "string \<Rightarrow> string \<Rightarrow> int \<Rightarrow> string option \<Rightarrow> jsnum option \<Rightarrow> json option \<Rightarrow> int option \<Rightarrow> EventRow" where
  "mk_event sid ty ts act amt meta ledger =
     \<lparr> event_id = 0, ev_stream_id = sid, event_type = ty, ledger_sequence = ledger,
       timestamp = ts, actor = act, amount = amt, ev_metadata = map_option stringify meta \<rparr>"

text \<open>The metadata objects the code passes are never empty values, so they are always encoded.\<close>

definition recordEventWithDb ::
  "string \<Rightarrow> string \<Rightarrow> int \<Rightarrow> string option \<Rightarrow> jsnum option \<Rightarrow> json option \<Rightarrow> int option \<Rightarrow> Db \<Rightarrow>
   dbError + Db" where
  "recordEventWithDb sid ty ts act amt meta ledger d =
     insert_or_ignore_event (mk_event sid ty ts act amt meta ledger) d"

definition recordEvent ::
  "string \<Rightarrow> string \<Rightarrow> int \<Rightarrow> string option \<Rightarrow> jsnum option \<Rightarrow> json option \<Rightarrow> int option \<Rightarrow> Db \<Rightarrow>
   dbError + Db" where
  "recordEvent sid ty ts act amt meta ledger d = recordEventWithDb sid ty ts act amt meta ledger d"

lemma mk_event_sel [simp]:
  "ev_stream_id (mk_event sid ty ts act amt meta ledger) = sid"
  "event_type (mk_event sid ty ts act amt meta ledger) = ty"
  "ledger_sequence (mk_event sid ty ts act amt meta ledger) = ledger"
  "timestamp (mk_event sid ty ts act amt meta ledger) = ts"
  "amount (mk_event sid ty ts act amt meta ledger) = amt"
  "actor (mk_event sid ty ts act amt meta ledger) = act"
  "ev_metadata (mk_event sid ty ts act amt meta ledger) = map_option stringify meta"
  by (simp_all add: mk_event_def)

section \<open>Reading\<close>

datatype sortOrder = Asc | Desc

definition event_order :: "EventRow \<Rightarrow> int \<times> nat" where
  "event_order e = (timestamp e, event_id e)"

text \<open>\<open>ORDER BY timestamp, id\<close> in either direction.\<close>

definition order_events :: "sortOrder \<Rightarrow> EventRow list \<Rightarrow> EventRow list" where
  "order_events ord es =
     (let up = sort_key event_order es in case ord of Asc \<Rightarrow> up | Desc \<Rightarrow> rev up)"

definition getStreamHistory ::
  "string \<Rightarrow> nat \<Rightarrow> nat \<Rightarrow> sortOrder \<Rightarrow> Db \<Rightarrow> StreamEvent list option" where
  "getStreamHistory sid limit offset ord d =
     those (map rowToEvent
       (slice offset limit (order_events ord (filter (\<lambda>e. ev_stream_id e = sid) (stream_events d)))))"

definition getAllEvents :: "nat \<Rightarrow> nat \<Rightarrow> nat option \<Rightarrow> Db \<Rightarrow> StreamEvent list option" where
  "getAllEvents limit offset cursor d =
     those (map rowToEvent (slice offset limit (order_events Desc
       (filter (\<lambda>e. case cursor of None \<Rightarrow> True | Some c \<Rightarrow> event_id e < c) (stream_events d)))))"

text \<open>
  The conditions are joined with \<open>AND\<close>; an empty event type or stream id is falsy and adds none.
\<close>

definition event_matches ::
  "string option \<Rightarrow> nat option \<Rightarrow> string option \<Rightarrow> int option \<Rightarrow> EventRow \<Rightarrow> bool" where
  "event_matches ty cursor sid since e =
     ((case ty of None \<Rightarrow> True | Some t \<Rightarrow> t = [] \<or> event_type e = t) \<and>
      (case cursor of None \<Rightarrow> True | Some c \<Rightarrow> event_id e < c) \<and>
      (case sid of None \<Rightarrow> True | Some s \<Rightarrow> s = [] \<or> ev_stream_id e = s) \<and>
      (case since of None \<Rightarrow> True | Some t \<Rightarrow> timestamp e > t))"

definition global_rows ::
  "nat \<Rightarrow> nat \<Rightarrow> string option \<Rightarrow> nat option \<Rightarrow> string option \<Rightarrow> int option \<Rightarrow> Db \<Rightarrow> EventRow list" where
  "global_rows limit offset ty cursor sid since d =
     slice offset limit
       (order_events Desc (filter (event_matches ty cursor sid since) (stream_events d)))"

definition getGlobalEvents ::
  "nat \<Rightarrow> nat \<Rightarrow> string option \<Rightarrow> nat option \<Rightarrow> string option \<Rightarrow> int option \<Rightarrow> Db \<Rightarrow>
   StreamEvent list option" where
  "getGlobalEvents limit offset ty cursor sid since d =
     those (map rowToEvent (global_rows limit offset ty cursor sid since d))"

definition countAllEvents :: "string option \<Rightarrow> string option \<Rightarrow> int option \<Rightarrow> Db \<Rightarrow> nat" where
  "countAllEvents ty sid since d = length (filter (event_matches ty None sid since) (stream_events d))"

definition countStreamEvents :: "string \<Rightarrow> Db \<Rightarrow> nat" where
  "countStreamEvents sid d = length (filter (\<lambda>e. ev_stream_id e = sid) (stream_events d))"

record StreamEventSummary =
  totalEvents :: nat
  byType :: "string \<Rightarrow> nat option"
  firstEventAt :: "int option"
  lastEventAt :: "int option"

text \<open>One row per event type of the stream, with its count (\<open>GROUP BY event_type\<close>).\<close>

definition type_counts :: "string \<Rightarrow> Db \<Rightarrow> (string \<times> nat) list" where
  "type_counts sid d =
     (let es = filter (\<lambda>e. ev_stream_id e = sid) (stream_events d)
      in map (\<lambda>t. (t, length (filter (\<lambda>e. event_type e = t) es))) (sort (remdups (map event_type es))))"

definition getStreamEventSummary :: "string \<Rightarrow> Db \<Rightarrow> StreamEventSummary" where
  "getStreamEventSummary sid d =
     (let rows = type_counts sid d;
          ts = map timestamp (filter (\<lambda>e. ev_stream_id e = sid) (stream_events d))
      in \<lparr> totalEvents = foldl (\<lambda>n row. n + snd row) 0 rows,
           byType = foldl (\<lambda>m row. m(fst row \<mapsto> snd row)) Map.empty rows,
           firstEventAt = (case ts of [] \<Rightarrow> None | t # us \<Rightarrow> Some (foldl min t us)),
           lastEventAt = (case ts of [] \<Rightarrow> None | t # us \<Rightarrow> Some (foldl max t us)) \<rparr>)"

definition streamHasEvent :: "string \<Rightarrow> string \<Rightarrow> Db \<Rightarrow> bool" where
  "streamHasEvent sid ty d = (\<exists>e \<in> set (stream_events d). ev_stream_id e = sid \<and> event_type e = ty)"

text \<open>\<open>SUM\<close> skips NULL amounts; over no rows it is NULL, which \<open>COALESCE\<close> turns into 0.\<close>

definition claimed_amounts :: "string \<Rightarrow> Db \<Rightarrow> jsnum list" where
  "claimed_amounts sid d = List.map_filter amount
     (filter (\<lambda>e. ev_stream_id e = sid \<and> event_type e = ''claimed'') (stream_events d))"

definition getClaimedTotal :: "(jsnum list \<Rightarrow> jsnum) \<Rightarrow> string \<Rightarrow> Db \<Rightarrow> jsnum" where
  "getClaimedTotal sql_sum sid d =
     (let as = claimed_amounts sid d in round6 (if as = [] then 0 else sql_sum as))"

section \<open>Facts\<close>

lemma set_order_events [simp]: "set (order_events ord es) = set es"
  by (cases ord) (simp_all add: order_events_def)

lemma length_order_events [simp]: "length (order_events ord es) = length es"
  by (cases ord) (simp_all add: order_events_def)

lemma order_events_Asc_sorted: "sorted (map event_order (order_events Asc es))"
  by (simp add: order_events_def)

lemma order_events_Desc_sorted:
  "sorted_wrt (\<lambda>a b. event_order b \<le> event_order a) (order_events Desc es)"
  using order_events_Asc_sorted [of es]
  by (simp add: order_events_def sorted_wrt_rev sorted_wrt_map)

text \<open>On a log whose timestamps never decrease the feed is the log, newest first.\<close>

definition times_grow :: "EventRow list \<Rightarrow> bool" where
  "times_grow es = sorted_wrt (\<lambda>a b. timestamp a \<le> timestamp b) es"

lemma log_sorted:
  assumes "id_log (map event_id es) n" "times_grow es"
  shows "sorted (map event_order es)"
proof -
  have "sorted_wrt (\<lambda>a b. event_id a < event_id b) es"
    using assms(1) by (simp add: id_log_def sorted_wrt_map)
  with assms(2) have "sorted_wrt (\<lambda>a b. timestamp a \<le> timestamp b \<and> event_id a < event_id b) es"
    by (simp add: times_grow_def sorted_wrt_iff_nth_less)
  then show ?thesis
    by (auto simp: sorted_wrt_map event_order_def less_eq_prod_def
        elim!: sorted_wrt_mono_rel [rotated])
qed

lemma times_grow_filter: "times_grow es \<Longrightarrow> times_grow (filter P es)"
  by (simp add: times_grow_def sorted_wrt_filter)

lemma order_events_log:
  assumes "id_log (map event_id es) n" "times_grow es"
  shows "order_events Desc (filter P es) = rev (filter P es)"
  using log_sorted [OF id_log_filter [OF assms(1)] times_grow_filter [OF assms(2)]]
  by (simp add: order_events_def sort_key_id_if_sorted)

text \<open>Cutting a growing log below an identifier keeps a prefix.\<close>

lemma filter_below:
  assumes "sorted_wrt (\<lambda>a b. event_id a < event_id b) es" "k < length es"
  shows "filter (\<lambda>e. event_id e < event_id (es ! k)) es = take k es"
proof -
  let ?P = "\<lambda>e. event_id e < event_id (es ! k)"
  have lo: "\<forall>e \<in> set (take k es). ?P e"
    using assms by (auto simp: in_set_conv_nth sorted_wrt_iff_nth_less)
  have hi: "\<forall>e \<in> set (drop k es). \<not> ?P e"
    using assms(1)
    by (auto simp: in_set_conv_nth sorted_wrt_iff_nth_less not_less)
       (metis assms(2) le_add1 le_neq_implies_less less_diff_conv add.commute less_imp_le order_refl)
  have "filter ?P es = filter ?P (take k es) @ filter ?P (drop k es)"
    by (metis append_take_drop_id filter_append)
  then show ?thesis using lo hi by (simp add: filter_eq_nil_iff)
qed

lemma event_matches_cursor:
  "event_matches ty (Some c) sid since e \<longleftrightarrow> event_matches ty None sid since e \<and> event_id e < c"
  by (auto simp: event_matches_def)

lemma global_rows_set:
  "set (global_rows limit offset ty cursor sid since d) \<subseteq> {e \<in> set (stream_events d). event_matches ty cursor sid since e}"
  by (auto simp: global_rows_def slice_def dest!: in_set_takeD in_set_dropD)

lemma next_page_rows:
  assumes "id_log (map event_id (stream_events d)) n" "times_grow (stream_events d)"
    and "global_rows limit 0 ty None sid since d = rs" "length rs = limit" "0 < limit"
  shows "global_rows limit 0 ty (Some (event_id (last rs))) sid since d =
         global_rows limit limit ty None sid since d"
proof -
  define xs where "xs = filter (event_matches ty None sid since) (stream_events d)"
  have inc: "sorted_wrt (\<lambda>a b. event_id a < event_id b) xs"
    using assms(1) by (simp add: xs_def id_log_def sorted_wrt_map sorted_wrt_filter)
  have rs: "rs = take limit (rev xs)"
    using assms(3) order_events_log [OF assms(1,2)] by (simp add: global_rows_def slice_def xs_def)
  with assms(4) have len: "limit \<le> length xs" by simp
  define k where "k = length xs - limit"
  have k: "k < length xs" using len assms(5) by (simp add: k_def)
  have "last rs = xs ! k"
    using assms(5) len by (simp add: rs take_rev last_rev hd_drop_conv_nth k_def)
  then have "filter (\<lambda>e. event_id e < event_id (last rs)) xs = take k xs"
    using filter_below [OF inc k] by simp
  moreover have "filter (event_matches ty (Some (event_id (last rs))) sid since) (stream_events d) =
      filter (\<lambda>e. event_id e < event_id (last rs)) xs"
    by (simp add: xs_def) (rule filter_cong; auto simp: event_matches_cursor)
  ultimately have page: "filter (event_matches ty (Some (event_id (last rs))) sid since) (stream_events d) =
      take k xs" by simp
  then have "order_events Desc (take k xs) = rev (take k xs)"
    using order_events_log [OF assms(1,2)] by metis
  moreover have "order_events Desc xs = rev xs"
    using order_events_log [OF assms(1,2)] by (simp add: xs_def)
  ultimately show ?thesis
    by (simp add: global_rows_def slice_def page xs_def [symmetric] drop_rev k_def)
qed

lemma pages_append: "slice 0 (m + n) xs = slice 0 m xs @ slice m n xs"
  by (simp add: slice_def take_add)

lemma pages_concat:
  "concat (map (\<lambda>k. slice (k * n) n xs) [0..<m]) = slice 0 (m * n) xs"
proof (induction m)
  case (Suc m)
  then show ?case using pages_append [of "m * n" n xs] by (simp add: add.commute)
qed (simp add: slice_def)

lemma foldl_counts: "foldl (\<lambda>n row. n + snd row) (k::nat) rows = k + sum_list (map snd rows)"
  by (induction rows arbitrary: k) auto

lemma foldl_map_upd:
  "distinct (map fst rows) \<Longrightarrow>
   foldl (\<lambda>m row. m(fst row \<mapsto> snd row)) m rows = m ++ map_of rows"
proof (induction rows arbitrary: m)
  case (Cons r rows)
  then have "m(fst r \<mapsto> snd r) ++ map_of rows = m ++ map_of (r # rows)"
    by (cases r) (simp add: map_add_upd_left dom_map_of_conv_image_fst)
  moreover have "distinct (map fst rows)" using Cons.prems by simp
  ultimately show ?case by (simp only: foldl.simps(2) Cons.IH)
qed simp

lemma sum_type_counts:
  "sum_list (map (\<lambda>t. length (filter (\<lambda>e. f e = t) es)) (sort (remdups (map f es)))) = length es"
proof -
  have "sum_list (map (\<lambda>t. length (filter (\<lambda>e. f e = t) es)) (sort (remdups (map f es)))) =
      (\<Sum>t \<in> f ` set es. length (filter (\<lambda>e. f e = t) es))"
    by (subst sum_list_distinct_conv_sum_set) auto
  also have "\<dots> = length es"
  proof -
    have "(\<Sum>t \<in> T. length (filter (\<lambda>e. f e = t) xs)) = length xs"
      if "finite T" "f ` set xs \<subseteq> T" for T xs
      using that
    proof (induction xs)
      case (Cons x xs)
      have "(\<Sum>t \<in> T. length (filter (\<lambda>e. f e = t) (x # xs))) =
          (\<Sum>t \<in> T. (if f x = t then 1 else 0) + length (filter (\<lambda>e. f e = t) xs))"
        by (intro sum.cong) auto
      also have "\<dots> = 1 + length xs"
        using Cons by (simp add: sum.distrib)
      finally show ?case by simp
    qed simp
    then show ?thesis by simp
  qed
  finally show ?thesis .
qed

lemma summary_total: "totalEvents (getStreamEventSummary sid d) = countStreamEvents sid d"
  using sum_type_counts [of event_type "filter (\<lambda>e. ev_stream_id e = sid) (stream_events d)"]
  by (simp add: getStreamEventSummary_def type_counts_def Let_def foldl_counts countStreamEvents_def
      comp_def)

lemma summary_byType:
  "byType (getStreamEventSummary sid d) t =
     (let n = length (filter (\<lambda>e. ev_stream_id e = sid \<and> event_type e = t) (stream_events d))
      in if n = 0 then None else Some n)"
proof -
  define es where "es = filter (\<lambda>e. ev_stream_id e = sid) (stream_events d)"
  define g where "g = (\<lambda>t. length (filter (\<lambda>e. event_type e = t) es))"
  have rows: "type_counts sid d = map (\<lambda>t. (t, g t)) (sort (remdups (map event_type es)))"
    by (simp add: type_counts_def es_def g_def)
  have fold: "byType (getStreamEventSummary sid d) = map_of (type_counts sid d)"
    by (simp add: getStreamEventSummary_def foldl_map_upd rows comp_def Let_def)
  have "byType (getStreamEventSummary sid d) t = map_of (type_counts sid d) t"
    by (simp only: fold)
  also have "\<dots> = (if t \<in> event_type ` set es then Some (g t) else None)"
    by (simp add: rows map_of_map_restrict restrict_map_def)
  also have "\<dots> = (if g t = 0 then None else Some (g t))"
    by (auto simp: g_def filter_eq_nil_iff)
  finally show ?thesis
    by (simp add: g_def es_def Let_def conj_commute)
qed

section \<open>Recording\<close>

lemma db_ok_recordEvent [inv_intros]:
  "db_ok d \<Longrightarrow> recordEventWithDb sid ty ts act amt meta ledger d = Inr d' \<Longrightarrow> db_ok d'"
  unfolding recordEventWithDb_def by (rule db_ok_insert_event)

lemma recordEvent_streams [frame_simps]:
  "recordEventWithDb sid ty ts act amt meta ledger d = Inr d' \<Longrightarrow>
   streams d' = streams d \<and> webhook_deliveries d' = webhook_deliveries d \<and>
   webhook_dead_letters d' = webhook_dead_letters d \<and> stream_archive d' = stream_archive d \<and>
   indexer_cursor d' = indexer_cursor d"
  unfolding recordEventWithDb_def by (erule insert_event_cases) simp_all

lemma recordEvent_local:
  "stream_exists sid d \<Longrightarrow> recordEventWithDb sid ty ts act amt meta None d =
   Inr (push_event (mk_event sid ty ts act amt meta None) d)"
  by (simp add: recordEventWithDb_def insert_event_no_ledger)

lemma recordEvent_twice:
  assumes "recordEventWithDb sid ty ts act amt meta (Some l) d = Inr d'"
  shows "recordEventWithDb sid ty ts' act' amt' meta' (Some l) d' = Inr d'"
  using assms
  by (auto simp: recordEventWithDb_def insert_or_ignore_event_def same_ledger_event_def
      push_event_def split: if_splits)

lemma streamHasEvent_push [simp]:
  "streamHasEvent sid ty (push_event e d) \<longleftrightarrow>
   streamHasEvent sid ty d \<or> (ev_stream_id e = sid \<and> event_type e = ty)"
  by (auto simp: streamHasEvent_def push_event_def)

lemma streamHasEvent_frames [simp]:
  "streamHasEvent sid ty (upsert_stream_row row d) = streamHasEvent sid ty d"
  "streamHasEvent sid ty (push_delivery r d) = streamHasEvent sid ty d"
  by (simp_all add: streamHasEvent_def)

end
