(* ===== verification/WebhookSecurity.thy ===== *)
theory WebhookSecurity
  imports Prelude
begin

text \<open>
  Where webhooks may go and how they are signed: \<open>backend/src/services/webhookUrl.ts\<close> and
  \<open>webhookSignature.ts\<close>. Node's URL parser and HMAC-SHA256 are parameters; \<open>net.isIP\<close>, the
  private ranges, the splitting of the signature header and the hexadecimal decoding of \<open>Buffer\<close>
  are defined.
\<close>

section \<open>IP literals (net.isIP)\<close>

definition is_hex :: "char \<Rightarrow> bool" where
  "is_hex c = (is_digit c \<or> (CHR ''a'' \<le> c \<and> c \<le> CHR ''f'') \<or> (CHR ''A'' \<le> c \<and> c \<le> CHR ''F''))"

text \<open>A decimal octet without leading zeros.\<close>

definition is_octet :: "string \<Rightarrow> bool" where
  "is_octet s = (s \<noteq> [] \<and> list_all is_digit s \<and> length s \<le> 3 \<and> digits_val s \<le> 255 \<and>
     (length s = 1 \<or> hd s \<noteq> CHR ''0''))"

definition isIPv4 :: "string \<Rightarrow> bool" where
  "isIPv4 s = (let ps = split_on CHR ''.'' s in length ps = 4 \<and> list_all is_octet ps)"

definition is_h16 :: "string \<Rightarrow> bool" where
  "is_h16 s = (s \<noteq> [] \<and> length s \<le> 4 \<and> list_all is_hex s)"

fun split_double_colon :: "string \<Rightarrow> (string \<times> string) option" where
  "split_double_colon [] = None"
| "split_double_colon [c] = None"
| "split_double_colon (c # d # s) =
     (if c = CHR '':'' \<and> d = CHR '':'' then Some ([], s)
      else map_option (\<lambda>(l, r). (c # l, r)) (split_double_colon (d # s)))"

text \<open>The number of 16-bit groups a colon-separated piece stands for; only the last may be IPv4.\<close>

definition groups :: "bool \<Rightarrow> string \<Rightarrow> nat option" where
  "groups v4_tail s =
     (if s = [] then Some 0
      else let ps = split_on CHR '':'' s in
        if list_all is_h16 ps then Some (length ps)
        else if v4_tail \<and> list_all is_h16 (butlast ps) \<and> isIPv4 (last ps)
             then Some (Suc (length ps))
        else None)"

definition isIPv6 :: "string \<Rightarrow> bool" where
  "isIPv6 s =
     (let addr = takeWhile (\<lambda>c. c \<noteq> CHR ''%'') s; zone = dropWhile (\<lambda>c. c \<noteq> CHR ''%'') s in
      (zone = [] \<or> (tl zone \<noteq> [] \<and>
         list_all (\<lambda>c. is_alnum c \<or> c \<in> {CHR ''-'', CHR ''.'', CHR '':''}) (tl zone))) \<and>
      (case split_double_colon addr of
         None \<Rightarrow> addr \<noteq> [] \<and> groups True addr = Some 8
       | Some (l, r) \<Rightarrow>
           (case (groups False l, groups True r) of
              (Some m, Some n) \<Rightarrow> m + n \<le> 7
            | _ \<Rightarrow> False)))"

definition isIP :: "string \<Rightarrow> nat" where
  "isIP s = (if isIPv4 s then 4 else if isIPv6 s then 6 else 0)"

section \<open>webhookUrl.ts\<close>

text \<open>\<open>Number\<close> on an octet; reached only for a dotted IPv4 literal, so on decimal digits.\<close>

definition octet_number :: "string \<Rightarrow> nat option" where
  "octet_number s = (if list_all is_digit s then Some (digits_val s) else None)"

definition isPrivateIpv4 :: "string \<Rightarrow> bool" where
  "isPrivateIpv4 hostname =
     (case those (map octet_number (split_on CHR ''.'' hostname)) of
        Some [first, second, third, fourth] \<Rightarrow>
          first = 10 \<or> first = 127 \<or> (first = 172 \<and> 16 \<le> second \<and> second \<le> 31) \<or>
          (first = 192 \<and> second = 168) \<or> (first = 169 \<and> second = 254) \<or> first = 0
      | _ \<Rightarrow> False)"

definition isPrivateIpv6 :: "string \<Rightarrow> bool" where
  "isPrivateIpv6 hostname =
     (let normalized = toLowerCase hostname in
      normalized = ''::1'' \<or> startsWith normalized ''fc'' \<or> startsWith normalized ''fd'' \<or>
      startsWith normalized ''fe80:'')"

definition isBlockedHostname :: "string \<Rightarrow> bool" where
  "isBlockedHostname hostname =
     (let normalized = toLowerCase hostname in
      if normalized = ''localhost'' \<or> endsWith normalized ''.localhost'' then True
      else if isIP normalized = 4 then isPrivateIpv4 normalized
      else if isIP normalized = 6 then isPrivateIpv6 normalized
      else False)"

record ParsedUrl =
  protocol :: string
  hostname :: string

datatype urlValidation = ValidUrl | InvalidUrl string

text \<open>\<open>newURL\<close> is Node's \<open>new URL\<close>, \<open>None\<close> where it throws.\<close>

definition validateWebhookUrl :: "(string \<Rightarrow> ParsedUrl option) \<Rightarrow> string \<Rightarrow> urlValidation" where
  "validateWebhookUrl newURL url =
     (case newURL url of
        None \<Rightarrow> InvalidUrl ''url must be a valid URL''
      | Some parsed \<Rightarrow>
          if protocol parsed \<noteq> ''https:'' then InvalidUrl ''url must use https:// protocol''
          else if isBlockedHostname (hostname parsed)
          then InvalidUrl ''url must not target localhost or private network ranges''
          else ValidUrl)"

section \<open>webhookSignature.ts\<close>

fun hex_val :: "char \<Rightarrow> nat" where
  "hex_val c = (if is_digit c then of_char c - 48 else of_char (lower_char c) - 87)"

text \<open>\<open>Buffer.from(s, 'hex')\<close> decodes pairs of digits and stops at the first pair that is not.\<close>

fun hex_decode :: "string \<Rightarrow> nat list" where
  "hex_decode (a # b # s) =
     (if is_hex a \<and> is_hex b then (16 * hex_val a + hex_val b) # hex_decode s else [])"
| "hex_decode s = []"

definition computeWebhookSignature ::
  "(string \<Rightarrow> string \<Rightarrow> string) \<Rightarrow> string \<Rightarrow> string \<Rightarrow> string" where
  "computeWebhookSignature hmac payload secret = hmac secret payload"

definition verifyWebhookSignature ::
  "(string \<Rightarrow> string \<Rightarrow> string) \<Rightarrow> string \<Rightarrow> string \<Rightarrow> string \<Rightarrow> bool" where
  "verifyWebhookSignature hmac payload signatureHeader secret =
     (if payload = [] then False
      else case split_on CHR ''='' signatureHeader of
        algorithm # signature # rest \<Rightarrow>
          if algorithm \<noteq> ''sha256'' \<or> signature = [] then False
          else hex_decode signature = hex_decode (computeWebhookSignature hmac payload secret)
      | _ \<Rightarrow> False)"

definition getWebhookHeaders ::
  "(string \<Rightarrow> string \<Rightarrow> string) \<Rightarrow> string \<Rightarrow> string option \<Rightarrow> (string \<times> string) list" where
  "getWebhookHeaders hmac payload secret =
     (''Content-Type'', ''application/json'') #
     (case secret of
        None \<Rightarrow> []
      | Some s \<Rightarrow> if s = [] then []
          else [(''X-Webhook-Signature'', ''sha256='' @ computeWebhookSignature hmac payload s)])"

section \<open>Facts\<close>

lemma hex_not_eq: "is_hex c \<Longrightarrow> c \<noteq> CHR ''=''"
  by (auto simp: is_hex_def is_digit_def less_eq_char_def)

lemma signed_header_verifies:
  assumes "payload \<noteq> []" "hmac secret payload \<noteq> []" "list_all is_hex (hmac secret payload)"
  shows "verifyWebhookSignature hmac payload (''sha256='' @ hmac secret payload) secret"
proof -
  have "CHR ''='' \<notin> set (hmac secret payload)"
    using assms(3) hex_not_eq by (auto simp: list_all_iff)
  then have "split_on CHR ''='' (''sha256='' @ hmac secret payload) = [''sha256'', hmac secret payload]"
    using split_on_append [of "CHR ''=''" "''sha256''" "hmac secret payload"] split_on_no_sep by simp
  with assms show ?thesis by (simp add: verifyWebhookSignature_def computeWebhookSignature_def)
qed

lemma blocked_private_ipv4:
  assumes "isIPv4 h" "those (map octet_number (split_on CHR ''.'' h)) = Some [a, b, c, d]"
    "a = 10 \<or> a = 127 \<or> a = 0 \<or> (a = 192 \<and> b = 168) \<or> (a = 172 \<and> 16 \<le> b \<and> b \<le> 31) \<or> (a = 169 \<and> b = 254)"
    "toLowerCase h = h"
  shows "isBlockedHostname h"
  using assms by (auto simp: isBlockedHostname_def isIP_def isPrivateIpv4_def Let_def)

end
