(* ===== verification/Webhook.thy ===== *)
theory Webhook
  imports EventHistory WebhookSecurity "HOL-Library.Multiset"
begin

text \<open>
  Outbound webhooks: \<open>backend/src/services/webhook.ts\<close> (queueing, dead letters, requeueing, the
  retry table), \<open>webhookWorker.ts\<close> (one polling cycle) and \<open>webhookDeadLetterPruningJob.ts\<close>.
  The process environment is a map from names to values. What a destination answers is a parameter:
  \<open>post r\<close> is the outcome of posting the fetched row \<open>r\<close> together with the clock reading after it.
\<close>

section \<open>Environment and payloads\<close>

type_synonym env = "string \<Rightarrow> string option"

text \<open>\<open>process.env.X\<close> used as a condition: unset and empty are both falsy.\<close>

definition env_value :: "env \<Rightarrow> string \<Rightarrow> string option" where
  "env_value env k = (case env k of Some v \<Rightarrow> if v = [] then None else Some v | None \<Rightarrow> None)"

definition opt_field :: "string \<Rightarrow> ('a \<Rightarrow> json) \<Rightarrow> 'a option \<Rightarrow> (string \<times> json) list" where
  "opt_field k f v = (case v of None \<Rightarrow> [] | Some x \<Rightarrow> [(k, f x)])"

text \<open>\<open>JSON.stringify\<close> of a stream record: undefined fields are left out.\<close>

definition stream_json :: "StreamRecord \<Rightarrow> json" where
  "stream_json r = JObj
     ([(''id'', JStr (stream_id r)), (''sender'', JStr (sender r)),
       (''recipient'', JStr (recipient r)), (''assetCode'', JStr (assetCode r)),
       (''totalAmount'', JNum (totalAmount r)), (''durationSeconds'', JNum (of_int (durationSeconds r))),
       (''startAt'', JNum (of_int (startAt r))), (''createdAt'', JNum (of_int (createdAt r)))] @
      opt_field ''canceledAt'' (JNum \<circ> of_int) (canceledAt r) @
      opt_field ''completedAt'' (JNum \<circ> of_int) (completedAt r) @
      opt_field ''refundedAmount'' JNum (refundedAmount r) @
      opt_field ''pausedAt'' (JNum \<circ> of_int) (pausedAt r) @
      [(''pausedDuration'', JNum (of_int (pausedDuration r))),
       (''cliffSeconds'', JNum (of_int (cliffSeconds r)))] @
      opt_field ''metadata'' (\<lambda>m. JObj (map (\<lambda>(k, v). (k, JStr v)) m)) (metadata r))"

text \<open>A string property of a payload object, when it is there and truthy.\<close>

definition str_prop :: "string \<Rightarrow> json \<Rightarrow> string option" where
  "str_prop k j =
     (case j of
        JObj kvs \<Rightarrow> (case map_of kvs k of Some (JStr s) \<Rightarrow> if s = [] then None else Some s | _ \<Rightarrow> None)
      | _ \<Rightarrow> None)"

lemma str_prop_stream_json [simp]:
  "str_prop ''id'' (stream_json r) = (if stream_id r = [] then None else Some (stream_id r))"
  "str_prop ''stream_id'' (stream_json r) = None"
  by (auto simp: str_prop_def stream_json_def opt_field_def split: option.splits)

section \<open>webhook.ts\<close>

definition MAX_RETRIES :: nat where "MAX_RETRIES = 5"

definition RETRY_DELAYS :: "int list" where "RETRY_DELAYS = [5, 15, 60, 300, 900]"

definition getRetryDelaySeconds :: "int \<Rightarrow> int" where
  "getRetryDelaySeconds attemptNumber =
     (if attemptNumber < 0 \<or> attemptNumber \<ge> int (length RETRY_DELAYS)
      then RETRY_DELAYS ! (length RETRY_DELAYS - 1)
      else RETRY_DELAYS ! nat attemptNumber)"

definition new_delivery :: "string \<Rightarrow> string \<Rightarrow> json jsonText \<Rightarrow> nat \<Rightarrow> int \<Rightarrow> DeliveryRow" where
  "new_delivery sid event payload maxAttempts now =
     \<lparr> delivery_id = 0, dl_stream_id = sid, dl_event = event, dl_payload = payload, attempt = 0,
       max_attempts = maxAttempts, dl_status = ''pending'', next_retry_at = Some now,
       dl_created_at = now, last_attempt_at = None, error_message = None \<rparr>"

text \<open>
  Every way out of \<open>triggerWebhook\<close> but the insertion only logs, the caught database error
  included.
\<close>

definition triggerWebhook ::
  "env \<Rightarrow> (string \<Rightarrow> ParsedUrl option) \<Rightarrow> string \<Rightarrow> json \<Rightarrow> int \<Rightarrow> Db \<Rightarrow> Db" where
  "triggerWebhook env newURL event data now d =
     (case env_value env ''WEBHOOK_DESTINATION_URL'' of
        None \<Rightarrow> d
      | Some url \<Rightarrow>
          (case validateWebhookUrl newURL url of
             InvalidUrl reason \<Rightarrow> d
           | ValidUrl \<Rightarrow>
               (case (case str_prop ''stream_id'' data of Some s \<Rightarrow> Some s | None \<Rightarrow> str_prop ''id'' data) of
                  None \<Rightarrow> d
                | Some sid \<Rightarrow>
                    (case insert_delivery (new_delivery sid event (stringify data) MAX_RETRIES now) d of
                       Inl err \<Rightarrow> d
                     | Inr d' \<Rightarrow> d'))))"

definition getDeadLetters :: "nat \<Rightarrow> nat \<Rightarrow> Db \<Rightarrow> DeadLetterRow list" where
  "getDeadLetters limit offset d =
     slice offset limit (rev (sort_key failed_at (webhook_dead_letters d)))"

definition countDeadLetters :: "Db \<Rightarrow> nat" where
  "countDeadLetters d = length (webhook_dead_letters d)"

definition pruneDeadLettersOlderThan :: "int \<Rightarrow> Db \<Rightarrow> nat \<times> Db" where
  "pruneDeadLettersOlderThan cutoff d =
     (length (filter (\<lambda>l. failed_at l < cutoff) (webhook_dead_letters d)),
      d\<lparr>webhook_dead_letters := filter (\<lambda>l. \<not> failed_at l < cutoff) (webhook_dead_letters d)\<rparr>)"

definition clearDeadLetters :: "Db \<Rightarrow> nat \<times> Db" where
  "clearDeadLetters d = (length (webhook_dead_letters d), d\<lparr>webhook_dead_letters := []\<rparr>)"

definition delete_dead_letter :: "nat \<Rightarrow> Db \<Rightarrow> Db" where
  "delete_dead_letter n d =
     d\<lparr>webhook_dead_letters := filter (\<lambda>l. letter_id l \<noteq> n) (webhook_dead_letters d)\<rparr>"

text \<open>One transaction: an error of the insertion rolls back and is thrown.\<close>

definition requeueDeadLetter :: "nat \<Rightarrow> int \<Rightarrow> Db \<Rightarrow> dbError + (bool \<times> Db)" where
  "requeueDeadLetter n now d =
     (case lookup_by letter_id n (webhook_dead_letters d) of
        None \<Rightarrow> Inr (False, d)
      | Some l \<Rightarrow>
          (case insert_delivery
                  (new_delivery (letter_stream_id l) (letter_event l) (letter_payload l) 5 now) d of
             Inl err \<Rightarrow> Inl err
           | Inr d' \<Rightarrow> Inr (True, delete_dead_letter n d')))"

section \<open>webhookDeadLetterPruningJob.ts\<close>

definition DEAD_LETTER_RETENTION_SECONDS :: int where
  "DEAD_LETTER_RETENTION_SECONDS = 30 * 24 * 60 * 60"

definition runDeadLetterPruningCycle :: "int \<Rightarrow> Db \<Rightarrow> nat \<times> Db" where
  "runDeadLetterPruningCycle nowSeconds d =
     pruneDeadLettersOlderThan (nowSeconds - DEAD_LETTER_RETENTION_SECONDS) d"

section \<open>webhookWorker.ts\<close>

datatype postResult = Posted | PostFailed string

definition update_delivery :: "nat \<Rightarrow> (DeliveryRow \<Rightarrow> DeliveryRow) \<Rightarrow> Db \<Rightarrow> Db" where
  "update_delivery n f d =
     d\<lparr>webhook_deliveries := update_where (\<lambda>r. delivery_id r = n) f (webhook_deliveries d)\<rparr>"

definition delete_delivery :: "nat \<Rightarrow> Db \<Rightarrow> Db" where
  "delete_delivery n d =
     d\<lparr>webhook_deliveries := filter (\<lambda>r. delivery_id r \<noteq> n) (webhook_deliveries d)\<rparr>"

definition dead_letter_of :: "string \<Rightarrow> string \<Rightarrow> int \<Rightarrow> DeliveryRow \<Rightarrow> DeadLetterRow" where
  "dead_letter_of url msg t r =
     \<lparr> letter_id = 0, letter_url = url, letter_payload = dl_payload r, last_error = Some msg,
       failed_at = t, letter_stream_id = dl_stream_id r, letter_event = dl_event r \<rparr>"

text \<open>What the worker does with one fetched row once its post has ended.\<close>

definition settle_delivery :: "string \<Rightarrow> DeliveryRow \<Rightarrow> postResult \<Rightarrow> int \<Rightarrow> Db \<Rightarrow> Db" where
  "settle_delivery url r outcome updateNow d =
     (case outcome of
        Posted \<Rightarrow>
          update_delivery (delivery_id r)
            (\<lambda>x. x\<lparr>dl_status := ''success'', last_attempt_at := Some updateNow\<rparr>) d
      | PostFailed errorMsg \<Rightarrow>
          (let newAttempt = attempt r + 1 in
           if newAttempt \<ge> max_attempts r
           then delete_delivery (delivery_id r) (push_dead_letter (dead_letter_of url errorMsg updateNow r) d)
           else
             (let delaySeconds = getRetryDelaySeconds (int newAttempt - 1);
                  nextRetry = updateNow + delaySeconds in
              update_delivery (delivery_id r)
                (\<lambda>x. x\<lparr>attempt := newAttempt, last_attempt_at := Some updateNow,
                       next_retry_at := Some nextRetry, error_message := Some errorMsg\<rparr>) d)))"

definition due_deliveries :: "int \<Rightarrow> Db \<Rightarrow> DeliveryRow list" where
  "due_deliveries now d =
     take 10 (sort_key (\<lambda>r. the (next_retry_at r))
       (filter (\<lambda>r. dl_status r = ''pending'' \<and>
          (case next_retry_at r of None \<Rightarrow> False | Some t \<Rightarrow> t \<le> now)) (webhook_deliveries d)))"

text \<open>A payload that does not parse throws out of the loop; the outer handler logs it.\<close>

fun process_rows ::
  "string \<Rightarrow> (DeliveryRow \<Rightarrow> postResult \<times> int) \<Rightarrow> DeliveryRow list \<Rightarrow> Db \<Rightarrow> Db" where
  "process_rows url post [] d = d"
| "process_rows url post (r # rs) d =
     (case parse (dl_payload r) of
        None \<Rightarrow> d
      | Some parsedPayload \<Rightarrow>
          (let (outcome, updateNow) = post r
           in process_rows url post rs (settle_delivery url r outcome updateNow d)))"

definition processWebhookQueue ::
  "env \<Rightarrow> (string \<Rightarrow> ParsedUrl option) \<Rightarrow> int \<Rightarrow> (DeliveryRow \<Rightarrow> postResult \<times> int) \<Rightarrow> Db \<Rightarrow> Db" where
  "processWebhookQueue env newURL now post d =
     (case env_value env ''WEBHOOK_DESTINATION_URL'' of
        None \<Rightarrow> d
      | Some url \<Rightarrow>
          (case validateWebhookUrl newURL url of
             InvalidUrl reason \<Rightarrow> d
           | ValidUrl \<Rightarrow> process_rows url post (due_deliveries now d) d))"

section \<open>Frames and invariants\<close>

lemma streams_update_delivery [simp]:
  "streams (update_delivery n f d) = streams d" "streams (delete_delivery n d) = streams d"
  "streams (delete_dead_letter n d) = streams d"
  "stream_events (update_delivery n f d) = stream_events d"
  "stream_events (delete_delivery n d) = stream_events d"
  "stream_events (delete_dead_letter n d) = stream_events d"
  by (simp_all add: update_delivery_def delete_delivery_def delete_dead_letter_def)

lemma update_delivery_frames:
  "stream_archive (update_delivery n f d) = stream_archive d"
  "events_seq (update_delivery n f d) = events_seq d"
  "deliveries_seq (update_delivery n f d) = deliveries_seq d"
  "webhook_dead_letters (update_delivery n f d) = webhook_dead_letters d"
  "dead_letters_seq (update_delivery n f d) = dead_letters_seq d"
  by (simp_all add: update_delivery_def)

lemma stream_exists_update_delivery [simp]:
  "stream_exists s (update_delivery n f d) = stream_exists s d"
  "stream_exists s (delete_delivery n d) = stream_exists s d"
  "stream_exists s (delete_dead_letter n d) = stream_exists s d"
  by (simp_all add: stream_exists_def)

lemma db_ok_update_delivery [inv_intros]:
  assumes "db_ok d" "\<And>x. delivery_id (f x) = delivery_id x" "\<And>x. dl_stream_id (f x) = dl_stream_id x"
  shows "db_ok (update_delivery n f d)"
proof -
  have "map delivery_id (webhook_deliveries (update_delivery n f d)) =
      map delivery_id (webhook_deliveries d)"
    using assms(2) by (simp add: update_delivery_def keys_update_where)
  moreover have "refs_ok (update_delivery n f d)"
    using assms(1,3)
    by (auto simp: db_ok_def refs_ok_def update_delivery_def update_where_def stream_exists_def)
  ultimately show ?thesis
    using assms(1) by (simp add: db_ok_defs ledger_events_def update_delivery_frames)
qed

lemma db_ok_delete_delivery [inv_intros]: "db_ok d \<Longrightarrow> db_ok (delete_delivery n d)"
  by (auto simp: db_ok_defs delete_delivery_def ledger_events_def stream_exists_def id_log_filter)

lemma db_ok_delete_dead_letter [inv_intros]: "db_ok d \<Longrightarrow> db_ok (delete_dead_letter n d)"
  by (auto simp: db_ok_defs delete_dead_letter_def ledger_events_def stream_exists_def id_log_filter)

lemma db_ok_triggerWebhook [inv_intros]: "db_ok d \<Longrightarrow> db_ok (triggerWebhook env nu event data now d)"
  by (auto simp: triggerWebhook_def intro: db_ok_insert_delivery
      split: option.splits urlValidation.splits sum.splits)

lemma db_ok_settle [inv_intros]: "db_ok d \<Longrightarrow> db_ok (settle_delivery url r outcome t d)"
  by (auto simp: settle_delivery_def Let_def
      intro!: db_ok_update_delivery db_ok_delete_delivery db_ok_push_dead_letter
      split: postResult.splits)

lemma db_ok_process_rows: "db_ok d \<Longrightarrow> db_ok (process_rows url post rs d)"
  by (induction url post rs d rule: process_rows.induct)
     (auto simp: db_ok_settle split: option.splits prod.splits)

lemma db_ok_processWebhookQueue [inv_intros]:
  "db_ok d \<Longrightarrow> db_ok (processWebhookQueue env nu now post d)"
  by (auto simp: processWebhookQueue_def db_ok_process_rows split: option.splits urlValidation.splits)

lemma db_ok_requeue [inv_intros]:
  "db_ok d \<Longrightarrow> requeueDeadLetter n now d = Inr (b, d') \<Longrightarrow> db_ok d'"
  by (auto simp: requeueDeadLetter_def intro: db_ok_insert_delivery db_ok_delete_dead_letter
      split: option.splits sum.splits)

lemma db_ok_prune [inv_intros]: "db_ok d \<Longrightarrow> db_ok (snd (pruneDeadLettersOlderThan t d))"
  by (auto simp: db_ok_defs pruneDeadLettersOlderThan_def ledger_events_def stream_exists_def id_log_filter)

lemma triggerWebhook_streams [simp]:
  "streams (triggerWebhook env nu event data now d) = streams d"
  "stream_events (triggerWebhook env nu event data now d) = stream_events d"
  "stream_archive (triggerWebhook env nu event data now d) = stream_archive d"
  "indexer_cursor (triggerWebhook env nu event data now d) = indexer_cursor d"
  "webhook_dead_letters (triggerWebhook env nu event data now d) = webhook_dead_letters d"
  by (auto simp: triggerWebhook_def insert_delivery_def push_delivery_def
      split: option.splits urlValidation.splits sum.splits if_splits)

lemma stream_exists_trigger [simp]:
  "stream_exists s (triggerWebhook env nu event data now d) = stream_exists s d"
  "find_stream s (triggerWebhook env nu event data now d) = find_stream s d"
  by (simp_all add: stream_exists_def find_stream_def)

section \<open>Nothing queued is lost\<close>

text \<open>Every job the queue holds, waiting, delivered or dead: its stream, event and payload.\<close>

definition jobs :: "Db \<Rightarrow> (string \<times> string \<times> json jsonText) multiset" where
  "jobs d =
     image_mset (\<lambda>r. (dl_stream_id r, dl_event r, dl_payload r)) (mset (webhook_deliveries d)) +
     image_mset (\<lambda>l. (letter_stream_id l, letter_event l, letter_payload l)) (mset (webhook_dead_letters d))"

lemma jobs_update_delivery:
  assumes "\<And>x. dl_stream_id (f x) = dl_stream_id x" "\<And>x. dl_event (f x) = dl_event x"
    "\<And>x. dl_payload (f x) = dl_payload x"
  shows "jobs (update_delivery n f d) = jobs d"
proof -
  have "map (\<lambda>r. (dl_stream_id r, dl_event r, dl_payload r)) (update_where P f rs) =
      map (\<lambda>r. (dl_stream_id r, dl_event r, dl_payload r)) rs" for P rs
    using assms by (auto simp: update_where_def)
  then show ?thesis
    by (simp add: jobs_def update_delivery_def mset_map [symmetric] del: mset_map)
qed

lemma mset_remove_by_key:
  "distinct (map key rs) \<Longrightarrow> r \<in> set rs \<Longrightarrow>
   mset rs = add_mset r (mset (filter (\<lambda>x. key x \<noteq> key r) rs))"
proof (induction rs)
  case (Cons a rs)
  show ?case
  proof (cases "a = r")
    case True
    with Cons.prems have "key r \<notin> key ` set rs" by simp
    then have "\<forall>x \<in> set rs. key x \<noteq> key r" by (metis imageI)
    then have "filter (\<lambda>x. key x \<noteq> key r) rs = rs" by (simp add: filter_id_conv)
    with True show ?thesis by simp
  next
    case False
    with Cons.prems have "key a \<noteq> key r" by force
    with Cons False show ?thesis by simp
  qed
qed simp

lemma jobs_settle:
  assumes "db_ok d" "r \<in> set (webhook_deliveries d)"
  shows "jobs (settle_delivery url r outcome t d) = jobs d"
proof (cases outcome)
  case Posted
  then show ?thesis by (simp add: settle_delivery_def jobs_update_delivery)
next
  case (PostFailed msg)
  show ?thesis
  proof (cases "attempt r + 1 \<ge> max_attempts r")
    case True
    have "distinct (map delivery_id (webhook_deliveries d))"
      using assms(1) by (auto simp: db_ok_def logs_ok_def intro: id_log_distinct)
    from mset_remove_by_key [OF this assms(2)]
    have *: "mset (webhook_deliveries d) =
        add_mset r (mset (filter (\<lambda>x. delivery_id x \<noteq> delivery_id r) (webhook_deliveries d)))" .
    have "image_mset f (mset (webhook_deliveries d)) = add_mset (f r)
        (image_mset f (mset (filter (\<lambda>x. delivery_id x \<noteq> delivery_id r) (webhook_deliveries d))))"
      for f :: "DeliveryRow \<Rightarrow> string \<times> string \<times> json jsonText"
      by (subst *) (rule image_mset_add_mset)
    then show ?thesis
      using True PostFailed
      by (simp add: settle_delivery_def jobs_def delete_delivery_def push_dead_letter_def
          dead_letter_of_def)
  next
    case False
    with PostFailed show ?thesis by (simp add: settle_delivery_def Let_def jobs_update_delivery)
  qed
qed

text \<open>Settling one row leaves every other row of the table as it was.\<close>

lemma settle_other:
  assumes "s \<in> set (webhook_deliveries d)" "delivery_id s \<noteq> delivery_id r"
  shows "s \<in> set (webhook_deliveries (settle_delivery url r outcome t d))"
  using assms
  by (auto simp: settle_delivery_def Let_def update_delivery_def update_where_def delete_delivery_def
      split: postResult.splits)

lemma jobs_process_rows:
  assumes "db_ok d" "set rs \<subseteq> set (webhook_deliveries d)" "distinct (map delivery_id rs)"
  shows "jobs (process_rows url post rs d) = jobs d"
  using assms
proof (induction url post rs d rule: process_rows.induct)
  case (2 url post r rs d)
  obtain outcome t where p: "post r = (outcome, t)" by fastforce
  let ?d = "settle_delivery url r outcome t d"
  have "set rs \<subseteq> set (webhook_deliveries ?d)"
    using "2.prems" by (auto intro!: settle_other) (metis imageI)
  then have "jobs (process_rows url post rs ?d) = jobs ?d" if "parse (dl_payload r) = Some j" for j
    using "2.IH" [OF that p [symmetric] refl] "2.prems" db_ok_settle by simp
  moreover have "jobs ?d = jobs d" using "2.prems" by (simp add: jobs_settle)
  ultimately show ?case by (simp add: p split: option.splits)
qed simp

lemma due_deliveries_subset: "set (due_deliveries now d) \<subseteq> set (webhook_deliveries d)"
  by (auto simp: due_deliveries_def dest: in_set_takeD)

lemma due_deliveries_distinct:
  "db_ok d \<Longrightarrow> distinct (map delivery_id (due_deliveries now d))"
proof -
  assume "db_ok d"
  then have "distinct (map delivery_id (webhook_deliveries d))"
    by (auto simp: db_ok_def logs_ok_def intro: id_log_distinct)
  then have "distinct (map delivery_id (sort_key f (filter P (webhook_deliveries d))))" for f :: "DeliveryRow \<Rightarrow> int" and P
    by (auto simp: distinct_map intro: inj_on_subset)
  then show ?thesis by (simp add: due_deliveries_def take_map [symmetric] distinct_take)
qed

lemma jobs_processWebhookQueue:
  "db_ok d \<Longrightarrow> jobs (processWebhookQueue env nu now post d) = jobs d"
  by (simp add: processWebhookQueue_def jobs_process_rows due_deliveries_subset due_deliveries_distinct
      split: option.splits urlValidation.splits)

section \<open>Retries\<close>

lemma process_rows_untouched:
  assumes "r \<in> set (webhook_deliveries d)" "delivery_id r \<notin> delivery_id ` set rs"
  shows "r \<in> set (webhook_deliveries (process_rows url post rs d))"
  using assms
proof (induction url post rs d rule: process_rows.induct)
  case (2 url post x rs d)
  obtain outcome t where p: "post x = (outcome, t)" by fastforce
  have "r \<in> set (webhook_deliveries (settle_delivery url x outcome t d))"
    using "2.prems" by (intro settle_other) auto
  then show ?case
    using "2.IH" [OF _ p [symmetric] refl] "2.prems" by (auto simp: p split: option.splits)
qed simp

lemma due_id_iff:
  assumes "db_ok d" "r \<in> set (webhook_deliveries d)" "delivery_id r \<in> delivery_id ` set (due_deliveries now d)"
  shows "dl_status r = ''pending'' \<and> (\<exists>t. next_retry_at r = Some t \<and> t \<le> now)"
proof -
  obtain x where x: "x \<in> set (due_deliveries now d)" "delivery_id x = delivery_id r"
    using assms(3) by (metis imageE)
  have "distinct (map delivery_id (webhook_deliveries d))"
    using assms(1) by (auto simp: db_ok_def logs_ok_def intro: id_log_distinct)
  then have "x = r"
    using x assms(2) due_deliveries_subset [of now d] by (auto simp: distinct_map inj_on_def)
  then show ?thesis
    using x by (auto simp: due_deliveries_def split: option.splits dest!: in_set_takeD)
qed

text \<open>A failing destination, one row in the queue: what one cycle does to it.\<close>

definition failed_row :: "DeliveryRow \<Rightarrow> string \<Rightarrow> int \<Rightarrow> DeliveryRow" where
  "failed_row r msg t =
     r\<lparr>attempt := attempt r + 1, last_attempt_at := Some t,
       next_retry_at := Some (t + getRetryDelaySeconds (int (attempt r))),
       error_message := Some msg\<rparr>"

lemma failed_row_sel [simp]:
  "attempt (failed_row r msg t) = attempt r + 1" "max_attempts (failed_row r msg t) = max_attempts r"
  "dl_status (failed_row r msg t) = dl_status r" "dl_payload (failed_row r msg t) = dl_payload r"
  "next_retry_at (failed_row r msg t) = Some (t + getRetryDelaySeconds (int (attempt r)))"
  "dl_stream_id (failed_row r msg t) = dl_stream_id r" "dl_event (failed_row r msg t) = dl_event r"
  by (simp_all add: failed_row_def)

definition configured :: "env \<Rightarrow> (string \<Rightarrow> ParsedUrl option) \<Rightarrow> string \<Rightarrow> bool" where
  "configured env nu url =
     (env_value env ''WEBHOOK_DESTINATION_URL'' = Some url \<and> validateWebhookUrl nu url = ValidUrl)"

lemma one_due:
  assumes "configured env nu url" "webhook_deliveries d = [r]" "dl_status r = ''pending''" "next_retry_at r = Some n" "n \<le> now"
    "parse (dl_payload r) = Some j"
  shows "processWebhookQueue env nu now post d =
     (let (outcome, t) = post r in settle_delivery url r outcome t d)"
  using assms
  by (simp add: configured_def processWebhookQueue_def due_deliveries_def split: prod.splits)

lemma one_retry:
  assumes "configured env nu url" "webhook_deliveries d = [r]" "dl_status r = ''pending''" "next_retry_at r = Some n" "n \<le> now"
    "parse (dl_payload r) = Some j" "attempt r + 1 < max_attempts r"
  shows "processWebhookQueue env nu now (\<lambda>x. (PostFailed msg, t)) d =
     d\<lparr>webhook_deliveries := [failed_row r msg t]\<rparr>"
  using one_due [OF assms(1-6)] assms(2,7)
  by (simp add: settle_delivery_def Let_def update_delivery_def update_where_def failed_row_def)

lemma one_last:
  assumes "configured env nu url" "webhook_deliveries d = [r]" "dl_status r = ''pending''" "next_retry_at r = Some n" "n \<le> now"
    "parse (dl_payload r) = Some j" "max_attempts r \<le> attempt r + 1"
  shows "processWebhookQueue env nu now (\<lambda>x. (PostFailed msg, t)) d =
     (push_dead_letter (dead_letter_of url msg t r) d)\<lparr>webhook_deliveries := []\<rparr>"
  using one_due [OF assms(1-6)] assms(2,7)
  by (simp add: settle_delivery_def Let_def delete_delivery_def push_dead_letter_def)

text \<open>A destination for the examples.\<close>

definition sample_env :: env where
  "sample_env = (\<lambda>k. if k = ''WEBHOOK_DESTINATION_URL'' then Some ''https://hooks.example'' else None)"

definition sample_newURL :: "string \<Rightarrow> ParsedUrl option" where
  "sample_newURL u = Some \<lparr> protocol = ''https:'', hostname = drop 8 u \<rparr>"

lemma sample_configured: "configured sample_env sample_newURL ''https://hooks.example''"
  by code_simp

definition sample_delivery :: DeliveryRow where
  "sample_delivery = (new_delivery ''1'' ''created'' (Encoded JNull) 5 100)\<lparr>delivery_id := 1\<rparr>"

definition sample_row :: StreamRow where
  "sample_row = \<lparr> row_id = ''1'', row_sender = ''GA'', row_recipient = ''GB'', asset_code = ''XLM'',
     total_amount = 100, duration_seconds = 1000, start_at = 50, created_at = 50, canceled_at = None,
     completed_at = None, refunded_amount = None, archived_at = None, paused_at = None,
     paused_duration = 0, cliff_seconds = 0, row_metadata = None \<rparr>"

definition sample_db :: Db where
  "sample_db = empty_db\<lparr>streams := [sample_row], webhook_deliveries := [sample_delivery],
     deliveries_seq := 1\<rparr>"

lemma sample_db_ok: "db_ok sample_db"
  by code_simp

section \<open>Properties\<close>

text \<open>C11: Delivery conservation. A polling cycle never loses or invents a webhook job: whatever the
  destination answers and in whatever order rows fall due, the multiset of (stream, event, payload)
  over waiting, delivered and dead-lettered entries is unchanged.\<close>

theorem webhook_jobs_conserved:
  assumes "db_ok d"
  shows "jobs (processWebhookQueue env newURL now post d) = jobs d"
  by (rule jobs_processWebhookQueue [OF assms])

lemma webhook_jobs_conserved_witness:
  "jobs (processWebhookQueue sample_env sample_newURL 100 (\<lambda>r. (PostFailed ''503'', 101)) sample_db) =
   jobs sample_db"
  by (rule webhook_jobs_conserved [OF sample_db_ok])

text \<open>A delivery that is not pending, or whose retry time has not come, is left exactly as it is
  by a polling cycle: no attempt is made before \<open>next_retry_at\<close>.\<close>

theorem webhook_not_due_untouched:
  assumes "db_ok d" and "r \<in> set (webhook_deliveries d)"
    and "dl_status r \<noteq> ''pending'' \<or> next_retry_at r = None \<or> now < the (next_retry_at r)"
  shows "r \<in> set (webhook_deliveries (processWebhookQueue env newURL now post d))"
proof -
  have "delivery_id r \<notin> delivery_id ` set (due_deliveries now d)"
    using due_id_iff [OF assms(1,2), of now] assms(3) by auto
  then show ?thesis
    using assms(2) process_rows_untouched
    by (simp add: processWebhookQueue_def split: option.splits urlValidation.splits)
qed

lemma webhook_not_due_untouched_witness:
  "sample_delivery \<in> set (webhook_deliveries
     (processWebhookQueue sample_env sample_newURL 99 (\<lambda>r. (Posted, 99)) sample_db))"
  by (rule webhook_not_due_untouched [OF sample_db_ok])
     (simp_all add: sample_db_def sample_delivery_def new_delivery_def)



text \<open>Requeueing a dead letter puts a fresh pending delivery with the full retry budget at the
  end of the queue, removes exactly that letter and keeps every job.\<close>

theorem requeue_restores_job:
  assumes "db_ok d" and "l \<in> set (webhook_dead_letters d)" and "stream_exists (letter_stream_id l) d"
  shows "\<exists>d'. requeueDeadLetter (letter_id l) now d = Inr (True, d') \<and> jobs d' = jobs d \<and>
    l \<notin> set (webhook_dead_letters d') \<and>
    webhook_deliveries d' = webhook_deliveries d @
      [\<lparr> delivery_id = Suc (deliveries_seq d), dl_stream_id = letter_stream_id l,
         dl_event = letter_event l, dl_payload = letter_payload l, attempt = 0, max_attempts = 5,
         dl_status = ''pending'', next_retry_at = Some now, dl_created_at = now,
         last_attempt_at = None, error_message = None \<rparr>]"
proof -
  let ?r = "new_delivery (letter_stream_id l) (letter_event l) (letter_payload l) 5 now"
  have dist: "distinct (map letter_id (webhook_dead_letters d))"
    using assms(1) by (auto simp: db_ok_def logs_ok_def intro: id_log_distinct)
  have "requeueDeadLetter (letter_id l) now d =
      Inr (True, delete_dead_letter (letter_id l) (push_delivery ?r d))"
    using lookup_by_mem [OF dist assms(2)] assms(3)
    by (simp add: requeueDeadLetter_def insert_delivery_def new_delivery_def)
  moreover have "jobs (delete_dead_letter (letter_id l) (push_delivery ?r d)) = jobs d"
  proof -
    have "image_mset f (mset (webhook_dead_letters d)) = add_mset (f l)
        (image_mset f (mset (filter (\<lambda>x. letter_id x \<noteq> letter_id l) (webhook_dead_letters d))))"
      for f :: "DeadLetterRow \<Rightarrow> string \<times> string \<times> json jsonText"
      by (subst mset_remove_by_key [OF dist assms(2)]) (rule image_mset_add_mset)
    then show ?thesis
      by (simp add: jobs_def delete_dead_letter_def push_delivery_def new_delivery_def)
  qed
  ultimately show ?thesis
    by (auto simp: delete_dead_letter_def push_delivery_def new_delivery_def)
qed

lemma requeue_restores_job_witness:
  "let l = \<lparr> letter_id = 7, letter_url = ''u'', letter_payload = Encoded JNull, last_error = None,
         failed_at = 5, letter_stream_id = ''1'', letter_event = ''created'' \<rparr>;
       d = sample_db\<lparr>webhook_dead_letters := [l], dead_letters_seq := 7\<rparr> in
   \<exists>d'. requeueDeadLetter 7 200 d = Inr (True, d') \<and> jobs d' = jobs d"
  using requeue_restores_job [of "sample_db\<lparr>webhook_dead_letters :=
      [\<lparr> letter_id = 7, letter_url = ''u'', letter_payload = Encoded JNull, last_error = None,
         failed_at = 5, letter_stream_id = ''1'', letter_event = ''created'' \<rparr>], dead_letters_seq := 7\<rparr>"
      "\<lparr> letter_id = 7, letter_url = ''u'', letter_payload = Encoded JNull, last_error = None,
         failed_at = 5, letter_stream_id = ''1'', letter_event = ''created'' \<rparr>" 200]
    sample_db_ok
  by (auto simp: db_ok_defs ledger_events_def sample_db_def sample_row_def stream_exists_def id_log_def
      Let_def empty_db_def)

end
