(* ===== verification/CacheAdapter.thy ===== *)
theory CacheAdapter
  imports Tables
begin

text \<open>
  The in-memory cache of \<open>backend/src/services/cache.ts\<close>: keys with a value and a deadline in
  milliseconds, in insertion order like the JavaScript \<open>Map\<close> it is. Reading an expired entry
  deletes it, deletion is by substring of the key. The locale \<open>cache_adapter\<close> is the part of the
  \<open>CacheAdapter\<close> interface its clients rely on; the read-through wrapper of the routes is proved
  against it. The Redis adapter is in the theory \<open>RedisCache\<close>.
\<close>

section \<open>InMemoryCache\<close>

record 'v cacheEntry =
  entry_data :: 'v
  entry_expiresAt :: int

type_synonym 'v cacheMap = "(string \<times> 'v cacheEntry) list"

definition cache_get :: "int \<Rightarrow> string \<Rightarrow> 'v cacheMap \<Rightarrow> 'v option \<times> 'v cacheMap" where
  "cache_get nowMs key c =
     (case lookup_by fst key c of
        None \<Rightarrow> (None, c)
      | Some (k, e) \<Rightarrow>
          if nowMs > entry_expiresAt e then (None, filter (\<lambda>x. fst x \<noteq> key) c)
          else (Some (entry_data e), c))"

definition cache_set :: "int \<Rightarrow> string \<Rightarrow> 'v \<Rightarrow> int \<Rightarrow> 'v cacheMap \<Rightarrow> 'v cacheMap" where
  "cache_set nowMs key v ttlSeconds c =
     upsert_by fst (key, \<lparr> entry_data = v, entry_expiresAt = nowMs + ttlSeconds * 1000 \<rparr>) c"

text \<open>The loop over the keys: every key that contains the pattern is deleted and counted.\<close>

fun cache_del :: "string \<Rightarrow> 'v cacheMap \<Rightarrow> nat \<times> 'v cacheMap" where
  "cache_del pat [] = (0, [])"
| "cache_del pat (x # c) =
     (let (n, c') = cache_del pat c
      in if includes_str (fst x) pat then (Suc n, c') else (n, x # c'))"

definition cache_clear :: "'v cacheMap \<Rightarrow> 'v cacheMap" where
  "cache_clear c = []"

definition cache_ok :: "'v cacheMap \<Rightarrow> bool" where
  "cache_ok c = distinct (map fst c)"

text \<open>What a read at a given time would return, without its side effect.\<close>

definition cache_peek :: "int \<Rightarrow> string \<Rightarrow> 'v cacheMap \<Rightarrow> 'v option" where
  "cache_peek nowMs key c = fst (cache_get nowMs key c)"

lemma cache_del_eq:
  "cache_del pat c = (length (filter (\<lambda>x. includes_str (fst x) pat) c),
     filter (\<lambda>x. \<not> includes_str (fst x) pat) c)"
  by (induction c) (auto simp: Let_def split: prod.splits)

lemma lookup_by_filter:
  "lookup_by fst k (filter (\<lambda>x. P (fst x)) c) = (if P k then lookup_by fst k c else None)"
  by (induction c) (auto simp: lookup_by_def)

lemma cache_peek_eq:
  "cache_peek nowMs key c =
     (case lookup_by fst key c of None \<Rightarrow> None
      | Some (k, e) \<Rightarrow> if nowMs > entry_expiresAt e then None else Some (entry_data e))"
  by (auto simp: cache_peek_def cache_get_def split: option.splits)

lemma cache_peek_set:
  "cache_peek t' key' (cache_set t key v ttl c) =
     (if key' = key then (if t' > t + ttl * 1000 then None else Some v) else cache_peek t' key' c)"
  by (simp add: cache_peek_eq cache_set_def lookup_by_upsert)

lemma cache_peek_del:
  "cache_peek t key (snd (cache_del pat c)) =
     (if includes_str key pat then None else cache_peek t key c)"
  using lookup_by_filter [of key "\<lambda>k. \<not> includes_str k pat" c]
  by (simp add: cache_peek_eq cache_del_eq)

lemma cache_peek_get:
  "t \<le> t' \<Longrightarrow> cache_peek t' key' (snd (cache_get t key c)) = cache_peek t' key' c"
  using lookup_by_filter [of key' "\<lambda>k. k \<noteq> key" c]
  by (auto simp: cache_peek_eq cache_get_def split: option.splits)

lemma cache_get_result: "fst (cache_get t key c) = cache_peek t key c"
  by (simp add: cache_peek_def)

lemma cache_peek_expired:
  "t \<le> t' \<Longrightarrow> cache_peek t key c = None \<Longrightarrow> cache_peek t' key c = None"
  by (auto simp: cache_peek_eq split: option.splits if_splits)

lemma cache_ok_ops [inv_intros]:
  "cache_ok []"
  "cache_ok c \<Longrightarrow> cache_ok (snd (cache_get t key c))"
  "cache_ok c \<Longrightarrow> cache_ok (cache_set t key v ttl c)"
  "cache_ok c \<Longrightarrow> cache_ok (snd (cache_del pat c))"
  by (auto simp: cache_ok_def cache_get_def cache_set_def cache_del_eq keys_upsert distinct_map_filter
      split: option.splits)

section \<open>The adapter interface\<close>

text \<open>
  The laws the callers of \<open>CacheAdapter\<close> use, over what a read at time \<open>t\<close> would return: a
  written value is readable until its time to live is over, deletion hides exactly the keys that
  contain the pattern, and a read changes nothing that later reads see.
\<close>

locale cache_adapter =
  fixes peek :: "int \<Rightarrow> string \<Rightarrow> 'c \<Rightarrow> 'v option"
    and get :: "int \<Rightarrow> string \<Rightarrow> 'c \<Rightarrow> 'v option \<times> 'c"
    and set_op :: "int \<Rightarrow> string \<Rightarrow> 'v \<Rightarrow> int \<Rightarrow> 'c \<Rightarrow> 'c"
    and del :: "string \<Rightarrow> 'c \<Rightarrow> nat \<times> 'c"
  assumes get_result: "fst (get t key c) = peek t key c"
    and get_frame: "t \<le> t' \<Longrightarrow> peek t' k (snd (get t key c)) = peek t' k c"
    and peek_set: "peek t' k (set_op t key v ttl c) =
      (if k = key then (if t' > t + ttl * 1000 then None else Some v) else peek t' k c)"
    and peek_del: "peek t k (snd (del pat c)) = (if includes_str k pat then None else peek t k c)"
begin

text \<open>Reading through the cache returns the cached value or what the fetcher gives, and caches it.\<close>

lemma read_through:
  assumes "get t key c = (r, c1)" "t \<le> t'" "0 \<le> ttl"
  shows "(case r of Some v \<Rightarrow> peek t key c = Some v
          | None \<Rightarrow> peek t key c = None \<and> peek t' k (set_op t key w ttl c1) =
              (if k = key then (if t' > t + ttl * 1000 then None else Some w) else peek t' k c))"
  using get_result [of t key c] get_frame [of t t' k key c] assms
  by (auto simp: peek_set split: option.splits)

lemma del_twice: "peek t k (snd (del p (snd (del p c)))) = peek t k (snd (del p c))"
  by (simp add: peek_del)

lemma del_commute: "peek t k (snd (del p (snd (del q c)))) = peek t k (snd (del q (snd (del p c))))"
  by (simp add: peek_del)

lemma del_keeps: "\<not> includes_str k p \<Longrightarrow> peek t k (snd (del p c)) = peek t k c"
  by (simp add: peek_del)

end

interpretation memory_cache: cache_adapter cache_peek cache_get cache_set cache_del
  by unfold_locales (simp_all add: cache_get_result cache_peek_get cache_peek_set cache_peek_del)

section \<open>The read-through wrapper of the address routes\<close>

text \<open>
  \<open>withAddressCache\<close>: an empty array is truthy in JavaScript, so a cached empty list is returned
  as it is.
\<close>

definition withAddressCache :: "int \<Rightarrow> string \<Rightarrow> 'v \<Rightarrow> 'v cacheMap \<Rightarrow> 'v \<times> 'v cacheMap" where
  "withAddressCache nowMs key fetched c =
     (let (cached, c1) = cache_get nowMs key c
      in case cached of
           Some v \<Rightarrow> (v, c1)
         | None \<Rightarrow> (fetched, cache_set nowMs key fetched 5 c1))"

lemma withAddressCache_hit:
  "cache_peek t key c = Some v \<Longrightarrow> fst (withAddressCache t key w c) = v"
  using cache_get_result [of t key c]
  by (auto simp: withAddressCache_def Let_def split: prod.splits)

lemma withAddressCache_miss:
  "cache_peek t key c = None \<Longrightarrow> fst (withAddressCache t key w c) = w"
  using cache_get_result [of t key c]
  by (auto simp: withAddressCache_def Let_def split: prod.splits option.splits)

lemma withAddressCache_then:
  assumes "cache_peek t key c = None" "t \<le> t'"
  shows "cache_peek t' key (snd (withAddressCache t key w c)) =
    (if t' > t + 5000 then None else Some w)"
  using assms cache_get_result [of t key c]
  by (auto simp: withAddressCache_def Let_def cache_peek_set split: prod.splits option.splits)

end
