(* ===== verification/Stats.thy ===== *)
theory Stats
  imports EventHistory CacheAdapter
begin

text \<open>
  Aggregate figures: \<open>backend/src/services/stats.ts\<close>, \<open>streamMetrics.ts\<close> and
  \<open>metricsHistory.ts\<close>, with their module-level caches. The SQL aggregates are written as functions
  of the rows; how SQLite accumulates a \<open>SUM\<close> of doubles is the parameter \<open>sql_sum\<close>. A calendar
  date is represented by its day number since 1970-01-01.
\<close>

section \<open>Row expressions\<close>

definition row_active :: "int \<Rightarrow> StreamRow \<Rightarrow> bool" where
  "row_active now r =
     (canceled_at r = None \<and> completed_at r = None \<and> paused_at r = None \<and> start_at r \<le> now \<and>
      start_at r + duration_seconds r + paused_duration r > now)"

definition row_scheduled :: "int \<Rightarrow> StreamRow \<Rightarrow> bool" where
  "row_scheduled now r =
     (canceled_at r = None \<and> completed_at r = None \<and> paused_at r = None \<and> start_at r > now)"

definition row_paused :: "StreamRow \<Rightarrow> bool" where
  "row_paused r = (canceled_at r = None \<and> completed_at r = None \<and> paused_at r \<noteq> None)"

definition row_elapsed :: "int \<Rightarrow> StreamRow \<Rightarrow> int" where
  "row_elapsed now r = (case paused_at r of Some p \<Rightarrow> p - start_at r | None \<Rightarrow> now - start_at r)"

text \<open>A share of the amount; dividing by a zero duration is NULL in SQLite.\<close>

definition sql_share :: "jsnum \<Rightarrow> int \<Rightarrow> int \<Rightarrow> jsnum option" where
  "sql_share amt el dur =
     (if dur = 0 then None else Some (fl (fl (amt * of_int (min el dur)) / of_int dur)))"

definition row_vested :: "int \<Rightarrow> StreamRow \<Rightarrow> jsnum option" where
  "row_vested now r =
     (if canceled_at r = None \<and> completed_at r = None \<and> start_at r \<le> now
      then sql_share (total_amount r) (row_elapsed now r) (duration_seconds r)
      else if completed_at r \<noteq> None then Some (total_amount r)
      else Some 0)"

text \<open>\<open>COALESCE(SUM(e), 0)\<close>: NULLs are skipped, and no value at all gives 0.\<close>

definition coalesced_sum :: "(jsnum list \<Rightarrow> jsnum) \<Rightarrow> jsnum option list \<Rightarrow> jsnum" where
  "coalesced_sum sql_sum vs =
     (let xs = List.map_filter id vs in if xs = [] then 0 else sql_sum xs)"

definition count_where :: "('a \<Rightarrow> bool) \<Rightarrow> 'a list \<Rightarrow> nat" where
  "count_where P xs = length (filter P xs)"

definition count_distinct :: "'a list \<Rightarrow> nat" where
  "count_distinct xs = length (remdups xs)"

definition cents :: "jsnum \<Rightarrow> jsnum" where
  "cents x = fl (math_round (fl (x * 100)) / 100)"

section \<open>stats.ts\<close>

record StreamStats =
  total_streams :: nat
  active_streams :: nat
  completed_streams :: nat
  canceled_streams :: nat
  total_vested :: jsnum
  avg_duration_seconds :: jsnum
  unique_senders :: nat
  unique_recipients :: nat

record GlobalStats =
  gs_total :: nat
  gs_active :: nat
  gs_scheduled :: nat
  gs_paused :: nat
  gs_completed :: nat
  gs_canceled :: nat
  gs_totalVested :: jsnum
  gs_totalAmount :: jsnum
  gs_uniqueSenders :: nat
  gs_uniqueRecipients :: nat
  gs_localStreamCount :: nat
  gs_onChainStreamCount :: "int option"

definition STATS_TTL_MS :: int where "STATS_TTL_MS = 30000"

text \<open>Both results share the one deadline \<open>cacheExpiresAt\<close>.\<close>

record StatsCache =
  cachedStreamStats :: "StreamStats option"
  cachedGlobalStats :: "GlobalStats option"
  statsExpiresAt :: int

definition sql_avg_int :: "int list \<Rightarrow> jsnum" where
  "sql_avg_int xs = (if xs = [] then 0 else fl (of_int (sum_list xs) / of_int (int (length xs))))"

definition compute_stream_stats :: "(jsnum list \<Rightarrow> jsnum) \<Rightarrow> int \<Rightarrow> StreamRow list \<Rightarrow> StreamStats" where
  "compute_stream_stats sql_sum nowSec rows =
     \<lparr> total_streams = length rows,
       active_streams = count_where (row_active nowSec) rows,
       completed_streams = count_where (\<lambda>r. completed_at r \<noteq> None) rows,
       canceled_streams = count_where (\<lambda>r. canceled_at r \<noteq> None) rows,
       total_vested = cents (coalesced_sum sql_sum (map (row_vested nowSec) rows)),
       avg_duration_seconds = math_round (sql_avg_int (map duration_seconds rows)),
       unique_senders = count_distinct (map row_sender rows),
       unique_recipients = count_distinct (map row_recipient rows) \<rparr>"

definition compute_global_stats :: "(jsnum list \<Rightarrow> jsnum) \<Rightarrow> int \<Rightarrow> StreamRow list \<Rightarrow> GlobalStats" where
  "compute_global_stats sql_sum nowSec rows =
     \<lparr> gs_total = length rows,
       gs_active = count_where (row_active nowSec) rows,
       gs_scheduled = count_where (row_scheduled nowSec) rows,
       gs_paused = count_where row_paused rows,
       gs_completed = count_where (\<lambda>r. completed_at r \<noteq> None) rows,
       gs_canceled = count_where (\<lambda>r. canceled_at r \<noteq> None) rows,
       gs_totalVested = cents (coalesced_sum sql_sum (map (row_vested nowSec) rows)),
       gs_totalAmount = cents (coalesced_sum sql_sum (map (\<lambda>r. Some (total_amount r)) rows)),
       gs_uniqueSenders = count_distinct (map row_sender rows),
       gs_uniqueRecipients = count_distinct (map row_recipient rows),
       gs_localStreamCount = length rows,
       gs_onChainStreamCount = None \<rparr>"

definition getStreamStats ::
  "(jsnum list \<Rightarrow> jsnum) \<Rightarrow> int \<Rightarrow> Db \<Rightarrow> StatsCache \<Rightarrow> StreamStats \<times> StatsCache" where
  "getStreamStats sql_sum nowMs d c =
     (case cachedStreamStats c of
        Some s \<Rightarrow>
          if nowMs < statsExpiresAt c then (s, c)
          else (let s' = compute_stream_stats sql_sum (nowMs div 1000) (streams d)
                in (s', c\<lparr>cachedStreamStats := Some s', statsExpiresAt := nowMs + STATS_TTL_MS\<rparr>))
      | None \<Rightarrow>
          (let s' = compute_stream_stats sql_sum (nowMs div 1000) (streams d)
           in (s', c\<lparr>cachedStreamStats := Some s', statsExpiresAt := nowMs + STATS_TTL_MS\<rparr>)))"

definition getGlobalStats ::
  "(jsnum list \<Rightarrow> jsnum) \<Rightarrow> int \<Rightarrow> Db \<Rightarrow> StatsCache \<Rightarrow> GlobalStats \<times> StatsCache" where
  "getGlobalStats sql_sum nowMs d c =
     (case cachedGlobalStats c of
        Some s \<Rightarrow>
          if nowMs < statsExpiresAt c then (s, c)
          else (let s' = compute_global_stats sql_sum (nowMs div 1000) (streams d)
                in (s', c\<lparr>cachedGlobalStats := Some s', statsExpiresAt := nowMs + STATS_TTL_MS\<rparr>))
      | None \<Rightarrow>
          (let s' = compute_global_stats sql_sum (nowMs div 1000) (streams d)
           in (s', c\<lparr>cachedGlobalStats := Some s', statsExpiresAt := nowMs + STATS_TTL_MS\<rparr>)))"

definition resetStatsCache :: "StatsCache \<Rightarrow> StatsCache" where
  "resetStatsCache c = \<lparr> cachedStreamStats = None, cachedGlobalStats = None, statsExpiresAt = 0 \<rparr>"

section \<open>streamMetrics.ts\<close>

record StreamMetrics =
  sm_total_streams :: nat
  sm_active_streams :: nat
  sm_total_vested_usdc :: jsnum
  sm_total_vested_xlm :: jsnum
  sm_streams_completed_today :: nat

record MetricsCache =
  cachedMetrics :: "StreamMetrics option"
  metricsExpiresAt :: int

definition METRICS_TTL_MS :: int where "METRICS_TTL_MS = 60000"

definition DAY :: int where "DAY = 86400"

text \<open>\<open>Date.UTC\<close> of the year, month and day of a time: midnight of its day.\<close>

definition day_start :: "int \<Rightarrow> int" where
  "day_start sec = sec div DAY * DAY"

definition vested_of_asset :: "string \<Rightarrow> int \<Rightarrow> StreamRow \<Rightarrow> jsnum option" where
  "vested_of_asset code now r =
     (if toUpperCase (asset_code r) = code then row_vested now r else Some 0)"

definition compute_metrics :: "(jsnum list \<Rightarrow> jsnum) \<Rightarrow> int \<Rightarrow> StreamRow list \<Rightarrow> StreamMetrics" where
  "compute_metrics sql_sum nowSec rows =
     (let todayStart = day_start nowSec in
      \<lparr> sm_total_streams = length rows,
        sm_active_streams = count_where (row_active nowSec) rows,
        sm_total_vested_usdc = cents (coalesced_sum sql_sum (map (vested_of_asset ''USDC'' nowSec) rows)),
        sm_total_vested_xlm = cents (coalesced_sum sql_sum (map (vested_of_asset ''XLM'' nowSec) rows)),
        sm_streams_completed_today =
          count_where (\<lambda>r. case completed_at r of None \<Rightarrow> False | Some t \<Rightarrow> todayStart \<le> t) rows \<rparr>)"

definition getStreamMetrics ::
  "(jsnum list \<Rightarrow> jsnum) \<Rightarrow> int \<Rightarrow> Db \<Rightarrow> MetricsCache \<Rightarrow> StreamMetrics \<times> MetricsCache" where
  "getStreamMetrics sql_sum nowMs d c =
     (if cachedMetrics c \<noteq> None \<and> nowMs < metricsExpiresAt c then (the (cachedMetrics c), c)
      else (let m = compute_metrics sql_sum (nowMs div 1000) (streams d)
            in (m, c\<lparr>cachedMetrics := Some m, metricsExpiresAt := nowMs + METRICS_TTL_MS\<rparr>)))"

definition resetStreamMetricsCache :: "MetricsCache \<Rightarrow> MetricsCache" where
  "resetStreamMetricsCache c = \<lparr> cachedMetrics = None, metricsExpiresAt = 0 \<rparr>"

section \<open>Cached values\<close>

text \<open>
  The values the services keep in the shared cache. The key prefix says which kind a key holds, so
  a read never meets another kind.
\<close>

record ListItem =
  item_stream :: StreamRecord
  item_progress :: StreamProgress

record ListResult =
  lr_data :: "ListItem list"
  lr_total :: nat
  lr_page :: nat
  lr_limit :: nat

record DailyMetric =
  dm_day :: int
  dm_activeStreams :: nat
  dm_totalVested :: jsnum
  dm_newStreams :: nat
  dm_completedStreams :: nat

datatype cacheValue =
    CachedRecord StreamRecord
  | CachedRecords "StreamRecord list"
  | CachedPage ListResult
  | CachedCsv string
  | CachedMetrics "DailyMetric list"

section \<open>metricsHistory.ts\<close>

definition MAX_DAYS :: int where "MAX_DAYS = 90"

text \<open>The day buckets, oldest first: day number, first second, first second of the next day.\<close>

definition day_buckets :: "int \<Rightarrow> int \<Rightarrow> (int \<times> int \<times> int) list" where
  "day_buckets days nowSec =
     map (\<lambda>i. let day = nowSec div DAY - i in (day, day * DAY, (day + 1) * DAY))
       (rev [0..days - 1])"

definition events_per_day :: "string \<Rightarrow> int \<Rightarrow> Db \<Rightarrow> int \<Rightarrow> nat" where
  "events_per_day ty oldest d day =
     count_where (\<lambda>e. event_type e = ty \<and> oldest \<le> timestamp e \<and> timestamp e div DAY = day)
       (stream_events d)"

text \<open>The snapshot query looks at \<open>start_at + duration_seconds\<close> only, without the pauses.\<close>

definition snap_active :: "int \<Rightarrow> StreamRow \<Rightarrow> bool" where
  "snap_active snap r =
     (canceled_at r = None \<and> completed_at r = None \<and> start_at r \<le> snap \<and>
      start_at r + duration_seconds r > snap)"

definition snap_vested :: "int \<Rightarrow> StreamRow \<Rightarrow> jsnum option" where
  "snap_vested snap r =
     (if canceled_at r = None \<and> completed_at r = None \<and> start_at r \<le> snap
      then sql_share (total_amount r) (snap - start_at r) (duration_seconds r)
      else if (case completed_at r of None \<Rightarrow> False | Some t \<Rightarrow> t \<le> snap) then Some (total_amount r)
      else Some 0)"

definition computeMetricsHistory ::
  "(jsnum list \<Rightarrow> jsnum) \<Rightarrow> int \<Rightarrow> int \<Rightarrow> Db \<Rightarrow> DailyMetric list" where
  "computeMetricsHistory sql_sum days nowSec d =
     (let buckets = day_buckets days nowSec;
          oldestStartSec = (case buckets of [] \<Rightarrow> nowSec | (day, s, e) # bs \<Rightarrow> s)
      in map (\<lambda>(day, startSec, endSec).
           let snap = min endSec nowSec; rows = filter (\<lambda>r. created_at r \<le> snap) (streams d) in
           \<lparr> dm_day = day,
             dm_activeStreams = count_where (snap_active snap) rows,
             dm_totalVested = cents (coalesced_sum sql_sum (map (snap_vested snap) rows)),
             dm_newStreams = events_per_day ''created'' oldestStartSec d day,
             dm_completedStreams = events_per_day ''completed'' oldestStartSec d day \<rparr>) buckets)"

definition getMetricsHistory ::
  "(jsnum list \<Rightarrow> jsnum) \<Rightarrow> int \<Rightarrow> int \<Rightarrow> Db \<Rightarrow> cacheValue cacheMap \<Rightarrow>
   DailyMetric list \<times> cacheValue cacheMap" where
  "getMetricsHistory sql_sum days nowMs d c =
     (let clampedDays = min (max 1 days) MAX_DAYS;
          cacheKey = ''metrics:history:'' @ int_to_string clampedDays;
          (cached, c1) = cache_get nowMs cacheKey c
      in case cached of
           Some (CachedMetrics ms) \<Rightarrow> (ms, c1)
         | _ \<Rightarrow> (let result = computeMetricsHistory sql_sum clampedDays (nowMs div 1000) d
                in (result, cache_set nowMs cacheKey (CachedMetrics result) 300 c1)))"

section \<open>Facts\<close>

lemma row_active_status: "row_active now r \<longleftrightarrow> computeStatus (rowToRecord r) now = Active"
  by (auto simp: row_active_def computeStatus_def)

lemma row_scheduled_status: "row_scheduled now r \<longleftrightarrow> computeStatus (rowToRecord r) now = Scheduled"
  by (auto simp: row_scheduled_def computeStatus_def)

lemma row_paused_status: "row_paused r \<longleftrightarrow> computeStatus (rowToRecord r) now = Paused"
  by (auto simp: row_paused_def computeStatus_def)

lemma row_canceled_status:
  "canceled_at r \<noteq> None \<longleftrightarrow> computeStatus (rowToRecord r) now = Canceled"
  by (auto simp: computeStatus_def)

lemma count_where_cong: "(\<And>x. P x \<longleftrightarrow> Q x) \<Longrightarrow> count_where P xs = count_where Q xs"
  by (simp add: count_where_def cong: filter_cong)

lemma count_where_statuses:
  "length xs = count_where (\<lambda>x. f x = Scheduled) xs + count_where (\<lambda>x. f x = Active) xs +
     count_where (\<lambda>x. f x = Paused) xs + count_where (\<lambda>x. f x = Completed) xs +
     count_where (\<lambda>x. f x = Canceled) xs"
proof (induction xs)
  case (Cons x xs)
  then show ?case by (cases "f x") (simp_all add: count_where_def)
qed (simp add: count_where_def)

lemma count_where_map: "count_where P (map f xs) = count_where (P \<circ> f) xs"
  by (simp add: count_where_def filter_map comp_def)

lemma getGlobalStats_fresh:
  "cachedGlobalStats c = None \<or> statsExpiresAt c \<le> nowMs \<Longrightarrow>
   fst (getGlobalStats sql_sum nowMs d c) = compute_global_stats sql_sum (nowMs div 1000) (streams d)"
  by (auto simp: getGlobalStats_def Let_def split: option.splits)

lemma computeMetricsHistory_days:
  "map dm_day (computeMetricsHistory sql_sum days nowSec d) =
   map (\<lambda>i. nowSec div DAY - i) (rev [0..days - 1])"
  by (simp add: computeMetricsHistory_def day_buckets_def Let_def comp_def case_prod_beta)

lemma div_interval: "0 < n \<Longrightarrow> t div n = k \<longleftrightarrow> k * n \<le> t \<and> t < (k + 1) * n" for t n k :: int
proof
  assume n: "0 < n" and "t div n = k"
  then have "t = k * n + t mod n" using div_mult_mod_eq [of t n] by simp
  then show "k * n \<le> t \<and> t < (k + 1) * n"
    using pos_mod_bound [OF n, of t] pos_mod_sign [OF n, of t] by (simp add: distrib_right)
next
  assume "0 < n" "k * n \<le> t \<and> t < (k + 1) * n"
  then show "t div n = k"
    by (intro int_div_pos_eq [of t n k "t - k * n"]) (simp_all add: algebra_simps)
qed

lemma day_mem_iff: "t div DAY = k \<longleftrightarrow> k * DAY \<le> t \<and> t < (k + 1) * DAY"
  by (rule div_interval) (simp add: DAY_def)

lemma computeMetricsHistory_nth:
  assumes "0 < days" "m \<in> set (computeMetricsHistory sql_sum days nowSec d)"
  shows "dm_newStreams m = count_where
     (\<lambda>e. event_type e = ''created'' \<and> dm_day m * DAY \<le> timestamp e \<and> timestamp e < (dm_day m + 1) * DAY)
     (stream_events d)"
proof -
  have "rev [0..days - 1] = (days - 1) # rev [0..days - 2]"
    using assms(1) upto_rec2 [of 0 "days - 1"] by simp
  then have oldest: "(case day_buckets days nowSec of [] \<Rightarrow> nowSec | (day, s, e) # bs \<Rightarrow> s) =
      (nowSec div DAY - (days - 1)) * DAY"
    by (simp add: day_buckets_def Let_def)
  from assms(2) obtain b where b: "b \<in> set (day_buckets days nowSec)" "dm_day m = fst b"
    "dm_newStreams m = events_per_day ''created'' ((nowSec div DAY - (days - 1)) * DAY) d (fst b)"
    unfolding computeMetricsHistory_def oldest Let_def by (auto split: prod.splits)
  from b(1) obtain i where "0 \<le> i" "i \<le> days - 1" "fst b = nowSec div DAY - i"
    by (auto simp: day_buckets_def Let_def)
  with b have i: "0 \<le> i" "i \<le> days - 1" "dm_day m = nowSec div DAY - i"
    "dm_newStreams m = events_per_day ''created'' ((nowSec div DAY - (days - 1)) * DAY) d (dm_day m)"
    by simp_all
  have "(nowSec div DAY - (days - 1)) * DAY \<le> dm_day m * DAY"
    using i by (simp add: DAY_def)
  then have "(event_type e = ''created'' \<and> (nowSec div DAY - (days - 1)) * DAY \<le> timestamp e \<and>
       timestamp e div DAY = dm_day m) \<longleftrightarrow>
     (event_type e = ''created'' \<and> dm_day m * DAY \<le> timestamp e \<and> timestamp e < (dm_day m + 1) * DAY)" for e
    unfolding day_mem_iff by auto
  then show ?thesis unfolding i(4) events_per_day_def by (intro count_where_cong)
qed

lemma stale_refresh:
  assumes "cachedStreamStats c = Some s0" "statsExpiresAt c = t + 30000"
  shows "(let c' = foldl (\<lambda>c k. snd (getGlobalStats sql_sum (t + 30000 * int k) (dbs k) c)) c [1..<Suc n]
          in cachedStreamStats c' = Some s0 \<and> statsExpiresAt c' = t + 30000 * int (Suc n))"
proof (induction n)
  case (Suc n)
  then show ?case
    by (auto simp: Let_def getGlobalStats_def STATS_TTL_MS_def algebra_simps split: option.splits)
qed (simp add: assms)

section \<open>Properties\<close>


text \<open>The two statistics share one deadline, so refreshing the global figures extends the life
  of the stream figures: after any number of global refreshes, one every 30 seconds, the stream
  statistics are still those of the first reading, however the database has changed.\<close>

theorem stream_stats_stale:
  assumes "cachedStreamStats c = None" "0 \<le> u" "u < 30000"
  shows "(let c0 = snd (getStreamStats sql_sum t d0 c);
              cn = foldl (\<lambda>c k. snd (getGlobalStats sql_sum (t + 30000 * int k) (dbs k) c)) c0 [1..<Suc n]
          in fst (getStreamStats sql_sum (t + 30000 * int n + u) d' cn) =
             compute_stream_stats sql_sum (t div 1000) (streams d0))"
proof -
  let ?s0 = "compute_stream_stats sql_sum (t div 1000) (streams d0)"
  define c0 where "c0 = snd (getStreamStats sql_sum t d0 c)"
  have c0: "cachedStreamStats c0 = Some ?s0" "statsExpiresAt c0 = t + 30000"
    using assms(1) by (simp_all add: c0_def getStreamStats_def Let_def STATS_TTL_MS_def)
  define cn where
    "cn = foldl (\<lambda>c k. snd (getGlobalStats sql_sum (t + 30000 * int k) (dbs k) c)) c0 [1..<Suc n]"
  have "cachedStreamStats cn = Some ?s0" "statsExpiresAt cn = t + 30000 * int (Suc n)"
    using stale_refresh [OF c0, where sql_sum = sql_sum and dbs = dbs and n = n]
    unfolding cn_def Let_def by blast+
  then have "fst (getStreamStats sql_sum (t + 30000 * int n + u) d' cn) = ?s0"
    using assms(3) by (simp add: getStreamStats_def)
  then show ?thesis by (simp only: c0_def cn_def Let_def)
qed

lemma stream_stats_stale_witness:
  "(let c0 = snd (getStreamStats sum_list 0 empty_db \<lparr> cachedStreamStats = None, cachedGlobalStats = None, statsExpiresAt = 0 \<rparr>);
        cn = foldl (\<lambda>c k. snd (getGlobalStats sum_list (0 + 30000 * int k) empty_db c)) c0 [1..<Suc 100]
    in fst (getStreamStats sum_list (0 + 30000 * int 100 + 29999) empty_db cn) =
       compute_stream_stats sum_list (0 div 1000) (streams empty_db))"
  by (rule stream_stats_stale) simp_all

text \<open>The daily history counts, for each of the days it reports, exactly the created events whose
  timestamp falls on that UTC day, and it reports the last \<open>days\<close> days in order, today last.\<close>

theorem metrics_history_days:
  assumes "0 < days"
  shows "map dm_day (computeMetricsHistory sql_sum days nowSec d) =
      map (\<lambda>i. nowSec div DAY - i) (rev [0..days - 1]) \<and>
    list_all (\<lambda>m. dm_newStreams m = count_where (\<lambda>e. event_type e = ''created'' \<and>
        dm_day m * DAY \<le> timestamp e \<and> timestamp e < (dm_day m + 1) * DAY) (stream_events d))
      (computeMetricsHistory sql_sum days nowSec d)"
  using computeMetricsHistory_days computeMetricsHistory_nth [OF assms] by (simp add: list_all_iff)

lemma metrics_history_days_witness:
  "map dm_day (computeMetricsHistory sum_list 3 864000 empty_db) = [8, 9, 10]"
  using metrics_history_days [of 3 sum_list 864000 empty_db] by (simp add: DAY_def upto.simps)

end
