(* ===== verification/ApiErrors.thy ===== *)
theory ApiErrors
  imports Tables
begin

text \<open>
  Thrown values and error responses: \<open>backend/src/apiErrors.ts\<close> and the issue formatting of
  \<open>validation/schemas.ts\<close>. A thrown JavaScript value is a record of the properties the code looks
  at; a response carries its status and either the error body or the handler's own payload.
\<close>

section \<open>Thrown values\<close>

record jsError =
  err_isObject :: bool
  err_isError :: bool
  err_message :: "string option"
  err_statusCode :: "int option"
  err_status :: "int option"
  err_responseStatus :: "int option"
  err_code :: "string option"
  err_name :: "string option"
  err_text :: string

definition plain_error :: "string \<Rightarrow> jsError" where
  "plain_error msg = \<lparr> err_isObject = True, err_isError = True, err_message = Some msg,
     err_statusCode = None, err_status = None, err_responseStatus = None, err_code = None,
     err_name = Some ''Error'', err_text = ''Error: '' @ msg \<rparr>"

definition status_error :: "string \<Rightarrow> int \<Rightarrow> jsError" where
  "status_error msg st = (plain_error msg)\<lparr>err_statusCode := Some st\<rparr>"

definition coded_error :: "string \<Rightarrow> int \<Rightarrow> string \<Rightarrow> jsError" where
  "coded_error msg st code = (plain_error msg)\<lparr>err_statusCode := Some st, err_code := Some code\<rparr>"

text \<open>The error the SQLite driver throws.\<close>

fun db_error :: "dbError \<Rightarrow> jsError" where
  "db_error ForeignKeyViolation =
     (plain_error ''FOREIGN KEY constraint failed'')\<lparr>err_code := Some ''SQLITE_CONSTRAINT_FOREIGNKEY''\<rparr>"
| "db_error UniqueViolation =
     (plain_error ''UNIQUE constraint failed: stream_archive.id'')\<lparr>err_code := Some ''SQLITE_CONSTRAINT_PRIMARYKEY''\<rparr>"
| "db_error TooFewParameters =
     (plain_error ''Too few parameter values were provided'')\<lparr>err_name := Some ''RangeError''\<rparr>"

definition error_of_db :: "dbError + 'a \<Rightarrow> jsError + 'a" where
  "error_of_db r = (case r of Inl e \<Rightarrow> Inl (db_error e) | Inr x \<Rightarrow> Inr x)"

lemma error_of_db_simps [simp]:
  "error_of_db (Inr x) = Inr x" "error_of_db (Inl e) = Inl (db_error e)"
  by (simp_all add: error_of_db_def)

section \<open>Normalising unknown errors\<close>

record normalizedError =
  ne_statusCode :: int
  ne_message :: string
  ne_code :: "string option"

definition normalizeUnknownApiError :: "jsError \<Rightarrow> string \<Rightarrow> normalizedError" where
  "normalizeUnknownApiError err fallback =
     (if err_isObject err then
        \<lparr> ne_statusCode = (case err_statusCode err of Some s \<Rightarrow> s | None \<Rightarrow> 500),
          ne_message = (case err_message err of
             Some m \<Rightarrow> if length (trim m) > 0 then m else fallback
           | None \<Rightarrow> fallback),
          ne_code = err_code err \<rparr>
      else \<lparr> ne_statusCode = 500, ne_message = fallback, ne_code = None \<rparr>)"

section \<open>Responses\<close>

record ValidationIssue =
  vi_field :: string
  vi_message :: string

record ZodIssue =
  issue_path :: "string list"
  issue_message :: string

record RequestContext =
  requestId :: "string option"
  correlationId :: "string option"

record ApiErrorResponse =
  ae_error :: string
  ae_statusCode :: int
  ae_requestId :: "string option"
  ae_correlationId :: "string option"
  ae_code :: "string option"
  ae_details :: "ValidationIssue list option"

record 'b response =
  resp_status :: int
  resp_body :: "ApiErrorResponse + 'b"

definition buildApiErrorResponse ::
  "RequestContext \<Rightarrow> int \<Rightarrow> string \<Rightarrow> string option \<Rightarrow> ValidationIssue list option \<Rightarrow> ApiErrorResponse" where
  "buildApiErrorResponse req statusCode msg code details =
     \<lparr> ae_error = msg, ae_statusCode = statusCode, ae_requestId = requestId req,
       ae_correlationId = correlationId req, ae_code = code, ae_details = details \<rparr>"

definition sendApiError ::
  "RequestContext \<Rightarrow> int \<Rightarrow> string \<Rightarrow> string option \<Rightarrow> ValidationIssue list option \<Rightarrow> 'b response" where
  "sendApiError req statusCode msg code details =
     \<lparr> resp_status = statusCode,
       resp_body = Inl (buildApiErrorResponse req statusCode msg code details) \<rparr>"

fun join_with :: "string \<Rightarrow> string list \<Rightarrow> string" where
  "join_with sep [] = []"
| "join_with sep [x] = x"
| "join_with sep (x # y # xs) = x @ sep @ join_with sep (y # xs)"

definition zodIssuesToValidationIssues :: "ZodIssue list \<Rightarrow> ValidationIssue list" where
  "zodIssuesToValidationIssues issues =
     map (\<lambda>i. \<lparr> vi_field = (if length (issue_path i) > 0 then join_with ''.'' (issue_path i) else ''body''),
                vi_message = issue_message i \<rparr>) issues"

definition zodIssuesToErrorMessage :: "ZodIssue list \<Rightarrow> string" where
  "zodIssuesToErrorMessage issues =
     join_with ''; '' (map (\<lambda>v. vi_field v @ '': '' @ vi_message v) (zodIssuesToValidationIssues issues))"

definition sendValidationError :: "RequestContext \<Rightarrow> ZodIssue list \<Rightarrow> 'b response" where
  "sendValidationError req issues =
     sendApiError req 400 (zodIssuesToErrorMessage issues) (Some ''VALIDATION_ERROR'')
       (Some (zodIssuesToValidationIssues issues))"

text \<open>The catch blocks of the handlers: normalise, then answer with the code or INTERNAL_ERROR.\<close>

definition sendNormalized :: "RequestContext \<Rightarrow> jsError \<Rightarrow> string \<Rightarrow> 'b response" where
  "sendNormalized req err fallback =
     (let n = normalizeUnknownApiError err fallback in
      sendApiError req (ne_statusCode n) (ne_message n)
        (case ne_code n of Some c \<Rightarrow> Some c | None \<Rightarrow> Some ''INTERNAL_ERROR'') None)"

definition sendJson :: "int \<Rightarrow> 'b \<Rightarrow> 'b response" where
  "sendJson st b = \<lparr> resp_status = st, resp_body = Inr b \<rparr>"

lemma response_sel [simp]:
  "resp_status (sendApiError req st msg code det) = st"
  "resp_status (sendJson st b) = st"
  "resp_status (sendValidationError req issues) = 400"
  "resp_body (sendJson st b) = Inr b"
  by (simp_all add: sendApiError_def sendJson_def sendValidationError_def)

lemma sendNormalized_status:
  "resp_status (sendNormalized req err fb) =
     (if err_isObject err then (case err_statusCode err of Some s \<Rightarrow> s | None \<Rightarrow> 500) else 500)"
  by (simp add: sendNormalized_def normalizeUnknownApiError_def Let_def)

lemma status_error_response [simp]:
  "resp_status (sendNormalized req (status_error m st) fb) = st"
  by (simp add: sendNormalized_status status_error_def plain_error_def)

end
