(* ===== verification/SorobanRetry.thy ===== *)
theory SorobanRetry
  imports ApiErrors
begin

text \<open>
  Retrying Soroban RPC calls: \<open>backend/src/utils/sorobanRetry.ts\<close>. The wrapped call is a function
  from the attempt number to its outcome, and the result carries what the wrapper did: how often it
  called and how long it waited.
\<close>

definition RETRY_DELAYS_MS :: "nat list" where "RETRY_DELAYS_MS = [1000, 2000, 4000]"

definition orelse :: "'a option \<Rightarrow> 'a option \<Rightarrow> 'a option" where
  "orelse x y = (case x of Some v \<Rightarrow> Some v | None \<Rightarrow> y)"

definition extractStatusCode :: "jsError \<Rightarrow> int option" where
  "extractStatusCode err =
     (if err_isObject err
      then orelse (err_status err) (orelse (err_responseStatus err) (err_statusCode err))
      else None)"

definition error_words :: "string list" where
  "error_words =
     [''network'', ''timeout'', ''econnrefused'', ''econnreset'', ''fetch failed'', ''etimedout'']"

definition isRetryableError :: "jsError \<Rightarrow> bool" where
  "isRetryableError err =
     (let statusCode = extractStatusCode err;
          msg = toLowerCase (if err_isObject err
                  then (case err_message err of Some m \<Rightarrow> m | None \<Rightarrow> err_text err) else err_text err)
      in if (case statusCode of Some s \<Rightarrow> 400 \<le> s \<and> s < 500 | None \<Rightarrow> False) then False
         else if statusCode = Some 503 \<or> statusCode = Some 504 then True
         else list_ex (includes_str msg) error_words)"

record 'a attempts =
  outcome :: "jsError + 'a"
  calls :: nat
  delays :: "nat list"

definition submit_error :: "nat \<Rightarrow> jsError \<Rightarrow> jsError" where
  "submit_error maxRetries lastError =
     (let msg = ''Soroban transaction submission failed after '' @ nat_to_string maxRetries @
            (if maxRetries = 1 then '' retry'' else '' retries'') @ '': '' @
            (case (err_isError lastError, err_message lastError) of
               (True, Some m) \<Rightarrow> m | _ \<Rightarrow> err_text lastError)
      in (plain_error msg)\<lparr>err_name := Some ''SorobanSubmitError'',
            err_statusCode := extractStatusCode lastError\<rparr>)"

text \<open>The loop, at attempt number \<open>attempt\<close> (from 1), having waited \<open>waited\<close> so far.\<close>

function retry_from :: "(nat \<Rightarrow> jsError + 'a) \<Rightarrow> nat \<Rightarrow> nat \<Rightarrow> nat list \<Rightarrow> 'a attempts" where
  "retry_from fn maxRetries att waited =
     (case fn att of
        Inr v \<Rightarrow> \<lparr> outcome = Inr v, calls = att, delays = waited \<rparr>
      | Inl err \<Rightarrow>
          if \<not> isRetryableError err then \<lparr> outcome = Inl err, calls = att, delays = waited \<rparr>
          else if att \<ge> maxRetries + 1
          then \<lparr> outcome = Inl (submit_error maxRetries err), calls = att, delays = waited \<rparr>
          else retry_from fn maxRetries (att + 1)
                 (waited @ [if att - 1 < length RETRY_DELAYS_MS then RETRY_DELAYS_MS ! (att - 1)
                            else RETRY_DELAYS_MS ! (length RETRY_DELAYS_MS - 1)]))"
  by pat_completeness auto
termination
  by (relation "measure (\<lambda>(fn, m, att, w). m + 1 - att)") auto

declare retry_from.simps [simp del]

definition retryWithBackoff :: "(nat \<Rightarrow> jsError + 'a) \<Rightarrow> nat \<Rightarrow> 'a attempts" where
  "retryWithBackoff fn maxRetries = retry_from fn maxRetries 1 []"

section \<open>Facts\<close>

lemma retry_from_calls:
  "att \<le> maxRetries + 1 \<Longrightarrow> att \<le> calls (retry_from fn maxRetries att w) \<and>
   calls (retry_from fn maxRetries att w) \<le> maxRetries + 1"
proof (induction fn maxRetries att w rule: retry_from.induct)
  case (1 fn m att w)
  then show ?case by (subst (1 2) retry_from.simps) (auto split: sum.splits)
qed

lemma retry_from_delays:
  "att \<le> 4 \<Longrightarrow> 1 \<le> att \<Longrightarrow> w = take (att - 1) RETRY_DELAYS_MS \<Longrightarrow>
   delays (retry_from fn 3 att w) = take (calls (retry_from fn 3 att w) - 1) RETRY_DELAYS_MS"
proof (induction fn "3::nat" att w rule: retry_from.induct)
  case (1 fn att w)
  show ?case
  proof (cases "\<exists>e. fn att = Inl e \<and> isRetryableError e \<and> att \<noteq> 4")
    case True
    then obtain e where e: "fn att = Inl e" "isRetryableError e" "att < 4" using "1.prems" by auto
    have len: "length RETRY_DELAYS_MS = 3" by (simp add: RETRY_DELAYS_MS_def)
    have "w @ [RETRY_DELAYS_MS ! (att - 1)] = take att RETRY_DELAYS_MS"
      using "1.prems" e(3) len take_Suc_conv_app_nth [of "att - 1" RETRY_DELAYS_MS] by simp
    moreover have "att - 1 < length RETRY_DELAYS_MS" using e(3) "1.prems" len by simp
    ultimately show ?thesis
      using "1.hyps" [OF e(1)] "1.prems" e
      by (subst (1 2) retry_from.simps) simp
  next
    case False
    with "1.prems" show ?thesis
      by (subst (1 2) retry_from.simps) (auto split: sum.splits)
  qed
qed

lemma retry_from_success:
  assumes "fn k = Inr v" "att \<le> k" "k \<le> maxRetries + 1"
    "\<forall>j. att \<le> j \<and> j < k \<longrightarrow> (\<exists>e. fn j = Inl e \<and> isRetryableError e)"
  shows "outcome (retry_from fn maxRetries att w) = Inr v \<and> calls (retry_from fn maxRetries att w) = k"
  using assms
proof (induction fn maxRetries att w rule: retry_from.induct)
  case (1 fn m att w)
  show ?case
  proof (cases "att = k")
    case True
    with "1.prems" show ?thesis by (subst (1 2) retry_from.simps) simp
  next
    case False
    then obtain e where e: "fn att = Inl e" "isRetryableError e" using "1.prems" by (metis le_neq_implies_less order_refl)
    moreover have "\<not> att \<ge> m + 1" using False "1.prems" by simp
    ultimately show ?thesis
      using "1.IH" [OF e(1)] "1.prems" False by (subst (1 2) retry_from.simps) simp
  qed
qed

lemma retry_from_give_up:
  assumes "\<forall>j. att \<le> j \<longrightarrow> (\<exists>e. fn j = Inl e \<and> isRetryableError e)" "att \<le> maxRetries + 1"
  shows "calls (retry_from fn maxRetries att w) = maxRetries + 1 \<and>
    (\<exists>e. fn (maxRetries + 1) = Inl e \<and>
       outcome (retry_from fn maxRetries att w) = Inl (submit_error maxRetries e))"
  using assms
proof (induction fn maxRetries att w rule: retry_from.induct)
  case (1 fn m att w)
  then obtain e where e: "fn att = Inl e" "isRetryableError e" by auto
  show ?case
  proof (cases "att \<ge> m + 1")
    case True
    then have "att = m + 1" using "1.prems" by simp
    then show ?thesis using e by (subst (1 2) retry_from.simps) simp
  next
    case False
    then show ?thesis using "1.IH" [OF e(1)] e "1.prems" by (subst (1 2) retry_from.simps) simp
  qed
qed

section \<open>Properties\<close>


text \<open>The first success within the budget is returned, however many retryable failures came
  before it, and no further call is made.\<close>

theorem retry_first_success:
  assumes "\<forall>j. 1 \<le> j \<and> j < k \<longrightarrow> (\<exists>e. fn j = Inl e \<and> isRetryableError e)"
    and "1 \<le> k" "k \<le> maxRetries + 1" "fn k = Inr v"
  shows "outcome (retryWithBackoff fn maxRetries) = Inr v \<and> calls (retryWithBackoff fn maxRetries) = k"
  unfolding retryWithBackoff_def using assms by (intro retry_from_success) auto

lemma retry_first_success_witness:
  "outcome (retryWithBackoff
     (\<lambda>n. if n < 3 then Inl (status_error ''unavailable'' 503) else Inr (42::nat)) 3) = Inr 42"
proof -
  have "isRetryableError (status_error ''unavailable'' 503)" by code_simp
  then show ?thesis
    using retry_first_success [of 3 "\<lambda>n. if n < 3 then Inl (status_error ''unavailable'' 503) else Inr (42::nat)" 3 42]
    by simp
qed

end
