(* ===== verification/StreamStore.thy ===== *)
theory StreamStore
  imports Webhook Stats SorobanRetry
begin

text \<open>
  The stream operations of \<open>backend/src/services/streamStore.ts\<close>: creating, cancelling, pausing,
  resuming, rescheduling, completing, archiving and deleting streams, the listings and the
  comparison. An operation takes the clock readings it makes and the state of the process (database,
  cache, module-level statistics) and returns its result, an error value where the code throws, with
  the new state. RPC calls are a record of outcomes, indexed by attempt where the code retries.
  \<open>cancelStream\<close> waits for the network between its read and its write, so it is split there.
\<close>

section \<open>State and configuration\<close>

record App =
  db :: Db
  cache :: "cacheValue cacheMap"
  stats_cache :: StatsCache
  metrics_cache :: MetricsCache

record Config =
  cfg_env :: env
  cfg_newURL :: "string \<Rightarrow> ParsedUrl option"
  cfg_rpcServer :: bool
  cfg_serverKeypair :: bool

definition empty_app :: App where
  "empty_app = \<lparr> db = empty_db, cache = [], stats_cache = \<lparr> cachedStreamStats = None,
     cachedGlobalStats = None, statsExpiresAt = 0 \<rparr>,
     metrics_cache = \<lparr> cachedMetrics = None, metricsExpiresAt = 0 \<rparr> \<rparr>"

definition contractId :: "Config \<Rightarrow> string option" where
  "contractId cfg = env_value (cfg_env cfg) ''CONTRACT_ID''"

definition has_soroban_context :: "Config \<Rightarrow> bool" where
  "has_soroban_context cfg = (contractId cfg \<noteq> None \<and> cfg_rpcServer cfg)"

definition invalidateCache :: "string \<Rightarrow> App \<Rightarrow> App" where
  "invalidateCache pattern app =
     app\<lparr>cache := (if pattern = [] then [] else snd (cache_del pattern (cache app)))\<rparr>"

text \<open>The three invalidations and two resets that follow every mutation of one stream.\<close>

definition invalidate_stream :: "string \<Rightarrow> App \<Rightarrow> App" where
  "invalidate_stream sid app =
     (let app1 = invalidateCache ''streams:export:''
                   (invalidateCache ''streams:list:'' (invalidateCache (''stream:'' @ sid) app))
      in app1\<lparr>stats_cache := resetStatsCache (stats_cache app1),
              metrics_cache := resetStreamMetricsCache (metrics_cache app1)\<rparr>)"

definition upsertStream :: "StreamRecord \<Rightarrow> Db \<Rightarrow> Db" where
  "upsertStream record d = upsert_stream_row (recordToRow record) d"

definition listLocalStreamIds :: "Db \<Rightarrow> string list" where
  "listLocalStreamIds d = map row_id (streams d)"

definition fire_webhook :: "Config \<Rightarrow> string \<Rightarrow> StreamRecord \<Rightarrow> int \<Rightarrow> App \<Rightarrow> App" where
  "fire_webhook cfg event stream now app =
     app\<lparr>db := triggerWebhook (cfg_env cfg) (cfg_newURL cfg) event (stream_json stream) now (db app)\<rparr>"

text \<open>The transactions of this file: upsert the record, then log one event.\<close>

definition save_with_event ::
  "StreamRecord \<Rightarrow> string \<Rightarrow> int \<Rightarrow> string option \<Rightarrow> jsnum option \<Rightarrow> json option \<Rightarrow> Db \<Rightarrow> dbError + Db" where
  "save_with_event stream ty ts act amt meta d =
     recordEventWithDb (stream_id stream) ty ts act amt meta None (upsertStream stream d)"

section \<open>Submitting transactions\<close>

record TxResult =
  tx_status :: string
  tx_returnValue :: "int option"

text \<open>What the RPC server answers while one transaction is built, sent and polled.\<close>

record TxIO =
  io_operation :: "StreamInput \<Rightarrow> int \<Rightarrow> jsError option"
  io_account :: "jsError option"
  io_simulate :: "jsError + bool"
  io_prepare :: "jsError option"
  io_send :: "nat \<Rightarrow> jsError + string"
  io_getTransaction :: "nat \<Rightarrow> nat \<Rightarrow> jsError + TxResult"

fun poll_transaction ::
  "(nat \<Rightarrow> nat \<Rightarrow> jsError + TxResult) \<Rightarrow> nat \<Rightarrow> nat \<Rightarrow> TxResult option \<Rightarrow> jsError + TxResult option" where
  "poll_transaction get 0 i latest = Inr latest"
| "poll_transaction get (Suc n) i latest =
     (case outcome (retryWithBackoff (get i) 3) of
        Inl err \<Rightarrow> Inl err
      | Inr r \<Rightarrow>
          if tx_status r \<noteq> ''NOT_FOUND'' then Inr (Some r)
          else poll_transaction get n (Suc i) (Some r))"

text \<open>The messages keep their fixed part; the dump of the RPC response is left out.\<close>

definition submit_create :: "TxIO \<Rightarrow> StreamInput \<Rightarrow> int \<Rightarrow> jsError + string" where
  "submit_create io input start =
     (case io_account io of Some err \<Rightarrow> Inl err | None \<Rightarrow>
      (case io_operation io input start of Some err \<Rightarrow> Inl err | None \<Rightarrow>
      (case io_simulate io of
         Inl err \<Rightarrow> Inl err
       | Inr False \<Rightarrow> Inl (plain_error ''Soroban RPC simulation failed: '')
       | Inr True \<Rightarrow>
      (case io_prepare io of Some err \<Rightarrow> Inl err | None \<Rightarrow>
      (case outcome (retryWithBackoff (io_send io) 3) of
         Inl err \<Rightarrow> Inl err
       | Inr st \<Rightarrow>
           if st \<noteq> ''PENDING'' then Inl (plain_error ''Failed to send transaction: '')
           else
      (case poll_transaction (io_getTransaction io) 10 0 None of
         Inl err \<Rightarrow> Inl err
       | Inr None \<Rightarrow> Inl (plain_error ''Tx failed on chain: '')
       | Inr (Some r) \<Rightarrow>
           (case (tx_status r = ''SUCCESS'', tx_returnValue r) of
              (True, Some v) \<Rightarrow> Inr (int_to_string v)
            | _ \<Rightarrow> Inl (plain_error ''Tx failed on chain: ''))))))))"

definition submit_cancel :: "TxIO \<Rightarrow> jsError + jsnum option" where
  "submit_cancel io =
     (case io_account io of Some err \<Rightarrow> Inl err | None \<Rightarrow>
      (case io_prepare io of Some err \<Rightarrow> Inl err | None \<Rightarrow>
      (case outcome (retryWithBackoff (io_send io) 3) of
         Inl err \<Rightarrow> Inl err
       | Inr st \<Rightarrow>
           if st \<noteq> ''PENDING'' then Inr None
           else
      (case poll_transaction (io_getTransaction io) 10 0 None of
         Inl err \<Rightarrow> Inl err
       | Inr None \<Rightarrow> Inr None
       | Inr (Some r) \<Rightarrow>
           if tx_status r = ''SUCCESS''
           then Inr (map_option (\<lambda>v. fl (of_int v)) (tx_returnValue r)) else Inr None))))"

section \<open>Creating\<close>

definition sorobanDisabled :: "Config \<Rightarrow> bool" where
  "sorobanDisabled cfg =
     (map_option toLowerCase (cfg_env cfg ''SOROBAN_DISABLED'') = Some ''true'' \<or>
      map_option toLowerCase (cfg_env cfg ''SOROBAN_ENABLED'') = Some ''false'')"

text \<open>\<open>MAX(CAST(id AS INTEGER))\<close>, NULL over no rows.\<close>

definition max_numeric_id :: "Db \<Rightarrow> int option" where
  "max_numeric_id d =
     (case map (cast_integer \<circ> row_id) (streams d) of [] \<Rightarrow> None | i # is \<Rightarrow> Some (foldl max i is))"

definition next_local_id :: "Db \<Rightarrow> string" where
  "next_local_id d = int_to_string ((case max_numeric_id d of None \<Rightarrow> 0 | Some m \<Rightarrow> m) + 1)"

definition new_stream :: "string \<Rightarrow> StreamInput \<Rightarrow> int \<Rightarrow> int \<Rightarrow> StreamRecord" where
  "new_stream sid input start created =
     \<lparr> stream_id = sid, sender = in_sender input, recipient = in_recipient input,
       assetCode = toUpperCase (in_assetCode input), totalAmount = in_totalAmount input,
       durationSeconds = in_durationSeconds input, startAt = start, createdAt = created,
       canceledAt = None, completedAt = None, refundedAmount = None, pausedAt = None,
       pausedDuration = 0,
       cliffSeconds = (case in_cliffSeconds input of Some c \<Rightarrow> c | None \<Rightarrow> 0), metadata = None \<rparr>"

definition created_meta :: "StreamInput \<Rightarrow> json" where
  "created_meta input = JObj [(''recipient'', JStr (in_recipient input)),
     (''assetCode'', JStr (in_assetCode input)),
     (''durationSeconds'', JNum (of_int (in_durationSeconds input)))]"

definition store_created ::
  "Config \<Rightarrow> string \<Rightarrow> StreamInput \<Rightarrow> int \<Rightarrow> int \<Rightarrow> int \<Rightarrow> App \<Rightarrow> (jsError + StreamRecord) \<times> App" where
  "store_created cfg sid input start created hook app =
     (let stream = new_stream sid input start created in
      case save_with_event stream ''created'' created (Some (in_sender input))
             (Some (in_totalAmount input)) (Some (created_meta input)) (db app) of
        Inl err \<Rightarrow> (Inl (db_error err), app)
      | Inr d \<Rightarrow>
          (let app1 = invalidateCache ''streams:export:'' (invalidateCache ''streams:list:''
                        (invalidateCache ''stream:'' (app\<lparr>db := d\<rparr>)));
               app2 = app1\<lparr>stats_cache := resetStatsCache (stats_cache app1),
                           metrics_cache := resetStreamMetricsCache (metrics_cache app1)\<rparr>
           in (Inr stream, fire_webhook cfg ''created'' stream hook app2)))"

text \<open>
  \<open>createStream\<close>: \<open>t0\<close> is read only when no start time is given, \<open>t1\<close> is \<open>createdAt\<close>, \<open>t2\<close> the
  webhook's clock. The local identifier is taken from the table as it is when it is used; there is no
  wait between reading the maximum and inserting.
\<close>

definition createStream ::
  "Config \<Rightarrow> TxIO \<Rightarrow> StreamInput \<Rightarrow> int \<Rightarrow> int \<Rightarrow> int \<Rightarrow> App \<Rightarrow> (jsError + StreamRecord) \<times> App" where
  "createStream cfg io input t0 t1 t2 app =
     (let start = (case in_startAt input of Some s \<Rightarrow> s | None \<Rightarrow> t0) in
      if sorobanDisabled cfg \<or> contractId cfg = None \<or> \<not> cfg_rpcServer cfg \<or> \<not> cfg_serverKeypair cfg
      then store_created cfg (next_local_id (db app)) input start t1 t2 app
      else (case submit_create io input start of
              Inl err \<Rightarrow> (Inl err, app)
            | Inr sid \<Rightarrow> store_created cfg sid input start t1 t2 app))"

section \<open>Fee estimates\<close>

definition STROOPS_PER_XLM :: int where "STROOPS_PER_XLM = 10000000"

text \<open>\<open>Number(rawFee)\<close> is a parameter of the simulation: \<open>None\<close> where it is not a finite number.\<close>

definition readSimulationFeeStroops :: "jsnum option \<Rightarrow> jsError + jsnum" where
  "readSimulationFeeStroops rawFee =
     (case rawFee of
        None \<Rightarrow> Inl (plain_error ''Soroban RPC simulation did not return a valid fee estimate.'')
      | Some fee \<Rightarrow>
          if fee < 0
          then Inl (plain_error ''Soroban RPC simulation did not return a valid fee estimate.'')
          else Inr fee)"

definition estimateCreateStreamFee ::
  "Config \<Rightarrow> TxIO \<Rightarrow> jsnum option \<Rightarrow> StreamInput \<Rightarrow> int \<Rightarrow> jsError + jsnum" where
  "estimateCreateStreamFee cfg io rawFee input t0 =
     (let start = (case in_startAt input of Some s \<Rightarrow> s | None \<Rightarrow> t0) in
      if contractId cfg = None \<or> \<not> cfg_rpcServer cfg \<or> \<not> cfg_serverKeypair cfg
      then Inl (plain_error ''Backend not configured for Soroban.'')
      else (case io_account io of Some err \<Rightarrow> Inl err | None \<Rightarrow>
           (case io_operation io input start of Some err \<Rightarrow> Inl err | None \<Rightarrow>
           (case io_simulate io of
              Inl err \<Rightarrow> Inl err
            | Inr False \<Rightarrow> Inl (plain_error ''Soroban RPC simulation failed.'')
            | Inr True \<Rightarrow> readSimulationFeeStroops rawFee))))"

section \<open>Reading\<close>

datatype SortField = ByTotalAmount | ByStartAt | ByCreatedAt | ByDurationSeconds

fun sort_column :: "SortField \<Rightarrow> StreamRow \<Rightarrow> rat" where
  "sort_column ByTotalAmount r = total_amount r"
| "sort_column ByStartAt r = of_int (start_at r)"
| "sort_column ByCreatedAt r = of_int (created_at r)"
| "sort_column ByDurationSeconds r = of_int (duration_seconds r)"

text \<open>\<open>ORDER BY\<close> one column; rows with equal values, which SQL leaves open, keep table order.\<close>

definition order_rows :: "SortField \<Rightarrow> sortOrder \<Rightarrow> StreamRow list \<Rightarrow> StreamRow list" where
  "order_rows f ord rows =
     (case ord of
        Asc \<Rightarrow> sort_key (sort_column f) rows
      | Desc \<Rightarrow> sort_key (\<lambda>r. - sort_column f r) rows)"

definition listStreams :: "bool \<Rightarrow> SortField \<Rightarrow> sortOrder \<Rightarrow> Db \<Rightarrow> StreamRecord list" where
  "listStreams includeArchived f ord d =
     map rowToRecord (order_rows f ord
       (if includeArchived then streams d else filter (\<lambda>r. archived_at r = None) (streams d)))"

definition listStreamsByRecipient :: "string \<Rightarrow> SortField \<Rightarrow> sortOrder \<Rightarrow> Db \<Rightarrow> StreamRecord list" where
  "listStreamsByRecipient addr f ord d =
     map rowToRecord (order_rows f ord (filter (\<lambda>r. row_recipient r = addr) (streams d)))"

definition listStreamsBySender :: "string \<Rightarrow> SortField \<Rightarrow> sortOrder \<Rightarrow> Db \<Rightarrow> StreamRecord list" where
  "listStreamsBySender addr f ord d =
     map rowToRecord (order_rows f ord (filter (\<lambda>r. row_sender r = addr) (streams d)))"

definition getStream :: "string \<Rightarrow> Db \<Rightarrow> StreamRecord option" where
  "getStream sid d = map_option rowToRecord (find_stream sid d)"

record StreamWithProgress =
  swp_stream :: StreamRecord
  swp_progress :: StreamProgress
  swp_archived_at :: "int option"

definition getStreamById :: "string \<Rightarrow> int \<Rightarrow> Db \<Rightarrow> StreamWithProgress option" where
  "getStreamById sid now d =
     (case find_stream sid d of
        None \<Rightarrow> None
      | Some row \<Rightarrow>
          Some \<lparr> swp_stream = rowToRecord row, swp_progress = calculateProgress (rowToRecord row) now,
                 swp_archived_at = archived_at row \<rparr>)"

section \<open>Comparing\<close>

record StreamComparison =
  cmp_id :: string
  cmp_sender :: string
  cmp_recipient :: string
  cmp_assetCode :: string
  cmp_totalAmount :: jsnum
  cmp_vested :: jsnum
  cmp_claimed :: jsnum
  cmp_claimable :: jsnum
  cmp_status :: StreamStatus
  cmp_elapsed_pct :: jsnum
  cmp_days_remaining :: jsnum
  cmp_startAt :: int
  cmp_endAt :: int

definition SECONDS_PER_DAY :: int where "SECONDS_PER_DAY = 86400"

definition buildStreamComparison ::
  "(jsnum list \<Rightarrow> jsnum) \<Rightarrow> Db \<Rightarrow> StreamRecord \<Rightarrow> int \<Rightarrow> StreamComparison" where
  "buildStreamComparison sql_sum d stream t =
     (let progress = calculateProgress stream t;
          claimed = getClaimedTotal sql_sum (stream_id stream) d;
          vested = vestedAmount progress;
          claimable = max 0 (round6 (fl (vested - claimed)));
          endAt = startAt stream + durationSeconds stream + pausedDuration stream;
          terminal = (status progress = Completed \<or> status progress = Canceled);
          daysRemaining = (if terminal then 0
            else max 0 (round6 (fl (of_int (endAt - t) / of_int SECONDS_PER_DAY))))
      in \<lparr> cmp_id = stream_id stream, cmp_sender = sender stream, cmp_recipient = recipient stream,
           cmp_assetCode = assetCode stream, cmp_totalAmount = totalAmount stream,
           cmp_vested = vested, cmp_claimed = claimed, cmp_claimable = claimable,
           cmp_status = status progress, cmp_elapsed_pct = percentComplete progress,
           cmp_days_remaining = daysRemaining, cmp_startAt = startAt stream, cmp_endAt = endAt \<rparr>)"

fun compareStreams ::
  "(jsnum list \<Rightarrow> jsnum) \<Rightarrow> Db \<Rightarrow> string list \<Rightarrow> int \<Rightarrow> jsError + StreamComparison list" where
  "compareStreams sql_sum d [] t = Inr []"
| "compareStreams sql_sum d (sid # ids) t =
     (case getStream sid d of
        None \<Rightarrow> Inl (coded_error (''Stream '' @ sid @ '' not found.'') 404 ''NOT_FOUND'')
      | Some stream \<Rightarrow>
          (case compareStreams sql_sum d ids t of
             Inl err \<Rightarrow> Inl err
           | Inr rest \<Rightarrow> Inr (buildStreamComparison sql_sum d stream t # rest)))"

section \<open>Cancelling\<close>

text \<open>
  Up to the first wait: the stream as read, and whether there is anything left to do (\<open>Inr\<close>: the
  record with its cancellation time set).
\<close>

definition cancel_read :: "string \<Rightarrow> int \<Rightarrow> App \<Rightarrow> StreamRecord option + StreamRecord" where
  "cancel_read sid t app =
     (case getStream sid (db app) of
        None \<Rightarrow> Inl None
      | Some stream \<Rightarrow>
          if canceledAt stream \<noteq> None then Inl (Some stream)
          else Inr (stream\<lparr>canceledAt := Some t\<rparr>))"

text \<open>The wait itself: the refund the chain reports, if that part succeeds.\<close>

definition cancel_chain :: "Config \<Rightarrow> TxIO \<Rightarrow> StreamRecord \<Rightarrow> StreamRecord" where
  "cancel_chain cfg io stream =
     (if has_soroban_context cfg \<and> cfg_serverKeypair cfg
      then (case submit_cancel io of
              Inr (Some refund) \<Rightarrow> stream\<lparr>refundedAmount := Some refund\<rparr>
            | _ \<Rightarrow> stream)
      else stream)"

text \<open>After the wait: invalidate, write the record read before, log the event, queue the webhook.\<close>

definition cancel_commit ::
  "Config \<Rightarrow> string \<Rightarrow> StreamRecord \<Rightarrow> int \<Rightarrow> App \<Rightarrow> (jsError + StreamRecord option) \<times> App" where
  "cancel_commit cfg sid stream hook app =
     (let app1 = invalidate_stream sid app in
      case save_with_event stream ''canceled'' (the (canceledAt stream)) (Some (sender stream))
             None None (db app1) of
        Inl err \<Rightarrow> (Inl (db_error err), app1)
      | Inr d \<Rightarrow> (Inr (Some stream), fire_webhook cfg ''canceled'' stream hook (app1\<lparr>db := d\<rparr>)))"

definition cancelStream ::
  "Config \<Rightarrow> TxIO \<Rightarrow> string \<Rightarrow> int \<Rightarrow> int \<Rightarrow> App \<Rightarrow> (jsError + StreamRecord option) \<times> App" where
  "cancelStream cfg io sid t1 t2 app =
     (case cancel_read sid t1 app of
        Inl r \<Rightarrow> (Inr r, app)
      | Inr stream \<Rightarrow> cancel_commit cfg sid (cancel_chain cfg io stream) t2 app)"

section \<open>Pausing, resuming, rescheduling\<close>

text \<open>
  The common tail: one transaction, then the invalidations, then a webhook where the operation
  sends one.
\<close>

definition commit_change ::
  "Config \<Rightarrow> string \<Rightarrow> StreamRecord \<Rightarrow> string \<Rightarrow> int \<Rightarrow> json option \<Rightarrow> string option \<Rightarrow> int \<Rightarrow> App \<Rightarrow>
   (jsError + StreamRecord) \<times> App" where
  "commit_change cfg sid stream ty ts meta webhook hook app =
     (case save_with_event stream ty ts (Some (sender stream)) None meta (db app) of
        Inl err \<Rightarrow> (Inl (db_error err), app)
      | Inr d \<Rightarrow>
          (let app1 = invalidate_stream sid (app\<lparr>db := d\<rparr>) in
           (Inr stream,
            case webhook of Some event \<Rightarrow> fire_webhook cfg event stream hook app1 | None \<Rightarrow> app1)))"

definition not_found :: jsError where "not_found = status_error ''Stream not found.'' 404"

definition pauseStream ::
  "Config \<Rightarrow> string \<Rightarrow> int \<Rightarrow> int \<Rightarrow> int \<Rightarrow> App \<Rightarrow> (jsError + StreamRecord) \<times> App" where
  "pauseStream cfg sid t1 t2 t3 app =
     (case getStream sid (db app) of
        None \<Rightarrow> (Inl not_found, app)
      | Some stream \<Rightarrow>
          if computeStatus stream t1 \<noteq> Active
          then (Inl (status_error ''Only active streams can be paused.'' 400), app)
          else commit_change cfg sid (stream\<lparr>pausedAt := Some t2\<rparr>) ''paused'' t2 None (Some ''paused'') t3 app)"

text \<open>The record after a resume: both the pause total and the duration grow by the pause.\<close>

definition resumed_record :: "StreamRecord \<Rightarrow> int \<Rightarrow> int \<Rightarrow> StreamRecord" where
  "resumed_record stream p now =
     stream\<lparr>pausedDuration := pausedDuration stream + (now - p),
            durationSeconds := durationSeconds stream + (now - p), pausedAt := None\<rparr>"

definition resumeStream ::
  "Config \<Rightarrow> string \<Rightarrow> int \<Rightarrow> int \<Rightarrow> App \<Rightarrow> (jsError + StreamRecord) \<times> App" where
  "resumeStream cfg sid now t2 app =
     (case getStream sid (db app) of
        None \<Rightarrow> (Inl not_found, app)
      | Some stream \<Rightarrow>
          (case pausedAt stream of
             None \<Rightarrow> (Inl (status_error ''Stream is not paused.'' 400), app)
           | Some p \<Rightarrow>
               (let stream' = resumed_record stream p now in
                commit_change cfg sid stream' ''resumed'' now
                  (Some (JObj [(''pausedDuration'', JNum (of_int (pausedDuration stream')))]))
                  (Some ''resumed'') t2 app)))"

definition updateStreamStartAt ::
  "Config \<Rightarrow> string \<Rightarrow> int \<Rightarrow> int \<Rightarrow> int \<Rightarrow> App \<Rightarrow> (jsError + StreamRecord) \<times> App" where
  "updateStreamStartAt cfg sid newStartAt t1 t2 app =
     (case getStream sid (db app) of
        None \<Rightarrow> (Inl not_found, app)
      | Some stream \<Rightarrow>
          if computeStatus stream t1 \<noteq> Scheduled
          then (Inl (status_error ''Can only update start time for scheduled streams.'' 400), app)
          else commit_change cfg sid (stream\<lparr>startAt := newStartAt\<rparr>) ''start_time_updated'' t2
                 (Some (JObj [(''oldStartAt'', JNum (of_int (startAt stream))),
                              (''newStartAt'', JNum (of_int newStartAt))])) None t2 app)"

section \<open>Completing, archiving, deleting\<close>

definition markStreamComplete ::
  "Config \<Rightarrow> string \<Rightarrow> int \<Rightarrow> int \<Rightarrow> App \<Rightarrow> (jsError + StreamRecord) \<times> App" where
  "markStreamComplete cfg sid t hook app =
     (case getStream sid (db app) of
        None \<Rightarrow> (Inl not_found, app)
      | Some stream \<Rightarrow>
          if computeStatus stream t = Completed
          then (Inl (status_error ''Stream is already completed.'' 400), app)
          else if computeStatus stream t = Canceled
          then (Inl (status_error ''Stream is already canceled.'' 400), app)
          else if vestedAmount (calculateProgress stream t) < totalAmount stream
          then (Inl (status_error ''Stream is not fully vested.'' 400), app)
          else
            (let stream' = stream\<lparr>completedAt := Some t\<rparr> in
             case save_with_event stream' ''completed'' t (Some (sender stream')) None None (db app) of
               Inl err \<Rightarrow> (Inl (db_error err), app)
             | Inr d \<Rightarrow> (Inr stream', fire_webhook cfg ''completed'' stream' hook (app\<lparr>db := d\<rparr>))))"

text \<open>
  Running a prepared statement: the driver refuses to run one with fewer values bound than it has
  placeholders. \<open>refreshStreamStatuses\<close> binds none to the one placeholder of its first statement.
\<close>

definition run_statement :: "nat \<Rightarrow> 'p list \<Rightarrow> ('p list \<Rightarrow> 'a) \<Rightarrow> dbError + 'a" where
  "run_statement placeholders params f =
     (if length params < placeholders then Inl TooFewParameters else Inr (f params))"

definition past_end :: "int \<Rightarrow> StreamRow \<Rightarrow> bool" where
  "past_end now r =
     (canceled_at r = None \<and> completed_at r = None \<and> paused_at r = None \<and>
      start_at r + duration_seconds r \<le> now)"

fun complete_rows :: "Config \<Rightarrow> int \<Rightarrow> StreamRow list \<Rightarrow> Db \<Rightarrow> dbError + Db" where
  "complete_rows cfg now [] d = Inr d"
| "complete_rows cfg now (row # rows) d =
     (let record = (rowToRecord row)\<lparr>completedAt := Some now\<rparr> in
      case (if streamHasEvent (stream_id record) ''completed'' d then Inr d
            else recordEventWithDb (stream_id record) ''completed'' now None None None None d) of
        Inl err \<Rightarrow> Inl err
      | Inr d1 \<Rightarrow> complete_rows cfg now rows
          (triggerWebhook (cfg_env cfg) (cfg_newURL cfg) ''completed'' (stream_json record) now d1))"

definition refreshStreamStatuses :: "Config \<Rightarrow> int \<Rightarrow> App \<Rightarrow> (jsError + nat) \<times> App" where
  "refreshStreamStatuses cfg now app =
     (case run_statement 1 [] (\<lambda>ps. filter (past_end (hd ps)) (streams (db app))) of
        Inl err \<Rightarrow> (Inl (db_error err), app)
      | Inr toComplete \<Rightarrow>
          (let d = db app; changes = count_where (past_end now) (streams d);
               d1 = d\<lparr>streams := update_where (past_end now) (\<lambda>r. r\<lparr>completed_at := Some now\<rparr>) (streams d)\<rparr>
           in case complete_rows cfg now toComplete d1 of
                Inl err \<Rightarrow> (Inl (db_error err), app\<lparr>db := d1\<rparr>)
              | Inr d2 \<Rightarrow> (Inr changes, app\<lparr>db := d2\<rparr>)))"

definition ARCHIVE_AFTER :: int where "ARCHIVE_AFTER = 30 * 24 * 60 * 60"

definition archive_row :: "StreamRow \<Rightarrow> int \<Rightarrow> ArchiveRow" where
  "archive_row r now =
     \<lparr> ar_id = row_id r, ar_sender = row_sender r, ar_recipient = row_recipient r,
       ar_asset_code = asset_code r, ar_total_amount = total_amount r,
       ar_duration_seconds = duration_seconds r, ar_start_at = start_at r,
       ar_created_at = created_at r, ar_canceled_at = canceled_at r,
       ar_completed_at = completed_at r, ar_refunded_amount = refunded_amount r,
       ar_archived_at = now \<rparr>"

fun archive_loop :: "int \<Rightarrow> StreamRow list \<Rightarrow> Db \<Rightarrow> dbError + Db" where
  "archive_loop now [] d = Inr d"
| "archive_loop now (r # rs) d =
     (case insert_archive (archive_row r now) d of
        Inl err \<Rightarrow> Inl err
      | Inr d1 \<Rightarrow> archive_loop now rs (set_archived_at (row_id r) now d1))"

definition streams_to_archive :: "int \<Rightarrow> Db \<Rightarrow> StreamRow list" where
  "streams_to_archive threshold d =
     filter (\<lambda>r. (case completed_at r of None \<Rightarrow> False | Some c \<Rightarrow> c < threshold) \<and> archived_at r = None)
       (streams d)"

text \<open>An error in the transaction rolls all of it back and is caught: the result is then 0.\<close>

definition archiveOldStreams :: "int \<Rightarrow> int \<Rightarrow> App \<Rightarrow> nat \<times> App" where
  "archiveOldStreams t1 now app =
     (let rows = streams_to_archive (t1 - ARCHIVE_AFTER) (db app) in
      if rows = [] then (0, app)
      else (case archive_loop now rows (db app) of
              Inl err \<Rightarrow> (0, app)
            | Inr d \<Rightarrow> (length rows, app\<lparr>db := d\<rparr>)))"

definition deleteStreamById :: "string \<Rightarrow> int \<Rightarrow> App \<Rightarrow> bool \<times> App" where
  "deleteStreamById sid now app =
     (case find_stream sid (db app) of
        None \<Rightarrow> (False, app)
      | Some row \<Rightarrow>
          if archived_at row \<noteq> None then (False, app)
          else (True, app\<lparr>db := set_archived_at sid now (db app)\<rparr>))"

lemmas stream_ops = createStream_def store_created_def cancelStream_def cancel_commit_def
  pauseStream_def resumeStream_def updateStreamStartAt_def commit_change_def markStreamComplete_def

section \<open>Facts\<close>

lemma db_invalidate [simp]: "db (invalidateCache p app) = db app"
  "db (invalidate_stream sid app) = db app"
  by (simp_all add: invalidateCache_def invalidate_stream_def Let_def)

lemma db_fire [simp]:
  "streams (db (fire_webhook cfg ev s t app)) = streams (db app)"
  "stream_events (db (fire_webhook cfg ev s t app)) = stream_events (db app)"
  "stream_archive (db (fire_webhook cfg ev s t app)) = stream_archive (db app)"
  "find_stream sid (db (fire_webhook cfg ev s t app)) = find_stream sid (db app)"
  "indexer_cursor (db (fire_webhook cfg ev s t app)) = indexer_cursor (db app)"
  by (simp_all add: fire_webhook_def)

lemma cache_fire [simp]: "cache (fire_webhook cfg ev s t app) = cache app"
  by (simp add: fire_webhook_def)

lemma getStream_fire [simp]: "getStream sid (db (fire_webhook cfg ev s t app)) = getStream sid (db app)"
  by (simp add: getStream_def)

lemma find_stream_push [simp]: "find_stream sid (push_event e d) = find_stream sid d"
  by (simp add: find_stream_def)

lemma upsertStream_frames [simp]:
  "stream_events (upsertStream s d) = stream_events d"
  "events_seq (upsertStream s d) = events_seq d"
  "stream_archive (upsertStream s d) = stream_archive d"
  "webhook_deliveries (upsertStream s d) = webhook_deliveries d"
  "indexer_cursor (upsertStream s d) = indexer_cursor d"
  "stream_exists sid (upsertStream s d) \<longleftrightarrow> sid = stream_id s \<or> stream_exists sid d"
  by (simp_all add: upsertStream_def)

lemma find_upsertStream:
  "find_stream k (upsertStream s d) = (if k = stream_id s then Some (recordToRow s) else find_stream k d)"
  by (simp add: upsertStream_def find_stream_upsert)

lemma getStream_upsert:
  "getStream k (upsertStream s d) = (if k = stream_id s then Some s else getStream k d)"
  by (simp add: getStream_def find_upsertStream)

lemma getStream_id: "getStream sid d = Some s \<Longrightarrow> stream_id s = sid \<and> stream_exists sid d"
  by (auto simp: getStream_def dest: find_stream_Some)

lemma getStream_push [simp]: "getStream sid (push_event e d) = getStream sid d"
  by (simp add: getStream_def)

lemma save_with_event_eq:
  "save_with_event s ty ts act amt meta d =
     Inr (push_event (mk_event (stream_id s) ty ts act amt meta None) (upsertStream s d))"
  by (simp add: save_with_event_def recordEvent_local)

text \<open>What every single-stream transaction leaves behind.\<close>

definition saved :: "StreamRecord \<Rightarrow> EventRow \<Rightarrow> App \<Rightarrow> App \<Rightarrow> bool" where
  "saved s e app app' =
     (streams (db app') = streams (upsertStream s (db app)) \<and>
      stream_events (db app') = stream_events (db app) @ [e\<lparr>event_id := Suc (events_seq (db app))\<rparr>] \<and>
      stream_archive (db app') = stream_archive (db app) \<and>
      indexer_cursor (db app') = indexer_cursor (db app) \<and>
      (db_ok (db app) \<longrightarrow> db_ok (db app')))"

lemma db_ok_saved_db:
  "db_ok d \<Longrightarrow> db_ok (push_event (mk_event (stream_id s) ty ts act amt meta None) (upsertStream s d))"
  using db_ok_insert_event [OF db_ok_upsert [of d "recordToRow s"]]
    recordEvent_local [of "stream_id s" "upsertStream s d" ty ts act amt meta]
  by (simp add: recordEventWithDb_def upsertStream_def)

lemma db_ok_fire [inv_intros]: "db_ok (db app) \<Longrightarrow> db_ok (db (fire_webhook cfg ev s t app))"
  by (simp add: fire_webhook_def db_ok_triggerWebhook)

lemma saved_step:
  assumes "db app1 = push_event (mk_event sid ty ts act amt meta None) (upsertStream s (db app))"
    "stream_id s = sid"
  shows "saved s (mk_event sid ty ts act amt meta None) app app1"
  using assms db_ok_saved_db [of "db app" s ty ts act amt meta]
  by (simp add: saved_def stream_events_push)

lemma saved_fire: "saved s e app app1 \<Longrightarrow> saved s e app (fire_webhook cfg ev s' t app1)"
  by (simp add: saved_def db_ok_fire)

lemma commit_change_saved:
  "commit_change cfg sid s ty ts meta wh t app = (r, app') \<Longrightarrow>
   r = Inr s \<and> saved s (mk_event (stream_id s) ty ts (Some (sender s)) None meta None) app app'"
  by (auto simp: commit_change_def save_with_event_eq Let_def intro!: saved_fire saved_step
      split: option.splits)

lemma cancel_commit_saved:
  "cancel_commit cfg sid s t app = (r, app') \<Longrightarrow>
   r = Inr (Some s) \<and>
   saved s (mk_event (stream_id s) ''canceled'' (the (canceledAt s)) (Some (sender s)) None None None) app app'"
  by (auto simp: cancel_commit_def save_with_event_eq Let_def intro!: saved_fire saved_step)

lemma new_stream_sel [simp]:
  "stream_id (new_stream sid input start created) = sid"
  "sender (new_stream sid input start created) = in_sender input"
  by (simp_all add: new_stream_def)

lemma store_created_saved:
  "store_created cfg sid input start created hook app = (r, app') \<Longrightarrow>
   r = Inr (new_stream sid input start created) \<and>
   saved (new_stream sid input start created)
     (mk_event sid ''created'' created (Some (in_sender input)) (Some (in_totalAmount input))
        (Some (created_meta input)) None) app app'"
  by (auto simp: store_created_def save_with_event_eq Let_def intro!: saved_fire saved_step)

lemma markStreamComplete_cases:
  assumes "markStreamComplete cfg sid t h app = (r, app')"
  obtains (Refused) e where "r = Inl e" "app' = app"
  | (Marked) s where "getStream sid (db app) = Some s" "r = Inr (s\<lparr>completedAt := Some t\<rparr>)"
      "computeStatus s t \<noteq> Completed" "computeStatus s t \<noteq> Canceled"
      "totalAmount s \<le> vestedAmount (calculateProgress s t)"
      "saved (s\<lparr>completedAt := Some t\<rparr>)
         (mk_event sid ''completed'' t (Some (sender s)) None None None) app app'"
proof (cases "getStream sid (db app)")
  case None
  then show ?thesis using assms Refused by (auto simp: markStreamComplete_def)
next
  case (Some s)
  let ?s = "s\<lparr>completedAt := Some t\<rparr>"
  let ?d = "push_event (mk_event sid ''completed'' t (Some (sender s)) None None None) (upsertStream ?s (db app))"
  have sid: "stream_id s = sid" using Some getStream_id by blast
  show ?thesis
  proof (cases "computeStatus s t = Completed \<or> computeStatus s t = Canceled \<or>
      vestedAmount (calculateProgress s t) < totalAmount s")
    case True
    then show ?thesis using assms Refused Some by (auto simp: markStreamComplete_def split: if_splits)
  next
    case False
    then have res: "r = Inr ?s" "app' = fire_webhook cfg ''completed'' ?s h (app\<lparr>db := ?d\<rparr>)"
      using assms Some sid by (auto simp: markStreamComplete_def save_with_event_eq Let_def)
    have "saved ?s (mk_event sid ''completed'' t (Some (sender s)) None None None) app app'"
      unfolding res(2) by (intro saved_fire saved_step) (simp_all add: sid)
    then show ?thesis using Marked Some False res(1) by (auto simp: not_less)
  qed
qed

lemma saved_getStream:
  "saved s e app app' \<Longrightarrow> getStream k (db app') = (if k = stream_id s then Some s else getStream k (db app))"
  using getStream_upsert [of k s "db app"] by (simp add: saved_def getStream_def find_stream_def)

subsection \<open>Fresh identifiers\<close>

lemma cast_int_to_string [simp]: "cast_integer (int_to_string i) = i"
proof (cases "i < 0")
  case True
  have tw: "takeWhile is_digit (nat_to_string n) = nat_to_string n" for n
    using nat_to_string_digits [of n] by (simp add: takeWhile_eq_all_conv)
  have "\<not> is_space CHR ''-''" by code_simp
  with True show ?thesis by (simp add: cast_integer_def tw)
qed simp

lemma int_to_string_inject [simp]: "int_to_string i = int_to_string j \<longleftrightarrow> i = j"
  by (metis cast_int_to_string)

lemma foldl_max_ge: "(i :: int) \<le> foldl max i js \<and> (\<forall>j \<in> set js. j \<le> foldl max i js)"
proof (induction js arbitrary: i)
  case (Cons k ks)
  from Cons [of "max i k"] show ?case by auto
qed simp

lemma next_local_id_fresh: "\<not> stream_exists (next_local_id d) d"
proof
  assume "stream_exists (next_local_id d) d"
  then obtain r where r: "r \<in> set (streams d)" "row_id r = next_local_id d"
    by (auto simp: stream_exists_def)
  then obtain i js where m: "map (cast_integer \<circ> row_id) (streams d) = i # js"
    by (cases "map (cast_integer \<circ> row_id) (streams d)") auto
  have "cast_integer (row_id r) \<in> set (i # js)"
    using r(1) unfolding m [symmetric] by auto
  then have "cast_integer (row_id r) \<le> foldl max i js"
    using foldl_max_ge [of i js] by auto
  moreover have "max_numeric_id d = Some (foldl max i js)"
    by (simp add: max_numeric_id_def m)
  ultimately show False using r(2) by (simp add: next_local_id_def del: int_to_string.simps)
qed

subsection \<open>Every operation keeps the database well-formed\<close>

lemma db_ok_saved: "saved s e app app' \<Longrightarrow> db_ok (db app) \<Longrightarrow> db_ok (db app')"
  by (simp add: saved_def)

lemma db_ok_createStream [inv_intros]:
  "db_ok (db app) \<Longrightarrow> createStream cfg io input t0 t1 t2 app = (r, app') \<Longrightarrow> db_ok (db app')"
  by (auto simp: createStream_def Let_def dest!: store_created_saved intro: db_ok_saved
      split: if_splits sum.splits)

lemma db_ok_cancel_commit [inv_intros]:
  "db_ok (db app) \<Longrightarrow> cancel_commit cfg sid s t app = (r, app') \<Longrightarrow> db_ok (db app')"
  by (auto dest!: cancel_commit_saved intro: db_ok_saved)

lemma db_ok_cancelStream [inv_intros]:
  "db_ok (db app) \<Longrightarrow> cancelStream cfg io sid t1 t2 app = (r, app') \<Longrightarrow> db_ok (db app')"
  by (auto simp: cancelStream_def dest!: cancel_commit_saved intro: db_ok_saved split: sum.splits)

lemma db_ok_pauseStream [inv_intros]:
  "db_ok (db app) \<Longrightarrow> pauseStream cfg sid t1 t2 t3 app = (r, app') \<Longrightarrow> db_ok (db app')"
  by (auto simp: pauseStream_def dest!: commit_change_saved intro: db_ok_saved
      split: option.splits if_splits)

lemma db_ok_resumeStream [inv_intros]:
  "db_ok (db app) \<Longrightarrow> resumeStream cfg sid t1 t2 app = (r, app') \<Longrightarrow> db_ok (db app')"
  by (auto simp: resumeStream_def Let_def dest!: commit_change_saved intro: db_ok_saved
      split: option.splits if_splits)

lemma db_ok_updateStreamStartAt [inv_intros]:
  "db_ok (db app) \<Longrightarrow> updateStreamStartAt cfg sid n t1 t2 app = (r, app') \<Longrightarrow> db_ok (db app')"
  by (auto simp: updateStreamStartAt_def dest!: commit_change_saved intro: db_ok_saved
      split: option.splits if_splits)

lemma db_ok_markStreamComplete [inv_intros]:
  "db_ok (db app) \<Longrightarrow> markStreamComplete cfg sid t h app = (r, app') \<Longrightarrow> db_ok (db app')"
  by (erule markStreamComplete_cases) (auto simp: saved_def)

lemma db_ok_archive_loop:
  "db_ok d \<Longrightarrow> archive_loop now rs d = Inr d' \<Longrightarrow> db_ok d'"
  by (induction rs arbitrary: d) (auto intro: db_ok_set_archived db_ok_insert_archive split: sum.splits)

lemma db_ok_archiveOldStreams [inv_intros]:
  "db_ok (db app) \<Longrightarrow> db_ok (db (snd (archiveOldStreams t1 now app)))"
  by (auto simp: archiveOldStreams_def Let_def intro: db_ok_archive_loop split: sum.splits)

lemma db_ok_deleteStreamById [inv_intros]:
  "db_ok (db app) \<Longrightarrow> db_ok (db (snd (deleteStreamById sid now app)))"
  by (auto simp: deleteStreamById_def db_ok_set_archived split: option.splits)

end
