(* ===== verification/Validation.thy ===== *)
theory Validation
  imports StreamStore
begin

text \<open>
  Request validation: \<open>backend/src/validation/schemas.ts\<close> and the query and body schemas of
  \<open>backend/src/index.ts\<close>. A schema is a function from the raw JSON value (\<open>None\<close>: absent) to the
  value it produces, \<open>None\<close> where \<open>safeParse\<close> fails; the issue texts are output of the Zod library
  and stay parameters of the handlers. \<open>Number(...)\<close>, which \<open>z.coerce.number()\<close> applies, and
  \<open>Number.prototype.toString\<close>, which the decimal check reads, are written out.
\<close>

section \<open>Number(x)\<close>

text \<open>Decimal digits over \<open>int\<close>, whose numerals stay binary when they are evaluated.\<close>

definition digits_int :: "string \<Rightarrow> int" where
  "digits_int ds = foldl (\<lambda>a c. 10 * a + int (digit_val c)) 0 ds"

function int_digits :: "int \<Rightarrow> string" where
  "int_digits i = (if i < 10 then [digit_char (nat i)] else int_digits (i div 10) @ [digit_char (nat (i mod 10))])"
  by pat_completeness auto
termination by (relation "measure nat") auto

declare int_digits.simps [simp del]

definition radix_val :: "nat \<Rightarrow> string \<Rightarrow> nat" where
  "radix_val b ds = foldl (\<lambda>a c. b * a + hex_val c) 0 ds"

definition prefixed_number :: "string \<Rightarrow> rat option" where
  "prefixed_number u =
     (case u of
        z # r # ds \<Rightarrow>
          (let b = (if r \<in> {CHR ''x'', CHR ''X''} then 16 else if r \<in> {CHR ''o'', CHR ''O''} then 8
                    else if r \<in> {CHR ''b'', CHR ''B''} then 2 else 0)
           in if z = CHR ''0'' \<and> b \<noteq> 0 \<and> ds \<noteq> [] \<and> list_all (\<lambda>c. is_hex c \<and> hex_val c < b) ds
              then Some (fl (of_nat (radix_val b ds))) else None)
      | _ \<Rightarrow> None)"

definition exponent_part :: "string \<Rightarrow> int option" where
  "exponent_part s =
     (case s of
        [] \<Rightarrow> Some 0
      | c # cs \<Rightarrow>
          if c \<noteq> CHR ''e'' \<and> c \<noteq> CHR ''E'' then None
          else (let neg = (cs \<noteq> [] \<and> hd cs = CHR ''-'');
                    ds = (if cs \<noteq> [] \<and> (hd cs = CHR ''-'' \<or> hd cs = CHR ''+'') then tl cs else cs)
                in if ds \<noteq> [] \<and> list_all is_digit ds
                   then Some (if neg then - digits_int ds else digits_int ds) else None))"

definition unsigned_decimal :: "string \<Rightarrow> rat option" where
  "unsigned_decimal s =
     (let ip = takeWhile is_digit s; r1 = dropWhile is_digit s;
          dot = (r1 \<noteq> [] \<and> hd r1 = CHR ''.'');
          fp = (if dot then takeWhile is_digit (tl r1) else []);
          r2 = (if dot then dropWhile is_digit (tl r1) else r1)
      in if ip = [] \<and> fp = [] then None
         else map_option (\<lambda>e. of_int (digits_int (ip @ fp)) * 10 powi (e - int (length fp))) (exponent_part r2))"

text \<open>\<open>Number(s)\<close>; \<open>None\<close> stands for NaN and for the infinities, which \<open>z.number()\<close> refuses alike.\<close>

definition number_of_string :: "string \<Rightarrow> jsnum option" where
  "number_of_string s =
     (let u = trim s in
      if u = [] then Some 0
      else (case prefixed_number u of
              Some v \<Rightarrow> Some v
            | None \<Rightarrow>
                (let neg = (hd u = CHR ''-'');
                     rest = (if hd u = CHR ''-'' \<or> hd u = CHR ''+'' then tl u else u)
                 in case unsigned_decimal rest of
                      None \<Rightarrow> None
                    | Some v \<Rightarrow> if \<lfloor>fl v\<rfloor> < 2 ^ 1024 then Some (if neg then - fl v else fl v) else None)))"

fun number_of_json :: "json \<Rightarrow> jsnum option" where
  "number_of_json JNull = Some 0"
| "number_of_json (JBool b) = Some (if b then 1 else 0)"
| "number_of_json (JNum n) = Some n"
| "number_of_json (JStr s) = number_of_string s"
| "number_of_json (JArr []) = Some 0"
| "number_of_json (JArr [x]) = (case x of JBool b \<Rightarrow> None | _ \<Rightarrow> number_of_json x)"
| "number_of_json (JArr (x # y # ys)) = None"
| "number_of_json (JObj kvs) = None"

section \<open>Number.prototype.toString\<close>

text \<open>The \<open>n\<close> with \<open>10^(n-1) \<le> x < 10^n\<close>.\<close>

definition dec_exponent :: "rat \<Rightarrow> int" where
  "dec_exponent x =
     (if 1 \<le> x then int (length (int_digits \<lfloor>x\<rfloor>))
      else 1 - int (length (int_digits (\<lceil>1 / x\<rceil> - 1))))"

text \<open>The shortest digits that read back as \<open>x\<close>, the nearer ones when both neighbours do.\<close>

fun shortest_digits :: "nat \<Rightarrow> nat \<Rightarrow> int \<Rightarrow> rat \<Rightarrow> int \<times> nat" where
  "shortest_digits 0 k n x = (\<lfloor>x / 10 powi (n - int k)\<rfloor>, k)"
| "shortest_digits (Suc fuel) k n x =
     (let u = 10 powi (n - int k); lo = \<lfloor>x / u\<rfloor>;
          ok = (\<lambda>c. fl (of_int c * u) = x);
          near = (if x - of_int lo * u \<le> of_int (lo + 1) * u - x then [lo, lo + 1] else [lo + 1, lo])
      in case filter ok near of
           c # cs \<Rightarrow> (c, k)
         | [] \<Rightarrow> shortest_digits fuel (Suc k) n x)"

definition strip_zeros :: "string \<Rightarrow> string" where
  "strip_zeros s = rev (dropWhile (\<lambda>c. c = CHR ''0'') (rev s))"

definition positive_toString :: "rat \<Rightarrow> string" where
  "positive_toString x =
     (let n0 = dec_exponent x; (c, k) = shortest_digits 17 1 n0 x; ds0 = int_digits c;
          n = n0 - int k + int (length ds0); ds = strip_zeros ds0; m = int (length ds)
      in if m \<le> n \<and> n \<le> 21 then ds @ replicate (nat (n - m)) (CHR ''0'')
         else if 0 < n \<and> n \<le> 21 then take (nat n) ds @ ''.'' @ drop (nat n) ds
         else if - 6 < n \<and> n \<le> 0 then ''0.'' @ replicate (nat (- n)) (CHR ''0'') @ ds
         else (let e = (if n - 1 < 0 then ''e-'' else ''e+'') @ nat_to_string (nat \<bar>n - 1\<bar>)
               in if length ds = 1 then ds @ e else hd ds # ''.'' @ tl ds @ e))"

definition num_toString :: "jsnum \<Rightarrow> string" where
  "num_toString x =
     (if x = 0 then ''0'' else if x < 0 then CHR ''-'' # positive_toString (- x) else positive_toString x)"

section \<open>Field schemas\<close>

text \<open>\<open>.int()\<close> also asks for a safe integer.\<close>

definition as_int :: "jsnum \<Rightarrow> int option" where
  "as_int v = (if of_int \<lfloor>v\<rfloor> = v \<and> \<bar>\<lfloor>v\<rfloor>\<bar> \<le> 2 ^ 53 - 1 then Some \<lfloor>v\<rfloor> else None)"

definition coerce_number :: "json option \<Rightarrow> jsnum option" where
  "coerce_number j = Option.bind j number_of_json"

definition coerce_int :: "json option \<Rightarrow> int option" where
  "coerce_int j = Option.bind (coerce_number j) as_int"

definition keep_if :: "('a \<Rightarrow> bool) \<Rightarrow> 'a option \<Rightarrow> 'a option" where
  "keep_if P x = (case x of Some v \<Rightarrow> if P v then Some v else None | None \<Rightarrow> None)"

fun as_string :: "json option \<Rightarrow> string option" where
  "as_string (Some (JStr s)) = Some s"
| "as_string _ = None"

text \<open>\<open>.optional()\<close>: an absent value is accepted as such.\<close>

definition optional :: "(json option \<Rightarrow> 'a option) \<Rightarrow> json option \<Rightarrow> 'a option option" where
  "optional f j = (case j of None \<Rightarrow> Some None | Some v \<Rightarrow> map_option Some (f j))"

definition streamIdSchema :: "json option \<Rightarrow> string option" where
  "streamIdSchema j = keep_if
     (\<lambda>t. t \<noteq> [] \<and> CHR ''1'' \<le> hd t \<and> hd t \<le> CHR ''9'' \<and> list_all is_digit t) (map_option trim (as_string j))"

definition stellarAccountIdSchema :: "(string \<Rightarrow> bool) \<Rightarrow> json option \<Rightarrow> string option" where
  "stellarAccountIdSchema isStellarPublicKey j =
     keep_if (\<lambda>t. 1 \<le> length t \<and> isStellarPublicKey t) (map_option trim (as_string j))"

definition asset_code_text :: "string \<Rightarrow> bool" where
  "asset_code_text t = (1 \<le> length t \<and> length t \<le> 12 \<and> list_all is_alnum t)"

definition assetCodeSchema :: "json option \<Rightarrow> string option" where
  "assetCodeSchema j = map_option toUpperCase (keep_if asset_code_text (map_option trim (as_string j)))"

text \<open>At most seven decimals, read off the text between the first two dots.\<close>

definition decimals_ok :: "jsnum \<Rightarrow> bool" where
  "decimals_ok v =
     (let parts = split_on CHR ''.'' (num_toString v)
      in length parts < 2 \<or> length (parts ! 1) \<le> 7)"

definition totalAmountSchema :: "json option \<Rightarrow> jsnum option" where
  "totalAmountSchema j = keep_if (\<lambda>v. 0 < v \<and> decimals_ok v) (coerce_number j)"

definition durationSecondsSchema :: "json option \<Rightarrow> int option" where
  "durationSecondsSchema j = keep_if (\<lambda>v. 60 \<le> v) (coerce_int j)"

definition unixTimestampSchema :: "json option \<Rightarrow> int option" where
  "unixTimestampSchema j = keep_if (\<lambda>v. 0 < v) (coerce_int j)"

definition cliffSecondsSchema :: "json option \<Rightarrow> int option" where
  "cliffSecondsSchema j = keep_if (\<lambda>v. 0 \<le> v) (coerce_int j)"

section \<open>Bodies\<close>

fun obj_field :: "json \<Rightarrow> string \<Rightarrow> json option" where
  "obj_field (JObj kvs) k = map_of kvs k"
| "obj_field _ k = None"

fun is_object :: "json \<Rightarrow> bool" where
  "is_object (JObj kvs) = True"
| "is_object _ = False"

definition start_at_ok :: "int \<Rightarrow> int \<Rightarrow> bool" where
  "start_at_ok now s = (\<not> s < now + 10 \<and> \<not> s > now + 365 * 24 * 60 * 60)"

definition createStreamPayloadSchema :: "(string \<Rightarrow> bool) \<Rightarrow> int \<Rightarrow> json \<Rightarrow> StreamInput option" where
  "createStreamPayloadSchema valid now body =
     (if \<not> is_object body then None
      else (case (stellarAccountIdSchema valid (obj_field body ''sender''),
                  stellarAccountIdSchema valid (obj_field body ''recipient''),
                  assetCodeSchema (obj_field body ''assetCode''),
                  totalAmountSchema (obj_field body ''totalAmount''),
                  durationSecondsSchema (obj_field body ''durationSeconds''),
                  optional unixTimestampSchema (obj_field body ''startAt''),
                  optional cliffSecondsSchema (obj_field body ''cliffSeconds'')) of
              (Some s, Some r, Some a, Some amt, Some dur, Some st, Some cl) \<Rightarrow>
                if s = r \<or> (case st of None \<Rightarrow> False | Some x \<Rightarrow> \<not> start_at_ok now x) then None
                else Some \<lparr> in_sender = s, in_recipient = r, in_assetCode = a, in_totalAmount = amt,
                            in_durationSeconds = dur, in_startAt = st, in_cliffSeconds = cl \<rparr>
            | _ \<Rightarrow> None))"

definition createStreamPayloadWithAllowedAssetsSchema ::
  "string list \<Rightarrow> (string \<Rightarrow> bool) \<Rightarrow> int \<Rightarrow> json \<Rightarrow> StreamInput option" where
  "createStreamPayloadWithAllowedAssetsSchema allowedAssets valid now body =
     keep_if (\<lambda>p. in_assetCode p \<in> set (map (\<lambda>a. toUpperCase (trim a)) allowedAssets))
       (createStreamPayloadSchema valid now body)"

definition updateStreamStartAtSchema :: "int \<Rightarrow> json \<Rightarrow> int option" where
  "updateStreamStartAtSchema now body =
     (if is_object body then keep_if (start_at_ok now) (unixTimestampSchema (obj_field body ''startAt'')) else None)"

fun as_array :: "json option \<Rightarrow> json list option" where
  "as_array (Some (JArr xs)) = Some xs"
| "as_array _ = None"

definition bulkCancelStreamsSchema :: "(string \<Rightarrow> bool) \<Rightarrow> json \<Rightarrow> (string list \<times> string) option" where
  "bulkCancelStreamsSchema valid body =
     (case (Option.bind (as_array (obj_field body ''streamIds'')) (\<lambda>xs. those (map (\<lambda>x. streamIdSchema (Some x)) xs)),
            stellarAccountIdSchema valid (obj_field body ''sender'')) of
        (Some ids, Some s) \<Rightarrow> if 1 \<le> length ids \<and> length ids \<le> 20 then Some (ids, s) else None
      | _ \<Rightarrow> None)"

definition claimableBatchBodySchema :: "json \<Rightarrow> string list option" where
  "claimableBatchBodySchema body =
     keep_if (\<lambda>ids. 1 \<le> length ids \<and> length ids \<le> 50)
       (Option.bind (as_array (obj_field body ''streamIds''))
          (\<lambda>xs. those (map (\<lambda>x. keep_if (\<lambda>s. s \<noteq> [] \<and> list_all is_digit s) (as_string (Some x))) xs)))"

section \<open>Queries\<close>

text \<open>A query is a map from parameter names to strings (or arrays of them).\<close>

type_synonym query = "string \<Rightarrow> json option"

definition VALID_EVENT_TYPES :: "string list" where
  "VALID_EVENT_TYPES = [''created'', ''claimed'', ''canceled'', ''start_time_updated'', ''paused'',
     ''resumed'', ''completed'']"

text \<open>The registration of a webhook. No route uses it; \<open>newURL\<close> is the parser of the platform.\<close>

record WebhookRegistration =
  wr_url :: string
  wr_events :: "string list"
  wr_secret :: "string option"

definition webhookRegistrationSchema :: "(string \<Rightarrow> ParsedUrl option) \<Rightarrow> json \<Rightarrow> WebhookRegistration option" where
  "webhookRegistrationSchema newURL body =
     (case (keep_if (\<lambda>u. validateWebhookUrl newURL u = ValidUrl) (as_string (obj_field body ''url'')),
            keep_if (\<lambda>es. 1 \<le> length es \<and> list_all (\<lambda>e. e \<in> set VALID_EVENT_TYPES) es)
              (Option.bind (as_array (obj_field body ''events'')) (\<lambda>xs. those (map (\<lambda>x. as_string (Some x)) xs))),
            optional (\<lambda>j. keep_if (\<lambda>s. 16 \<le> length s) (as_string j)) (obj_field body ''secret'')) of
        (Some u, Some es, Some secret) \<Rightarrow> Some \<lparr> wr_url = u, wr_events = es, wr_secret = secret \<rparr>
      | _ \<Rightarrow> None)"

text \<open>What is registered is posted to over TLS, to a host that is not blocked, and is told of something.\<close>

lemma registered_webhook:
  assumes "webhookRegistrationSchema newURL body = Some w"
  obtains p e where "newURL (wr_url w) = Some p" "protocol p = ''https:''" "\<not> isBlockedHostname (hostname p)"
    "e \<in> set (wr_events w)" "set (wr_events w) \<subseteq> set VALID_EVENT_TYPES"
proof -
  from assms have u: "validateWebhookUrl newURL (wr_url w) = ValidUrl"
    and e: "wr_events w \<noteq> []" "list_all (\<lambda>e. e \<in> set VALID_EVENT_TYPES) (wr_events w)"
    by (auto simp: webhookRegistrationSchema_def keep_if_def split: option.splits if_splits)
  show thesis
  proof (rule that)
    show "hd (wr_events w) \<in> set (wr_events w)" using e(1) by simp
    show "set (wr_events w) \<subseteq> set VALID_EVENT_TYPES" using e(2) by (auto simp: list_all_iff)
    from u show "newURL (wr_url w) = Some (the (newURL (wr_url w)))"
        "protocol (the (newURL (wr_url w))) = ''https:''" "\<not> isBlockedHostname (hostname (the (newURL (wr_url w))))"
      by (auto simp: validateWebhookUrl_def split: option.splits if_splits)
  qed
qed

record EventsQuery =
  eq_eventType :: "string option"
  eq_page :: "int option"
  eq_limit :: "int option"
  eq_pageSize :: "int option"
  eq_streamId :: "string option"
  eq_since :: "int option"
  eq_cursor :: "int option"

definition listEventsQuerySchema :: "query \<Rightarrow> EventsQuery option" where
  "listEventsQuerySchema q =
     (case (optional (\<lambda>j. keep_if (\<lambda>s. s \<in> set VALID_EVENT_TYPES) (as_string j)) (q ''eventType''),
            optional (\<lambda>j. keep_if (\<lambda>v. 1 \<le> v) (coerce_int j)) (q ''page''),
            optional (\<lambda>j. keep_if (\<lambda>v. 1 \<le> v \<and> v \<le> 100) (coerce_int j)) (q ''limit''),
            optional (\<lambda>j. keep_if (\<lambda>v. 1 \<le> v \<and> v \<le> 100) (coerce_int j)) (q ''pageSize''),
            optional (\<lambda>j. keep_if (\<lambda>s. 1 \<le> length s) (map_option trim (as_string j))) (q ''streamId''),
            optional (\<lambda>j. keep_if (\<lambda>v. 0 < v) (coerce_int j)) (q ''since''),
            optional coerce_int (q ''cursor'')) of
        (Some ty, Some pg, Some lm, Some ps, Some sid, Some since, Some cur) \<Rightarrow>
          Some \<lparr> eq_eventType = ty, eq_page = pg, eq_limit = lm, eq_pageSize = ps, eq_streamId = sid,
                 eq_since = since, eq_cursor = cur \<rparr>
      | _ \<Rightarrow> None)"

definition STREAM_STATUSES :: "string list" where
  "STREAM_STATUSES = [''scheduled'', ''active'', ''paused'', ''completed'', ''canceled'']"

fun status_name :: "StreamStatus \<Rightarrow> string" where
  "status_name Scheduled = ''scheduled''"
| "status_name Active = ''active''"
| "status_name Paused = ''paused''"
| "status_name Completed = ''completed''"
| "status_name Canceled = ''canceled''"

definition sort_field :: "string \<Rightarrow> SortField option" where
  "sort_field s = map_of [(''totalAmount'', ByTotalAmount), (''startAt'', ByStartAt),
     (''createdAt'', ByCreatedAt), (''durationSeconds'', ByDurationSeconds)] s"

definition sort_order :: "string \<Rightarrow> sortOrder option" where
  "sort_order s = map_of [(''asc'', Asc), (''desc'', Desc)] s"

record ListQuery =
  lq_status :: "string option"
  lq_recipient :: "string option"
  lq_sender :: "string option"
  lq_asset :: "string option"
  lq_assetCode :: "string list option"
  lq_q :: "string option"
  lq_minAmount :: "jsnum option"
  lq_maxAmount :: "jsnum option"
  lq_include_archived :: bool
  lq_page :: "int option"
  lq_limit :: "int option"
  lq_sort :: "string option"
  lq_order :: "string option"

definition asset_codes :: "string \<Rightarrow> string list option" where
  "asset_codes t = (if t = [] then None else Some (map (\<lambda>c. toUpperCase (trim c)) (split_on CHR '','' t)))"

definition trimmed :: "json option \<Rightarrow> string option" where
  "trimmed j = map_option trim (as_string j)"

definition amount_bound :: "json option \<Rightarrow> jsnum option" where
  "amount_bound j = keep_if (\<lambda>v. 0 \<le> v) (coerce_number j)"

definition listStreamsQuerySchema :: "query \<Rightarrow> ListQuery option" where
  "listStreamsQuerySchema q =
     (case (optional (\<lambda>j. keep_if (\<lambda>s. s \<in> set STREAM_STATUSES) (as_string j)) (q ''status''),
            optional trimmed (q ''recipient''), optional trimmed (q ''sender''), optional trimmed (q ''asset''),
            optional trimmed (q ''assetCode''), optional trimmed (q ''q'')) of
        (Some st, Some rc, Some sn, Some ass, Some codes, Some term) \<Rightarrow>
          (case (optional amount_bound (q ''minAmount''), optional amount_bound (q ''maxAmount''),
                 optional (\<lambda>j. keep_if (\<lambda>s. s \<in> {''true'', ''false''}) (as_string j)) (q ''include_archived''),
                 optional (\<lambda>j. keep_if (\<lambda>v. 1 \<le> v) (coerce_int j)) (q ''page''),
                 optional (\<lambda>j. keep_if (\<lambda>v. 1 \<le> v \<and> v \<le> 100) (coerce_int j)) (q ''limit''),
                 optional (\<lambda>j. keep_if (\<lambda>s. sort_field s \<noteq> None) (as_string j)) (q ''sort''),
                 optional (\<lambda>j. keep_if (\<lambda>s. sort_order s \<noteq> None) (as_string j)) (q ''order'')) of
             (Some mn, Some mx, Some arc, Some pg, Some lm, Some srt, Some ord) \<Rightarrow>
               Some \<lparr> lq_status = st, lq_recipient = rc, lq_sender = sn, lq_asset = ass,
                      lq_assetCode = Option.bind codes asset_codes, lq_q = term, lq_minAmount = mn,
                      lq_maxAmount = mx, lq_include_archived = (arc = Some ''true''), lq_page = pg,
                      lq_limit = lm, lq_sort = srt, lq_order = ord \<rparr>
           | _ \<Rightarrow> None)
      | _ \<Rightarrow> None)"

definition MIN_COMPARE_STREAMS :: nat where "MIN_COMPARE_STREAMS = 2"
definition MAX_COMPARE_STREAMS :: nat where "MAX_COMPARE_STREAMS = 5"

definition compareStreamsQuerySchema :: "query \<Rightarrow> string list option" where
  "compareStreamsQuerySchema q =
     (case keep_if (\<lambda>t. 1 \<le> length t) (trimmed (q ''ids'')) of
        None \<Rightarrow> None
      | Some t \<Rightarrow>
          keep_if (\<lambda>ids. MIN_COMPARE_STREAMS \<le> length ids \<and> length ids \<le> MAX_COMPARE_STREAMS)
            (Some (filter (\<lambda>s. s \<noteq> []) (map trim (split_on CHR '','' t)))))"

section \<open>Facts\<close>

lemma keep_if_Some [simp]: "keep_if P x = Some v \<longleftrightarrow> x = Some v \<and> P v"
  by (auto simp: keep_if_def split: option.splits)

text \<open>The check for at most seven decimals does not bound the decimals of an amount: below
  \<open>10^-6\<close> \<open>toString\<close> switches to exponent notation, so that 0.00000015 with its eight decimals
  passes, while 0.00000101 is refused.\<close>

theorem tiny_amounts_pass_decimal_check:
  "totalAmountSchema (Some (JStr ''0.00000015'')) = Some (fl (15 / 10 ^ 8)) \<and>
   totalAmountSchema (Some (JStr ''0.00000101'')) = None"
proof (intro conjI)
  show "totalAmountSchema (Some (JStr ''0.00000015'')) = Some (fl (15 / 10 ^ 8))" by code_simp
  show "totalAmountSchema (Some (JStr ''0.00000101'')) = None" by code_simp
qed

section \<open>Validated payloads\<close>


lemma optional_Some: "optional f j = Some (Some v) \<Longrightarrow> f j = Some v"
  by (auto simp: optional_def split: option.splits)

definition input_ok :: "string list \<Rightarrow> (string \<Rightarrow> bool) \<Rightarrow> int \<Rightarrow> StreamInput \<Rightarrow> bool" where
  "input_ok allowed valid now p =
     (valid (in_sender p) \<and> valid (in_recipient p) \<and> in_sender p \<noteq> in_recipient p \<and>
      in_assetCode p \<in> (toUpperCase \<circ> trim) ` set allowed \<and> 0 < in_totalAmount p \<and> 60 \<le> in_durationSeconds p \<and>
      (case in_startAt p of None \<Rightarrow> True | Some s \<Rightarrow> now + 10 \<le> s \<and> s \<le> now + 31536000) \<and>
      (case in_cliffSeconds p of None \<Rightarrow> True | Some c \<Rightarrow> 0 \<le> c))"

text \<open>A body that passes the validation of a new stream is a well-typed stream: two different valid
  accounts, an allowed asset, a positive amount, at least a minute of duration, a start at least ten
  seconds and at most a year ahead, and no negative cliff.\<close>

theorem validated_payload_typed:
  assumes "createStreamPayloadWithAllowedAssetsSchema allowed valid now body = Some p"
  shows "input_ok allowed valid now p"
proof -
  obtain s r a amt dur st cl where
    f: "stellarAccountIdSchema valid (obj_field body ''sender'') = Some s"
      "stellarAccountIdSchema valid (obj_field body ''recipient'') = Some r"
      "totalAmountSchema (obj_field body ''totalAmount'') = Some amt"
      "durationSecondsSchema (obj_field body ''durationSeconds'') = Some dur"
      "optional unixTimestampSchema (obj_field body ''startAt'') = Some st"
      "optional cliffSecondsSchema (obj_field body ''cliffSeconds'') = Some cl"
    and p: "p = \<lparr> in_sender = s, in_recipient = r, in_assetCode = a, in_totalAmount = amt,
        in_durationSeconds = dur, in_startAt = st, in_cliffSeconds = cl \<rparr>"
      "s \<noteq> r" "\<not> (case st of None \<Rightarrow> False | Some x \<Rightarrow> \<not> start_at_ok now x)"
      "a \<in> set (map (\<lambda>a. toUpperCase (trim a)) allowed)"
    using assms
    by (auto simp: createStreamPayloadWithAllowedAssetsSchema_def keep_if_Some createStreamPayloadSchema_def
        split: if_splits option.splits)
  have "0 \<le> c" if "cl = Some c" for c
    using f(6) that optional_Some [of cliffSecondsSchema _ c] by (auto simp: cliffSecondsSchema_def keep_if_Some)
  then show ?thesis
    using f(1-4) p
    by (auto simp: input_ok_def stellarAccountIdSchema_def totalAmountSchema_def durationSecondsSchema_def
        keep_if_Some start_at_ok_def split: option.splits)
qed

definition sample_body :: json where
  "sample_body = JObj [(''sender'', JStr '' GA ''), (''recipient'', JStr ''GB''), (''assetCode'', JStr ''usdc''),
     (''totalAmount'', JStr ''12.5''), (''durationSeconds'', JNum 3600), (''startAt'', JNum 1000)]"

theorem validated_payload_typed_witness:
  "\<exists>p. createStreamPayloadWithAllowedAssetsSchema [''usdc ''] (\<lambda>_. True) 900 sample_body = Some p \<and>
     input_ok [''usdc ''] (\<lambda>_. True) 900 p"
proof -
  have "createStreamPayloadWithAllowedAssetsSchema [''usdc ''] (\<lambda>_. True) 900 sample_body \<noteq> None"
    by code_simp
  then show ?thesis using validated_payload_typed by blast
qed

end
