(* ===== verification/ChainSync.thy ===== *)
theory ChainSync
  imports StreamStore
begin

text \<open>
  Reading streams from the chain (\<open>streamStore.ts\<close>: fetching one stream, the start-up sync, the
  reconciliation of one stream and of missing streams, batched claimable amounts) and the
  reconciliation job of \<open>reconciliationJob.ts\<close>. The chain is a parameter: what the simulation of
  each contract call answers. \<open>c1 id\<close> and \<open>c2 id\<close> are the clocks in milliseconds before and after
  the call for stream \<open>id\<close>.
\<close>

section \<open>What the chain answers\<close>

record ChainStream =
  cs_sender :: string
  cs_recipient :: string
  cs_token :: string
  cs_total_amount :: int
  cs_start_time :: int
  cs_end_time :: int
  cs_canceled :: bool
  cs_paused_at :: "int option"
  cs_paused_duration :: "int option"
  cs_cliff_seconds :: "int option"
  cs_metadata :: "(string \<times> string) list option"

text \<open>\<open>Inl\<close> is a failed RPC call, \<open>Inr None\<close> a simulation without a result.\<close>

type_synonym streamSource = "nat \<Rightarrow> jsError + ChainStream option"

section \<open>Fetching one stream\<close>

definition cache_key :: "nat \<Rightarrow> string" where
  "cache_key n = ''stream:'' @ nat_to_string n"

definition chain_record :: "nat \<Rightarrow> int \<Rightarrow> ChainStream \<Rightarrow> StreamRecord" where
  "chain_record n now cs =
     \<lparr> stream_id = nat_to_string n, sender = cs_sender cs, recipient = cs_recipient cs,
       assetCode = cs_token cs, totalAmount = fl (of_int (cs_total_amount cs)),
       durationSeconds = cs_end_time cs - cs_start_time cs, startAt = cs_start_time cs,
       createdAt = cs_start_time cs, canceledAt = (if cs_canceled cs then Some now else None),
       completedAt = None, refundedAmount = None,
       pausedAt = (case cs_paused_at cs of Some p \<Rightarrow> if p = 0 then None else Some p | None \<Rightarrow> None),
       pausedDuration = (case cs_paused_duration cs of Some p \<Rightarrow> p | None \<Rightarrow> 0),
       cliffSeconds = (case cs_cliff_seconds cs of Some c \<Rightarrow> c | None \<Rightarrow> 0),
       metadata = cs_metadata cs \<rparr>"

definition fetchOnChainStreamRecord ::
  "streamSource \<Rightarrow> (nat \<Rightarrow> int) \<Rightarrow> (nat \<Rightarrow> int) \<Rightarrow> nat \<Rightarrow> bool \<Rightarrow> App \<Rightarrow> (jsError + StreamRecord option) \<times> App" where
  "fetchOnChainStreamRecord src c1 c2 n bypassCache app =
     (let (cached, cache1) =
            (if bypassCache then (None, cache app) else cache_get (c1 n) (cache_key n) (cache app));
          app1 = app\<lparr>cache := cache1\<rparr>
      in case cached of
           Some (CachedRecord r) \<Rightarrow> (Inr (Some r), app1)
         | _ \<Rightarrow>
             (case src n of
                Inl err \<Rightarrow> (Inl err, app1)
              | Inr None \<Rightarrow> (Inr None, app1)
              | Inr (Some cs) \<Rightarrow>
                  (let r = chain_record n (c2 n div 1000) cs in
                   (Inr (Some r),
                    app1\<lparr>cache := cache_set (c2 n) (cache_key n) (CachedRecord r) 5 (cache app1)\<rparr>))))"

text \<open>Fetch and upsert, the body of both synchronisation passes.\<close>

definition sync_one ::
  "streamSource \<Rightarrow> (nat \<Rightarrow> int) \<Rightarrow> (nat \<Rightarrow> int) \<Rightarrow> nat \<Rightarrow> App \<Rightarrow> bool \<times> App" where
  "sync_one src c1 c2 n app =
     (case fetchOnChainStreamRecord src c1 c2 n False app of
        (Inl err, app1) \<Rightarrow> (False, app1)
      | (Inr None, app1) \<Rightarrow> (True, app1)
      | (Inr (Some r), app1) \<Rightarrow> (True, app1\<lparr>db := upsertStream r (db app1)\<rparr>))"

fun sync_pass ::
  "streamSource \<Rightarrow> (nat \<Rightarrow> int) \<Rightarrow> (nat \<Rightarrow> int) \<Rightarrow> nat list \<Rightarrow> App \<Rightarrow> bool \<times> App" where
  "sync_pass src c1 c2 [] app = (True, app)"
| "sync_pass src c1 c2 (n # ns) app =
     (let (ok, app1) = sync_one src c1 c2 n app;
          (oks, app2) = sync_pass src c1 c2 ns app1
      in (ok \<and> oks, app2))"

text \<open>\<open>Array.from({ length: nextId - 1 }, (_, i) => i + 1)\<close>.\<close>

definition ids_below :: "int \<Rightarrow> nat list" where
  "ids_below nextId = [1..<nat nextId]"

text \<open>
  \<open>order\<close> is the order in which the concurrent tasks of the first pass end, a rearrangement of the
  identifiers. If one failed, a second pass goes through them one by one, with the answers \<open>src2\<close> of
  that time. Every error is caught.
\<close>

definition syncStreams ::
  "Config \<Rightarrow> jsError option \<Rightarrow> (jsError + int option) \<Rightarrow> streamSource \<Rightarrow> streamSource \<Rightarrow>
   (nat \<Rightarrow> int) \<Rightarrow> (nat \<Rightarrow> int) \<Rightarrow> (nat list \<Rightarrow> nat list) \<Rightarrow> App \<Rightarrow> App" where
  "syncStreams cfg account nextId src src2 c1 c2 order app =
     (if \<not> has_soroban_context cfg then app
      else (case (account, nextId) of
              (None, Inr (Some nid)) \<Rightarrow>
                (let ids = ids_below nid;
                     (ok, app1) = sync_pass src c1 c2 (order ids) app
                 in if ok then app1 else snd (sync_pass src2 c1 c2 ids app1))
            | _ \<Rightarrow> app))"

section \<open>Reconciling\<close>

text \<open>\<open>Number(streamId)\<close>: the route passes only validated positive decimal identifiers.\<close>

definition stream_number :: "string \<Rightarrow> nat option" where
  "stream_number s = (if s \<noteq> [] \<and> list_all is_digit s then Some (digits_val s) else None)"

definition reconcileStream ::
  "Config \<Rightarrow> jsError option \<Rightarrow> streamSource \<Rightarrow> (nat \<Rightarrow> int) \<Rightarrow> (nat \<Rightarrow> int) \<Rightarrow> string \<Rightarrow> App \<Rightarrow>
   (jsError + StreamRecord) \<times> App" where
  "reconcileStream cfg account src c1 c2 sid app =
     (if \<not> has_soroban_context cfg then (Inl (plain_error ''Soroban not configured''), app)
      else (case stream_number sid of
              None \<Rightarrow> (Inl (plain_error ''Invalid stream ID''), app)
            | Some n \<Rightarrow>
                if n = 0 then (Inl (plain_error ''Invalid stream ID''), app)
                else (case account of
                        Some err \<Rightarrow> (Inl err, app)
                      | None \<Rightarrow>
                          (case fetchOnChainStreamRecord src c1 c2 n True app of
                             (Inl err, app1) \<Rightarrow> (Inl err, app1)
                           | (Inr None, app1) \<Rightarrow> (Inl (plain_error ''Stream not found on-chain''), app1)
                           | (Inr (Some r), app1) \<Rightarrow>
                               (Inr r, app1\<lparr>db := upsertStream r (db app1)\<rparr>)))))"

definition backfill_meta :: "StreamRecord \<Rightarrow> json" where
  "backfill_meta s = JObj [(''recipient'', JStr (recipient s)), (''assetCode'', JStr (assetCode s)),
     (''durationSeconds'', JNum (of_int (durationSeconds s))), (''source'', JStr ''reconciliation'')]"

definition recordBackfilledCreatedEvent :: "StreamRecord \<Rightarrow> Db \<Rightarrow> dbError + Db" where
  "recordBackfilledCreatedEvent s d =
     (if streamHasEvent (stream_id s) ''created'' d then Inr d
      else recordEventWithDb (stream_id s) ''created'' (createdAt s) (Some (sender s))
             (Some (totalAmount s)) (Some (backfill_meta s)) None d)"

definition missing_ids :: "int \<Rightarrow> Db \<Rightarrow> nat list" where
  "missing_ids nextId d =
     filter (\<lambda>n. nat_to_string n \<notin> set (listLocalStreamIds d)) (ids_below nextId)"

fun repair ::
  "streamSource \<Rightarrow> (nat \<Rightarrow> int) \<Rightarrow> (nat \<Rightarrow> int) \<Rightarrow> nat list \<Rightarrow> App \<Rightarrow> nat \<times> App" where
  "repair src c1 c2 [] app = (0, app)"
| "repair src c1 c2 (n # ns) app =
     (case fetchOnChainStreamRecord src c1 c2 n False app of
        (Inr (Some r), app1) \<Rightarrow>
          (let d1 = upsertStream r (db app1) in
           case recordBackfilledCreatedEvent r d1 of
             Inl err \<Rightarrow> repair src c1 c2 ns (app1\<lparr>db := d1\<rparr>)
           | Inr d2 \<Rightarrow> (let (k, app2) = repair src c1 c2 ns (app1\<lparr>db := d2\<rparr>) in (Suc k, app2)))
      | (_, app1) \<Rightarrow> repair src c1 c2 ns app1)"

definition reconcileMissingStreams ::
  "Config \<Rightarrow> jsError option \<Rightarrow> (jsError + int option) \<Rightarrow> streamSource \<Rightarrow> (nat \<Rightarrow> int) \<Rightarrow> (nat \<Rightarrow> int) \<Rightarrow>
   App \<Rightarrow> nat \<times> App" where
  "reconcileMissingStreams cfg account nextId src c1 c2 app =
     (if \<not> has_soroban_context cfg then (0, app)
      else (case (account, nextId) of
              (None, Inr (Some nid)) \<Rightarrow>
                if nid \<le> 1 then (0, app) else repair src c1 c2 (missing_ids nid (db app)) app
            | _ \<Rightarrow> (0, app)))"

text \<open>The job: whether the counts disagree, which it logs, after a reconciliation.\<close>

definition checkStreamCountDiscrepancy :: "int option \<Rightarrow> Db \<Rightarrow> bool" where
  "checkStreamCountDiscrepancy onChainCount d =
     (case onChainCount of None \<Rightarrow> False | Some c \<Rightarrow> c \<noteq> int (length (streams d)))"

definition runReconciliationCycle ::
  "Config \<Rightarrow> jsError option \<Rightarrow> (jsError + int option) \<Rightarrow> streamSource \<Rightarrow> (nat \<Rightarrow> int) \<Rightarrow> (nat \<Rightarrow> int) \<Rightarrow>
   int option \<Rightarrow> App \<Rightarrow> bool \<times> App" where
  "runReconciliationCycle cfg account nextId src c1 c2 onChainCount app =
     (let app1 = snd (reconcileMissingStreams cfg account nextId src c1 c2 app)
      in (checkStreamCountDiscrepancy onChainCount (db app1), app1))"

section \<open>Claimable amounts in batches\<close>

definition MAX_CLAIMABLE_BATCH_SIZE :: nat where "MAX_CLAIMABLE_BATCH_SIZE = 50"

text \<open>The chunking loop: slices of the given size from index \<open>i\<close> on.\<close>

function chunks_from :: "nat \<Rightarrow> 'a list \<Rightarrow> nat \<Rightarrow> 'a list list" where
  "chunks_from n xs i =
     (if n = 0 \<or> i \<ge> length xs then [] else slice i n xs # chunks_from n xs (i + n))"
  by pat_completeness auto
termination by (relation "measure (\<lambda>(n, xs, i). length xs - i)") auto

declare chunks_from.simps [simp del]

type_synonym amounts = "string \<Rightarrow> jsnum option"

text \<open>
  One chunk: the contract answers a map from identifiers to amounts; \<open>Inr None\<close> is a simulation
  without a result. Keys are rendered as decimal strings.
\<close>

definition getOnChainClaimableBatchChunk ::
  "(nat list \<Rightarrow> int \<Rightarrow> jsError + (nat \<times> int) list option) \<Rightarrow> int \<Rightarrow> string list \<Rightarrow> jsError + (string \<times> jsnum) list" where
  "getOnChainClaimableBatchChunk sim t ids =
     (if ids = [] then Inr []
      else (case sim (map digits_val ids) t of
              Inl err \<Rightarrow> Inl err
            | Inr None \<Rightarrow> Inl (plain_error ''Simulation failed: '')
            | Inr (Some m) \<Rightarrow> Inr (map (\<lambda>(k, v). (nat_to_string k, fl (of_int v))) m)))"

fun assign_all :: "(string \<times> jsnum) list \<Rightarrow> amounts \<Rightarrow> amounts" where
  "assign_all [] m = m"
| "assign_all ((k, v) # kvs) m = assign_all kvs (m(k \<mapsto> v))"

text \<open>The chunks' results merged in the order in which the calls end; any failure is thrown.\<close>

fun merge_chunks :: "(jsError + (string \<times> jsnum) list) list \<Rightarrow> amounts \<Rightarrow> jsError + amounts" where
  "merge_chunks [] m = Inr m"
| "merge_chunks (Inl err # rs) m = Inl err"
| "merge_chunks (Inr kvs # rs) m = merge_chunks rs (assign_all kvs m)"

definition getOnChainClaimableBatch ::
  "Config \<Rightarrow> jsError option \<Rightarrow> (jsError + int option) \<Rightarrow> (nat list \<Rightarrow> int \<Rightarrow> jsError + (nat \<times> int) list option) \<Rightarrow>
   (string list list \<Rightarrow> string list list) \<Rightarrow> int \<Rightarrow> string list \<Rightarrow> jsError + (amounts \<times> int)" where
  "getOnChainClaimableBatch cfg account latestLedger sim order nowSec ids =
     (let ledgerTime = (\<lambda>r. case r of Some ts \<Rightarrow> ts | None \<Rightarrow> nowSec) in
      if ids = []
      then Inr (Map.empty, (if cfg_rpcServer cfg
                            then (case latestLedger of Inl err \<Rightarrow> nowSec | Inr r \<Rightarrow> ledgerTime r)
                            else nowSec))
      else if \<not> has_soroban_context cfg
      then Inl (plain_error ''Soroban RPC server is not initialized.'')
      else (case account of Some err \<Rightarrow> Inl err | None \<Rightarrow>
           (case latestLedger of Inl err \<Rightarrow> Inl err | Inr r \<Rightarrow>
             (let t = ledgerTime r in
              case merge_chunks (map (getOnChainClaimableBatchChunk sim t)
                     (order (chunks_from MAX_CLAIMABLE_BATCH_SIZE ids 0))) Map.empty of
                Inl err \<Rightarrow> Inl err
              | Inr m \<Rightarrow> Inr (m, t)))))"

section \<open>Facts\<close>

lemma fetch_db: "db (snd (fetchOnChainStreamRecord src c1 c2 n by app)) = db app"
  by (auto simp: fetchOnChainStreamRecord_def Let_def
      split: prod.splits option.splits cacheValue.splits sum.splits)

lemma chain_record_id [simp]: "stream_id (chain_record n t cs) = nat_to_string n"
  by (simp add: chain_record_def)

lemma cache_key_inject [simp]: "cache_key m = cache_key n \<longleftrightarrow> m = n"
  by (simp add: cache_key_def)

lemma db_ok_upsertStream [inv_intros]: "db_ok d \<Longrightarrow> db_ok (upsertStream s d)"
  by (simp add: upsertStream_def db_ok_upsert)

lemma db_ok_sync_one: "db_ok (db app) \<Longrightarrow> sync_one src c1 c2 n app = (ok, app') \<Longrightarrow> db_ok (db app')"
  using fetch_db [of src c1 c2 n False app]
  by (auto simp: sync_one_def db_ok_upsertStream split: prod.splits sum.splits option.splits)

lemma db_ok_sync_pass: "db_ok (db app) \<Longrightarrow> db_ok (db (snd (sync_pass src c1 c2 ns app)))"
  by (induction ns arbitrary: app) (auto dest: db_ok_sync_one split: prod.splits, metis db_ok_sync_one snd_conv)

lemma db_ok_syncStreams [inv_intros]:
  "db_ok (db app) \<Longrightarrow> db_ok (db (syncStreams cfg acc nid src src2 c1 c2 ord app))"
  using db_ok_sync_pass
  by (auto simp: syncStreams_def Let_def split: prod.splits option.splits sum.splits) (metis snd_conv)+

lemma db_ok_reconcileStream [inv_intros]:
  assumes "db_ok (db app)" "reconcileStream cfg acc src c1 c2 sid app = (r, app')"
  shows "db_ok (db app')"
proof -
  have f: "db app1 = db app" if "fetchOnChainStreamRecord src c1 c2 n True app = (x, app1)" for n x app1
    using fetch_db [of src c1 c2 n True app] that by simp
  show ?thesis
    using assms
    by (auto simp: reconcileStream_def db_ok_upsertStream dest!: f
        split: if_splits prod.splits sum.splits option.splits)
qed

lemma backfill_ok: "\<exists>d'. recordBackfilledCreatedEvent r (upsertStream r d) = Inr d' \<and>
    streams d' = streams (upsertStream r d) \<and> streamHasEvent (stream_id r) ''created'' d' \<and>
    (\<forall>s t. streamHasEvent s t d \<longrightarrow> streamHasEvent s t d') \<and> (db_ok d \<longrightarrow> db_ok d')"
proof (cases "streamHasEvent (stream_id r) ''created'' (upsertStream r d)")
  case True
  then show ?thesis
    by (auto simp: recordBackfilledCreatedEvent_def db_ok_upsertStream)
       (simp add: streamHasEvent_def)
next
  case False
  then show ?thesis
    using recordEvent_local [of "stream_id r" "upsertStream r d"] db_ok_saved_db [of d r]
    by (auto simp: recordBackfilledCreatedEvent_def streamHasEvent_def stream_events_push)
qed

text \<open>Repairing one identifier whose record is not cached.\<close>

lemma repair_step:
  assumes "src n = Inr (Some cs)" "lookup_by fst (cache_key n) (cache app) = None"
  shows "\<exists>app1. repair src c1 c2 (n # ns) app = (let (k, app2) = repair src c1 c2 ns app1 in (Suc k, app2)) \<and>
    streams (db app1) = streams (upsertStream (chain_record n (c2 n div 1000) cs) (db app)) \<and>
    streamHasEvent (nat_to_string n) ''created'' (db app1) \<and>
    (\<forall>s t. streamHasEvent s t (db app) \<longrightarrow> streamHasEvent s t (db app1)) \<and>
    (\<forall>m. m \<noteq> n \<longrightarrow> lookup_by fst (cache_key m) (cache app1) = lookup_by fst (cache_key m) (cache app))"
proof -
  let ?r = "chain_record n (c2 n div 1000) cs"
  define app0 where "app0 = app\<lparr>cache := cache_set (c2 n) (cache_key n) (CachedRecord ?r) 5 (cache app)\<rparr>"
  have f: "fetchOnChainStreamRecord src c1 c2 n False app = (Inr (Some ?r), app0)"
    using assms by (simp add: fetchOnChainStreamRecord_def cache_get_def app0_def Let_def)
  obtain d' where d': "recordBackfilledCreatedEvent ?r (upsertStream ?r (db app)) = Inr d'"
    "streams d' = streams (upsertStream ?r (db app))" "streamHasEvent (stream_id ?r) ''created'' d'"
    "\<forall>s t. streamHasEvent s t (db app) \<longrightarrow> streamHasEvent s t d'"
    using backfill_ok by blast
  have "db app0 = db app" by (simp add: app0_def)
  with f d' show ?thesis
    by (intro exI [of _ "app0\<lparr>db := d'\<rparr>"])
       (simp add: Let_def app0_def cache_set_def lookup_by_upsert)
qed

lemma repair_all:
  assumes "\<forall>n \<in> set ns. \<exists>cs. src n = Inr (Some cs)"
    "\<forall>n \<in> set ns. lookup_by fst (cache_key n) (cache app) = None" "distinct ns"
  shows "\<exists>app'. repair src c1 c2 ns app = (length ns, app') \<and>
    (\<forall>n \<in> set ns. stream_exists (nat_to_string n) (db app') \<and>
       streamHasEvent (nat_to_string n) ''created'' (db app')) \<and>
    (\<forall>k. k \<notin> nat_to_string ` set ns \<longrightarrow> find_stream k (db app') = find_stream k (db app)) \<and>
    (\<forall>s t. streamHasEvent s t (db app) \<longrightarrow> streamHasEvent s t (db app')) \<and>
    (\<forall>k. stream_exists k (db app) \<longrightarrow> stream_exists k (db app'))"
  using assms
proof (induction ns arbitrary: app)
  case (Cons n ns)
  then obtain cs where "src n = Inr (Some cs)" by auto
  from repair_step [of src n cs app c1 c2 ns] this Cons.prems(2) obtain app1 where r:
    "repair src c1 c2 (n # ns) app = (let (k, app2) = repair src c1 c2 ns app1 in (Suc k, app2))"
    "streams (db app1) = streams (upsertStream (chain_record n (c2 n div 1000) cs) (db app))"
    "streamHasEvent (nat_to_string n) ''created'' (db app1)"
    "\<forall>s t. streamHasEvent s t (db app) \<longrightarrow> streamHasEvent s t (db app1)"
    "\<forall>m. m \<noteq> n \<longrightarrow> lookup_by fst (cache_key m) (cache app1) = lookup_by fst (cache_key m) (cache app)"
    by auto
  have find1: "find_stream k (db app1) = find_stream k (upsertStream (chain_record n (c2 n div 1000) cs) (db app))"
    "stream_exists k (db app1) = stream_exists k (upsertStream (chain_record n (c2 n div 1000) cs) (db app))" for k
    using r(2) by (simp_all add: find_stream_def stream_exists_def)
  have c: "\<forall>m \<in> set ns. lookup_by fst (cache_key m) (cache app1) = None"
    using Cons.prems r(5) by auto
  have h: "\<forall>n \<in> set ns. \<exists>cs. src n = Inr (Some cs)" "distinct ns" using Cons.prems by auto
  from Cons.IH [OF h(1) c h(2)] obtain app' where a: "repair src c1 c2 ns app1 = (length ns, app')"
    "\<forall>n \<in> set ns. stream_exists (nat_to_string n) (db app') \<and> streamHasEvent (nat_to_string n) ''created'' (db app')"
    "\<forall>k. k \<notin> nat_to_string ` set ns \<longrightarrow> find_stream k (db app') = find_stream k (db app1)"
    "\<forall>s t. streamHasEvent s t (db app1) \<longrightarrow> streamHasEvent s t (db app')"
    "\<forall>k. stream_exists k (db app1) \<longrightarrow> stream_exists k (db app')"
    by blast
  show ?case
    using a r(1,3,4) find1 by (intro exI [of _ app']) (auto simp: find_upsertStream)
qed simp

lemma missing_ids_mem:
  "n \<in> set (missing_ids nid d) \<longleftrightarrow> 1 \<le> n \<and> int n < nid \<and> \<not> stream_exists (nat_to_string n) d"
  by (auto simp: missing_ids_def ids_below_def listLocalStreamIds_def stream_exists_iff)

lemma db_ok_repair:
  "db_ok (db app) \<Longrightarrow> db_ok (db (snd (repair src c1 c2 ns app)))"
proof (induction ns arbitrary: app)
  case (Cons n ns)
  obtain res app1 where f: "fetchOnChainStreamRecord src c1 c2 n False app = (res, app1)" by fastforce
  have d: "db app1 = db app" using fetch_db [of src c1 c2 n False app] f by simp
  show ?case
  proof (cases "\<exists>r. res = Inr (Some r)")
    case True
    then obtain r where r: "res = Inr (Some r)" by blast
    obtain d' where d': "recordBackfilledCreatedEvent r (upsertStream r (db app)) = Inr d'" "db_ok d'"
      using backfill_ok [of r "db app"] Cons.prems by blast
    then show ?thesis using Cons.IH [of "app1\<lparr>db := d'\<rparr>"] by (simp add: f r d Let_def case_prod_beta)
  next
    case False
    then have "repair src c1 c2 (n # ns) app = repair src c1 c2 ns app1"
      by (auto simp: f split: sum.splits option.splits)
    then show ?thesis using Cons d by simp
  qed
qed simp

lemma db_ok_reconcileMissing [inv_intros]:
  "db_ok (db app) \<Longrightarrow> db_ok (db (snd (reconcileMissingStreams cfg acc nid src c1 c2 app)))"
  by (auto simp: reconcileMissingStreams_def db_ok_repair split: option.splits sum.splits)

lemma concat_chunks:
  "0 < n \<Longrightarrow> concat (chunks_from n xs i) = drop i xs \<and>
   (\<forall>c \<in> set (chunks_from n xs i). c \<noteq> [] \<and> length c \<le> n)"
proof (induction n xs i rule: chunks_from.induct)
  case (1 n xs i)
  show ?case
  proof (cases "length xs \<le> i")
    case True
    with "1.prems" show ?thesis by (simp add: chunks_from.simps [of n xs i])
  next
    case False
    have "slice i n xs @ drop (i + n) xs = drop i xs"
      by (metis add.commute append_take_drop_id drop_drop slice_def)
    then show ?thesis
      using 1 False by (simp add: chunks_from.simps [of n xs i]) (auto simp: slice_def)
  qed
qed

section \<open>Properties\<close>

text \<open>C30: Reconciliation repairs exactly the streams that are missing locally below the chain's counter:
  it reports how many, afterwards none is missing, each repaired stream has a created event, every
  stream that was there is untouched, and a second run finds nothing to do.\<close>

theorem reconcile_repairs_missing:
  assumes ctx: "has_soroban_context cfg"
    and chain: "\<forall>n \<in> set (missing_ids nid (db app)). \<exists>cs. src n = Inr (Some cs)"
    and cold: "\<forall>n \<in> set (missing_ids nid (db app)). lookup_by fst (cache_key n) (cache app) = None"
  shows "\<exists>app'. reconcileMissingStreams cfg None (Inr (Some nid)) src c1 c2 app =
      (length (missing_ids nid (db app)), app') \<and>
    missing_ids nid (db app') = [] \<and>
    (\<forall>n \<in> set (missing_ids nid (db app)). streamHasEvent (nat_to_string n) ''created'' (db app')) \<and>
    (\<forall>k. stream_exists k (db app) \<longrightarrow> find_stream k (db app') = find_stream k (db app)) \<and>
    reconcileMissingStreams cfg None (Inr (Some nid)) src' c1' c2' app' = (0, app')"
proof -
  let ?ns = "missing_ids nid (db app)"
  have dist: "distinct ?ns" by (simp add: missing_ids_def ids_below_def)
  have run: "reconcileMissingStreams cfg None (Inr (Some nid)) src c1 c2 app = repair src c1 c2 ?ns app"
    using ctx by (auto simp: reconcileMissingStreams_def missing_ids_def ids_below_def)
  from repair_all [OF chain cold dist] obtain app' where a: "repair src c1 c2 ?ns app = (length ?ns, app')"
    "\<forall>n \<in> set ?ns. stream_exists (nat_to_string n) (db app') \<and> streamHasEvent (nat_to_string n) ''created'' (db app')"
    "\<forall>k. k \<notin> nat_to_string ` set ?ns \<longrightarrow> find_stream k (db app') = find_stream k (db app)"
    "\<forall>k. stream_exists k (db app) \<longrightarrow> stream_exists k (db app')"
    by blast
  have none: "missing_ids nid (db app') = []"
  proof (rule ccontr)
    assume "missing_ids nid (db app') \<noteq> []"
    then obtain n where "n \<in> set (missing_ids nid (db app'))" by (meson list.set_sel(1))
    then have n: "1 \<le> n" "int n < nid" "\<not> stream_exists (nat_to_string n) (db app')"
      by (auto simp: missing_ids_mem)
    with a(4) have "n \<in> set ?ns" by (auto simp: missing_ids_mem)
    with a(2) n show False by blast
  qed
  have again: "reconcileMissingStreams cfg None (Inr (Some nid)) src' c1' c2' app' = (0, app')"
    using ctx by (simp add: reconcileMissingStreams_def none)
  have kept: "\<forall>k. stream_exists k (db app) \<longrightarrow> find_stream k (db app') = find_stream k (db app)"
  proof (intro allI impI)
    fix k assume "stream_exists k (db app)"
    then have "k \<notin> nat_to_string ` set ?ns" by (auto simp: missing_ids_mem)
    with a(3) show "find_stream k (db app') = find_stream k (db app)" by blast
  qed
  have events: "\<forall>n \<in> set ?ns. streamHasEvent (nat_to_string n) ''created'' (db app')"
    using a(2) by blast
  show ?thesis
    by (intro exI [of _ app'] conjI) (fact run [unfolded a(1)] none events kept again)+
qed

definition online :: Config where
  "online = \<lparr> cfg_env = (\<lambda>k. if k = ''CONTRACT_ID'' then Some ''CCONTRACT'' else None),
     cfg_newURL = (\<lambda>_. None), cfg_rpcServer = True, cfg_serverKeypair = True \<rparr>"

definition sample_chain :: "nat \<Rightarrow> ChainStream" where
  "sample_chain n = \<lparr> cs_sender = ''GS'', cs_recipient = ''GR'', cs_token = ''CTOKEN'',
     cs_total_amount = 100, cs_start_time = 10, cs_end_time = 110, cs_canceled = False,
     cs_paused_at = None, cs_paused_duration = None, cs_cliff_seconds = None, cs_metadata = None \<rparr>"

lemma reconcile_repairs_missing_witness:
  "fst (reconcileMissingStreams online None (Inr (Some 4)) (\<lambda>n. Inr (Some (sample_chain n)))
     (\<lambda>_. 0) (\<lambda>_. 0) empty_app) = 3"
proof -
  have m: "missing_ids 4 (db empty_app) = [1, 2, 3]" by code_simp
  have ctx: "has_soroban_context online" by code_simp
  have cold: "\<forall>n \<in> set (missing_ids 4 (db empty_app)). lookup_by fst (cache_key n) (cache empty_app) = None"
    by (simp add: empty_app_def lookup_by_def)
  have chain: "\<forall>n \<in> set (missing_ids 4 (db empty_app)). \<exists>cs. Inr (Some (sample_chain n)) = Inr (Some cs)"
    by simp
  have len: "length (missing_ids 4 (db empty_app)) = 3" by (simp add: m)
  obtain app' where "reconcileMissingStreams online None (Inr (Some 4))
      (\<lambda>n. Inr (Some (sample_chain n))) (\<lambda>_. 0) (\<lambda>_. 0) empty_app = (3, app')"
    using reconcile_repairs_missing [OF ctx chain cold, of "\<lambda>_. 0" "\<lambda>_. 0" "\<lambda>_. Inr None"
        "\<lambda>_. 0" "\<lambda>_. 0", unfolded len] by blast
  then show ?thesis by simp
qed

lemma fetch_cong:
  assumes "src' m = src m"
  shows "fetchOnChainStreamRecord src' c1 c2 m bp app = fetchOnChainStreamRecord src c1 c2 m bp app"
  unfolding fetchOnChainStreamRecord_def assms ..

lemma sync_pass_cong:
  assumes "\<forall>m \<in> set ns. src' m = src m"
  shows "sync_pass src' c1 c2 ns app = sync_pass src c1 c2 ns app"
  using assms
proof (induction ns arbitrary: app)
  case (Cons m ns)
  have f: "fetchOnChainStreamRecord src' c1 c2 m False app = fetchOnChainStreamRecord src c1 c2 m False app"
    using Cons.prems by (intro fetch_cong) simp
  have "sync_one src' c1 c2 m app = sync_one src c1 c2 m app"
    unfolding sync_one_def f ..
  moreover have "sync_pass src' c1 c2 ns x = sync_pass src c1 c2 ns x" for x
    using Cons.prems by (intro Cons.IH) simp
  ultimately show ?case by (simp only: sync_pass.simps)
qed (simp only: sync_pass.simps)

lemma repair_cong:
  assumes "\<forall>m \<in> set ns. src' m = src m"
  shows "repair src' c1 c2 ns app = repair src c1 c2 ns app"
  using assms
proof (induction ns arbitrary: app)
  case (Cons m ns)
  have f: "fetchOnChainStreamRecord src' c1 c2 m False app = fetchOnChainStreamRecord src c1 c2 m False app"
    using Cons.prems by (intro fetch_cong) simp
  have "repair src' c1 c2 ns x = repair src c1 c2 ns x" for x
    using Cons.prems by (intro Cons.IH) simp
  then show ?case unfolding repair.simps f by presburger
qed (simp only: repair.simps)

text \<open>The answer of the chain for an identifier at or above the reported counter has no influence:
  neither the start-up sync nor the reconciliation asks for it. With a contract that reports the last
  identifier in use, the newest stream is therefore never fetched.\<close>

theorem newest_stream_never_fetched:
  assumes "\<forall>m. int m < nid \<longrightarrow> src' m = src m \<and> src2' m = src2 m"
    and "set (order (ids_below nid)) = set (ids_below nid)"
  shows "syncStreams cfg acc (Inr (Some nid)) src' src2' c1 c2 order app =
      syncStreams cfg acc (Inr (Some nid)) src src2 c1 c2 order app \<and>
    reconcileMissingStreams cfg acc (Inr (Some nid)) src' c1 c2 app =
      reconcileMissingStreams cfg acc (Inr (Some nid)) src c1 c2 app"
proof -
  have "\<forall>m \<in> set (ids_below nid). src' m = src m \<and> src2' m = src2 m"
    using assms(1) by (auto simp: ids_below_def)
  moreover have "\<forall>m \<in> set (missing_ids nid (db app)). src' m = src m"
    using assms(1) by (auto simp: missing_ids_mem)
  ultimately have "sync_pass src' c1 c2 (order (ids_below nid)) x = sync_pass src c1 c2 (order (ids_below nid)) x"
    "sync_pass src2' c1 c2 (ids_below nid) x = sync_pass src2 c1 c2 (ids_below nid) x"
    "repair src' c1 c2 (missing_ids nid (db app)) app = repair src c1 c2 (missing_ids nid (db app)) app" for x
    using assms(2) by (auto intro!: sync_pass_cong repair_cong)
  then show ?thesis
    by (simp add: syncStreams_def reconcileMissingStreams_def Let_def case_prod_beta split: option.split)
qed

lemma newest_stream_never_fetched_witness:
  "syncStreams online None (Inr (Some 3)) (\<lambda>n. if n = 3 then Inr (Some (sample_chain 3)) else Inr None)
     (\<lambda>n. if n = 3 then Inr (Some (sample_chain 3)) else Inr None) (\<lambda>_. 0) (\<lambda>_. 0) id empty_app =
   syncStreams online None (Inr (Some 3)) (\<lambda>n. Inr None) (\<lambda>n. Inr None) (\<lambda>_. 0) (\<lambda>_. 0) id empty_app"
  by (rule conjunct1 [OF newest_stream_never_fetched]) simp_all

lemma assign_all_eq:
  "assign_all (map (\<lambda>n. (nat_to_string n, g n)) ns) m =
     (\<lambda>k. if k \<in> nat_to_string ` set ns then Some (g (digits_val k)) else m k)"
  by (induction ns arbitrary: m) (auto simp: fun_eq_iff)

lemma merge_chunks_eq:
  "merge_chunks (map (\<lambda>ns. Inr (map (\<lambda>n. (nat_to_string n, g n)) ns)) css) m =
     Inr (\<lambda>k. if k \<in> nat_to_string ` set (concat css) then Some (g (digits_val k)) else m k)"
  by (induction css arbitrary: m) (auto simp: assign_all_eq fun_eq_iff)

lemma chunks_map: "chunks_from n (map f xs) i = map (map f) (chunks_from n xs i)"
proof (induction n xs i rule: chunks_from.induct)
  case (1 n xs i)
  then show ?case
    by (subst (1 2) chunks_from.simps) (auto simp: slice_def take_map drop_map)
qed

text \<open>A batched query of claimable amounts is the same as asking stream by stream: with a contract
  that answers each identifier on its own, whatever the number of identifiers and the order in which
  the chunk calls end, the merged result maps exactly the requested identifiers, each to its amount.\<close>

theorem claimable_batch_pointwise:
  assumes conf: "has_soroban_context cfg" and ids: "ns \<noteq> []"
    and contract: "\<forall>ms t. ms \<noteq> [] \<longrightarrow> sim ms t = Inr (Some (map (\<lambda>n. (n, amount_of n t)) ms))"
    and order: "\<forall>xss. mset (order xss) = mset xss"
  shows "getOnChainClaimableBatch cfg None (Inr (Some t)) sim order now (map nat_to_string ns) =
    Inr (\<lambda>k. if k \<in> nat_to_string ` set ns then Some (fl (of_int (amount_of (digits_val k) t))) else None, t)"
proof -
  define css where "css = chunks_from MAX_CLAIMABLE_BATCH_SIZE (map nat_to_string ns) 0"
  define g where "g n = fl (of_int (amount_of n t))" for n
  have ch: "concat css = map nat_to_string ns" "\<forall>c \<in> set css. c \<noteq> []"
    using concat_chunks [of MAX_CLAIMABLE_BATCH_SIZE "map nat_to_string ns" 0]
    by (auto simp: css_def MAX_CLAIMABLE_BATCH_SIZE_def)
  have perm: "set (order css) = set css" using order by (metis set_mset_mset)
  have can: "\<forall>c \<in> set (order css). \<forall>k \<in> set c. nat_to_string (digits_val k) = k"
  proof (intro ballI)
    fix c k assume "c \<in> set (order css)" "k \<in> set c"
    then have "k \<in> set (concat css)" using perm by auto
    then show "nat_to_string (digits_val k) = k" by (auto simp: ch(1))
  qed
  have "getOnChainClaimableBatchChunk sim t c = Inr (map (\<lambda>n. (nat_to_string n, g n)) (map digits_val c))"
    if "c \<in> set (order css)" for c
    using that ch(2) perm contract
    by (simp add: getOnChainClaimableBatchChunk_def g_def comp_def)
  then have "map (getOnChainClaimableBatchChunk sim t) (order css) =
      map (\<lambda>ns. Inr (map (\<lambda>n. (nat_to_string n, g n)) ns)) (map (map digits_val) (order css))"
    by simp
  moreover have "nat_to_string ` set (concat (map (map digits_val) (order css))) = nat_to_string ` set ns"
  proof -
    have "nat_to_string ` set (concat (map (map digits_val) (order css))) = (\<Union>c \<in> set (order css). set c)"
      using can by (force simp: image_UN image_image)
    also have "\<dots> = set (concat css)" using perm by simp
    finally show ?thesis by (simp add: ch(1))
  qed
  ultimately have "merge_chunks (map (getOnChainClaimableBatchChunk sim t) (order css)) Map.empty =
      Inr (\<lambda>k. if k \<in> nat_to_string ` set ns then Some (g (digits_val k)) else None)"
    by (simp only: merge_chunks_eq)
  then show ?thesis
    using conf ids by (simp add: getOnChainClaimableBatch_def css_def g_def Let_def cong: if_cong)
qed

lemma claimable_batch_pointwise_witness:
  "getOnChainClaimableBatch online None (Inr (Some 1000))
     (\<lambda>ms t. Inr (Some (map (\<lambda>n. (n, int n * t)) ms))) rev 0 (map nat_to_string [1..<121]) =
   Inr (\<lambda>k. if k \<in> nat_to_string ` set [1..<121] then Some (fl (of_int (int (digits_val k) * 1000))) else None, 1000)"
proof (rule claimable_batch_pointwise)
  show "has_soroban_context online" by code_simp
qed simp_all

end
