(* ===== verification/StreamTheorems.thy ===== *)
theory StreamTheorems
  imports StreamStore
begin

text \<open>
  What the stream operations promise: vesting bounds and milestones, the effect of each operation
  on the stream and its history, refusals that change nothing, and the places where the code does
  not do what it means to (resuming, concurrent cancellation, re-archiving, status refresh).
\<close>

section \<open>Sample data\<close>

definition sample_stream :: StreamRecord where
  "sample_stream = \<lparr> stream_id = ''7'', sender = ''GSENDER'', recipient = ''GRECIPIENT'',
     assetCode = ''USDC'', totalAmount = 1000, durationSeconds = 1000, startAt = 100, createdAt = 90,
     canceledAt = None, completedAt = None, refundedAmount = None, pausedAt = None,
     pausedDuration = 0, cliffSeconds = 0, metadata = None \<rparr>"

definition sample_app :: App where
  "sample_app = empty_app\<lparr>db := empty_db\<lparr>streams := [recordToRow sample_stream]\<rparr>\<rparr>"

definition offline :: Config where
  "offline = \<lparr> cfg_env = (\<lambda>_. None), cfg_newURL = (\<lambda>_. None), cfg_rpcServer = False,
     cfg_serverKeypair = False \<rparr>"

definition dead_io :: TxIO where
  "dead_io = \<lparr> io_operation = (\<lambda>_ _. None), io_account = Some (plain_error ''down''),
     io_simulate = Inr False, io_prepare = None, io_send = (\<lambda>_. Inr ''ERROR''),
     io_getTransaction = (\<lambda>_ _. Inr \<lparr> tx_status = ''NOT_FOUND'', tx_returnValue = None \<rparr>) \<rparr>"

lemma sample_getStream: "getStream ''7'' (db sample_app) = Some sample_stream"
  by (simp add: sample_app_def getStream_def find_stream_def lookup_by_def recordToRow_def
      sample_stream_def rowToRecord_def)

lemma sample_app_ok: "db_ok (db sample_app)"
  by code_simp

lemma sample_amount_ok: "amount_ok sample_stream"
  by code_simp

section \<open>Vesting\<close>

text \<open>C7: The vested amount is never negative, never above the (six-decimal) total, and never falls
  as time passes while the record is unchanged.\<close>

theorem vested_bounds_monotone:
  assumes "amount_ok s" "t \<le> t'"
  shows "0 \<le> vestedAmount (calculateProgress s t) \<and>
    vestedAmount (calculateProgress s t) \<le> vestedAmount (calculateProgress s t') \<and>
    vestedAmount (calculateProgress s t') \<le> round6 (totalAmount s)"
proof -
  note b = vestedRaw_bounds [OF assms(1)]
  have lim: "totalAmount s < 10 ^ 21" using assms(1) by (simp add: amount_ok_def)
  show ?thesis
    using b [of t] b [of t'] vestedRaw_mono [OF assms] lim
    by (auto intro!: round6_nonneg round6_mono_small)
qed

lemma vested_bounds_monotone_witness:
  "0 \<le> vestedAmount (calculateProgress sample_stream 350) \<and>
   vestedAmount (calculateProgress sample_stream 350) \<le> vestedAmount (calculateProgress sample_stream 600)"
  using vested_bounds_monotone [OF sample_amount_ok, of 350 600] by simp

text \<open>From the end of a running stream on (start, duration and accumulated pauses), everything
  is vested: the vested amount is the rounded total, nothing remains and 100 percent is reported.\<close>

theorem fully_vested_at_end:
  assumes "amount_ok s" "pausedAt s = None"
    and "startAt s + durationSeconds s + pausedDuration s \<le> t"
  shows "vestedAmount (calculateProgress s t) = round6 (totalAmount s) \<and>
    remainingAmount (calculateProgress s t) = 0 \<and> percentComplete (calculateProgress s t) = 100"
proof -
  have r: "ratio s t = 1" by (rule stream_ratio_full [OF assms(2,3)])
  have v: "vestedRaw s t = totalAmount s"
    using assms(1) by (simp add: vestedRaw_def r amount_ok_def)
  have "fl 100 = 100" using fl_int [of 100] by simp
  moreover have "round6 100 = 100" using round6_int [of 100] by simp
  ultimately show ?thesis by (simp add: r v)
qed

lemma fully_vested_at_end_witness:
  "remainingAmount (calculateProgress sample_stream 1100) = 0"
  using fully_vested_at_end [OF sample_amount_ok, of 1100] by (simp add: sample_stream_def)





text \<open>Resuming counts the pause twice: the pause total and the duration both grow by the length of
  the pause, so the end of the stream moves by twice the pause, while the elapsed time at the moment
  of resuming is what it was, over a longer duration.\<close>

theorem resume_shifts_end_twice:
  assumes "resumeStream cfg sid now t2 app = (Inr s', app')" "getStream sid (db app) = Some s"
    and "pausedAt s = Some p" "startAt s + pausedDuration s \<le> p" "p \<le> now" "0 \<le> pausedDuration s"
  shows "startAt s' + durationSeconds s' + pausedDuration s' =
      startAt s + durationSeconds s + pausedDuration s + 2 * (now - p) \<and>
    elapsed s' now = elapsed s now \<and> durationSeconds s' = durationSeconds s + (now - p)"
proof -
  have "s' = resumed_record s p now"
    using assms(1-3) by (auto simp: resumeStream_def Let_def dest!: commit_change_saved)
  then show ?thesis
    using assms(3-6) by (simp add: resumed_record_def elapsed_def effectiveAt_def)
qed

lemma resume_shifts_end_twice_witness:
  "let s = sample_stream\<lparr>pausedAt := Some 600\<rparr>; s' = resumed_record s 600 1100 in
   startAt s' + durationSeconds s' + pausedDuration s' = 2100 \<and>
   vestedAmount (calculateProgress s 1100) = 500 \<and>
   vestedAmount (calculateProgress s' 1100) < 334"
proof -
  let ?s = "sample_stream\<lparr>pausedAt := Some 600\<rparr>"
  let ?app = "empty_app\<lparr>db := empty_db\<lparr>streams := [recordToRow ?s]\<rparr>\<rparr>"
  have g: "getStream ''7'' (db ?app) = Some ?s"
    by (simp add: getStream_def find_stream_def lookup_by_def recordToRow_def sample_stream_def
        rowToRecord_def)
  have "resumeStream offline ''7'' 1100 1100 ?app =
      (Inr (resumed_record ?s 600 1100), snd (resumeStream offline ''7'' 1100 1100 ?app))"
    by (simp add: resumeStream_def g [simplified] Let_def commit_change_def save_with_event_eq)
  from resume_shifts_end_twice [OF this g, of 600]
  have "startAt (resumed_record ?s 600 1100) + durationSeconds (resumed_record ?s 600 1100) +
      pausedDuration (resumed_record ?s 600 1100) = 2100"
    by (simp add: sample_stream_def)
  moreover have "vestedAmount (calculateProgress ?s 1100) = 500" by code_simp
  moreover have "vestedAmount (calculateProgress (resumed_record ?s 600 1100) 1100) < 334" by code_simp
  ultimately show ?thesis by (simp add: Let_def)
qed

section \<open>Creating and reading\<close>

text \<open>Creating a stream locally always succeeds: the identifier was not in use, the stream reads
  back exactly as returned, every other stream is as before, and the history grows by exactly one
  created event.\<close>

theorem create_local_fresh:
  assumes "sorobanDisabled cfg \<or> contractId cfg = None \<or> \<not> cfg_rpcServer cfg \<or> \<not> cfg_serverKeypair cfg"
    and "createStream cfg io input t0 t1 t2 app = (r, app')"
  shows "\<exists>s. r = Inr s \<and> getStream (stream_id s) (db app) = None \<and>
    (\<forall>k. getStream k (db app') = (if k = stream_id s then Some s else getStream k (db app))) \<and>
    stream_events (db app') = stream_events (db app) @
      [(mk_event (stream_id s) ''created'' t1 (Some (in_sender input)) (Some (in_totalAmount input))
         (Some (created_meta input)) None)\<lparr>event_id := Suc (events_seq (db app))\<rparr>]"
proof -
  let ?start = "case in_startAt input of Some s \<Rightarrow> s | None \<Rightarrow> t0"
  let ?s = "new_stream (next_local_id (db app)) input ?start t1"
  have "store_created cfg (next_local_id (db app)) input ?start t1 t2 app = (r, app')"
    using assms by (auto simp: createStream_def Let_def split: if_splits)
  from store_created_saved [OF this] have r: "r = Inr ?s"
    and sv: "saved ?s (mk_event (next_local_id (db app)) ''created'' t1 (Some (in_sender input))
        (Some (in_totalAmount input)) (Some (created_meta input)) None) app app'"
    by auto
  have "find_stream (next_local_id (db app)) (db app) = None"
    using next_local_id_fresh find_stream_exists by metis
  then have "getStream (stream_id ?s) (db app) = None" by (simp add: getStream_def)
  moreover have "\<forall>k. getStream k (db app') = (if k = stream_id ?s then Some ?s else getStream k (db app))"
    using saved_getStream [OF sv] by blast
  ultimately show ?thesis using r sv by (auto simp: saved_def)
qed

definition sample_input :: StreamInput where
  "sample_input = \<lparr> in_sender = ''GA'', in_recipient = ''GB'', in_assetCode = ''usdc'',
     in_totalAmount = 250, in_durationSeconds = 3600, in_startAt = None, in_cliffSeconds = None \<rparr>"

lemma create_local_fresh_witness:
  "\<exists>s. fst (createStream offline dead_io sample_input 1000 1000 1000 sample_app) = Inr s \<and>
     getStream (stream_id s) (db sample_app) = None"
  using create_local_fresh [of offline dead_io sample_input 1000 1000 1000 sample_app
      "fst (createStream offline dead_io sample_input 1000 1000 1000 sample_app)"
      "snd (createStream offline dead_io sample_input 1000 1000 1000 sample_app)"]
  by (auto simp: offline_def)

lemma mset_order_rows: "mset (order_rows f ord rows) = mset rows"
  by (cases ord) (simp_all add: order_rows_def)

text \<open>A listing is a rearrangement of the stored rows (all of them, or those not archived), ordered
  by the requested column in the requested direction.\<close>

theorem listing_complete_and_ordered:
  "mset (listStreams arch f ord d) =
     mset (map rowToRecord (filter (\<lambda>r. arch \<or> archived_at r = None) (streams d))) \<and>
   sorted_wrt (\<lambda>a b. case ord of Asc \<Rightarrow> sort_column f (recordToRow a) \<le> sort_column f (recordToRow b)
                     | Desc \<Rightarrow> sort_column f (recordToRow b) \<le> sort_column f (recordToRow a))
     (listStreams arch f ord d)"
proof -
  have col: "sort_column f (recordToRow (rowToRecord r)) = sort_column f r" for r
    by (cases f) (simp_all add: recordToRow_def)
  let ?rows = "if arch then streams d else filter (\<lambda>r. archived_at r = None) (streams d)"
  have "mset (listStreams arch f ord d) = mset (map rowToRecord ?rows)"
    by (simp add: listStreams_def mset_order_rows)
  moreover have "?rows = filter (\<lambda>r. arch \<or> archived_at r = None) (streams d)"
    by (cases arch) simp_all
  moreover have "sorted_wrt (\<lambda>a b. case ord of Asc \<Rightarrow> sort_column f a \<le> sort_column f b
                     | Desc \<Rightarrow> sort_column f b \<le> sort_column f a) (order_rows f ord ?rows)"
    using sorted_sort_key [of "sort_column f" ?rows] sorted_sort_key [of "\<lambda>r. - sort_column f r" ?rows]
    by (cases ord) (simp_all add: order_rows_def sorted_wrt_map)
  ultimately show ?thesis by (cases ord) (simp_all add: listStreams_def sorted_wrt_map col)
qed

section \<open>Refusals\<close>

text \<open>Pausing succeeds exactly on active streams: an unknown stream is refused with 404 and one in
  any other state with 400, both without touching any state; otherwise the stored stream is the old
  one with \<open>pausedAt\<close> set, and exactly one paused event is logged.\<close>

theorem pause_outcomes:
  "(case getStream sid (db app) of
      None \<Rightarrow> pauseStream cfg sid t1 t2 t3 app = (Inl not_found, app)
    | Some s \<Rightarrow>
        if computeStatus s t1 \<noteq> Active
        then \<exists>e. err_statusCode e = Some 400 \<and> pauseStream cfg sid t1 t2 t3 app = (Inl e, app)
        else \<exists>app'. pauseStream cfg sid t1 t2 t3 app = (Inr (s\<lparr>pausedAt := Some t2\<rparr>), app') \<and>
          getStream sid (db app') = Some (s\<lparr>pausedAt := Some t2\<rparr>) \<and>
          stream_events (db app') = stream_events (db app) @
            [(mk_event sid ''paused'' t2 (Some (sender s)) None None None)
               \<lparr>event_id := Suc (events_seq (db app))\<rparr>])"
proof (cases "getStream sid (db app)")
  case (Some s)
  have sid: "stream_id s = sid" using Some getStream_id by blast
  obtain r app' where c:
    "commit_change cfg sid (s\<lparr>pausedAt := Some t2\<rparr>) ''paused'' t2 None (Some ''paused'') t3 app = (r, app')"
    by fastforce
  from commit_change_saved [OF c] have r: "r = Inr (s\<lparr>pausedAt := Some t2\<rparr>)"
    and sv: "saved (s\<lparr>pausedAt := Some t2\<rparr>) (mk_event sid ''paused'' t2 (Some (sender s)) None None None) app app'"
    using sid by auto
  show ?thesis
    using Some c r sv saved_getStream [OF sv, of sid] sid
    by (auto simp: pauseStream_def status_error_def saved_def)
qed (simp add: pauseStream_def)

text \<open>Whenever pausing, resuming, rescheduling, completing or creating a stream reports an error,
  nothing has changed: database, cache and statistics are those from before the call.\<close>

theorem refused_changes_nothing:
  assumes "pauseStream cfg sid t1 t2 t3 app = (Inl e, app') \<or> resumeStream cfg sid t1 t2 app = (Inl e, app') \<or>
    updateStreamStartAt cfg sid n t1 t2 app = (Inl e, app') \<or> markStreamComplete cfg sid t1 t2 app = (Inl e, app') \<or>
    createStream cfg io input t1 t2 t3 app = (Inl e, app')"
  shows "app' = app"
proof -
  have "app' = app" if "markStreamComplete cfg sid t1 t2 app = (Inl e, app')"
    using that by (rule markStreamComplete_cases) auto
  then show ?thesis
    using assms
    by (auto simp: pauseStream_def resumeStream_def updateStreamStartAt_def createStream_def Let_def
        dest!: commit_change_saved store_created_saved split: option.splits if_splits sum.splits)
qed

lemma refused_changes_nothing_witness:
  "pauseStream offline ''8'' 0 0 0 sample_app = (Inl not_found, sample_app) \<and>
   snd (pauseStream offline ''8'' 0 0 0 sample_app) = sample_app"
proof -
  have p: "pauseStream offline ''8'' 0 0 0 sample_app = (Inl not_found, snd (pauseStream offline ''8'' 0 0 0 sample_app))"
    by (simp add: pauseStream_def getStream_def find_stream_def lookup_by_def sample_app_def
        recordToRow_def sample_stream_def)
  from refused_changes_nothing [OF disjI1, OF p] p show ?thesis by simp
qed

text \<open>A start time can only be moved while the stream is still scheduled; then the stored stream
  differs from the old one in its start time alone and one start_time_updated event is logged with
  the old and the new value.\<close>

theorem reschedule_only_scheduled:
  assumes "updateStreamStartAt cfg sid n t1 t2 app = (Inr s', app')"
  shows "\<exists>s. getStream sid (db app) = Some s \<and> computeStatus s t1 = Scheduled \<and>
    s' = s\<lparr>startAt := n\<rparr> \<and> getStream sid (db app') = Some s' \<and>
    stream_events (db app') = stream_events (db app) @
      [(mk_event sid ''start_time_updated'' t2 (Some (sender s)) None
          (Some (JObj [(''oldStartAt'', JNum (of_int (startAt s))), (''newStartAt'', JNum (of_int n))])) None)
        \<lparr>event_id := Suc (events_seq (db app))\<rparr>]"
proof -
  from assms obtain s where s: "getStream sid (db app) = Some s" "computeStatus s t1 = Scheduled"
    and c: "commit_change cfg sid (s\<lparr>startAt := n\<rparr>) ''start_time_updated'' t2
      (Some (JObj [(''oldStartAt'', JNum (of_int (startAt s))), (''newStartAt'', JNum (of_int n))])) None t2 app =
      (Inr s', app')"
    by (auto simp: updateStreamStartAt_def split: option.splits if_splits)
  have sid: "stream_id s = sid" using s(1) getStream_id by blast
  from commit_change_saved [OF c] have s': "s' = s\<lparr>startAt := n\<rparr>"
    and sv: "saved s' (mk_event sid ''start_time_updated'' t2 (Some (sender s)) None
      (Some (JObj [(''oldStartAt'', JNum (of_int (startAt s))), (''newStartAt'', JNum (of_int n))])) None) app app'"
    using sid by auto
  show ?thesis using s s' sv saved_getStream [OF sv, of sid] sid by (auto simp: saved_def)
qed

lemma reschedule_only_scheduled_witness:
  "\<exists>app'. updateStreamStartAt offline ''7'' 300 50 50 sample_app = (Inr (sample_stream\<lparr>startAt := 300\<rparr>), app') \<and>
     getStream ''7'' (db app') = Some (sample_stream\<lparr>startAt := 300\<rparr>)"
proof -
  have u: "updateStreamStartAt offline ''7'' 300 50 50 sample_app =
      (Inr (sample_stream\<lparr>startAt := 300\<rparr>), snd (updateStreamStartAt offline ''7'' 300 50 50 sample_app))"
    by (simp add: updateStreamStartAt_def sample_getStream computeStatus_def)
       (simp add: sample_stream_def commit_change_def save_with_event_eq)
  from reschedule_only_scheduled [OF u] u show ?thesis by auto
qed

section \<open>Cancelling\<close>

text \<open>Cancelling is idempotent when calls do not overlap: after a successful cancellation a second
  one returns the stored, canceled stream and changes nothing, so exactly one canceled event and at
  most one webhook come from it.\<close>

theorem cancel_idempotent:
  assumes "cancelStream cfg io sid t1 t2 app = (Inr (Some s), app')"
  shows "canceledAt s \<noteq> None \<and> getStream sid (db app') = Some s \<and>
    cancelStream cfg io' sid t3 t4 app' = (Inr (Some s), app')"
proof (cases "cancel_read sid t1 app")
  case (Inl r)
  with assms show ?thesis
    by (auto simp: cancelStream_def cancel_read_def split: option.splits if_splits)
next
  case (Inr stream)
  then obtain s0 where s0: "getStream sid (db app) = Some s0" "stream = s0\<lparr>canceledAt := Some t1\<rparr>"
    by (auto simp: cancel_read_def split: option.splits if_splits)
  let ?s = "cancel_chain cfg io stream"
  have s: "stream_id ?s = stream_id stream" "canceledAt ?s = canceledAt stream"
    by (auto simp: cancel_chain_def split: sum.splits option.splits)
  have c: "cancel_commit cfg sid ?s t2 app = (Inr (Some s), app')"
    using assms Inr by (simp add: cancelStream_def)
  from cancel_commit_saved [OF c] have eq: "s = ?s"
    and sv: "saved s (mk_event (stream_id s) ''canceled'' (the (canceledAt s)) (Some (sender s)) None None None) app app'"
    by auto
  have "getStream sid (db app') = Some s"
    using saved_getStream [OF sv, of sid] getStream_id [OF s0(1)] s s0(2) eq by simp
  moreover have "canceledAt s \<noteq> None" using eq s s0(2) by simp
  ultimately show ?thesis by (simp add: cancelStream_def cancel_read_def)
qed

lemma cancel_idempotent_witness:
  "let app1 = snd (cancelStream offline dead_io ''7'' 500 500 sample_app) in
   snd (cancelStream offline dead_io ''7'' 600 600 app1) = app1"
proof -
  have "cancelStream offline dead_io ''7'' 500 500 sample_app =
      (Inr (Some (sample_stream\<lparr>canceledAt := Some 500\<rparr>)),
       snd (cancelStream offline dead_io ''7'' 500 500 sample_app))"
    by (simp add: cancelStream_def cancel_read_def sample_getStream)
       (simp add: sample_stream_def cancel_chain_def has_soroban_context_def offline_def cancel_commit_def
        save_with_event_eq Let_def)
  from cancel_idempotent [OF this] show ?thesis by (simp add: Let_def)
qed

definition canceled_events :: "string \<Rightarrow> Db \<Rightarrow> nat" where
  "canceled_events sid d =
     count_where (\<lambda>e. ev_stream_id e = sid \<and> event_type e = ''canceled'') (stream_events d)"

text \<open>C38: Overlapping cancellations are not serialised: two requests that both read the stream before
  either has written each log a canceled event, and the record stored at the end is the one the later
  writer had read.\<close>

theorem overlapping_cancels_log_twice:
  assumes "cancel_read sid t1 app = Inr s1" "cancel_read sid t2 app = Inr s2"
    and "cancel_commit cfg sid s1 h1 app = (r1, app1)" "cancel_commit cfg sid s2 h2 app1 = (r2, app2)"
  shows "canceled_events sid (db app2) = canceled_events sid (db app) + 2 \<and>
    getStream sid (db app2) = Some s2"
proof -
  have ids: "stream_id s1 = sid" "stream_id s2 = sid"
    using assms(1,2) getStream_id by (auto simp: cancel_read_def split: option.splits if_splits)
  from cancel_commit_saved [OF assms(3)] have s1:
    "saved s1 (mk_event sid ''canceled'' (the (canceledAt s1)) (Some (sender s1)) None None None) app app1"
    using ids by simp
  from cancel_commit_saved [OF assms(4)] have s2:
    "saved s2 (mk_event sid ''canceled'' (the (canceledAt s2)) (Some (sender s2)) None None None) app1 app2"
    using ids by simp
  show ?thesis
    using s1 s2 saved_getStream [OF s2, of sid] ids
    by (simp add: saved_def canceled_events_def count_where_def)
qed

lemma overlapping_cancels_log_twice_witness:
  "let (r1, app1) = cancel_commit offline ''7'' (sample_stream\<lparr>canceledAt := Some 500\<rparr>) 500 sample_app;
       (r2, app2) = cancel_commit offline ''7'' (sample_stream\<lparr>canceledAt := Some 501\<rparr>) 501 app1
   in canceled_events ''7'' (db app2) = 2"
proof -
  have rd: "cancel_read ''7'' t sample_app = Inr (sample_stream\<lparr>canceledAt := Some t\<rparr>)" for t
    by (simp add: cancel_read_def sample_getStream) (simp add: sample_stream_def)
  have z: "canceled_events ''7'' (db sample_app) = 0" by code_simp
  from overlapping_cancels_log_twice [OF rd [of 500] rd [of 501], where cfg = offline] z
  show ?thesis by (auto split: prod.splits)
qed

section \<open>Completing and archiving\<close>

text \<open>A stream is marked complete only when it is neither completed nor canceled and the reported
  vested amount has reached the total; then it reads back with that completion time.\<close>

theorem complete_only_fully_vested:
  assumes "markStreamComplete cfg sid t h app = (Inr s', app')"
  shows "\<exists>s. getStream sid (db app) = Some s \<and> computeStatus s t \<notin> {Completed, Canceled} \<and>
    totalAmount s \<le> vestedAmount (calculateProgress s t) \<and>
    s' = s\<lparr>completedAt := Some t\<rparr> \<and> getStream sid (db app') = Some s'"
  using assms
proof (cases rule: markStreamComplete_cases)
  case (Marked s)
  then show ?thesis using saved_getStream [OF Marked(6), of sid] getStream_id [OF Marked(1)] by auto
qed simp

lemma complete_only_fully_vested_witness:
  "\<exists>app'. markStreamComplete offline ''7'' 1200 1200
     (empty_app\<lparr>db := empty_db\<lparr>streams := [recordToRow (sample_stream\<lparr>pausedAt := Some 1150\<rparr>)]\<rparr>\<rparr>) =
     (Inr (sample_stream\<lparr>pausedAt := Some 1150, completedAt := Some 1200\<rparr>), app') \<and>
     getStream ''7'' (db app') = Some (sample_stream\<lparr>pausedAt := Some 1150, completedAt := Some 1200\<rparr>)"
proof -
  let ?s = "sample_stream\<lparr>pausedAt := Some 1150\<rparr>"
  let ?app = "empty_app\<lparr>db := empty_db\<lparr>streams := [recordToRow ?s]\<rparr>\<rparr>"
  have g: "getStream ''7'' (db ?app) = Some ?s"
    by (simp add: getStream_def find_stream_def lookup_by_def recordToRow_def sample_stream_def
        rowToRecord_def)
  have v: "\<not> round6 (vestedRaw ?s 1200) < totalAmount ?s" by code_simp
  have m: "markStreamComplete offline ''7'' 1200 1200 ?app = (Inr (?s\<lparr>completedAt := Some 1200\<rparr>),
      snd (markStreamComplete offline ''7'' 1200 1200 ?app))"
    using v by (simp add: markStreamComplete_def g [simplified] Let_def save_with_event_eq)
      (simp add: computeStatus_def sample_stream_def)
  from complete_only_fully_vested [OF m] m show ?thesis by (auto simp: g [simplified])
qed

text \<open>An amount whose seventh decimal is rounded down can never be completed: the vested amount is
  rounded to six decimals before it is compared with the total, so marking is refused at any time.\<close>

theorem rounded_down_never_completes:
  assumes "getStream sid (db app) = Some s" "amount_ok s" "round6 (totalAmount s) < totalAmount s"
  shows "\<exists>e. markStreamComplete cfg sid t h app = (Inl e, app)"
proof -
  have "totalAmount s < 10 ^ 21" using assms(2) by (simp add: amount_ok_def)
  then have "vestedAmount (calculateProgress s t) \<le> round6 (totalAmount s)"
    using vestedRaw_bounds [OF assms(2)] by (auto intro: round6_mono_small)
  then show ?thesis using assms(1,3) by (auto simp: markStreamComplete_def)
qed

lemma rounded_down_never_completes_witness:
  "\<exists>e. markStreamComplete offline ''7'' 999999999 0
     (empty_app\<lparr>db := empty_db\<lparr>streams := [recordToRow (sample_stream\<lparr>totalAmount := fl (10000004 / 10000000)\<rparr>)]\<rparr>\<rparr>) =
     (Inl e, empty_app\<lparr>db := empty_db\<lparr>streams := [recordToRow (sample_stream\<lparr>totalAmount := fl (10000004 / 10000000)\<rparr>)]\<rparr>\<rparr>)"
proof (rule rounded_down_never_completes)
  show "getStream ''7'' (db (empty_app\<lparr>db := empty_db\<lparr>streams :=
      [recordToRow (sample_stream\<lparr>totalAmount := fl (10000004 / 10000000)\<rparr>)]\<rparr>\<rparr>)) =
      Some (sample_stream\<lparr>totalAmount := fl (10000004 / 10000000)\<rparr>)"
    by (simp add: getStream_def find_stream_def lookup_by_def recordToRow_def sample_stream_def
        rowToRecord_def)
  show "amount_ok (sample_stream\<lparr>totalAmount := fl (10000004 / 10000000)\<rparr>)" by code_simp
  show "round6 (totalAmount (sample_stream\<lparr>totalAmount := fl (10000004 / 10000000)\<rparr>)) <
      totalAmount (sample_stream\<lparr>totalAmount := fl (10000004 / 10000000)\<rparr>)" by code_simp
qed

text \<open>The status refresh cannot run: whatever the database holds, it throws on its first statement
  and leaves the state as it was.\<close>

theorem refresh_always_throws:
  "refreshStreamStatuses cfg now app = (Inl (db_error TooFewParameters), app)"
  by (simp add: refreshStreamStatuses_def run_statement_def)

subsection \<open>The archive transaction\<close>

lemma archive_loop_conflict:
  assumes "r \<in> set rs" "row_id r \<in> ar_id ` set (stream_archive d)"
  shows "archive_loop now rs d = Inl UniqueViolation"
  using assms
proof (induction rs arbitrary: d)
  case (Cons x rs)
  show ?case
  proof (cases "\<exists>a \<in> set (stream_archive d). ar_id a = row_id x")
    case True
    then show ?thesis by (simp add: insert_archive_def archive_row_def)
  next
    case False
    then have "x \<noteq> r" using Cons.prems(2) by auto
    with Cons.prems have "r \<in> set rs" by simp
    with False Cons show ?thesis
      by (simp add: insert_archive_def archive_row_def set_archived_at_def)
  qed
qed simp

lemma archive_loop_ok:
  assumes "distinct (map row_id rs)" "row_id ` set rs \<inter> ar_id ` set (stream_archive d) = {}"
  shows "\<exists>d'. archive_loop now rs d = Inr d' \<and>
    stream_archive d' = stream_archive d @ map (\<lambda>r. archive_row r now) rs \<and>
    stream_events d' = stream_events d \<and>
    streams d' = map (\<lambda>r. if row_id r \<in> row_id ` set rs then r\<lparr>archived_at := Some now\<rparr> else r) (streams d)"
  using assms
proof (induction rs arbitrary: d)
  case (Cons x rs)
  define d1 where "d1 = set_archived_at (row_id x) now
    (d\<lparr>stream_archive := stream_archive d @ [archive_row x now]\<rparr>)"
  have ar: "\<not> (\<exists>a \<in> set (stream_archive d). ar_id a = ar_id (archive_row x now))"
    using Cons.prems(2) by (simp add: archive_row_def) (metis imageI IntI emptyE insertI1)
  have step: "archive_loop now (x # rs) d = archive_loop now rs d1"
    using ar by (simp add: insert_archive_def d1_def)
  have "row_id ` set rs \<inter> ar_id ` set (stream_archive d1) = {}"
    using Cons.prems by (auto simp: d1_def set_archived_at_def archive_row_def)
  from Cons.IH [OF _ this] Cons.prems(1) obtain d' where d': "archive_loop now rs d1 = Inr d'"
    "stream_archive d' = stream_archive d1 @ map (\<lambda>r. archive_row r now) rs"
    "stream_events d' = stream_events d1"
    "streams d' = map (\<lambda>r. if row_id r \<in> row_id ` set rs then r\<lparr>archived_at := Some now\<rparr> else r) (streams d1)"
    by auto
  have "streams d' = map (\<lambda>r. if row_id r \<in> row_id ` set (x # rs) then r\<lparr>archived_at := Some now\<rparr> else r) (streams d)"
    unfolding d'(4) by (auto simp: d1_def set_archived_at_def update_where_def)
  then show ?case using step d' by (simp add: d1_def set_archived_at_def)
qed simp

text \<open>The archive job moves exactly the streams completed more than thirty days ago that are not
  archived yet: it reports how many they are, copies each to the archive, marks each row, and changes
  no other row and no event, provided none of them is in the archive already.\<close>

theorem archive_moves_old_completed:
  assumes "db_ok (db app)"
    and "row_id ` set (streams_to_archive (t1 - ARCHIVE_AFTER) (db app)) \<inter> ar_id ` set (stream_archive (db app)) = {}"
  shows "(let rows = streams_to_archive (t1 - ARCHIVE_AFTER) (db app);
              (n, app') = archiveOldStreams t1 now app
          in n = length rows \<and>
             stream_archive (db app') = stream_archive (db app) @ map (\<lambda>r. archive_row r now) rows \<and>
             streams (db app') = map (\<lambda>r. if r \<in> set rows then r\<lparr>archived_at := Some now\<rparr> else r) (streams (db app)) \<and>
             stream_events (db app') = stream_events (db app))"
proof -
  define rows where "rows = streams_to_archive (t1 - ARCHIVE_AFTER) (db app)"
  have dist: "distinct (map row_id (streams (db app)))"
    using assms(1) by (simp add: db_ok_def keys_ok_def)
  have sub: "set rows \<subseteq> set (streams (db app))" by (auto simp: rows_def streams_to_archive_def)
  have mem: "row_id r \<in> row_id ` set rows \<longleftrightarrow> r \<in> set rows" if "r \<in> set (streams (db app))" for r
    using that sub dist by (auto simp: distinct_map inj_on_def)
  have "distinct (map row_id rows)"
    using dist by (simp add: rows_def streams_to_archive_def distinct_map_filter)
  from archive_loop_ok [OF this, of "db app" now] assms(2) obtain d' where d':
    "archive_loop now rows (db app) = Inr d'"
    "stream_archive d' = stream_archive (db app) @ map (\<lambda>r. archive_row r now) rows"
    "stream_events d' = stream_events (db app)"
    "streams d' = map (\<lambda>r. if row_id r \<in> row_id ` set rows then r\<lparr>archived_at := Some now\<rparr> else r) (streams (db app))"
    unfolding rows_def by blast
  have "streams d' = map (\<lambda>r. if r \<in> set rows then r\<lparr>archived_at := Some now\<rparr> else r) (streams (db app))"
    unfolding d'(4) using mem by auto
  then show ?thesis
    using d' by (auto simp: archiveOldStreams_def Let_def rows_def [symmetric])
qed

definition old_completed_app :: App where
  "old_completed_app = empty_app\<lparr>db := empty_db\<lparr>streams := [recordToRow (sample_stream\<lparr>completedAt := Some 1100\<rparr>)]\<rparr>\<rparr>"

lemma archive_moves_old_completed_witness:
  "fst (archiveOldStreams 10000000 10000001 old_completed_app) = 1"
  using archive_moves_old_completed [of old_completed_app 10000000 10000001]
  by (auto simp: Let_def old_completed_app_def streams_to_archive_def ARCHIVE_AFTER_def empty_app_def
      empty_db_def db_ok_defs ledger_events_def recordToRow_def sample_stream_def split: prod.splits)

text \<open>Cancelling a stream that is already in the archive disables archiving: the cancellation
  clears the archive mark, and from then on every archive run hits the archive's primary key, rolls
  back and archives nothing at all.\<close>

theorem cancel_after_archive_blocks_archiving:
  assumes "db_ok (db app)" "getStream sid (db app) = Some s" "canceledAt s = None"
    and "completedAt s = Some c" "c < t3 - ARCHIVE_AFTER"
    and "sid \<in> ar_id ` set (stream_archive (db app))"
    and "cancelStream cfg io sid t1 t2 app = (r, app')"
  shows "archiveOldStreams t3 now app' = (0, app')"
proof -
  let ?s = "cancel_chain cfg io (s\<lparr>canceledAt := Some t1\<rparr>)"
  have sel: "stream_id ?s = stream_id s" "completedAt ?s = completedAt s"
    by (auto simp: cancel_chain_def split: sum.splits option.splits)
  have c: "cancel_commit cfg sid ?s t2 app = (r, app')"
    using assms(2,3,7) by (simp add: cancelStream_def cancel_read_def)
  from cancel_commit_saved [OF c] have sv:
    "saved ?s (mk_event (stream_id ?s) ''canceled'' (the (canceledAt ?s)) (Some (sender ?s)) None None None) app app'"
    by auto
  have "find_stream sid (upsertStream ?s (db app)) = Some (recordToRow ?s)"
    using getStream_id [OF assms(2)] sel by (simp add: find_upsertStream)
  then have "recordToRow ?s \<in> set (streams (db app'))"
    using sv find_stream_key by (auto simp: saved_def)
  then have row: "recordToRow ?s \<in> set (streams_to_archive (t3 - ARCHIVE_AFTER) (db app'))"
    using assms(4,5) sel by (simp add: streams_to_archive_def)
  have "row_id (recordToRow ?s) \<in> ar_id ` set (stream_archive (db app'))"
    using assms(6) sv getStream_id [OF assms(2)] sel by (simp add: saved_def)
  from archive_loop_conflict [OF row this] row show ?thesis
    by (auto simp: archiveOldStreams_def Let_def)
qed

lemma cancel_after_archive_blocks_archiving_witness:
  "let app1 = snd (archiveOldStreams 10000000 10000001 old_completed_app);
       app2 = snd (cancelStream offline dead_io ''7'' 10000002 10000002 app1)
   in fst (archiveOldStreams 20000000 20000000 app2) = 0"
proof -
  let ?app1 = "snd (archiveOldStreams 10000000 10000001 old_completed_app)"
  have facts: "db_ok (db ?app1)" "''7'' \<in> ar_id ` set (stream_archive (db ?app1))"
    "map_option canceledAt (getStream ''7'' (db ?app1)) = Some None"
    "map_option completedAt (getStream ''7'' (db ?app1)) = Some (Some 1100)"
    by code_simp+
  obtain s where s: "getStream ''7'' (db ?app1) = Some s" using facts(3) by auto
  have st: "canceledAt s = None" "completedAt s = Some 1100" using facts(3,4) s by auto
  obtain r app2 where c: "cancelStream offline dead_io ''7'' 10000002 10000002 ?app1 = (r, app2)"
    by (rule prod.exhaust)
  have "(1100::int) < 20000000 - ARCHIVE_AFTER" by (simp add: ARCHIVE_AFTER_def)
  from cancel_after_archive_blocks_archiving [OF facts(1) s st this facts(2) c]
  show ?thesis by (simp add: Let_def c)
qed

text \<open>Deleting a stream only archives it: it disappears from the default listing, still reads back
  by its identifier, and its events stay; a second deletion reports failure.\<close>

theorem delete_is_soft:
  assumes "deleteStreamById sid now app = (True, app')" "db_ok (db app)"
  shows "getStream sid (db app') = getStream sid (db app) \<and> getStream sid (db app) \<noteq> None \<and>
    sid \<notin> stream_id ` set (listStreams False f ord (db app')) \<and>
    stream_events (db app') = stream_events (db app) \<and>
    deleteStreamById sid now' app' = (False, app')"
proof -
  from assms(1) obtain row where row: "find_stream sid (db app) = Some row"
    and app': "app' = app\<lparr>db := set_archived_at sid now (db app)\<rparr>"
    by (auto simp: deleteStreamById_def split: option.splits if_splits)
  have f: "find_stream sid (set_archived_at sid now d) = map_option (\<lambda>r. r\<lparr>archived_at := Some now\<rparr>) (find_stream sid d)" for d
  proof -
    have "List.find (\<lambda>r. row_id r = sid) (map (\<lambda>x. if row_id x = sid then x\<lparr>archived_at := Some now\<rparr> else x) rs) =
        map_option (\<lambda>r. r\<lparr>archived_at := Some now\<rparr>) (List.find (\<lambda>r. row_id r = sid) rs)" for rs
      by (induction rs) auto
    then show ?thesis by (simp add: find_stream_def set_archived_at_def lookup_by_def update_where_def)
  qed
  have rec: "rowToRecord (r\<lparr>archived_at := Some now\<rparr>) = rowToRecord r" for r
    by (simp add: rowToRecord_def)
  have "archived_at r \<noteq> None" if r: "r \<in> set (streams (set_archived_at sid now d))" "row_id r = sid" for r d
  proof -
    from r(1) have "r \<in> (\<lambda>x. if row_id x = sid then x\<lparr>archived_at := Some now\<rparr> else x) ` set (streams d)"
      by (simp add: set_archived_at_def update_where_def del: if_image_distrib)
    then obtain x where "r = (if row_id x = sid then x\<lparr>archived_at := Some now\<rparr> else x)" by (rule imageE)
    then show ?thesis using r(2) by (cases "row_id x = sid") auto
  qed
  then have "\<forall>r \<in> set (streams (db app')). row_id r = sid \<longrightarrow> archived_at r \<noteq> None"
    by (simp add: app')
  then have "sid \<notin> stream_id ` set (listStreams False f ord (db app'))"
    by (auto simp: listStreams_def order_rows_def split: sortOrder.splits)
  then show ?thesis
    using f [of "db app"] row rec by (simp add: app' getStream_def deleteStreamById_def)
qed

lemma delete_is_soft_witness:
  "fst (deleteStreamById ''7'' 500 (snd (deleteStreamById ''7'' 400 sample_app))) = False"
proof -
  have "deleteStreamById ''7'' 400 sample_app = (True, snd (deleteStreamById ''7'' 400 sample_app))"
    by (simp add: deleteStreamById_def sample_app_def find_stream_def lookup_by_def recordToRow_def
        sample_stream_def)
  from delete_is_soft [OF this sample_app_ok] show ?thesis by simp
qed

end
