(* ===== verification/Indexer.thy ===== *)
theory Indexer
  imports EventHistory SorobanRetry
begin

text \<open>
  The contract event indexer of \<open>backend/src/services/indexer.ts\<close>: the circuit breaker, the
  checkpoint, decoding and storing one event, the two polling modes and one poll. RPC answers are
  parameters. A contract event carries its decoded topic and value; a 64-bit or 128-bit integer of
  the contract is decoded to a BigInt, which \<open>JSON.stringify\<close> refuses.
\<close>

section \<open>Classifying RPC failures\<close>

datatype failureKind = RateLimited | Disconnected | ProviderError | UnknownFailure

definition rpc_status_code :: "jsError \<Rightarrow> int option" where
  "rpc_status_code err =
     (if err_isObject err
      then orelse (err_status err) (orelse (err_statusCode err) (err_responseStatus err)) else None)"

definition errorHaystack :: "jsError \<Rightarrow> string" where
  "errorHaystack err =
     (if \<not> err_isObject err then toLowerCase (err_text err)
      else toLowerCase (join_with '' '' (List.map_filter id [err_message err, err_code err, err_name err])))"

definition rate_limit_words :: "string list" where
  "rate_limit_words = [''429'', ''rate limit'', ''too many requests'', ''throttl'']"

definition disconnect_words :: "string list" where
  "disconnect_words = [''econnrefused'', ''econnreset'', ''etimedout'', ''epipe'', ''socket hang up'',
     ''disconnect'', ''network'', ''timeout'', ''fetch failed'']"

definition classifyRpcFailure :: "jsError \<Rightarrow> failureKind" where
  "classifyRpcFailure err =
     (let statusCode = rpc_status_code err; txt = errorHaystack err in
      if statusCode = Some 429 \<or> list_ex (includes_str txt) rate_limit_words then RateLimited
      else if statusCode = Some 503 \<or> statusCode = Some 504 \<or> list_ex (includes_str txt) disconnect_words
      then Disconnected
      else if statusCode = None then UnknownFailure else ProviderError)"

section \<open>Circuit breaker\<close>

datatype CircuitState = CLOSED | OPEN | HALF_OPEN

record CircuitBreaker =
  cb_state :: CircuitState
  failureCount :: nat
  lastFailureTime :: int
  timeoutMs :: int

definition failureThreshold :: nat where "failureThreshold = 5"

definition newCircuitBreaker :: "int \<Rightarrow> CircuitBreaker" where
  "newCircuitBreaker timeout =
     \<lparr> cb_state = CLOSED, failureCount = 0, lastFailureTime = 0, timeoutMs = timeout \<rparr>"

text \<open>\<open>getState\<close> moves an open breaker to half-open once the timeout has passed.\<close>

definition getState :: "int \<Rightarrow> CircuitBreaker \<Rightarrow> CircuitState \<times> CircuitBreaker" where
  "getState now cb =
     (let cb' = (if cb_state cb = OPEN \<and> now - lastFailureTime cb \<ge> timeoutMs cb
                 then cb\<lparr>cb_state := HALF_OPEN\<rparr> else cb)
      in (cb_state cb', cb'))"

definition onSuccess :: "CircuitBreaker \<Rightarrow> CircuitBreaker" where
  "onSuccess cb = cb\<lparr>cb_state := CLOSED, failureCount := 0\<rparr>"

definition onFailure :: "int \<Rightarrow> CircuitBreaker \<Rightarrow> CircuitBreaker" where
  "onFailure now cb =
     (let cb1 = cb\<lparr>failureCount := failureCount cb + 1, lastFailureTime := now\<rparr> in
      if cb_state cb1 = CLOSED \<and> failureCount cb1 \<ge> failureThreshold then cb1\<lparr>cb_state := OPEN\<rparr>
      else if cb_state cb1 = HALF_OPEN then cb1\<lparr>cb_state := OPEN\<rparr>
      else cb1)"

definition reset_breaker :: "CircuitBreaker \<Rightarrow> CircuitBreaker" where
  "reset_breaker cb = cb\<lparr>failureCount := 0, lastFailureTime := 0, cb_state := CLOSED\<rparr>"

section \<open>Contract events\<close>

datatype nval = NUndefined | NNull | NBig int | NNum int | NStr string

record ContractEvent =
  ce_topic :: "nval list option"
  ce_value :: "(string \<times> nval) list option"
  ce_ledger :: int
  ce_closedAtMs :: int

definition field :: "(string \<times> nval) list \<Rightarrow> string \<Rightarrow> nval" where
  "field v k = (case map_of v k of Some x \<Rightarrow> x | None \<Rightarrow> NUndefined)"

definition nullish_or :: "nval \<Rightarrow> nval \<Rightarrow> nval" where
  "nullish_or a b = (if a = NUndefined \<or> a = NNull then b else a)"

text \<open>\<open>value.stream_id.toString()\<close>, \<open>None\<close> where it throws.\<close>

fun nval_toString :: "nval \<Rightarrow> string option" where
  "nval_toString (NBig i) = Some (int_to_string i)"
| "nval_toString (NNum i) = Some (int_to_string i)"
| "nval_toString (NStr s) = Some s"
| "nval_toString _ = None"

text \<open>\<open>JSON.stringify\<close> of an object of such fields: undefined is left out, a BigInt throws.\<close>

fun stringify_fields :: "(string \<times> nval) list \<Rightarrow> (string \<times> json) list option" where
  "stringify_fields [] = Some []"
| "stringify_fields ((k, NBig i) # kvs) = None"
| "stringify_fields ((k, NUndefined) # kvs) = stringify_fields kvs"
| "stringify_fields ((k, NNull) # kvs) = map_option ((#) (k, JNull)) (stringify_fields kvs)"
| "stringify_fields ((k, NNum i) # kvs) = map_option ((#) (k, JNum (of_int i))) (stringify_fields kvs)"
| "stringify_fields ((k, NStr s) # kvs) = map_option ((#) (k, JStr s)) (stringify_fields kvs)"

text \<open>
  Values bound to the nullable REAL column \<open>amount\<close>: a BigInt must fit 64 bits. The contract's
  amounts are integers; a text here is treated as not bindable.
\<close>

fun bind_amount :: "nval \<Rightarrow> jsnum option option" where
  "bind_amount NUndefined = Some None"
| "bind_amount NNull = Some None"
| "bind_amount (NBig i) = (if - (2 ^ 63) \<le> i \<and> i < 2 ^ 63 then Some (Some (fl (of_int i))) else None)"
| "bind_amount (NNum i) = Some (Some (of_int i))"
| "bind_amount (NStr s) = None"

fun bind_text :: "nval \<Rightarrow> string option" where
  "bind_text NUndefined = None"
| "bind_text NNull = None"
| "bind_text (NBig i) = Some (int_to_string i)"
| "bind_text (NNum i) = Some (int_to_string i)"
| "bind_text (NStr s) = Some s"

text \<open>
  The cases of the switch: the stored event type, the field used when there is no actor, the
  amount field, and the metadata object with the value fields it is made of.
\<close>

record EventShape =
  es_type :: string
  es_actor_fallback :: "string option"
  es_amount :: "string option"
  es_metadata :: "(string \<times> string) list option"

definition event_shape :: "string \<Rightarrow> EventShape option" where
  "event_shape name =
     (if name = ''Created'' then Some \<lparr> es_type = ''created'', es_actor_fallback = Some ''sender'',
        es_amount = Some ''total_amount'',
        es_metadata = Some [(''recipient'', ''recipient''), (''token'', ''token''),
          (''startTime'', ''start_time''), (''endTime'', ''end_time'')] \<rparr>
      else if name = ''Claimed'' then Some \<lparr> es_type = ''claimed'', es_actor_fallback = Some ''recipient'',
        es_amount = Some ''amount'', es_metadata = Some [(''claimed_amount'', ''claimed_amount'')] \<rparr>
      else if name = ''Completed'' then Some \<lparr> es_type = ''completed'', es_actor_fallback = None,
        es_amount = Some ''total_amount'', es_metadata = None \<rparr>
      else if name = ''Canceled'' then Some \<lparr> es_type = ''canceled'', es_actor_fallback = Some ''sender'',
        es_amount = Some ''refunded_amount'', es_metadata = None \<rparr>
      else if name = ''Paused'' then Some \<lparr> es_type = ''paused'', es_actor_fallback = Some ''sender'',
        es_amount = None, es_metadata = Some [(''paused_at'', ''paused_at'')] \<rparr>
      else if name = ''Resumed'' then Some \<lparr> es_type = ''resumed'', es_actor_fallback = Some ''sender'',
        es_amount = None, es_metadata = Some [(''resumed_at'', ''resumed_at'')] \<rparr>
      else if name = ''Transfer'' then Some \<lparr> es_type = ''transferred'',
        es_actor_fallback = Some ''old_recipient'', es_amount = None,
        es_metadata = Some [(''new_recipient'', ''new_recipient'')] \<rparr>
      else if name = ''Clawback'' then Some \<lparr> es_type = ''clawback'', es_actor_fallback = None,
        es_amount = Some ''amount'', es_metadata = Some [(''recipient'', ''recipient'')] \<rparr>
      else None)"

text \<open>The row an event is stored as, \<open>None\<close> where it is skipped or an exception is swallowed.\<close>

definition event_row :: "ContractEvent \<Rightarrow> EventRow option" where
  "event_row e =
     (case (ce_topic e, ce_value e) of
        (Some topic, Some v) \<Rightarrow>
          if length topic < 2 then None
          else (case topic ! 1 of
                  NStr name \<Rightarrow>
                    (case event_shape name of
                       None \<Rightarrow> None
                     | Some sh \<Rightarrow>
                         (case (nval_toString (field v ''stream_id''),
                                (case es_metadata sh of
                                   None \<Rightarrow> Some None
                                 | Some fs \<Rightarrow> map_option (\<lambda>kvs. Some (JObj kvs))
                                     (stringify_fields (map (\<lambda>(k, f). (k, field v f)) fs))),
                                (case es_amount sh of None \<Rightarrow> Some None | Some f \<Rightarrow> bind_amount (field v f))) of
                            (Some sid, Some meta, Some amt) \<Rightarrow>
                              Some (mk_event sid (es_type sh) (ce_closedAtMs e div 1000)
                                (bind_text (case es_actor_fallback sh of
                                   None \<Rightarrow> field v ''actor''
                                 | Some f \<Rightarrow> nullish_or (field v ''actor'') (field v f)))
                                amt meta (Some (ce_ledger e)))
                          | _ \<Rightarrow> None))
                | _ \<Rightarrow> None)
      | _ \<Rightarrow> None)"

definition processEvent :: "ContractEvent \<Rightarrow> Db \<Rightarrow> Db" where
  "processEvent e d =
     (case event_row e of
        None \<Rightarrow> d
      | Some row \<Rightarrow> (case insert_or_ignore_event row d of Inl err \<Rightarrow> d | Inr d' \<Rightarrow> d'))"

definition process_events :: "ContractEvent list \<Rightarrow> Db \<Rightarrow> Db" where
  "process_events es d = foldl (\<lambda>d e. processEvent e d) d es"

section \<open>State and checkpoint\<close>

record Idx =
  ix_rpcServer :: bool
  ix_contractId :: "string option"
  lastProcessedLedger :: int
  indexerStartLedger :: "int option"
  isIndexing :: bool
  lastObservedLedger :: "int option"
  lastFailureKind :: "failureKind option"
  circuitBreaker :: CircuitBreaker

definition loadCheckpoint :: "Db \<Rightarrow> Idx \<Rightarrow> Idx" where
  "loadCheckpoint d st =
     (case indexer_cursor d of
        Some l \<Rightarrow> if l > 0 then st\<lparr>lastProcessedLedger := l\<rparr> else st
      | None \<Rightarrow> st)"

text \<open>Update the one row or insert it.\<close>

definition saveCheckpoint :: "int \<Rightarrow> Db \<Rightarrow> Db" where
  "saveCheckpoint l d = d\<lparr>indexer_cursor := Some l\<rparr>"

definition initIndexer :: "(string \<Rightarrow> string option) \<Rightarrow> string \<Rightarrow> Db \<Rightarrow> Idx \<Rightarrow> Idx" where
  "initIndexer env contract d st =
     (let st1 = st\<lparr>ix_rpcServer := True, ix_contractId := Some contract\<rparr>;
          st2 = (case env ''INDEXER_START_LEDGER'' of
                   None \<Rightarrow> st1
                 | Some s \<Rightarrow> (case parseInt s of
                                Some l \<Rightarrow> st1\<lparr>indexerStartLedger := Some l\<rparr> | None \<Rightarrow> st1));
          st3 = loadCheckpoint d st2
      in (case indexerStartLedger st3 of
            Some l \<Rightarrow> if l > lastProcessedLedger st3 then st3\<lparr>lastProcessedLedger := l\<rparr> else st3
          | None \<Rightarrow> st3))"

definition resetIndexerState :: "Idx \<Rightarrow> Idx" where
  "resetIndexerState st =
     st\<lparr>ix_rpcServer := False, ix_contractId := None, lastProcessedLedger := 0,
        indexerStartLedger := None, lastObservedLedger := None, lastFailureKind := None,
        circuitBreaker := reset_breaker (circuitBreaker st)\<rparr>"

definition recordPollSuccess :: "Idx \<Rightarrow> Idx" where
  "recordPollSuccess st = st\<lparr>circuitBreaker := onSuccess (circuitBreaker st), lastFailureKind := None\<rparr>"

section \<open>Polling\<close>

definition indexEventsWithFallback ::
  "(jsError + ContractEvent list) \<Rightarrow> int \<Rightarrow> Idx \<Rightarrow> Db \<Rightarrow> (jsError + unit) \<times> Idx \<times> Db" where
  "indexEventsWithFallback response currentLedger st d =
     (case response of
        Inl err \<Rightarrow> (Inl err, st, d)
      | Inr events \<Rightarrow>
          (Inr (), st\<lparr>lastProcessedLedger := currentLedger\<rparr>,
           saveCheckpoint currentLedger (process_events events d)))"

text \<open>
  \<open>pages i cursor\<close> is the answer to the \<open>i\<close>-th request, made with that cursor. The loop has no
  bound of its own: \<open>None\<close> means that the given number of requests was not enough.
\<close>

type_synonym pages = "nat \<Rightarrow> string option \<Rightarrow> jsError + (ContractEvent list \<times> string option)"

fun page_loop ::
  "nat \<Rightarrow> pages \<Rightarrow> nat \<Rightarrow> string option \<Rightarrow> int \<Rightarrow> Db \<Rightarrow> ((jsError + int) \<times> Db) option" where
  "page_loop 0 pages i cursor maxLedgerSeen d = None"
| "page_loop (Suc fuel) pages i cursor maxLedgerSeen d =
     (case pages i cursor of
        Inl err \<Rightarrow> Some (Inl err, d)
      | Inr (events, next) \<Rightarrow>
          if events = [] then Some (Inr maxLedgerSeen, d)
          else
            (let d1 = process_events events d;
                 seen = foldl max maxLedgerSeen (map ce_ledger events)
             in case next of
                  None \<Rightarrow> Some (Inr seen, d1)
                | Some c \<Rightarrow> if c = [] then Some (Inr seen, d1)
                    else page_loop fuel pages (Suc i) (Some c) seen d1))"

definition indexEventsWithCursorPagination ::
  "nat \<Rightarrow> pages \<Rightarrow> int \<Rightarrow> Idx \<Rightarrow> Db \<Rightarrow> ((jsError + unit) \<times> Idx \<times> Db) option" where
  "indexEventsWithCursorPagination fuel pages currentLedger st d =
     (case page_loop fuel pages 0 None (lastProcessedLedger st) d of
        None \<Rightarrow> None
      | Some (Inl err, d1) \<Rightarrow> Some (Inl err, st, d1)
      | Some (Inr seen, d1) \<Rightarrow>
          (let checkpoint = max currentLedger seen
           in Some (Inr (), st\<lparr>lastProcessedLedger := checkpoint\<rparr>, saveCheckpoint checkpoint d1)))"

record IndexerRpc =
  rpc_latest :: "jsError + int"
  rpc_events :: "jsError + ContractEvent list"
  rpc_pages :: pages

definition indexEvents ::
  "bool \<Rightarrow> nat \<Rightarrow> IndexerRpc \<Rightarrow> int \<Rightarrow> int \<Rightarrow> Idx \<Rightarrow> Db \<Rightarrow> (Idx \<times> Db) option" where
  "indexEvents fallback fuel rpc t1 t2 st d =
     (if \<not> ix_rpcServer st \<or> ix_contractId st = None \<or> isIndexing st then Some (st, d)
      else
        (let (state, cb) = getState t1 (circuitBreaker st); st1 = st\<lparr>circuitBreaker := cb\<rparr>;
             failed = (\<lambda>err s. s\<lparr>circuitBreaker := onFailure t2 (circuitBreaker s),
                               lastFailureKind := Some (classifyRpcFailure err)\<rparr>)
         in if state = OPEN then Some (st1, d)
            else (case rpc_latest rpc of
                    Inl err \<Rightarrow> Some (failed err st1, d)
                  | Inr currentLedger \<Rightarrow>
                      (let st2 = st1\<lparr>lastObservedLedger := Some currentLedger\<rparr> in
                       if currentLedger \<le> lastProcessedLedger st2 then Some (recordPollSuccess st2, d)
                       else
                         (case (if fallback
                                then Some (indexEventsWithFallback (rpc_events rpc) currentLedger st2 d)
                                else indexEventsWithCursorPagination fuel (rpc_pages rpc) currentLedger st2 d) of
                            None \<Rightarrow> None
                          | Some (Inl err, st3, d3) \<Rightarrow> Some (failed err st3, d3)
                          | Some (Inr u, st3, d3) \<Rightarrow> Some (recordPollSuccess st3, d3))))))"

end
