(* ===== verification/Monitoring.thy ===== *)
theory Monitoring
  imports Indexer StreamStore
begin

text \<open>
  The monitoring outcomes: \<open>backend/src/services/indexerMonitor.ts\<close>, \<open>webhookMonitor.ts\<close> and
  \<open>webhookQueueStats.ts\<close>. Both pipelines are classified into the same three outcomes, ordered by
  severity. The gauges that publish them are output only.
\<close>

section \<open>Outcomes\<close>

datatype MonitoringOutcome = Success | TransientDelay | Blocked

text \<open>\<open>INDEXER_OUTCOME_CODES\<close> and \<open>WEBHOOK_OUTCOME_CODES\<close>.\<close>

fun outcomeCode :: "MonitoringOutcome \<Rightarrow> nat" where
  "outcomeCode Success = 0"
| "outcomeCode TransientDelay = 1"
| "outcomeCode Blocked = 2"

lemma outcomeCode_inject: "outcomeCode a = outcomeCode b \<longleftrightarrow> a = b"
  by (cases a; cases b) simp_all

instantiation MonitoringOutcome :: linorder
begin

definition less_eq_MonitoringOutcome :: "MonitoringOutcome \<Rightarrow> MonitoringOutcome \<Rightarrow> bool" where
  "less_eq_MonitoringOutcome a b = (outcomeCode a \<le> outcomeCode b)"

definition less_MonitoringOutcome :: "MonitoringOutcome \<Rightarrow> MonitoringOutcome \<Rightarrow> bool" where
  "less_MonitoringOutcome a b = (outcomeCode a < outcomeCode b)"

instance
  by standard (auto simp: less_eq_MonitoringOutcome_def less_MonitoringOutcome_def outcomeCode_inject [symmetric])

end

section \<open>The indexer\<close>

record IndexerMonitoringSnapshot =
  rpcConfigured :: bool
  latestLedger :: "int option"
  indexedLedger :: int
  ledgerLag :: int
  consecutiveFailures :: nat
  ims_failureThreshold :: nat
  ims_circuitState :: CircuitState
  ims_lastFailureKind :: "failureKind option"
  pollInFlight :: bool

text \<open>Reading the state of the breaker may move it to half-open.\<close>

definition getIndexerMonitoringSnapshot :: "int \<Rightarrow> Idx \<Rightarrow> IndexerMonitoringSnapshot \<times> Idx" where
  "getIndexerMonitoringSnapshot now st =
     (let (state, cb) = getState now (circuitBreaker st) in
      (\<lparr> rpcConfigured = (ix_rpcServer st \<and> ix_contractId st \<noteq> None \<and> ix_contractId st \<noteq> Some []),
         latestLedger = lastObservedLedger st,
         indexedLedger = lastProcessedLedger st,
         ledgerLag = (case lastObservedLedger st of None \<Rightarrow> 0
                      | Some l \<Rightarrow> max 0 (l - lastProcessedLedger st)),
         consecutiveFailures = failureCount (circuitBreaker st),
         ims_failureThreshold = failureThreshold,
         ims_circuitState = state,
         ims_lastFailureKind = lastFailureKind st,
         pollInFlight = isIndexing st \<rparr>,
       st\<lparr>circuitBreaker := cb\<rparr>))"

record 's OutcomeSignal =
  os_outcome :: MonitoringOutcome
  os_outcomeCode :: nat
  os_detail :: string
  os_state :: 's

fun describeFailureKind :: "failureKind option \<Rightarrow> string" where
  "describeFailureKind (Some RateLimited) = ''the provider reported a rate limit''"
| "describeFailureKind (Some Disconnected) = ''the RPC connection failed or timed out''"
| "describeFailureKind (Some ProviderError) = ''the provider returned an error response''"
| "describeFailureKind _ = ''the poll failed''"

definition classifyIndexerOutcome ::
  "IndexerMonitoringSnapshot \<Rightarrow> IndexerMonitoringSnapshot OutcomeSignal" where
  "classifyIndexerOutcome s =
     (let failures = nat_to_string (consecutiveFailures s); lag = int_to_string (ledgerLag s);
          kind = describeFailureKind (ims_lastFailureKind s);
          limit = nat_to_string (ims_failureThreshold s);
          (outcome, detail) =
            (if ims_circuitState s = OPEN then
               (Blocked, ''RPC polling is blocked: '' @ failures @ '' consecutive poll failure(s) reached the '' @
                  limit @ ''-failure threshold and opened the circuit ('' @ kind @
                  ''). Owner action: verify RPC availability and provider rate-limit status, restore network access or reduce competing RPC traffic, and let the scheduled half-open probe recover the circuit. Do not restart in a loop.'')
             else if \<not> rpcConfigured s \<and> (ledgerLag s > 0 \<or> consecutiveFailures s > 0) then
               (Blocked, lag @ '' ledger(s) remain unindexed but no RPC endpoint or contract is configured. Owner action: set the Stellar RPC URL and contract ID, then restart the service once.'')
             else if ims_circuitState s = HALF_OPEN then
               (TransientDelay, ''Recovery probe in progress after '' @ failures @ '' consecutive poll failure(s) ('' @
                  kind @ ''). The retry budget is spent but the single half-open probe is allowed. Owner action: none while the probe succeeds; act only if the circuit reopens.'')
             else if consecutiveFailures s > 0 then
               (TransientDelay, failures @ '' consecutive poll failure(s) ('' @ kind @ ''); the retry budget is intact ('' @
                  failures @ ''/'' @ limit @ ''). The next scheduled poll retries automatically. Owner action: none while failures stay below the threshold.'')
             else (case latestLedger s of
                     None \<Rightarrow> (Success, ''No RPC head has been observed yet and '' @ lag @ '' ledger(s) are outstanding. Nothing is blocked.'')
                   | Some l \<Rightarrow> (Success, ''RPC reached at ledger '' @ int_to_string l @ ''; the checkpoint is '' @ lag @
                       '' ledger(s) behind. Polls are completing normally and no owner action is required.'')))
      in \<lparr> os_outcome = outcome, os_outcomeCode = outcomeCode outcome, os_detail = detail, os_state = s \<rparr>)"

definition getIndexerOutcomeSignal :: "int \<Rightarrow> Idx \<Rightarrow> IndexerMonitoringSnapshot OutcomeSignal \<times> Idx" where
  "getIndexerOutcomeSignal now st =
     (let (s, st') = getIndexerMonitoringSnapshot now st in (classifyIndexerOutcome s, st'))"

section \<open>The webhook queue\<close>

record WebhookQueueCounts =
  wq_pending :: nat
  wq_dueNow :: nat
  wq_scheduledRetries :: nat
  wq_deadLetters :: nat
  wq_delivered :: nat

definition is_pending :: "DeliveryRow \<Rightarrow> bool" where
  "is_pending r = (dl_status r = ''pending'')"

text \<open>\<open>next_retry_at IS NULL OR next_retry_at <= ?\<close>, and \<open>next_retry_at > ?\<close>, which NULL does not satisfy.\<close>

definition retry_due :: "int \<Rightarrow> DeliveryRow \<Rightarrow> bool" where
  "retry_due now r = (case next_retry_at r of None \<Rightarrow> True | Some t \<Rightarrow> t \<le> now)"

definition retry_later :: "int \<Rightarrow> DeliveryRow \<Rightarrow> bool" where
  "retry_later now r = (case next_retry_at r of None \<Rightarrow> False | Some t \<Rightarrow> t > now)"

definition queue_counts :: "int \<Rightarrow> Db \<Rightarrow> WebhookQueueCounts" where
  "queue_counts now d =
     (let rs = webhook_deliveries d in
      \<lparr> wq_pending = count_where is_pending rs,
        wq_dueNow = count_where (\<lambda>r. is_pending r \<and> retry_due now r) rs,
        wq_scheduledRetries = count_where (\<lambda>r. is_pending r \<and> retry_later now r) rs,
        wq_deadLetters = length (webhook_dead_letters d),
        wq_delivered = count_where (\<lambda>r. dl_status r = ''success'') rs \<rparr>)"

definition getWebhookQueueSnapshot :: "env \<Rightarrow> int \<Rightarrow> Db \<Rightarrow> WebhookQueueCounts \<times> bool" where
  "getWebhookQueueSnapshot ev now d =
     (queue_counts now d,
      case ev ''WEBHOOK_DESTINATION_URL'' of None \<Rightarrow> False | Some u \<Rightarrow> trim u \<noteq> [])"

definition classifyWebhookOutcome :: "WebhookQueueCounts \<times> bool \<Rightarrow> WebhookQueueCounts OutcomeSignal" where
  "classifyWebhookOutcome snapshot =
     (let (c, destinationConfigured) = snapshot;
          (outcome, detail) =
            (if wq_deadLetters c > 0 then
               (Blocked, nat_to_string (wq_deadLetters c) @ '' delivery(ies) exhausted their retry budget, so the destination has remained unavailable. Owner action: verify the receiver, then requeue the dead letters.'')
             else if \<not> destinationConfigured \<and> wq_pending c > 0 then
               (Blocked, nat_to_string (wq_pending c) @ '' delivery(ies) are queued but no destination URL is configured. Owner action: set WEBHOOK_DESTINATION_URL.'')
             else if wq_pending c > 0 then
               (TransientDelay, nat_to_string (wq_pending c) @ '' delivery(ies) in flight ('' @
                  nat_to_string (wq_dueNow c) @ '' due now, '' @ nat_to_string (wq_scheduledRetries c) @
                  '' awaiting backoff). Retry budget is intact. Owner action: none while the queued count falls.'')
             else (Success, ''No webhook deliveries are queued or dead-lettered ('' @
                     nat_to_string (wq_delivered c) @ '' delivered).''))
      in \<lparr> os_outcome = outcome, os_outcomeCode = outcomeCode outcome, os_detail = detail, os_state = c \<rparr>)"

definition getWebhookOutcomeSignal :: "env \<Rightarrow> int \<Rightarrow> Db \<Rightarrow> WebhookQueueCounts OutcomeSignal" where
  "getWebhookOutcomeSignal ev now d = classifyWebhookOutcome (getWebhookQueueSnapshot ev now d)"

section \<open>The smoke check\<close>

record WebhookQueueStats =
  qs_counts :: WebhookQueueCounts
  qs_total :: nat

definition getWebhookQueueStats :: "int \<Rightarrow> Db \<Rightarrow> WebhookQueueStats" where
  "getWebhookQueueStats now d =
     (let c = queue_counts now d in
      \<lparr> qs_counts = c, qs_total = wq_pending c + wq_delivered c + wq_deadLetters c \<rparr>)"

record WebhookHealthCheck =
  hc_name :: string
  hc_expected :: nat
  hc_actual :: nat
  hc_pass :: bool

definition health_check :: "string \<Rightarrow> nat \<Rightarrow> nat \<Rightarrow> WebhookHealthCheck" where
  "health_check name expected actual =
     \<lparr> hc_name = name, hc_expected = expected, hc_actual = actual, hc_pass = (actual = expected) \<rparr>"

definition expectation_fields :: "(string \<times> (WebhookQueueCounts \<Rightarrow> nat)) list" where
  "expectation_fields = [(''pending'', wq_pending), (''dueNow'', wq_dueNow),
     (''scheduledRetries'', wq_scheduledRetries), (''delivered'', wq_delivered),
     (''deadLetters'', wq_deadLetters)]"

definition expectation_checks :: "(string \<Rightarrow> nat option) \<Rightarrow> WebhookQueueCounts \<Rightarrow> WebhookHealthCheck list" where
  "expectation_checks expectation c =
     List.map_filter (\<lambda>(f, get). map_option
       (\<lambda>wanted. health_check (f @ '' == '' @ nat_to_string wanted) wanted (get c)) (expectation f))
       expectation_fields"

text \<open>The two structural checks always, then one per expected count.\<close>

definition evaluateWebhookMonitoring ::
  "(string \<Rightarrow> nat option) \<Rightarrow> int \<Rightarrow> Db \<Rightarrow> bool \<times> WebhookHealthCheck list \<times> WebhookQueueStats" where
  "evaluateWebhookMonitoring expectation now d =
     (let stats = getWebhookQueueStats now d; c = qs_counts stats;
          checks =
            [health_check ''pending == dueNow + scheduledRetries''
               (wq_dueNow c + wq_scheduledRetries c) (wq_pending c),
             health_check ''total == pending + delivered + deadLetters''
               (wq_pending c + wq_delivered c + wq_deadLetters c) (qs_total stats)] @
            expectation_checks expectation c
      in (list_all hc_pass checks, checks, stats))"

section \<open>Facts\<close>

lemma pending_split:
  "count_where is_pending rs =
     count_where (\<lambda>r. is_pending r \<and> retry_due now r) rs + count_where (\<lambda>r. is_pending r \<and> retry_later now r) rs"
  unfolding count_where_def
  by (rule length_filter_split) (auto simp: retry_due_def retry_later_def split: option.splits)

lemma verdict_split:
  "fst (evaluateWebhookMonitoring expectation now d) \<longleftrightarrow>
     list_all hc_pass (expectation_checks expectation (queue_counts now d))"
  by (simp add: evaluateWebhookMonitoring_def getWebhookQueueStats_def queue_counts_def health_check_def
      Let_def pending_split [of _ now])

lemma expectation_checks_pass:
  "list_all hc_pass (expectation_checks expectation c) \<longleftrightarrow>
     (\<forall>(f, get) \<in> set expectation_fields. \<forall>n. expectation f = Some n \<longrightarrow> get c = n)"
  by (fastforce simp: expectation_checks_def list_all_iff map_filter_def health_check_def)

text \<open>The verdict of the smoke check is exactly that every expected count is met: its two
  structural checks hold of every queue, whatever the stored retry times, NULL included.\<close>

theorem verdict_is_expectation:
  "fst (evaluateWebhookMonitoring expectation now d) \<longleftrightarrow>
     (\<forall>(f, get) \<in> set expectation_fields. \<forall>n. expectation f = Some n \<longrightarrow> get (queue_counts now d) = n)"
  by (simp only: verdict_split expectation_checks_pass)

theorem verdict_is_expectation_witness:
  "fst (evaluateWebhookMonitoring [''pending'' \<mapsto> 1, ''deadLetters'' \<mapsto> 0] 0 sample_db)"
  using verdict_is_expectation [of "[''pending'' \<mapsto> 1, ''deadLetters'' \<mapsto> 0]" 0 sample_db]
  by (simp add: expectation_fields_def queue_counts_def count_where_def sample_db_def sample_delivery_def
      new_delivery_def is_pending_def empty_db_def)

definition no_worse :: "WebhookQueueCounts \<times> bool \<Rightarrow> WebhookQueueCounts \<times> bool \<Rightarrow> bool" where
  "no_worse a b = (wq_pending (fst a) \<le> wq_pending (fst b) \<and> wq_deadLetters (fst a) \<le> wq_deadLetters (fst b) \<and>
     (snd b \<longrightarrow> snd a))"

text \<open>The webhook outcome is monotone in severity: fewer pending deliveries, fewer dead letters and a
  configured destination never give a worse outcome, and it is blocked exactly when there are dead
  letters, or pending deliveries without a destination.\<close>

theorem webhook_outcome_monotone:
  assumes "no_worse a b"
  shows "os_outcome (classifyWebhookOutcome a) \<le> os_outcome (classifyWebhookOutcome b) \<and>
    (os_outcome (classifyWebhookOutcome a) = Blocked \<longleftrightarrow>
       wq_deadLetters (fst a) > 0 \<or> (wq_pending (fst a) > 0 \<and> \<not> snd a))"
  using assms
  by (cases a; cases b)
    (auto simp: classifyWebhookOutcome_def no_worse_def less_eq_MonitoringOutcome_def Let_def)

theorem webhook_outcome_monotone_witness:
  "os_outcome (classifyWebhookOutcome (queue_counts 0 sample_db, True)) \<le>
   os_outcome (classifyWebhookOutcome (queue_counts 0 sample_db, False))"
  by (rule webhook_outcome_monotone [THEN conjunct1]) (simp add: no_worse_def)

text \<open>The indexer outcome pages exactly when it should: it is blocked iff the circuit is open or
  there is a backlog (or a failure) without a configured endpoint, and a success iff, in the remaining
  cases, the circuit is closed without failures. The signal depends on the snapshot alone.\<close>

theorem indexer_outcome_exact:
  "(os_outcome (classifyIndexerOutcome s) = Blocked \<longleftrightarrow>
      ims_circuitState s = OPEN \<or> (\<not> rpcConfigured s \<and> (ledgerLag s > 0 \<or> consecutiveFailures s > 0))) \<and>
   (os_outcome (classifyIndexerOutcome s) = Success \<longleftrightarrow>
      ims_circuitState s = CLOSED \<and> consecutiveFailures s = 0 \<and> (rpcConfigured s \<or> ledgerLag s \<le> 0)) \<and>
   os_outcomeCode (classifyIndexerOutcome s) = outcomeCode (os_outcome (classifyIndexerOutcome s))"
  by (cases "ims_circuitState s"; cases "latestLedger s")
    (auto simp: classifyIndexerOutcome_def Let_def simp del: int_to_string.simps)

end
