(* ===== verification/Listing.thy ===== *)
theory Listing
  imports Validation ChainSync CacheAdapter StreamTheorems Monitoring
begin

text \<open>
  The read routes of \<open>backend/src/index.ts\<close>: listings with their filters and pagination, the CSV
  export, events, history, comparison and snapshots. A handler takes the parsed pieces of the request
  (context, query, parameters, the issue list Zod would report) and the clock readings it makes, and
  returns the response with the new state. Rate limiters are not part of the handlers.
\<close>

section \<open>Payloads\<close>

datatype payload =
    JsonBody json
  | PageBody ListResult
  | CsvBody string
  | StreamBody ListItem
  | EventsBody "StreamEvent list" nat nat nat
  | HistoryBody "StreamEvent list" nat nat nat bool
  | SummaryBody StreamEventSummary
  | SnapshotBody ListItem "StreamEvent list"
  | ComparisonBody int "StreamComparison list"
  | AmountsBody amounts int
  | FeeBody jsnum string
  | TokenBody string
  | ChallengeBody string string
  | SearchBody "ListItem list" string "string option"
  | IndexerSignalBody "IndexerMonitoringSnapshot OutcomeSignal"
  | WebhookSignalBody "WebhookQueueCounts OutcomeSignal"
  | BulkBody "string list" "(string \<times> string) list"
  | ClaimBody jsnum string string "StreamEvent list"
  | LettersBody "DeadLetterRow list" nat nat nat
  | StatsBody GlobalStats "int option"
  | MetricsBody StreamMetrics
  | DailyBody "DailyMetric list"
  | EmptyBody
  | Crashed

text \<open>An exception no handler catches: Express answers with status 500.\<close>

definition crash :: "payload response" where
  "crash = \<lparr> resp_status = 500, resp_body = Inr Crashed \<rparr>"

section \<open>JSON text\<close>

definition hex_digit :: "nat \<Rightarrow> char" where
  "hex_digit d = (if d < 10 then char_of (48 + d) else char_of (87 + d))"

definition json_escape :: "char \<Rightarrow> string" where
  "json_escape c =
     (let n = (of_char c :: nat); bs = char_of (92 :: nat); qt = char_of (34 :: nat) in
      if n = 34 \<or> n = 92 then [bs, c]
      else if n = 8 then bs # ''b'' else if n = 9 then bs # ''t'' else if n = 10 then bs # ''n''
      else if n = 12 then bs # ''f'' else if n = 13 then bs # ''r''
      else if n < 32 then bs # ''u00'' @ [hex_digit (n div 16), hex_digit (n mod 16)]
      else [c])"

definition json_quote :: "string \<Rightarrow> string" where
  "json_quote s = char_of (34 :: nat) # concat (map json_escape s) @ [char_of (34 :: nat)]"

text \<open>\<open>JSON.stringify\<close> of a value.\<close>

fun json_render :: "json \<Rightarrow> string" where
  "json_render JNull = ''null''"
| "json_render (JBool b) = (if b then ''true'' else ''false'')"
| "json_render (JNum n) = num_toString n"
| "json_render (JStr s) = json_quote s"
| "json_render (JArr xs) = ''['' @ join_with '','' (map json_render xs) @ '']''"
| "json_render (JObj kvs) =
     ''{'' @ join_with '','' (map (\<lambda>(k, v). json_quote k @ '':'' @ json_render v) kvs) @ ''}''"

text \<open>The parsed query as the object it is: absent fields are left out, in the order of the schema.\<close>

definition query_json :: "ListQuery \<Rightarrow> json" where
  "query_json q = JObj
     (opt_field ''status'' JStr (lq_status q) @ opt_field ''recipient'' JStr (lq_recipient q) @
      opt_field ''sender'' JStr (lq_sender q) @ opt_field ''asset'' JStr (lq_asset q) @
      opt_field ''assetCode'' (\<lambda>cs. JArr (map JStr cs)) (lq_assetCode q) @ opt_field ''q'' JStr (lq_q q) @
      opt_field ''minAmount'' JNum (lq_minAmount q) @ opt_field ''maxAmount'' JNum (lq_maxAmount q) @
      [(''include_archived'', JBool (lq_include_archived q))] @
      opt_field ''page'' (\<lambda>i. JNum (of_int i)) (lq_page q) @ opt_field ''limit'' (\<lambda>i. JNum (of_int i)) (lq_limit q) @
      opt_field ''sort'' JStr (lq_sort q) @ opt_field ''order'' JStr (lq_order q))"

section \<open>Filters\<close>

definition with_progress :: "int \<Rightarrow> StreamRecord \<Rightarrow> ListItem" where
  "with_progress now s = \<lparr> item_stream = s, item_progress = calculateProgress s now \<rparr>"

text \<open>\<open>if (value) data = data.filter(...)\<close> for a text: absent or empty adds no condition.\<close>

definition when_text :: "string option \<Rightarrow> (string \<Rightarrow> 'a \<Rightarrow> bool) \<Rightarrow> 'a list \<Rightarrow> 'a list" where
  "when_text v P xs = (case v of None \<Rightarrow> xs | Some s \<Rightarrow> if s = [] then xs else filter (P s) xs)"

definition same_text :: "string \<Rightarrow> string \<Rightarrow> bool" where
  "same_text a b = (toLowerCase a = toLowerCase b)"

definition by_status :: "ListQuery \<Rightarrow> ListItem list \<Rightarrow> ListItem list" where
  "by_status q = when_text (lq_status q) (\<lambda>s i. status_name (status (item_progress i)) = s)"

definition by_recipient :: "ListQuery \<Rightarrow> ListItem list \<Rightarrow> ListItem list" where
  "by_recipient q = when_text (lq_recipient q) (\<lambda>s i. same_text (recipient (item_stream i)) s)"

definition by_sender :: "ListQuery \<Rightarrow> ListItem list \<Rightarrow> ListItem list" where
  "by_sender q = when_text (lq_sender q) (\<lambda>s i. same_text (sender (item_stream i)) s)"

definition by_asset :: "ListQuery \<Rightarrow> ListItem list \<Rightarrow> ListItem list" where
  "by_asset q = when_text (lq_asset q) (\<lambda>s i. same_text (assetCode (item_stream i)) s)"

definition codes_given :: "ListQuery \<Rightarrow> bool" where
  "codes_given q = (case lq_assetCode q of None \<Rightarrow> False | Some cs \<Rightarrow> cs \<noteq> [])"

definition by_codes :: "ListQuery \<Rightarrow> ListItem list \<Rightarrow> ListItem list" where
  "by_codes q xs =
     (if codes_given q
      then filter (\<lambda>i. toUpperCase (assetCode (item_stream i)) \<in> set (the (lq_assetCode q))) xs else xs)"

text \<open>The search term, which leaves the asset code out when an asset filter is in force.\<close>

definition by_search :: "bool \<Rightarrow> ListQuery \<Rightarrow> ListItem list \<Rightarrow> ListItem list" where
  "by_search assetAlreadyFiltered q =
     when_text (lq_q q) (\<lambda>s i.
       let term = toLowerCase s; st = item_stream i in
       includes_str (toLowerCase (stream_id st)) term \<or> includes_str (toLowerCase (sender st)) term \<or>
       includes_str (toLowerCase (recipient st)) term \<or>
       (\<not> assetAlreadyFiltered \<and> includes_str (toLowerCase (assetCode st)) term))"

definition asset_given :: "ListQuery \<Rightarrow> bool" where
  "asset_given q = (lq_asset q \<noteq> None \<and> lq_asset q \<noteq> Some [])"

definition by_amount :: "ListQuery \<Rightarrow> ListItem list \<Rightarrow> ListItem list" where
  "by_amount q xs =
     (let ys = (case lq_minAmount q of None \<Rightarrow> xs | Some m \<Rightarrow> filter (\<lambda>i. totalAmount (item_stream i) \<ge> m) xs)
      in case lq_maxAmount q of None \<Rightarrow> ys | Some m \<Rightarrow> filter (\<lambda>i. totalAmount (item_stream i) \<le> m) ys)"

definition filter_list :: "ListQuery \<Rightarrow> ListItem list \<Rightarrow> ListItem list" where
  "filter_list q xs =
     by_amount q (by_search (asset_given q \<or> codes_given q) q (by_codes q (by_asset q
       (by_sender q (by_recipient q (by_status q xs))))))"

definition filter_of_sender :: "ListQuery \<Rightarrow> ListItem list \<Rightarrow> ListItem list" where
  "filter_of_sender q xs =
     by_amount q (by_search (asset_given q \<or> codes_given q) q (by_codes q (by_asset q
       (by_recipient q (by_status q xs)))))"

definition filter_of_recipient :: "ListQuery \<Rightarrow> ListItem list \<Rightarrow> ListItem list" where
  "filter_of_recipient q xs =
     by_amount q (by_search (asset_given q \<or> codes_given q) q (by_codes q (by_asset q
       (by_sender q (by_status q xs)))))"

text \<open>\<open>/api/senders/:accountId/streams\<close> knows neither \<open>assetCode\<close> nor the amount bounds.\<close>

definition filter_senders :: "ListQuery \<Rightarrow> ListItem list \<Rightarrow> ListItem list" where
  "filter_senders q xs = by_search (asset_given q) q (by_asset q (by_recipient q (by_status q xs)))"

definition filter_csv :: "ListQuery \<Rightarrow> ListItem list \<Rightarrow> ListItem list" where
  "filter_csv q xs = by_recipient q (by_sender q (by_codes q (by_asset q (by_status q xs))))"

section \<open>Pagination\<close>

definition PAGINATION_DEFAULT_PAGE :: nat where "PAGINATION_DEFAULT_PAGE = 1"
definition PAGINATION_DEFAULT_LIMIT :: nat where "PAGINATION_DEFAULT_LIMIT = 20"
definition PAGINATION_MAX_LIMIT :: nat where "PAGINATION_MAX_LIMIT = 100"

definition nat_or :: "int option \<Rightarrow> nat \<Rightarrow> nat" where
  "nat_or v dflt = (case v of None \<Rightarrow> dflt | Some i \<Rightarrow> nat i)"

text \<open>Without \<open>page\<close> and \<open>limit\<close> the whole list is one page.\<close>

definition paginate :: "query \<Rightarrow> ListQuery \<Rightarrow> ListItem list \<Rightarrow> ListResult" where
  "paginate raw q items =
     (let hasPage = (raw ''page'' \<noteq> None); hasLimit = (raw ''limit'' \<noteq> None);
          total = length items; page = nat_or (lq_page q) PAGINATION_DEFAULT_PAGE;
          limit = (if \<not> hasPage \<and> \<not> hasLimit then total else nat_or (lq_limit q) PAGINATION_DEFAULT_LIMIT)
      in \<lparr> lr_data = slice ((page - 1) * limit) limit items, lr_total = total, lr_page = page, lr_limit = limit \<rparr>)"

definition query_sort :: "ListQuery \<Rightarrow> SortField" where
  "query_sort q = (case Option.bind (lq_sort q) sort_field of None \<Rightarrow> ByCreatedAt | Some f \<Rightarrow> f)"

definition query_order :: "ListQuery \<Rightarrow> sortOrder" where
  "query_order q = (case Option.bind (lq_order q) sort_order of None \<Rightarrow> Desc | Some s \<Rightarrow> s)"

section \<open>Listing routes\<close>

text \<open>\<open>t1\<close> and \<open>t3\<close> are the cache's clocks in milliseconds, \<open>t2\<close> the handler's in seconds.\<close>

definition streams_route ::
  "RequestContext \<Rightarrow> ZodIssue list \<Rightarrow> query \<Rightarrow> int \<Rightarrow> int \<Rightarrow> int \<Rightarrow> App \<Rightarrow> payload response \<times> App" where
  "streams_route req issues raw t1 t2 t3 app =
     (case listStreamsQuerySchema raw of
        None \<Rightarrow> (sendValidationError req issues, app)
      | Some q \<Rightarrow>
          (let key = ''streams:list:'' @ json_render (query_json q);
               (cached, c1) = cache_get t1 key (cache app)
           in case cached of
                Some (CachedPage r) \<Rightarrow> (sendJson 200 (PageBody r), app\<lparr>cache := c1\<rparr>)
              | _ \<Rightarrow>
                  (let items = map (with_progress t2)
                         (listStreams (lq_include_archived q) (query_sort q) (query_order q) (db app));
                       r = paginate raw q (filter_list q items)
                   in (sendJson 200 (PageBody r), app\<lparr>cache := cache_set t3 key (CachedPage r) 5 c1\<rparr>))))"

definition csv_row :: "ListItem \<Rightarrow> string" where
  "csv_row i =
     (let s = item_stream i in
      join_with '','' [stream_id s, sender s, recipient s, assetCode s, num_toString (totalAmount s),
        status_name (status (item_progress i)), int_to_string (startAt s)])"

definition csv_content :: "ListItem list \<Rightarrow> string" where
  "csv_content items =
     ''id,sender,recipient,asset,total,status,startAt'' @ [char_of (10 :: nat)] @
     join_with [char_of (10 :: nat)] (map csv_row items)"

definition csv_route ::
  "RequestContext \<Rightarrow> ZodIssue list \<Rightarrow> query \<Rightarrow> int \<Rightarrow> int \<Rightarrow> int \<Rightarrow> App \<Rightarrow> payload response \<times> App" where
  "csv_route req issues raw t1 t2 t3 app =
     (case listStreamsQuerySchema raw of
        None \<Rightarrow> (sendValidationError req issues, app)
      | Some q \<Rightarrow>
          (let key = ''streams:export:'' @ json_render (query_json q);
               (cached, c1) = cache_get t1 key (cache app);
               fresh = (let content = csv_content (filter_csv q (map (with_progress t2)
                               (listStreams (lq_include_archived q) ByCreatedAt Desc (db app))))
                        in (sendJson 200 (CsvBody content),
                            app\<lparr>cache := cache_set t3 key (CachedCsv content) 5 c1\<rparr>))
           in case cached of
                Some (CachedCsv s) \<Rightarrow>
                  if s = [] then fresh else (sendJson 200 (CsvBody s), app\<lparr>cache := c1\<rparr>)
              | _ \<Rightarrow> fresh))"

text \<open>The two cached address routes: validate, read through the cache, filter, paginate.\<close>

definition address_route ::
  "string \<Rightarrow> (string \<Rightarrow> SortField \<Rightarrow> sortOrder \<Rightarrow> Db \<Rightarrow> StreamRecord list) \<Rightarrow>
   (ListQuery \<Rightarrow> ListItem list \<Rightarrow> ListItem list) \<Rightarrow> (string \<Rightarrow> bool) \<Rightarrow>
   RequestContext \<Rightarrow> ZodIssue list \<Rightarrow> string \<Rightarrow> query \<Rightarrow> int \<Rightarrow> int \<Rightarrow> App \<Rightarrow> payload response \<times> App" where
  "address_route keyPrefix list keep valid req issues address raw t1 t2 app =
     (case stellarAccountIdSchema valid (Some (JStr address)) of
        None \<Rightarrow> (sendValidationError req issues, app)
      | Some addr \<Rightarrow>
          (case listStreamsQuerySchema raw of
             None \<Rightarrow> (sendValidationError req issues, app)
           | Some q \<Rightarrow>
               (let (v, c1) = withAddressCache t1 (keyPrefix @ addr)
                      (CachedRecords (list addr (query_sort q) (query_order q) (db app))) (cache app);
                    rs = (case v of CachedRecords rs \<Rightarrow> rs | _ \<Rightarrow> [])
                in (sendJson 200 (PageBody (paginate raw q (keep q (map (with_progress t2) rs)))),
                    app\<lparr>cache := c1\<rparr>))))"

definition sender_route ::
  "(string \<Rightarrow> bool) \<Rightarrow> RequestContext \<Rightarrow> ZodIssue list \<Rightarrow> string \<Rightarrow> query \<Rightarrow> int \<Rightarrow> int \<Rightarrow> App \<Rightarrow> payload response \<times> App" where
  "sender_route = address_route ''streams:sender:'' listStreamsBySender filter_of_sender"

definition recipient_route ::
  "(string \<Rightarrow> bool) \<Rightarrow> RequestContext \<Rightarrow> ZodIssue list \<Rightarrow> string \<Rightarrow> query \<Rightarrow> int \<Rightarrow> int \<Rightarrow> App \<Rightarrow> payload response \<times> App" where
  "recipient_route = address_route ''streams:recipient:'' listStreamsByRecipient filter_of_recipient"

text \<open>The two older address routes, which do not use the cache.\<close>

definition accounts_route ::
  "(string \<Rightarrow> SortField \<Rightarrow> sortOrder \<Rightarrow> Db \<Rightarrow> StreamRecord list) \<Rightarrow>
   (ListQuery \<Rightarrow> ListItem list \<Rightarrow> ListItem list) \<Rightarrow> (string \<Rightarrow> bool) \<Rightarrow>
   RequestContext \<Rightarrow> ZodIssue list \<Rightarrow> string \<Rightarrow> query \<Rightarrow> int \<Rightarrow> App \<Rightarrow> payload response" where
  "accounts_route list keep valid req issues account raw now app =
     (case stellarAccountIdSchema valid (Some (JStr account)) of
        None \<Rightarrow> sendValidationError req issues
      | Some addr \<Rightarrow>
          (case listStreamsQuerySchema raw of
             None \<Rightarrow> sendValidationError req issues
           | Some q \<Rightarrow>
               sendJson 200 (PageBody (paginate raw q
                 (keep q (map (with_progress now) (list addr (query_sort q) (query_order q) (db app))))))))"

definition recipients_streams_route ::
  "(string \<Rightarrow> bool) \<Rightarrow> RequestContext \<Rightarrow> ZodIssue list \<Rightarrow> string \<Rightarrow> query \<Rightarrow> int \<Rightarrow> App \<Rightarrow> payload response" where
  "recipients_streams_route = accounts_route listStreamsByRecipient filter_of_recipient"

definition senders_streams_route ::
  "(string \<Rightarrow> bool) \<Rightarrow> RequestContext \<Rightarrow> ZodIssue list \<Rightarrow> string \<Rightarrow> query \<Rightarrow> int \<Rightarrow> App \<Rightarrow> payload response" where
  "senders_streams_route = accounts_route listStreamsBySender filter_senders"

section \<open>What a listing holds\<close>

text \<open>The abstract meaning of the filters: one condition per given parameter, joined by "and".\<close>

definition text_holds :: "string option \<Rightarrow> (string \<Rightarrow> bool) \<Rightarrow> bool" where
  "text_holds v P = (case v of None \<Rightarrow> True | Some s \<Rightarrow> s = [] \<or> P s)"

definition list_matches :: "ListQuery \<Rightarrow> ListItem \<Rightarrow> bool" where
  "list_matches q i =
     (let st = item_stream i in
      text_holds (lq_status q) (\<lambda>s. status_name (status (item_progress i)) = s) \<and>
      text_holds (lq_recipient q) (same_text (recipient st)) \<and>
      text_holds (lq_sender q) (same_text (sender st)) \<and>
      text_holds (lq_asset q) (same_text (assetCode st)) \<and>
      (codes_given q \<longrightarrow> toUpperCase (assetCode st) \<in> set (the (lq_assetCode q))) \<and>
      text_holds (lq_q q) (\<lambda>s. \<exists>t \<in> set ([stream_id st, sender st, recipient st] @
        (if asset_given q \<or> codes_given q then [] else [assetCode st])).
          includes_str (toLowerCase t) (toLowerCase s)) \<and>
      (case lq_minAmount q of None \<Rightarrow> True | Some m \<Rightarrow> m \<le> totalAmount st) \<and>
      (case lq_maxAmount q of None \<Rightarrow> True | Some m \<Rightarrow> totalAmount st \<le> m))"

lemma when_text_filter: "when_text v P xs = filter (\<lambda>x. text_holds v (\<lambda>s. P s x)) xs"
  by (auto simp: when_text_def text_holds_def split: option.splits)

lemma by_codes_filter:
  "by_codes q xs = filter (\<lambda>i. codes_given q \<longrightarrow> toUpperCase (assetCode (item_stream i)) \<in> set (the (lq_assetCode q))) xs"
  by (simp add: by_codes_def)

lemma by_amount_filter:
  "by_amount q xs = filter (\<lambda>i. (case lq_minAmount q of None \<Rightarrow> True | Some m \<Rightarrow> m \<le> totalAmount (item_stream i)) \<and>
     (case lq_maxAmount q of None \<Rightarrow> True | Some m \<Rightarrow> totalAmount (item_stream i) \<le> m)) xs"
  by (auto simp: by_amount_def Let_def split: option.splits intro: filter_cong)

lemmas filter_steps = by_status_def by_recipient_def by_sender_def by_asset_def by_search_def
  when_text_filter by_codes_filter by_amount_filter

lemma filter_list_matches: "filter_list q xs = filter (list_matches q) xs"
  unfolding filter_list_def filter_steps filter_filter
  by (rule filter_cong) (auto simp: list_matches_def text_holds_def same_text_def Let_def split: option.splits)

lemma slices_take: "concat (map (\<lambda>p. slice (p * n) n xs) [0..<k]) = take (k * n) xs"
proof (induction k)
  case (Suc k)
  have "take (Suc k * n) xs = take (k * n) xs @ take n (drop (k * n) xs)"
    using take_add [of "k * n" n xs] by (simp add: add.commute)
  with Suc show ?case by (simp add: slice_def)
qed simp

lemma paginate_page:
  "raw ''page'' \<noteq> None \<Longrightarrow> lq_page q = Some (int p + 1) \<Longrightarrow> lq_limit q = Some (int n) \<Longrightarrow>
   lr_data (paginate raw q items) = slice (p * n) n items"
  by (simp add: paginate_def nat_or_def Let_def nat_add_distrib)

definition page_items :: "payload response \<times> 'a \<Rightarrow> ListItem list" where
  "page_items r = (case resp_body (fst r) of Inr (PageBody p) \<Rightarrow> lr_data p | _ \<Rightarrow> [])"

text \<open>The query of one page of a listing.\<close>

abbreviation page_query :: "ListQuery \<Rightarrow> nat \<Rightarrow> nat \<Rightarrow> ListQuery" where
  "page_query q n p \<equiv> q\<lparr>lq_page := Some (int p + 1), lq_limit := Some (int n)\<rparr>"

lemma page_query_same:
  "list_matches (page_query q n p) = list_matches q" "query_sort (page_query q n p) = query_sort q"
  "query_order (page_query q n p) = query_order q"
  by (simp_all add: fun_eq_iff list_matches_def query_sort_def query_order_def codes_given_def asset_given_def)

lemma streams_route_page:
  assumes "listStreamsQuerySchema raw = Some (page_query q n p)" "raw ''page'' \<noteq> None"
    and "cache_peek t1 (''streams:list:'' @ json_render (query_json (page_query q n p))) (cache app) = None"
  shows "page_items (streams_route req issues raw t1 t2 t3 app) = slice (p * n) n
     (filter (list_matches q) (map (with_progress t2)
       (listStreams (lq_include_archived q) (query_sort q) (query_order q) (db app))))"
proof -
  let ?key = "''streams:list:'' @ json_render (query_json (page_query q n p))"
  obtain c1 where "cache_get t1 ?key (cache app) = (None, c1)"
    using assms(3) by (metis cache_peek_def prod.collapse)
  then show ?thesis
    using assms(1,2)
    by (simp add: streams_route_def Let_def page_items_def paginate_page filter_list_matches page_query_same)
qed

text \<open>C17: A listing that is not served from the cache answers with the streams of the table that meet
  every given condition, in the requested order, cut into pages: the answers to the requests for
  the pages of one limit, put together, give exactly that list.\<close>

theorem listing_pages_cover:
  assumes "\<forall>p < k. listStreamsQuerySchema (raw p) = Some (page_query q n p) \<and> raw p ''page'' \<noteq> None \<and>
      cache_peek t1 (''streams:list:'' @ json_render (query_json (page_query q n p))) (cache app) = None"
    and "length (streams (db app)) \<le> k * n"
  shows "concat (map (\<lambda>p. page_items (streams_route req issues (raw p) t1 t2 t3 app)) [0..<k]) =
    filter (list_matches q) (map (with_progress t2)
      (listStreams (lq_include_archived q) (query_sort q) (query_order q) (db app)))"
proof -
  let ?all = "map (with_progress t2) (listStreams (lq_include_archived q) (query_sort q) (query_order q) (db app))"
  have pages: "map (\<lambda>p. page_items (streams_route req issues (raw p) t1 t2 t3 app)) [0..<k] =
      map (\<lambda>p. slice (p * n) n (filter (list_matches q) ?all)) [0..<k]"
    using assms(1) by (intro map_cong refl) (auto intro: streams_route_page)
  have "length ?all \<le> length (streams (db app))"
    using arg_cong [OF mset_order_rows, of size "query_sort q" "query_order q"]
    by (auto simp: listStreams_def)
  then have "length (filter (list_matches q) ?all) \<le> k * n"
    using assms(2) length_filter_le [of "list_matches q" ?all] by linarith
  then show ?thesis
    unfolding pages slices_take by (rule take_all)
qed

definition sample_query :: ListQuery where
  "sample_query = \<lparr> lq_status = Some ''active'', lq_recipient = None, lq_sender = None, lq_asset = None,
     lq_assetCode = None, lq_q = None, lq_minAmount = None, lq_maxAmount = None,
     lq_include_archived = False, lq_page = None, lq_limit = None, lq_sort = None, lq_order = None \<rparr>"

definition sample_raw :: query where
  "sample_raw = [''status'' \<mapsto> JStr ''active'', ''page'' \<mapsto> JStr ''1'', ''limit'' \<mapsto> JStr ''20'']"

theorem listing_pages_cover_witness:
  "concat (map (\<lambda>p. page_items (streams_route \<lparr>requestId = None, correlationId = None\<rparr> [] sample_raw 0 0 0 sample_app)) [0..<1]) =
   filter (list_matches sample_query) (map (with_progress 0) (listStreams False ByCreatedAt Desc (db sample_app)))"
proof -
  have "listStreamsQuerySchema sample_raw = Some (page_query sample_query 20 0)"
    by code_simp
  then show ?thesis
    using listing_pages_cover [of 1 "\<lambda>p. sample_raw" 20 sample_query 0 sample_app "\<lparr>requestId = None, correlationId = None\<rparr>" "[]" 0 0]
    by (simp add: sample_raw_def sample_query_def sample_app_def query_sort_def query_order_def
        cache_peek_def cache_get_def lookup_by_def empty_app_def)
qed

text \<open>Within five seconds the cached address routes ignore both the order that is asked for and any
  change of the database: a second request for the same sender answers from the list the first one
  fetched, in the first one's order.\<close>

theorem address_cache_ignores_order:
  assumes "stellarAccountIdSchema valid (Some (JStr a)) = Some addr"
    and "listStreamsQuerySchema raw = Some q" "listStreamsQuerySchema raw' = Some q'"
    and "cache_peek t1 (''streams:sender:'' @ addr) (cache app) = None" "t1 \<le> t1'" "t1' \<le> t1 + 5000"
    and "snd (sender_route valid req issues a raw t1 t2 app) = app1" "cache app2 = cache app1"
  shows "fst (sender_route valid req issues a raw' t1' t2' app2) =
    sendJson 200 (PageBody (paginate raw' q' (filter_of_sender q' (map (with_progress t2')
      (listStreamsBySender addr (query_sort q) (query_order q) (db app))))))"
proof -
  let ?v = "CachedRecords (listStreamsBySender addr (query_sort q) (query_order q) (db app))"
  let ?key = "''streams:sender:'' @ addr"
  have "cache app1 = snd (withAddressCache t1 ?key ?v (cache app))"
    using assms(1,2,7) by (auto simp: sender_route_def address_route_def Let_def split: prod.splits)
  then have "cache_peek t1' ?key (cache app2) = Some ?v"
    using withAddressCache_then [OF assms(4,5)] assms(6,8) by simp
  then have "fst (withAddressCache t1' ?key w (cache app2)) = ?v" for w
    by (rule withAddressCache_hit)
  then show ?thesis
    using assms(1,3) by (simp add: sender_route_def address_route_def Let_def case_prod_beta)
qed

definition sample_raw_asc :: query where
  "sample_raw_asc = [''sort'' \<mapsto> JStr ''createdAt'', ''order'' \<mapsto> JStr ''asc'']"

definition sample_sender :: string where "sample_sender = sender sample_stream"

definition sample_req :: RequestContext where
  "sample_req = \<lparr> requestId = None, correlationId = None \<rparr>"

lemma sample_queries:
  "stellarAccountIdSchema (\<lambda>_. True) (Some (JStr sample_sender)) = Some sample_sender"
  "listStreamsQuerySchema (\<lambda>_. None) \<noteq> None" "listStreamsQuerySchema sample_raw_asc \<noteq> None"
  by code_simp+

theorem address_cache_ignores_order_witness:
  "\<exists>q q'. fst (sender_route (\<lambda>_. True) sample_req [] sample_sender sample_raw_asc 4000 4
      (snd (sender_route (\<lambda>_. True) sample_req [] sample_sender (\<lambda>_. None) 0 0 sample_app))) =
    sendJson 200 (PageBody (paginate sample_raw_asc q' (filter_of_sender q' (map (with_progress 4)
      (listStreamsBySender sample_sender (query_sort q) (query_order q) (db sample_app))))))"
proof -
  obtain q q' where "listStreamsQuerySchema (\<lambda>_. None) = Some q" "listStreamsQuerySchema sample_raw_asc = Some q'"
    using sample_queries(2,3) by auto
  moreover have "cache_peek 0 (''streams:sender:'' @ sample_sender) (cache sample_app) = None"
    by (simp add: sample_app_def empty_app_def cache_peek_def cache_get_def lookup_by_def)
  ultimately show ?thesis
    using address_cache_ignores_order [OF sample_queries(1) _ _ _ _ _ refl refl,
        of "\<lambda>_. None" q sample_raw_asc q' 0 sample_app 4000 sample_req "[]" 4 0]
    by auto
qed

end
