(* ===== verification/Auth.thy ===== *)
theory Auth
  imports ApiErrors
begin

text \<open>
  Authentication: \<open>backend/src/services/auth.ts\<close>, \<open>middleware/adminAuth.ts\<close>,
  \<open>middleware/contentType.ts\<close> and the header handling of \<open>middleware/requestLogger.ts\<close>. The Stellar
  SDK (building, reading and checking a challenge transaction), the JWT library and Horizon are
  parameters. The nonce store is a map that loses its expired entries in a periodic clean-up.
\<close>

section \<open>Libraries\<close>

record ManageData =
  op_type :: string
  op_name :: string
  op_value :: "string option"

record ChallengeTx =
  clientAccountID :: string
  tx_operations :: "ManageData list"

record AuthUser =
  accountId :: "string option"
  signer_count :: "nat option"
  threshold :: "int option"
  role :: "string option"
  isAdmin :: bool

record AuthLibs =
  readChallengeTx :: "int \<Rightarrow> string \<Rightarrow> jsError + ChallengeTx"
  verifyChallengeTxSigners :: "string \<Rightarrow> string list \<Rightarrow> jsError + string list"
  jwt_sign :: "AuthUser \<Rightarrow> int \<Rightarrow> string"
  jwt_verify :: "int \<Rightarrow> string \<Rightarrow> jsError + AuthUser"

text \<open>An answer of Horizon with status 200: the signers with their weights, and the medium threshold.\<close>

record HorizonAccount =
  hz_signers :: "(string \<times> int) list"
  hz_med_threshold :: int

definition fetchAccountSigners :: "HorizonAccount option \<Rightarrow> (string list \<times> int) option" where
  "fetchAccountSigners answer =
     map_option (\<lambda>a. (map fst (filter (\<lambda>(k, w). w > 0) (hz_signers a)), hz_med_threshold a)) answer"

section \<open>Challenges\<close>

definition TIMESTAMP_TOLERANCE_SECONDS :: int where "TIMESTAMP_TOLERANCE_SECONDS = 60"

type_synonym nonceStore = "string \<Rightarrow> int option"

text \<open>The transaction a challenge is made of, before it is signed and encoded.\<close>

definition generateChallenge :: "string \<Rightarrow> string \<Rightarrow> string \<Rightarrow> string \<Rightarrow> int \<Rightarrow> ChallengeTx" where
  "generateChallenge domain account random nonce now =
     \<lparr> clientAccountID = account,
       tx_operations =
         [\<lparr> op_type = ''manageData'', op_name = domain @ '' auth'', op_value = Some random \<rparr>,
          \<lparr> op_type = ''manageData'', op_name = ''web_auth_domain'', op_value = Some domain \<rparr>,
          \<lparr> op_type = ''manageData'', op_name = ''timestamp'', op_value = Some (int_to_string now) \<rparr>,
          \<lparr> op_type = ''manageData'', op_name = ''nonce'', op_value = Some nonce \<rparr>] \<rparr>"

definition find_data :: "string \<Rightarrow> ManageData list \<Rightarrow> ManageData option" where
  "find_data name ops = List.find (\<lambda>x. op_type x = ''manageData'' \<and> op_name x = name) ops"

definition cleanup_nonces :: "int \<Rightarrow> nonceStore \<Rightarrow> nonceStore" where
  "cleanup_nonces now store =
     (\<lambda>n. case store n of None \<Rightarrow> None | Some expiry \<Rightarrow> if now > expiry then None else Some expiry)"

text \<open>
  The replay check. A timestamp that does not parse gives NaN, which the tolerance comparison lets
  pass.
\<close>

definition check_replay :: "ManageData list \<Rightarrow> int \<Rightarrow> nonceStore \<Rightarrow> jsError + nonceStore" where
  "check_replay ops now store =
     (case (Option.bind (find_data ''timestamp'' ops) op_value, Option.bind (find_data ''nonce'' ops) op_value) of
        (Some timestampStr, Some nonce) \<Rightarrow>
          if timestampStr = [] \<or> nonce = []
          then Inl (plain_error ''Invalid challenge format: missing timestamp or nonce'')
          else if (case parseInt timestampStr of None \<Rightarrow> False
                   | Some ts \<Rightarrow> \<bar>now - ts\<bar> > TIMESTAMP_TOLERANCE_SECONDS)
          then Inl (plain_error (''Challenge timestamp is too old or too far in the future (''
                      @ int_to_string \<bar>now - the (parseInt timestampStr)\<bar> @ ''s difference)''))
          else if store nonce \<noteq> None
          then Inl (plain_error ''Challenge nonce has already been used (replay attack detected)'')
          else Inr (store(nonce := Some (now + TIMESTAMP_TOLERANCE_SECONDS)))
      | _ \<Rightarrow> Inl (plain_error ''Challenge missing required timestamp and nonce''))"

definition unauthorized :: "jsError \<Rightarrow> jsError" where
  "unauthorized err =
     (if (case err_message err of Some m \<Rightarrow> includes_str m ''TimeBounds'' | None \<Rightarrow> False)
      then coded_error ''Challenge has expired. Please request a new one.'' 401 ''UNAUTHORIZED''
      else coded_error (''Challenge verification failed: ''
             @ (case err_message err of Some m \<Rightarrow> m | None \<Rightarrow> ''undefined'')) 401 ''UNAUTHORIZED'')"

text \<open>
  \<open>now\<close> is the clock at the replay check, \<open>signed\<close> the clock when the token is made, after Horizon
  has answered. The nonce stays in the store when a later check fails.
\<close>

definition verifyChallengeAndIssueToken ::
  "AuthLibs \<Rightarrow> (string \<Rightarrow> HorizonAccount option) \<Rightarrow> string \<Rightarrow> int \<Rightarrow> int \<Rightarrow> nonceStore \<Rightarrow>
   (jsError + string) \<times> nonceStore" where
  "verifyChallengeAndIssueToken libs horizon tx now signed store =
     (case readChallengeTx libs now tx of
        Inl err \<Rightarrow> (Inl (unauthorized err), store)
      | Inr challenge \<Rightarrow>
          (case check_replay (tx_operations challenge) now store of
             Inl err \<Rightarrow> (Inl (unauthorized err), store)
           | Inr store' \<Rightarrow>
               (let accountInfo = fetchAccountSigners (horizon (clientAccountID challenge));
                    isMultisig = (case accountInfo of None \<Rightarrow> False | Some (ss, thr) \<Rightarrow> length ss > 1);
                    signersToVerify = (if isMultisig then fst (the accountInfo)
                                       else [clientAccountID challenge])
                in case verifyChallengeTxSigners libs tx signersToVerify of
                     Inl err \<Rightarrow> (Inl (unauthorized err), store')
                   | Inr signersFound \<Rightarrow>
                       if length signersFound = 0
                       then (Inl (unauthorized (plain_error
                               ''Challenge transaction verification failed (invalid signature).'')), store')
                       else (Inr (jwt_sign libs
                               \<lparr> accountId = Some (clientAccountID challenge),
                                 signer_count = (if isMultisig then Some (length (fst (the accountInfo))) else None),
                                 threshold = (if isMultisig then Some (snd (the accountInfo)) else None),
                                 role = None, isAdmin = False \<rparr> signed), store'))))"

section \<open>Bearer tokens\<close>

text \<open>The token of an \<open>Authorization\<close> header, if it uses the Bearer scheme.\<close>

definition bearer_token :: "string option \<Rightarrow> string option" where
  "bearer_token header =
     (case header of
        None \<Rightarrow> None
      | Some h \<Rightarrow> if h = [] \<or> \<not> startsWith h ''Bearer '' then None else Some (split_on CHR '' '' h ! 1))"

definition rejected_token :: "RequestContext \<Rightarrow> jsError \<Rightarrow> 'b response" where
  "rejected_token req err =
     (if err_name err = Some ''TokenExpiredError''
      then sendApiError req 401 ''Authorization token has expired.'' (Some ''token_expired'') None
      else sendApiError req 401 ''Invalid authorization token.'' (Some ''invalid_token'') None)"

text \<open>A middleware answers the request itself (\<open>Inl\<close>) or passes the user on (\<open>Inr\<close>).\<close>

definition authMiddleware ::
  "AuthLibs \<Rightarrow> RequestContext \<Rightarrow> string option \<Rightarrow> int \<Rightarrow> 'b response + AuthUser" where
  "authMiddleware libs req header now =
     (case bearer_token header of
        None \<Rightarrow> Inl (sendApiError req 401 ''Missing or invalid authorization header.'' (Some ''unauthorized'') None)
      | Some token \<Rightarrow>
          (case jwt_verify libs now token of
             Inl err \<Rightarrow> Inl (rejected_token req err)
           | Inr decoded \<Rightarrow> Inr decoded))"

definition adminJwtAuth ::
  "AuthLibs \<Rightarrow> RequestContext \<Rightarrow> string option \<Rightarrow> int \<Rightarrow> 'b response + AuthUser" where
  "adminJwtAuth libs req header now =
     (case bearer_token header of
        None \<Rightarrow> Inl (sendApiError req 401 ''Missing or invalid authorization header.'' (Some ''unauthorized'') None)
      | Some token \<Rightarrow>
          (case jwt_verify libs now token of
             Inl err \<Rightarrow> Inl (rejected_token req err)
           | Inr decoded \<Rightarrow>
               if role decoded \<noteq> Some ''admin'' \<and> accountId decoded \<noteq> Some ''admin'' \<and> \<not> isAdmin decoded
               then Inl (sendApiError req 403 ''Forbidden: Admin access required.'' (Some ''forbidden'') None)
               else Inr decoded))"

definition refreshToken :: "AuthLibs \<Rightarrow> RequestContext \<Rightarrow> string option \<Rightarrow> int \<Rightarrow> json response" where
  "refreshToken libs req header now =
     (case bearer_token header of
        None \<Rightarrow> sendApiError req 401 ''Missing or invalid authorization header.'' (Some ''UNAUTHORIZED'') None
      | Some token \<Rightarrow>
          (case jwt_verify libs now token of
             Inl err \<Rightarrow> sendApiError req 401 ''Invalid or expired authorization token.'' (Some ''UNAUTHORIZED'') None
           | Inr decoded \<Rightarrow>
               sendJson 200 (JObj [(''token'', JStr (jwt_sign libs
                 \<lparr> accountId = accountId decoded, signer_count = None, threshold = None, role = None,
                   isAdmin = False \<rparr> now))])))"

text \<open>\<open>adminAuth\<close>: whether the request is passed on; otherwise it is answered with 401.\<close>

definition adminAuth :: "string option \<Rightarrow> string option \<Rightarrow> bool" where
  "adminAuth adminApiKey key = (key \<noteq> None \<and> key \<noteq> Some [] \<and> key = adminApiKey)"

section \<open>Other middleware\<close>

definition isValidId :: "string \<Rightarrow> bool" where
  "isValidId s = (1 \<le> length s \<and> length s \<le> 128 \<and> list_all (\<lambda>c. is_alnum c \<or> c = CHR ''-'') s)"

text \<open>A header value may be repeated: the first one counts.\<close>

definition extractHeaderValue :: "(string \<Rightarrow> string list option) \<Rightarrow> string \<Rightarrow> string option" where
  "extractHeaderValue headers name =
     (case headers name of None \<Rightarrow> None | Some [] \<Rightarrow> None | Some (v # vs) \<Rightarrow> Some v)"

definition correlation_id :: "(string \<Rightarrow> string list option) \<Rightarrow> string \<Rightarrow> string" where
  "correlation_id headers randomUUID =
     (case (case extractHeaderValue headers ''x-correlation-id'' of
              Some v \<Rightarrow> Some v | None \<Rightarrow> extractHeaderValue headers ''x-request-id'') of
        None \<Rightarrow> randomUUID
      | Some v \<Rightarrow> if v = [] \<or> \<not> isValidId v then randomUUID else v)"

definition request_context :: "(string \<Rightarrow> string list option) \<Rightarrow> string \<Rightarrow> RequestContext" where
  "request_context headers randomUUID =
     \<lparr> requestId = Some (correlation_id headers randomUUID),
       correlationId = Some (correlation_id headers randomUUID) \<rparr>"

text \<open>\<open>requireJsonContentType\<close>: whether the request is passed on; otherwise it is answered with 415.\<close>

definition requireJsonContentType :: "string \<Rightarrow> (string \<Rightarrow> string option) \<Rightarrow> bool" where
  "requireJsonContentType meth headers =
     (if meth = ''POST'' \<or> meth = ''PATCH'' then
        (let hasBody = ((headers ''content-length'' \<noteq> None \<and> headers ''content-length'' \<noteq> Some ''0'') \<or>
                        headers ''transfer-encoding'' \<noteq> None)
         in if hasBody
            then (case headers ''content-type'' of
                    None \<Rightarrow> False
                  | Some ct \<Rightarrow> ct \<noteq> [] \<and> startsWith ct ''application/json'')
            else True)
      else True)"

section \<open>Challenges are accepted once\<close>

lemma find_generated:
  "find_data ''timestamp'' (tx_operations (generateChallenge domain account random nonce t0)) =
     Some \<lparr> op_type = ''manageData'', op_name = ''timestamp'', op_value = Some (int_to_string t0) \<rparr>"
  "find_data ''nonce'' (tx_operations (generateChallenge domain account random nonce t0)) =
     Some \<lparr> op_type = ''manageData'', op_name = ''nonce'', op_value = Some nonce \<rparr>"
  if "domain @ '' auth'' \<noteq> ''timestamp''" "domain @ '' auth'' \<noteq> ''nonce''"
  using that by (simp_all add: find_data_def generateChallenge_def)

lemma domain_auth: "domain @ '' auth'' \<noteq> ''timestamp''" "domain @ '' auth'' \<noteq> ''nonce''"
proof -
  show "domain @ '' auth'' \<noteq> ''timestamp''"
  proof
    assume "domain @ '' auth'' = ''timestamp''"
    then have "List.last (domain @ '' auth'') = List.last ''timestamp''" by (rule arg_cong)
    then show False by simp
  qed
  show "domain @ '' auth'' \<noteq> ''nonce''"
  proof
    assume "domain @ '' auth'' = ''nonce''"
    then have "List.last (domain @ '' auth'') = List.last ''nonce''" by (rule arg_cong)
    then show False by simp
  qed
qed

lemma check_replay_generated:
  "check_replay (tx_operations (generateChallenge domain account random nonce t0)) now store =
     (if nonce = [] then Inl (plain_error ''Invalid challenge format: missing timestamp or nonce'')
      else if \<bar>now - t0\<bar> > 60
      then Inl (plain_error (''Challenge timestamp is too old or too far in the future (''
                  @ int_to_string \<bar>now - t0\<bar> @ ''s difference)''))
      else if store nonce \<noteq> None
      then Inl (plain_error ''Challenge nonce has already been used (replay attack detected)'')
      else Inr (store(nonce \<mapsto> now + 60)))"
  unfolding check_replay_def find_generated [OF domain_auth]
  by (simp add: TIMESTAMP_TOLERANCE_SECONDS_def del: int_to_string.simps)

lemma challenge_account: "clientAccountID (generateChallenge domain account random nonce t0) = account"
  by (simp add: generateChallenge_def)

datatype authStep = Verify string int int | Cleanup int

fun auth_step :: "AuthLibs \<Rightarrow> (string \<Rightarrow> HorizonAccount option) \<Rightarrow> authStep \<Rightarrow> nonceStore \<Rightarrow> nonceStore" where
  "auth_step libs horizon (Verify tx now signed) store =
     snd (verifyChallengeAndIssueToken libs horizon tx now signed store)"
| "auth_step libs horizon (Cleanup now) store = cleanup_nonces now store"

fun step_time :: "authStep \<Rightarrow> int" where
  "step_time (Verify tx now signed) = now"
| "step_time (Cleanup now) = now"

lemma verify_store_grows:
  assumes "store n = Some e"
  shows "snd (verifyChallengeAndIssueToken libs horizon tx now signed store) n = Some e"
proof -
  have "check_replay ops now store = Inr store' \<Longrightarrow> store' n = Some e" for ops store'
    using assms by (auto simp: check_replay_def split: option.splits if_splits)
  then show ?thesis
    using assms by (auto simp: verifyChallengeAndIssueToken_def Let_def split: sum.splits)
qed

text \<open>A nonce stays known as long as its challenge could still pass the timestamp check.\<close>

lemma nonce_remembered:
  assumes "store n = Some e" "t \<le> e \<longrightarrow> (\<forall>s \<in> set steps. step_time s \<le> t)"
  shows "t \<le> e \<longrightarrow> foldl (\<lambda>st s. auth_step libs horizon s st) store steps n = Some e"
  using assms
proof (induction steps arbitrary: store)
  case (Cons s steps)
  show ?case
  proof
    assume le: "t \<le> e"
    have "auth_step libs horizon s store n = Some e"
      using Cons.prems le
      by (cases s) (auto simp: verify_store_grows cleanup_nonces_def)
    with Cons le show "foldl (\<lambda>st s. auth_step libs horizon s st) store (s # steps) n = Some e" by simp
  qed
qed simp


definition sample_libs :: AuthLibs where
  "sample_libs = \<lparr>
     readChallengeTx = (\<lambda>t tx. if tx = ''T'' \<and> t \<le> 1300
       then Inr (generateChallenge ''localhost'' ''GCLIENT'' ''r'' ''abc123'' 1000)
       else Inl (plain_error ''TimeBounds'')),
     verifyChallengeTxSigners = (\<lambda>tx ss. if ''GWEAK'' \<in> set ss then Inr [''GWEAK'']
       else if ''GCLIENT'' \<in> set ss then Inr [''GCLIENT''] else Inl (plain_error ''None of the given signers match'')),
     jwt_sign = (\<lambda>u t. ''token''),
     jwt_verify = (\<lambda>t s. Inl (plain_error ''invalid'')) \<rparr>"


text \<open>The M-of-N threshold of a multisig account is not enforced: the token is issued, and
  carries the threshold, as soon as the library finds one signature of one signer with positive
  weight, however high the threshold is.\<close>

theorem multisig_one_signer_suffices:
  assumes "readChallengeTx libs now tx = Inr (generateChallenge domain account random nonce now)"
    and "nonce \<noteq> []" "store nonce = None" "horizon account = Some acc"
    and "1 < length (filter (\<lambda>(k, w). 0 < w) (hz_signers acc))"
    and "verifyChallengeTxSigners libs tx (map fst (filter (\<lambda>(k, w). 0 < w) (hz_signers acc))) = Inr [k]"
  shows "fst (verifyChallengeAndIssueToken libs horizon tx now signed store) =
    Inr (jwt_sign libs \<lparr> accountId = Some account,
      signer_count = Some (length (filter (\<lambda>(k, w). 0 < w) (hz_signers acc))),
      threshold = Some (hz_med_threshold acc), role = None, isAdmin = False \<rparr> signed)"
proof -
  have "check_replay (tx_operations (generateChallenge domain account random nonce now)) now store =
      Inr (store(nonce \<mapsto> now + 60))"
    using assms(2,3) by (simp add: check_replay_generated)
  then show ?thesis
    using assms by (simp add: challenge_account verifyChallengeAndIssueToken_def fetchAccountSigners_def Let_def)
qed

theorem multisig_one_signer_suffices_witness:
  "fst (verifyChallengeAndIssueToken sample_libs
      (\<lambda>a. Some \<lparr> hz_signers = [(''GCLIENT'', 10), (''GWEAK'', 1), (''GOTHER'', 10)], hz_med_threshold = 20 \<rparr>)
      ''T'' 1000 1001 (\<lambda>n. None)) = Inr ''token''"
  using multisig_one_signer_suffices [of sample_libs 1000 "''T''" "''localhost''" "''GCLIENT''" "''r''" "''abc123''"
      "\<lambda>n. None" "\<lambda>a. Some \<lparr> hz_signers = [(''GCLIENT'', 10), (''GWEAK'', 1), (''GOTHER'', 10)], hz_med_threshold = 20 \<rparr>"
      "\<lparr> hz_signers = [(''GCLIENT'', 10), (''GWEAK'', 1), (''GOTHER'', 10)], hz_med_threshold = 20 \<rparr>" "''GWEAK''" 1001]
  by (simp add: sample_libs_def)

end
