(* ===== verification/ReadRoutes.thy ===== *)
theory ReadRoutes
  imports Listing Auth
begin

text \<open>
  The read routes of \<open>backend/src/index.ts\<close> beside the listings: search, events, comparison, one
  stream, history, summary, snapshot, statistics, monitoring and dead letters. A handler takes the
  request and the clock readings it makes. Rate limiters are not part of the handlers.
\<close>

section \<open>Requests\<close>

text \<open>
  The parsed pieces of a request. \<open>rq_issues\<close> is what Zod reports for the schema that rejects the
  request; a missing body is \<open>JNull\<close>, which every schema rejects alike.
\<close>

record Request =
  rq_ctx :: RequestContext
  rq_authorization :: "string option"
  rq_adminKey :: "string option"
  rq_params :: "string \<Rightarrow> json option"
  rq_query :: query
  rq_body :: json
  rq_issues :: "ZodIssue list"

definition send_issues :: "Request \<Rightarrow> ZodIssue list \<Rightarrow> 'b response" where
  "send_issues rq issues = sendValidationError (rq_ctx rq) issues"

definition send_error :: "Request \<Rightarrow> int \<Rightarrow> string \<Rightarrow> string \<Rightarrow> 'b response" where
  "send_error rq st msg code = sendApiError (rq_ctx rq) st msg (Some code) None"

definition parseStreamId :: "ZodIssue list \<Rightarrow> json option \<Rightarrow> ZodIssue list + string" where
  "parseStreamId issues raw =
     (case raw of
        Some (JStr s) \<Rightarrow> (case streamIdSchema raw of None \<Rightarrow> Inl issues | Some v \<Rightarrow> Inr v)
      | _ \<Rightarrow> Inl [\<lparr> issue_path = [''id''], issue_message = ''Stream ID must be a string.'' \<rparr>])"

text \<open>The start of most handlers: the identifier of the path, then the stream of the table.\<close>

definition with_stream ::
  "Request \<Rightarrow> App \<Rightarrow> (string \<Rightarrow> StreamRecord \<Rightarrow> payload response \<times> App) \<Rightarrow> payload response \<times> App" where
  "with_stream rq app k =
     (case parseStreamId (rq_issues rq) (rq_params rq ''id'') of
        Inl issues \<Rightarrow> (send_issues rq issues, app)
      | Inr sid \<Rightarrow>
          (case getStream sid (db app) of
             None \<Rightarrow> (send_error rq 404 ''Stream not found.'' ''NOT_FOUND'', app)
           | Some stream \<Rightarrow> k sid stream))"

definition authed ::
  "AuthLibs \<Rightarrow> int \<Rightarrow> Request \<Rightarrow> 'a \<Rightarrow> (AuthUser \<Rightarrow> payload response \<times> 'a) \<Rightarrow> payload response \<times> 'a" where
  "authed libs now rq state k =
     (case authMiddleware libs (rq_ctx rq) (rq_authorization rq) now of
        Inl r \<Rightarrow> (r, state)
      | Inr user \<Rightarrow> k user)"

text \<open>\<open>String(v)\<close> of a query value, which is a text or an array of texts.\<close>

fun query_text :: "json \<Rightarrow> string" where
  "query_text (JStr s) = s"
| "query_text (JArr xs) = join_with '','' (map query_text xs)"
| "query_text (JNum n) = num_toString n"
| "query_text (JBool b) = (if b then ''true'' else ''false'')"
| "query_text JNull = ''null''"
| "query_text (JObj kvs) = ''[object Object]''"

text \<open>\<open>parseInt\<close> of a query value without a radix: a prefix 0x selects base 16.\<close>

definition parseInt_any :: "string \<Rightarrow> int option" where
  "parseInt_any s =
     (let u = dropWhile is_space s;
          neg = (u \<noteq> [] \<and> hd u = CHR ''-'');
          v = (if u \<noteq> [] \<and> (hd u = CHR ''-'' \<or> hd u = CHR ''+'') then tl u else u)
      in if take 2 v = ''0x'' \<or> take 2 v = ''0X''
         then (let ds = takeWhile is_hex (drop 2 v) in
               if ds = [] then None
               else Some (if neg then - int (radix_val 16 ds) else int (radix_val 16 ds)))
         else parseInt s)"

text \<open>\<open>parseInt(v) || dflt\<close>: NaN and 0 select the default.\<close>

definition parsed_or :: "json option \<Rightarrow> int \<Rightarrow> int" where
  "parsed_or v dflt =
     (case Option.bind v (parseInt_any \<circ> query_text) of
        None \<Rightarrow> dflt
      | Some i \<Rightarrow> if i = 0 then dflt else i)"

section \<open>Streams and their events\<close>

text \<open>\<open>searchStreamsFts\<close> is imported from the database module, which does not define it: a parameter.\<close>

definition search_route :: "(string \<Rightarrow> string list) \<Rightarrow> Request \<Rightarrow> int \<Rightarrow> App \<Rightarrow> payload response" where
  "search_route searchStreamsFts rq now app =
     (case keep_if (\<lambda>s. 1 \<le> length s) (as_string (rq_query rq ''q'')) of
        None \<Rightarrow> send_issues rq (rq_issues rq)
      | Some q \<Rightarrow>
          (case optional (\<lambda>j. keep_if asset_code_text (map_option query_text j)) (rq_query rq ''asset'') of
             None \<Rightarrow> send_issues rq (rq_issues rq)
           | Some asset \<Rightarrow>
               (let results = map (with_progress now)
                      (List.map_filter (\<lambda>sid. getStream sid (db app)) (searchStreamsFts q));
                    assetFilter = map_option toUpperCase asset;
                    kept = (case assetFilter of None \<Rightarrow> results
                            | Some a \<Rightarrow> filter (\<lambda>i. toUpperCase (assetCode (item_stream i)) = a) results)
                in sendJson 200 (SearchBody kept q assetFilter))))"

definition events_route :: "Request \<Rightarrow> App \<Rightarrow> payload response" where
  "events_route rq app =
     (case listEventsQuerySchema (rq_query rq) of
        None \<Rightarrow> send_issues rq (rq_issues rq)
      | Some q \<Rightarrow>
          (let total = countAllEvents (eq_eventType q) (eq_streamId q) (eq_since q) (db app);
               page = nat_or (eq_page q) PAGINATION_DEFAULT_PAGE;
               pageSize = nat_or (case eq_pageSize q of Some i \<Rightarrow> Some i | None \<Rightarrow> eq_limit q) PAGINATION_DEFAULT_LIMIT
           in case getGlobalEvents pageSize ((page - 1) * pageSize) (eq_eventType q)
                     (map_option nat (eq_cursor q)) (eq_streamId q) (eq_since q) (db app) of
                None \<Rightarrow> crash
              | Some es \<Rightarrow> sendJson 200 (EventsBody es total page pageSize)))"

text \<open>The first requested identifier that is not a stream of the table.\<close>

fun check_ids :: "Request \<Rightarrow> App \<Rightarrow> string list \<Rightarrow> payload response option" where
  "check_ids rq app [] = None"
| "check_ids rq app (sid # ids) =
     (case parseStreamId (rq_issues rq) (Some (JStr sid)) of
        Inl issues \<Rightarrow> Some (send_issues rq issues)
      | Inr v \<Rightarrow>
          if getStream v (db app) = None
          then Some (send_error rq 404 (''Stream '' @ sid @ '' not found.'') ''NOT_FOUND'')
          else check_ids rq app ids)"

definition claimable_batch_route ::
  "(string list \<Rightarrow> jsError + (amounts \<times> int)) \<Rightarrow> Request \<Rightarrow> App \<Rightarrow> payload response" where
  "claimable_batch_route batch rq app =
     (case claimableBatchBodySchema (rq_body rq) of
        None \<Rightarrow> send_issues rq (rq_issues rq)
      | Some ids \<Rightarrow>
          (case check_ids rq app ids of
             Some r \<Rightarrow> r
           | None \<Rightarrow>
               (case batch ids of
                  Inl err \<Rightarrow> sendNormalized (rq_ctx rq) err ''Failed to simulate claimable amounts.''
                | Inr (m, t) \<Rightarrow> sendJson 200 (AmountsBody m t))))"

definition compare_route :: "(jsnum list \<Rightarrow> jsnum) \<Rightarrow> Request \<Rightarrow> int \<Rightarrow> App \<Rightarrow> payload response" where
  "compare_route sql_sum rq t app =
     (case compareStreamsQuerySchema (rq_query rq) of
        None \<Rightarrow> send_issues rq (rq_issues rq)
      | Some ids \<Rightarrow>
          if \<exists>i \<in> set ids. streamIdSchema (Some (JStr i)) = None
          then send_issues rq (rq_issues rq)
          else (case compareStreams sql_sum (db app) ids t of
                  Inl err \<Rightarrow> sendNormalized (rq_ctx rq) err ''Failed to compare streams.''
                | Inr cs \<Rightarrow> sendJson 200 (ComparisonBody t cs)))"

definition stream_route :: "Request \<Rightarrow> int \<Rightarrow> App \<Rightarrow> payload response" where
  "stream_route rq now app =
     fst (with_stream rq app (\<lambda>sid stream. (sendJson 200 (StreamBody (with_progress now stream)), app)))"

definition history_route :: "Request \<Rightarrow> App \<Rightarrow> payload response" where
  "history_route rq app =
     fst (with_stream rq app (\<lambda>sid stream.
       (let page = nat (max 1 (parsed_or (rq_query rq ''page'') 1));
            pageSize = nat (min (max 1 (parsed_or (rq_query rq ''pageSize'') 20)) 100);
            total = countStreamEvents sid (db app);
            offset = (page - 1) * pageSize
        in (case getStreamHistory sid pageSize offset Desc (db app) of
              None \<Rightarrow> crash
            | Some es \<Rightarrow> sendJson 200 (HistoryBody es total page pageSize (offset + pageSize < total)), app))))"

definition summary_route :: "Request \<Rightarrow> App \<Rightarrow> payload response" where
  "summary_route rq app =
     fst (with_stream rq app (\<lambda>sid stream. (sendJson 200 (SummaryBody (getStreamEventSummary sid (db app))), app)))"

definition snapshot_route :: "Request \<Rightarrow> int \<Rightarrow> App \<Rightarrow> payload response" where
  "snapshot_route rq now app =
     fst (with_stream rq app (\<lambda>sid stream.
       (case getStreamHistory sid 50 0 Asc (db app) of
          None \<Rightarrow> crash
        | Some es \<Rightarrow> sendJson 200 (SnapshotBody (with_progress now stream) es), app)))"

section \<open>Statistics\<close>

definition stats_route ::
  "(jsnum list \<Rightarrow> jsnum) \<Rightarrow> int option \<Rightarrow> int \<Rightarrow> App \<Rightarrow> payload response \<times> App" where
  "stats_route sql_sum onChainStreamCount nowMs app =
     (let (stats, c) = getGlobalStats sql_sum nowMs (db app) (stats_cache app)
      in (sendJson 200 (StatsBody stats onChainStreamCount), app\<lparr>stats_cache := c\<rparr>))"

definition metrics_route ::
  "AuthLibs \<Rightarrow> (jsnum list \<Rightarrow> jsnum) \<Rightarrow> int \<Rightarrow> int \<Rightarrow> Request \<Rightarrow> App \<Rightarrow> payload response \<times> App" where
  "metrics_route libs sql_sum t0 nowMs rq app =
     authed libs t0 rq app (\<lambda>user.
       let (m, c) = getStreamMetrics sql_sum nowMs (db app) (metrics_cache app)
       in (sendJson 200 (MetricsBody m), app\<lparr>metrics_cache := c\<rparr>))"

definition metrics_history_route ::
  "(jsnum list \<Rightarrow> jsnum) \<Rightarrow> int \<Rightarrow> Request \<Rightarrow> App \<Rightarrow> payload response \<times> App" where
  "metrics_history_route sql_sum nowMs rq app =
     (case (case rq_query rq ''days'' of None \<Rightarrow> Some 7 | Some v \<Rightarrow> parseInt (query_text v)) of
        None \<Rightarrow> (send_error rq 400 ''days must be an integer between 1 and 90.'' ''VALIDATION_ERROR'', app)
      | Some days \<Rightarrow>
          if days < 1 \<or> days > 90
          then (send_error rq 400 ''days must be an integer between 1 and 90.'' ''VALIDATION_ERROR'', app)
          else (let (ms, c) = getMetricsHistory sql_sum days nowMs (db app) (cache app)
                in (sendJson 200 (DailyBody ms), app\<lparr>cache := c\<rparr>)))"

section \<open>Monitoring and dead letters\<close>

definition indexer_monitoring_route ::
  "AuthLibs \<Rightarrow> int \<Rightarrow> int \<Rightarrow> Request \<Rightarrow> Idx \<Rightarrow> payload response \<times> Idx" where
  "indexer_monitoring_route libs t0 now rq st =
     authed libs t0 rq st (\<lambda>user.
       let (signal, st') = getIndexerOutcomeSignal now st in (sendJson 200 (IndexerSignalBody signal), st'))"

definition webhook_monitoring_route ::
  "AuthLibs \<Rightarrow> env \<Rightarrow> int \<Rightarrow> int \<Rightarrow> Request \<Rightarrow> App \<Rightarrow> payload response" where
  "webhook_monitoring_route libs ev t0 now rq app =
     fst (authed libs t0 rq app (\<lambda>user.
       (sendJson 200 (WebhookSignalBody (getWebhookOutcomeSignal ev now (db app))), app)))"

text \<open>\<open>req.query.v ? parseInt(v, 10) : dflt\<close>, with an absent or empty value falsy.\<close>

definition page_param :: "json option \<Rightarrow> nat \<Rightarrow> int option" where
  "page_param v dflt =
     (case v of
        None \<Rightarrow> Some (int dflt)
      | Some j \<Rightarrow> if j = JStr [] then Some (int dflt) else parseInt (query_text j))"

definition dead_letters_route :: "AuthLibs \<Rightarrow> int \<Rightarrow> Request \<Rightarrow> App \<Rightarrow> payload response" where
  "dead_letters_route libs t0 rq app =
     fst (authed libs t0 rq app (\<lambda>user.
       (case page_param (rq_query rq ''page'') PAGINATION_DEFAULT_PAGE of
          None \<Rightarrow> send_error rq 400 ''page must be a positive integer'' ''VALIDATION_ERROR''
        | Some page \<Rightarrow>
            if page < 1 then send_error rq 400 ''page must be a positive integer'' ''VALIDATION_ERROR''
            else (case page_param (rq_query rq ''limit'') PAGINATION_DEFAULT_LIMIT of
                    None \<Rightarrow> send_error rq 400 ''limit must be between 1 and 100'' ''VALIDATION_ERROR''
                  | Some n \<Rightarrow>
                      if n < 1 \<or> n > int PAGINATION_MAX_LIMIT
                      then send_error rq 400 ''limit must be between 1 and 100'' ''VALIDATION_ERROR''
                      else sendJson 200 (LettersBody
                             (getDeadLetters (nat n) (nat ((page - 1) * n)) (db app))
                             (countDeadLetters (db app)) (nat page) (nat n))), app)))"

definition dead_letters_count_route :: "AuthLibs \<Rightarrow> int \<Rightarrow> Request \<Rightarrow> App \<Rightarrow> payload response" where
  "dead_letters_count_route libs t0 rq app =
     fst (authed libs t0 rq app (\<lambda>user.
       (sendJson 200 (JsonBody (JObj [(''total'', JNum (of_nat (countDeadLetters (db app))))])), app)))"

end
