(* ===== verification/MutationRoutes.thy ===== *)
theory MutationRoutes
  imports ReadRoutes
begin

text \<open>
  The routes of \<open>backend/src/index.ts\<close> that change state, and those that hand out tokens. A handler
  takes the request, the clock readings it makes in order, and what the network answers; it returns
  the response and the new state.
\<close>

section \<open>Answers\<close>

text \<open>The end of a handler: the stream with its progress, or the normalised error.\<close>

definition send_stream ::
  "Request \<Rightarrow> string \<Rightarrow> int \<Rightarrow> (jsError + StreamRecord) \<times> App \<Rightarrow> payload response \<times> App" where
  "send_stream rq fallback now result =
     (case result of
        (Inl err, app) \<Rightarrow> (sendNormalized (rq_ctx rq) err fallback, app)
      | (Inr stream, app) \<Rightarrow> (sendJson 200 (StreamBody (with_progress now stream)), app))"

section \<open>Tokens\<close>

text \<open>\<open>encode\<close> signs and encodes a challenge transaction; \<open>random\<close> and \<open>nonce\<close> are the random texts.\<close>

definition challenge_route ::
  "(ChallengeTx \<Rightarrow> jsError + string) \<Rightarrow> env \<Rightarrow> string \<Rightarrow> string \<Rightarrow> string \<Rightarrow> int \<Rightarrow> Request \<Rightarrow> payload response" where
  "challenge_route encode ev domain random nonce now rq =
     (case as_string (rq_query rq ''accountId'') of
        None \<Rightarrow> send_error rq 400 ''accountId query parameter is required.'' ''VALIDATION_ERROR''
      | Some account \<Rightarrow>
          if trim account = []
          then send_error rq 400 ''accountId query parameter is required.'' ''VALIDATION_ERROR''
          else (case encode (generateChallenge domain (trim account) random nonce now) of
                  Inl err \<Rightarrow> send_error rq 500 ''Failed to generate challenge.'' ''INTERNAL_ERROR''
                | Inr tx \<Rightarrow> sendJson 200 (ChallengeBody tx
                    (case env_value ev ''NETWORK_PASSPHRASE'' of Some p \<Rightarrow> p
                     | None \<Rightarrow> ''Test SDF Network ; September 2015''))))"

definition error_message_or :: "string \<Rightarrow> jsError \<Rightarrow> string" where
  "error_message_or dflt err =
     (if err_isError err then (case err_message err of Some m \<Rightarrow> m | None \<Rightarrow> []) else dflt)"

definition token_route ::
  "AuthLibs \<Rightarrow> (string \<Rightarrow> HorizonAccount option) \<Rightarrow> int \<Rightarrow> int \<Rightarrow> Request \<Rightarrow> nonceStore \<Rightarrow>
   payload response \<times> nonceStore" where
  "token_route libs horizon now signed rq store =
     (case as_string (obj_field (rq_body rq) ''transaction'') of
        None \<Rightarrow> (send_error rq 400 ''transaction in body is required.'' ''VALIDATION_ERROR'', store)
      | Some tx \<Rightarrow>
          if trim tx = []
          then (send_error rq 400 ''transaction in body is required.'' ''VALIDATION_ERROR'', store)
          else (case verifyChallengeAndIssueToken libs horizon tx now signed store of
                  (Inl err, store') \<Rightarrow>
                    (send_error rq 401 (error_message_or ''Authentication failed.'' err) ''AUTH_ERROR'', store')
                | (Inr token, store') \<Rightarrow> (sendJson 200 (TokenBody token), store')))"

text \<open>Whether a JSON value counts as true in a condition.\<close>

fun truthy :: "json option \<Rightarrow> bool" where
  "truthy None = False"
| "truthy (Some JNull) = False"
| "truthy (Some (JBool b)) = b"
| "truthy (Some (JNum n)) = (n \<noteq> 0)"
| "truthy (Some (JStr s)) = (s \<noteq> [])"
| "truthy (Some _) = True"

definition admin_auth_route :: "AuthLibs \<Rightarrow> string option \<Rightarrow> int \<Rightarrow> Request \<Rightarrow> payload response" where
  "admin_auth_route libs adminApiKey now rq =
     (let given = obj_field (rq_body rq) ''apiKey'';
          key = (if truthy given then given else map_option JStr (rq_adminKey rq))
      in if \<not> truthy key \<or> key \<noteq> map_option JStr adminApiKey
         then send_error rq 401 ''Invalid Admin API Key.'' ''UNAUTHORIZED''
         else sendJson 200 (TokenBody (jwt_sign libs
                \<lparr> accountId = Some ''admin'', signer_count = None, threshold = None,
                  role = Some ''admin'', isAdmin = True \<rparr> now)))"

section \<open>Creating\<close>

text \<open>\<open>toFixed(7)\<close> of a number that is not negative and below $10^{21}$: the nearest multiple, upwards on a tie.\<close>

fun pad_zeros :: "nat \<Rightarrow> string \<Rightarrow> string" where
  "pad_zeros n s = replicate (n - length s) CHR ''0'' @ s"

definition toFixed7 :: "jsnum \<Rightarrow> string" where
  "toFixed7 x =
     (let n = nat \<lfloor>x * 10000000 + 1 / 2\<rfloor>
      in nat_to_string (n div 10000000) @ ''.'' @ pad_zeros 7 (nat_to_string (n mod 10000000)))"

definition formatStroopsAsXlm :: "jsnum \<Rightarrow> string" where
  "formatStroopsAsXlm stroops = toFixed7 (fl (stroops / of_int STROOPS_PER_XLM))"

text \<open>
  \<open>allowed\<close> is what \<open>getAllowedAssets\<close> returns; the module it is imported from does not define it, and
  then the call throws outside any handler (\<open>None\<close>).
\<close>

definition with_payload ::
  "string list option \<Rightarrow> (string \<Rightarrow> bool) \<Rightarrow> int \<Rightarrow> Request \<Rightarrow> 'a \<Rightarrow>
   (StreamInput \<Rightarrow> payload response \<times> 'a) \<Rightarrow> payload response \<times> 'a" where
  "with_payload allowed valid now rq state k =
     (case allowed of
        None \<Rightarrow> (crash, state)
      | Some codes \<Rightarrow>
          (case createStreamPayloadWithAllowedAssetsSchema codes valid now (rq_body rq) of
             None \<Rightarrow> (send_issues rq (rq_issues rq), state)
           | Some input \<Rightarrow> k input))"

definition fee_estimate_route ::
  "AuthLibs \<Rightarrow> string list option \<Rightarrow> (string \<Rightarrow> bool) \<Rightarrow> Config \<Rightarrow> TxIO \<Rightarrow> jsnum option \<Rightarrow> int \<Rightarrow> int \<Rightarrow> int \<Rightarrow>
   Request \<Rightarrow> App \<Rightarrow> payload response" where
  "fee_estimate_route libs allowed valid cfg io rawFee t0 t1 t2 rq app =
     fst (authed libs t0 rq app (\<lambda>user. with_payload allowed valid t1 rq app (\<lambda>input.
       (case estimateCreateStreamFee cfg io rawFee input t2 of
          Inl err \<Rightarrow> sendNormalized (rq_ctx rq) err ''Failed to estimate network fee.''
        | Inr fee \<Rightarrow> sendJson 200 (FeeBody fee (formatStroopsAsXlm fee)), app))))"

definition create_route ::
  "AuthLibs \<Rightarrow> string list option \<Rightarrow> (string \<Rightarrow> bool) \<Rightarrow> Config \<Rightarrow> TxIO \<Rightarrow> int \<Rightarrow> int \<Rightarrow> int \<Rightarrow> int \<Rightarrow> int \<Rightarrow> int \<Rightarrow>
   Request \<Rightarrow> App \<Rightarrow> payload response \<times> App" where
  "create_route libs allowed valid cfg io t0 t1 t2 t3 t4 t5 rq app =
     authed libs t0 rq app (\<lambda>user. with_payload allowed valid t1 rq app (\<lambda>input.
       (case createStream cfg io input t2 t3 t4 app of
          (Inl err, app') \<Rightarrow> (sendNormalized (rq_ctx rq) err ''Failed to create stream.'', app')
        | (Inr stream, app') \<Rightarrow> (sendJson 201 (StreamBody (with_progress t5 stream)), app'))))"

section \<open>Owner operations\<close>

text \<open>
  The common start of the routes that belong to one party: authenticate, find the stream, compare
  the account of the token with the owner the stream names.
\<close>

definition owned ::
  "AuthLibs \<Rightarrow> int \<Rightarrow> (StreamRecord \<Rightarrow> string) \<Rightarrow> string \<Rightarrow> Request \<Rightarrow> App \<Rightarrow>
   (string \<Rightarrow> StreamRecord \<Rightarrow> payload response \<times> App) \<Rightarrow> payload response \<times> App" where
  "owned libs t0 owner refusal rq app k =
     authed libs t0 rq app (\<lambda>user. with_stream rq app (\<lambda>sid stream.
       if Some (owner stream) \<noteq> accountId user
       then (send_error rq 403 refusal ''FORBIDDEN'', app) else k sid stream))"

definition cancel_route ::
  "AuthLibs \<Rightarrow> Config \<Rightarrow> TxIO \<Rightarrow> int \<Rightarrow> int \<Rightarrow> int \<Rightarrow> int \<Rightarrow> Request \<Rightarrow> App \<Rightarrow> payload response \<times> App" where
  "cancel_route libs cfg io t0 t1 t2 t3 rq app =
     owned libs t0 sender ''Only the sender can cancel this stream.'' rq app (\<lambda>sid stream.
       case cancelStream cfg io sid t1 t2 app of
         (Inl err, app') \<Rightarrow> (sendNormalized (rq_ctx rq) err ''Failed to cancel stream.'', app')
       | (Inr None, app') \<Rightarrow> (send_error rq 500 ''Failed to cancel stream.'' ''INTERNAL_ERROR'', app')
       | (Inr (Some updated), app') \<Rightarrow> (sendJson 200 (StreamBody (with_progress t3 updated)), app'))"

definition pause_route ::
  "AuthLibs \<Rightarrow> Config \<Rightarrow> int \<Rightarrow> int \<Rightarrow> int \<Rightarrow> int \<Rightarrow> int \<Rightarrow> Request \<Rightarrow> App \<Rightarrow> payload response \<times> App" where
  "pause_route libs cfg t0 t1 t2 t3 t4 rq app =
     owned libs t0 sender ''Only the sender can pause this stream.'' rq app (\<lambda>sid stream.
       send_stream rq ''Failed to pause stream.'' t4 (pauseStream cfg sid t1 t2 t3 app))"

definition resume_route ::
  "AuthLibs \<Rightarrow> Config \<Rightarrow> int \<Rightarrow> int \<Rightarrow> int \<Rightarrow> int \<Rightarrow> Request \<Rightarrow> App \<Rightarrow> payload response \<times> App" where
  "resume_route libs cfg t0 t1 t2 t3 rq app =
     owned libs t0 sender ''Only the sender can resume this stream.'' rq app (\<lambda>sid stream.
       send_stream rq ''Failed to resume stream.'' t3 (resumeStream cfg sid t1 t2 app))"

text \<open>
  The loop of the bulk cancellation. Each identifier is cancelled before the next one is read;
  \<open>ios\<close>, \<open>c1\<close> and \<open>c2\<close> give the network's answer and the clock readings for the \<open>i\<close>-th one.
\<close>

fun bulk_cancel_loop ::
  "Config \<Rightarrow> (nat \<Rightarrow> TxIO) \<Rightarrow> (nat \<Rightarrow> int) \<Rightarrow> (nat \<Rightarrow> int) \<Rightarrow> AuthUser \<Rightarrow> nat \<Rightarrow> string list \<Rightarrow>
   string list \<Rightarrow> (string \<times> string) list \<Rightarrow> App \<Rightarrow> (string list \<times> (string \<times> string) list) \<times> App" where
  "bulk_cancel_loop cfg ios c1 c2 user i [] canceled failed app = ((canceled, failed), app)"
| "bulk_cancel_loop cfg ios c1 c2 user i (sid # ids) canceled failed app =
     (case getStream sid (db app) of
        None \<Rightarrow> bulk_cancel_loop cfg ios c1 c2 user (Suc i) ids canceled
                  (failed @ [(sid, ''Stream not found'')]) app
      | Some stream \<Rightarrow>
          if Some (sender stream) \<noteq> accountId user
          then bulk_cancel_loop cfg ios c1 c2 user (Suc i) ids canceled
                 (failed @ [(sid, ''Only the sender can cancel this stream'')]) app
          else (case cancelStream cfg (ios i) sid (c1 i) (c2 i) app of
                  (Inl err, app') \<Rightarrow> bulk_cancel_loop cfg ios c1 c2 user (Suc i) ids canceled
                    (failed @ [(sid, ''Failed to cancel stream'')]) app'
                | (Inr r, app') \<Rightarrow> bulk_cancel_loop cfg ios c1 c2 user (Suc i) ids (canceled @ [sid]) failed app'))"

definition bulk_cancel_route ::
  "AuthLibs \<Rightarrow> (string \<Rightarrow> bool) \<Rightarrow> Config \<Rightarrow> (nat \<Rightarrow> TxIO) \<Rightarrow> int \<Rightarrow> (nat \<Rightarrow> int) \<Rightarrow> (nat \<Rightarrow> int) \<Rightarrow>
   Request \<Rightarrow> App \<Rightarrow> payload response \<times> App" where
  "bulk_cancel_route libs valid cfg ios t0 c1 c2 rq app =
     authed libs t0 rq app (\<lambda>user.
       (case bulkCancelStreamsSchema valid (rq_body rq) of
          None \<Rightarrow> (send_issues rq (rq_issues rq), app)
        | Some (ids, named) \<Rightarrow>
            if Some named \<noteq> accountId user
            then (send_error rq 403 ''Sender in request body does not match authenticated user.'' ''FORBIDDEN'', app)
            else (let ((canceled, failed), app') = bulk_cancel_loop cfg ios c1 c2 user 0 ids [] [] app
                  in (sendJson 200 (BulkBody canceled failed), app'))))"

section \<open>Claiming\<close>

text \<open>
  The transaction of a claim: unless the stream has a claimed event, log one with the amount that was
  read before. The loads of the two modules are waits, so another request may come in between.
\<close>

definition claim_commit ::
  "StreamRecord \<Rightarrow> jsnum \<Rightarrow> int \<Rightarrow> App \<Rightarrow> (jsError + bool) \<times> App" where
  "claim_commit stream vested now app =
     (if streamHasEvent (stream_id stream) ''claimed'' (db app) then (Inr True, app)
      else (case recordEventWithDb (stream_id stream) ''claimed'' now (Some (recipient stream)) (Some vested)
                   (Some (JObj [(''assetCode'', JStr (assetCode stream))])) None (db app) of
              Inl err \<Rightarrow> (Inl (db_error err), app)
            | Inr d \<Rightarrow> (Inr False, app\<lparr>db := d\<rparr>)))"

definition claim_answer ::
  "Request \<Rightarrow> StreamRecord \<Rightarrow> jsnum \<Rightarrow> int \<Rightarrow> (jsError + bool) \<times> App \<Rightarrow> payload response \<times> App" where
  "claim_answer rq stream vested now result =
     (case result of
        (Inl err, app) \<Rightarrow> (sendNormalized (rq_ctx rq) err ''Failed to process claim.'', app)
      | (Inr True, app) \<Rightarrow> (send_error rq 409 ''Stream has already been claimed.'' ''ALREADY_CLAIMED'', app)
      | (Inr False, app) \<Rightarrow>
          ((case getStreamHistory (stream_id stream) 20 0 Desc (db app) of
              None \<Rightarrow> sendNormalized (rq_ctx rq) (plain_error ''Unexpected token in JSON'') ''Failed to process claim.''
            | Some history \<Rightarrow> sendJson 200 (ClaimBody vested (assetCode stream)
                (''local-'' @ stream_id stream @ ''-'' @ int_to_string now) history)), app))"

definition claim_route ::
  "AuthLibs \<Rightarrow> int \<Rightarrow> int \<Rightarrow> int \<Rightarrow> Request \<Rightarrow> App \<Rightarrow> payload response \<times> App" where
  "claim_route libs t0 t1 t2 rq app =
     owned libs t0 recipient ''Only the recipient can claim this stream.'' rq app (\<lambda>sid stream.
       let vested = vestedAmount (calculateProgress stream t1) in
       if vested \<le> 0
       then (send_error rq 400 ''No claimable amount available.'' ''NO_CLAIMABLE_AMOUNT'', app)
       else claim_answer rq stream vested t2 (claim_commit stream vested t2 app))"

section \<open>Operations without an owner check\<close>

definition reconcile_route ::
  "AuthLibs \<Rightarrow> Config \<Rightarrow> jsError option \<Rightarrow> streamSource \<Rightarrow> (nat \<Rightarrow> int) \<Rightarrow> (nat \<Rightarrow> int) \<Rightarrow> int \<Rightarrow> int \<Rightarrow>
   Request \<Rightarrow> App \<Rightarrow> payload response \<times> App" where
  "reconcile_route libs cfg account src c1 c2 t0 t1 rq app =
     authed libs t0 rq app (\<lambda>user.
       (case parseStreamId (rq_issues rq) (rq_params rq ''id'') of
          Inl issues \<Rightarrow> (send_issues rq issues, app)
        | Inr sid \<Rightarrow> send_stream rq ''Failed to reconcile stream.'' t1
                       (reconcileStream cfg account src c1 c2 sid app)))"

definition start_time_route ::
  "AuthLibs \<Rightarrow> Config \<Rightarrow> int \<Rightarrow> int \<Rightarrow> int \<Rightarrow> int \<Rightarrow> int \<Rightarrow> Request \<Rightarrow> App \<Rightarrow> payload response \<times> App" where
  "start_time_route libs cfg t0 t1 t2 t3 t4 rq app =
     authed libs t0 rq app (\<lambda>user. with_stream rq app (\<lambda>sid stream.
       case updateStreamStartAtSchema t1 (rq_body rq) of
         None \<Rightarrow> (send_issues rq (rq_issues rq), app)
       | Some newStart \<Rightarrow> send_stream rq ''Failed to update stream start time.'' t4
                            (updateStreamStartAt cfg sid newStart t2 t3 app)))"

section \<open>Dead letters and deletion\<close>

definition requeue_route :: "AuthLibs \<Rightarrow> int \<Rightarrow> int \<Rightarrow> Request \<Rightarrow> App \<Rightarrow> payload response \<times> App" where
  "requeue_route libs t0 now rq app =
     authed libs t0 rq app (\<lambda>user.
       (case Option.bind (as_string (rq_params rq ''id'')) parseInt of
          None \<Rightarrow> (send_error rq 400 ''Invalid ID format'' ''VALIDATION_ERROR'', app)
        | Some i \<Rightarrow>
            (case (if i < 0 then Inr (False, db app) else requeueDeadLetter (nat i) now (db app)) of
               Inl err \<Rightarrow> (sendNormalized (rq_ctx rq) (db_error err) ''Failed to re-queue dead-letter webhook.'', app)
             | Inr (False, d) \<Rightarrow> (send_error rq 404 ''Dead letter not found'' ''NOT_FOUND'', app\<lparr>db := d\<rparr>)
             | Inr (True, d) \<Rightarrow>
                 (sendJson 200 (JsonBody (JObj [(''success'', JBool True),
                    (''message'', JStr ''Webhook re-queued successfully'')])), app\<lparr>db := d\<rparr>))))"

text \<open>\<open>adminAuth\<close> in front of a handler; its own answer is a bare object.\<close>

definition admin_only ::
  "string option \<Rightarrow> Request \<Rightarrow> App \<Rightarrow> (unit \<Rightarrow> payload response \<times> App) \<Rightarrow> payload response \<times> App" where
  "admin_only adminApiKey rq app k =
     (if adminAuth adminApiKey (rq_adminKey rq) then k ()
      else (sendJson 401 (JsonBody (JObj [(''message'', JStr ''Unauthorized'')])), app))"

definition clear_dead_letters_route :: "string option \<Rightarrow> Request \<Rightarrow> App \<Rightarrow> payload response \<times> App" where
  "clear_dead_letters_route adminApiKey rq app =
     admin_only adminApiKey rq app (\<lambda>_.
       let (n, d) = clearDeadLetters (db app) in
       (sendJson 200 (JsonBody (JObj [(''success'', JBool True), (''deleted'', JNum (of_nat n)),
          (''message'', JStr ''Webhook dead-letter queue cleared successfully'')])), app\<lparr>db := d\<rparr>))"

definition delete_route :: "string option \<Rightarrow> int \<Rightarrow> Request \<Rightarrow> App \<Rightarrow> payload response \<times> App" where
  "delete_route adminApiKey now rq app =
     admin_only adminApiKey rq app (\<lambda>_.
       case parseStreamId (rq_issues rq) (rq_params rq ''id'') of
         Inl issues \<Rightarrow> (send_issues rq issues, app)
       | Inr sid \<Rightarrow>
           (case deleteStreamById sid now app of
              (False, app') \<Rightarrow> (send_error rq 404 ''Stream not found or already archived.'' ''NOT_FOUND'', app')
            | (True, app') \<Rightarrow> (sendJson 204 EmptyBody, app')))"

end
