(* ===== verification/RouteTheorems.thy ===== *)
theory RouteTheorems
  imports MutationRoutes
begin

text \<open>
  What the routes guarantee: only the party a stream names changes it through the owner routes, a
  second claim is refused, and a bulk cancellation sorts every identifier into one of its two lists.
\<close>

section \<open>Owner routes\<close>

text \<open>The request carries a valid token of the given party of the stream it names.\<close>

definition acts_for :: "AuthLibs \<Rightarrow> int \<Rightarrow> (StreamRecord \<Rightarrow> string) \<Rightarrow> Request \<Rightarrow> App \<Rightarrow> bool" where
  "acts_for libs t0 owner rq app =
     (case (authMiddleware libs (rq_ctx rq) (rq_authorization rq) t0 :: payload response + AuthUser) of
        Inl r \<Rightarrow> False
      | Inr user \<Rightarrow>
          (case parseStreamId (rq_issues rq) (rq_params rq ''id'') of
             Inl issues \<Rightarrow> False
           | Inr sid \<Rightarrow>
               (case getStream sid (db app) of
                  None \<Rightarrow> False
                | Some s \<Rightarrow> accountId user = Some (owner s))))"

lemma sum_split_sendNormalized: "resp_body (sendNormalized ctx err msg) \<noteq> Inr b"
  by (simp add: sendNormalized_def sendApiError_def Let_def)

lemma auth_refusal:
  "authMiddleware libs ctx header t = Inl r \<Longrightarrow> resp_status r = 401"
  by (auto simp: authMiddleware_def rejected_token_def split: option.splits sum.splits if_splits)

lemma owned_refused:
  assumes "\<not> acts_for libs t0 owner rq app"
  shows "resp_status (fst (owned libs t0 owner refusal rq app k)) \<in> {400, 401, 403, 404}"
    and "snd (owned libs t0 owner refusal rq app k) = app"
  using assms auth_refusal [of libs "rq_ctx rq" "rq_authorization rq" t0]
  by (auto simp: acts_for_def owned_def authed_def with_stream_def send_error_def send_issues_def
      split: sum.splits option.splits)

text \<open>C4: Only the party a stream names changes it: a request to cancel, pause, resume or claim a
  stream that does not carry a valid token of its sender (its recipient, to claim) is answered with
  400, 401, 403 or 404 and leaves the state as it was.\<close>

theorem only_the_owner_acts:
  assumes "\<not> acts_for libs t0 sender rq app \<and>
      (r, app') \<in> {cancel_route libs cfg io t0 t1 t2 t3 rq app, pause_route libs cfg t0 t1 t2 t3 t4 rq app,
        resume_route libs cfg t0 t1 t2 t3 rq app} \<or>
    \<not> acts_for libs t0 recipient rq app \<and> (r, app') = claim_route libs t0 t1 t2 rq app"
  shows "app' = app \<and> resp_status r \<in> {400, 401, 403, 404}"
proof -
  have "\<exists>owner refusal k. \<not> acts_for libs t0 owner rq app \<and> (r, app') = owned libs t0 owner refusal rq app k"
    using assms by (auto simp: cancel_route_def pause_route_def resume_route_def claim_route_def)
  then obtain owner refusal k
    where o: "\<not> acts_for libs t0 owner rq app" "(r, app') = owned libs t0 owner refusal rq app k"
    by blast
  show ?thesis
    using owned_refused [OF o(1), of refusal k] o(2) [symmetric] by simp
qed

text \<open>A request for stream 7, and a library that takes the bearer token for the account.\<close>

definition account_libs :: AuthLibs where
  "account_libs = sample_libs\<lparr>jwt_verify := (\<lambda>t tok. Inr \<lparr> accountId = Some tok, signer_count = None,
     threshold = None, role = None, isAdmin = False \<rparr>)\<rparr>"

definition request_of :: "string \<Rightarrow> Request" where
  "request_of account = \<lparr> rq_ctx = sample_req, rq_authorization = Some (''Bearer '' @ account),
     rq_adminKey = None, rq_params = [''id'' \<mapsto> JStr ''7''], rq_query = Map.empty, rq_body = JNull,
     rq_issues = [] \<rparr>"

theorem only_the_owner_acts_witness:
  "snd (pause_route account_libs offline 0 500 500 500 500 (request_of ''GMALLORY'') sample_app) = sample_app"
proof -
  have "\<not> acts_for account_libs 0 sender (request_of ''GMALLORY'') sample_app"
    by code_simp
  then show ?thesis
    using only_the_owner_acts [of account_libs 0 "request_of ''GMALLORY''" sample_app
        "fst (pause_route account_libs offline 0 500 500 500 500 (request_of ''GMALLORY'') sample_app)"
        "snd (pause_route account_libs offline 0 500 500 500 500 (request_of ''GMALLORY'') sample_app)"
        offline _ 500 500 500 500]
    by simp
qed

section \<open>Claims\<close>

lemma claim_commit_again:
  "streamHasEvent (stream_id s) ''claimed'' (db app) \<Longrightarrow> claim_commit s v t app = (Inr True, app)"
  by (simp add: claim_commit_def)

lemma recordEvent_without_ledger:
  "recordEventWithDb sid ty ts act amt meta None d =
     (if stream_exists sid d then Inr (push_event (mk_event sid ty ts act amt meta None) d)
      else Inl ForeignKeyViolation)"
  by (simp add: recordEventWithDb_def insert_or_ignore_event_def same_ledger_event_def)

lemma claim_commit_cases:
  assumes "claim_commit s v t app = (r, app')"
  obtains "app' = app" "r = Inr True" "streamHasEvent (stream_id s) ''claimed'' (db app)"
  | "app' = app" "r = Inl (db_error ForeignKeyViolation)"
  | "r = Inr False" "\<not> streamHasEvent (stream_id s) ''claimed'' (db app)" "stream_exists (stream_id s) (db app)"
    "app' = app\<lparr>db := push_event (mk_event (stream_id s) ''claimed'' t (Some (recipient s)) (Some v)
           (Some (JObj [(''assetCode'', JStr (assetCode s))])) None) (db app)\<rparr>"
  using assms by (auto simp: claim_commit_def recordEvent_without_ledger split: if_splits)

lemma claim_logged:
  "claim_commit s v t app = (Inr False, app') \<Longrightarrow> streamHasEvent (stream_id s) ''claimed'' (db app')"
  by (erule claim_commit_cases) (auto simp: streamHasEvent_def stream_events_push)

lemma claim_answer_status:
  "resp_status (fst (claim_answer rq s v t (claim_commit s v t app))) = 200 \<Longrightarrow>
   fst (claim_commit s v t app) = Inr False"
  by (cases "claim_commit s v t app")
    (auto elim!: claim_commit_cases simp: claim_answer_def send_error_def sendNormalized_def Let_def
      normalizeUnknownApiError_def plain_error_def split: option.splits)

lemma snd_claim_answer: "snd (claim_answer rq s v t res) = snd res"
  by (auto simp: claim_answer_def split: prod.splits sum.splits bool.splits)

lemma claim_route_accepted:
  assumes "claim_route libs t0 t1 t2 rq app = (r, app')" "resp_status r = 200"
  obtains sid s where "parseStreamId (rq_issues rq) (rq_params rq ''id'') = Inr sid"
    "getStream sid (db app) = Some s" "claim_commit s (vestedAmount (calculateProgress s t1)) t2 app = (Inr False, app')"
proof -
  obtain sid s where s: "parseStreamId (rq_issues rq) (rq_params rq ''id'') = Inr sid"
      "getStream sid (db app) = Some s"
      "(r, app') = claim_answer rq s (vestedAmount (calculateProgress s t1)) t2
         (claim_commit s (vestedAmount (calculateProgress s t1)) t2 app)"
    using assms auth_refusal [of libs "rq_ctx rq" "rq_authorization rq" t0 r]
    by (auto simp: claim_route_def owned_def authed_def with_stream_def send_error_def send_issues_def Let_def
        split: sum.splits option.splits if_splits)
  have "fst (claim_commit s (vestedAmount (calculateProgress s t1)) t2 app) = Inr False"
    using assms(2) claim_answer_status [of rq s _ t2 app] s(3) by (metis fst_conv)
  moreover have "snd (claim_commit s (vestedAmount (calculateProgress s t1)) t2 app) = app'"
    using s(3) snd_claim_answer by (metis snd_conv)
  ultimately show ?thesis
    using s that by (metis prod.collapse)
qed

text \<open>A stream is paid out once: after a claim was answered with 200, every later claim of the same
  stream, in any state whose event log still holds the events of that moment, by any account and at
  any time, is not answered with 200 and changes nothing.\<close>

theorem claimed_once:
  assumes "claim_route libs t0 t1 t2 rq app = (r, app')" "resp_status r = 200"
    and "set (stream_events (db app')) \<subseteq> set (stream_events (db later))"
    and "rq_params rq' ''id'' = rq_params rq ''id''"
  shows "resp_status (fst (claim_route libs u0 u1 u2 rq' later)) \<noteq> 200 \<and>
    snd (claim_route libs u0 u1 u2 rq' later) = later"
proof -
  obtain sid s where s: "parseStreamId (rq_issues rq) (rq_params rq ''id'') = Inr sid"
      "getStream sid (db app) = Some s" "claim_commit s (vestedAmount (calculateProgress s t1)) t2 app = (Inr False, app')"
    using assms(1,2) by (rule claim_route_accepted)
  have logged: "streamHasEvent sid ''claimed'' (db later)"
    using claim_logged [OF s(3)] getStream_id [OF s(2)] assms(3) by (auto simp: streamHasEvent_def)
  have sid: "parseStreamId (rq_issues rq') (rq_params rq' ''id'') = Inr sid"
    using s(1) assms(4) by (auto simp: parseStreamId_def split: option.splits json.splits)
  have again: "claim_commit s' v u2 later = (Inr True, later)" if "getStream sid (db later) = Some s'" for s' v
    using logged getStream_id [OF that] by (auto intro: claim_commit_again)
  show ?thesis
    using again sid
    by (auto dest: auth_refusal simp: claim_route_def owned_def authed_def with_stream_def send_error_def send_issues_def Let_def
        claim_answer_def split: sum.splits option.splits)
qed

theorem claimed_once_witness:
  "resp_status (fst (claim_route account_libs 0 900 900 (request_of ''GRECIPIENT'')
     (snd (claim_route account_libs 0 500 500 (request_of ''GRECIPIENT'') sample_app)))) \<noteq> 200"
proof -
  have "resp_status (fst (claim_route account_libs 0 500 500 (request_of ''GRECIPIENT'') sample_app)) = 200"
    by code_simp
  then show ?thesis
    using claimed_once [OF prod.collapse [symmetric] _ subset_refl refl,
        of account_libs 0 500 500 "request_of ''GRECIPIENT''" sample_app 0 900 900] by blast
qed

section \<open>Bulk cancellation\<close>

lemma cancel_chain_sel [simp]:
  "stream_id (cancel_chain cfg io s) = stream_id s" "sender (cancel_chain cfg io s) = sender s"
  "canceledAt (cancel_chain cfg io s) = canceledAt s"
  by (auto simp: cancel_chain_def split: sum.splits option.splits)

text \<open>What cancelling an existing stream does to the table.\<close>

lemma cancelStream_effect:
  assumes "getStream sid (db app) = Some s" "cancelStream cfg io sid t1 t2 app = (r, app')"
  obtains s' where "r = Inr (Some s')" "canceledAt s' \<noteq> None" "sender s' = sender s"
    "\<And>k. getStream k (db app') = (if k = sid then Some s' else getStream k (db app))"
proof (cases "canceledAt s = None")
  case False
  with assms that [of s] show ?thesis by (auto simp: cancelStream_def cancel_read_def)
next
  case True
  let ?s = "cancel_chain cfg io (s\<lparr>canceledAt := Some t1\<rparr>)"
  have c: "cancel_commit cfg sid ?s t2 app = (r, app')"
    using assms True by (simp add: cancelStream_def cancel_read_def)
  have "stream_id ?s = sid" using getStream_id [OF assms(1)] by simp
  then have "getStream k (db app') = (if k = sid then Some ?s else getStream k (db app))" for k
    using cancel_commit_saved [OF c] saved_getStream [of ?s _ app app' k] by auto
  then show ?thesis
    using that [of ?s] cancel_commit_saved [OF c] by simp
qed

definition canceled_for :: "AuthUser \<Rightarrow> string \<Rightarrow> App \<Rightarrow> bool" where
  "canceled_for user sid app =
     (case getStream sid (db app) of
        None \<Rightarrow> False
      | Some s \<Rightarrow> canceledAt s \<noteq> None \<and> Some (sender s) = accountId user)"

lemma canceled_for_kept:
  assumes "canceled_for user k app" "getStream sid (db app) = Some s" "Some (sender s) = accountId user"
    and "cancelStream cfg io sid t1 t2 app = (r, app')"
  shows "canceled_for user k app'"
proof -
  obtain s' where "canceledAt s' \<noteq> None" "sender s' = sender s"
      "\<And>k. getStream k (db app') = (if k = sid then Some s' else getStream k (db app))"
    by (rule cancelStream_effect [OF assms(2,4)]) (rule that)
  then show ?thesis
    using assms(1,3) by (cases "k = sid") (simp_all add: canceled_for_def)
qed

definition foreign :: "AuthUser \<Rightarrow> string \<Rightarrow> App \<Rightarrow> bool" where
  "foreign user sid app =
     (case getStream sid (db app) of None \<Rightarrow> True | Some s \<Rightarrow> Some (sender s) \<noteq> accountId user)"

lemma bulk_loop:
  assumes "bulk_cancel_loop cfg ios c1 c2 user i ids cs fs app = ((cs', fs'), app')"
    and "\<forall>sid \<in> set cs. canceled_for user sid app"
  shows "mset cs' + mset (map fst fs') = mset cs + mset (map fst fs) + mset ids \<and>
    (\<forall>sid \<in> set cs'. canceled_for user sid app') \<and>
    (\<forall>k. foreign user k app \<longrightarrow> getStream k (db app') = getStream k (db app))"
  using assms
proof (induction ids arbitrary: i cs fs app)
  case (Cons sid ids)
  show ?case
  proof (cases "getStream sid (db app)")
    case None
    with Cons.prems Cons.IH [of "Suc i" cs "fs @ [(sid, ''Stream not found'')]" app] show ?thesis by simp
  next
    case (Some s)
    show ?thesis
    proof (cases "Some (sender s) = accountId user")
      case False
      with Some Cons.prems
        Cons.IH [of "Suc i" cs "fs @ [(sid, ''Only the sender can cancel this stream'')]" app]
      show ?thesis by simp
    next
      case True
      obtain r app1 where c: "cancelStream cfg (ios i) sid (c1 i) (c2 i) app = (r, app1)" by fastforce
      from cancelStream_effect [OF Some c] obtain s' where s': "r = Inr (Some s')" "canceledAt s' \<noteq> None"
          "sender s' = sender s" "\<And>k. getStream k (db app1) = (if k = sid then Some s' else getStream k (db app))"
        by blast
      have kept: "\<forall>k \<in> set (cs @ [sid]). canceled_for user k app1"
        using Cons.prems(2) canceled_for_kept [OF _ Some True c] s' True by (auto simp: canceled_for_def)
      have loop: "bulk_cancel_loop cfg ios c1 c2 user (Suc i) ids (cs @ [sid]) fs app1 = ((cs', fs'), app')"
        using Cons.prems(1) Some True c s'(1) by simp
      have "foreign user k app1 \<and> getStream k (db app1) = getStream k (db app)" if "foreign user k app" for k
        using that s'(4) [of k] Some True by (cases "k = sid") (simp_all add: foreign_def)
      then show ?thesis
        using Cons.IH [OF loop kept] by (simp add: ac_simps)
    qed
  qed
qed simp

text \<open>C35: A bulk cancellation answers for every identifier exactly once, as canceled or as failed with a
  reason; afterwards every identifier reported as canceled is a canceled stream of the account, and
  the streams of other accounts are as they were.\<close>

theorem bulk_cancel_sorts:
  assumes "bulk_cancel_route libs valid cfg ios t0 c1 c2 rq app = (r, app')"
    and "authMiddleware libs (rq_ctx rq) (rq_authorization rq) t0 = (Inr user :: payload response + AuthUser)"
    and "bulkCancelStreamsSchema valid (rq_body rq) = Some (ids, the (accountId user))" "accountId user \<noteq> None"
  shows "\<exists>cs fs. r = sendJson 200 (BulkBody cs fs) \<and> mset cs + mset (map fst fs) = mset ids \<and>
    (\<forall>sid \<in> set cs. \<exists>s. getStream sid (db app') = Some s \<and> canceledAt s \<noteq> None \<and>
       Some (sender s) = accountId user) \<and>
    (\<forall>sid s. getStream sid (db app) = Some s \<and> Some (sender s) \<noteq> accountId user \<longrightarrow>
       getStream sid (db app') = Some s)"
proof -
  obtain cs fs where loop: "bulk_cancel_loop cfg ios c1 c2 user 0 ids [] [] app = ((cs, fs), app')"
      and r: "r = sendJson 200 (BulkBody cs fs)"
    using assms by (auto simp: bulk_cancel_route_def authed_def Let_def split: prod.splits)
  show ?thesis
    using bulk_loop [OF loop] r
    by (intro exI [of _ cs] exI [of _ fs])
      (simp add: canceled_for_def foreign_def split: option.splits; metis option.exhaust option.inject)
qed

definition sample_bulk :: Request where
  "sample_bulk = (request_of ''GSENDER'')\<lparr>rq_body := JObj [(''sender'', JStr ''GSENDER''),
     (''streamIds'', JArr [JStr ''7'', JStr ''8''])]\<rparr>"

theorem bulk_cancel_sorts_witness:
  "\<exists>cs fs. fst (bulk_cancel_route account_libs (\<lambda>_. True) offline (\<lambda>_. dead_io) 0 (\<lambda>_. 500) (\<lambda>_. 500)
       sample_bulk sample_app) = sendJson 200 (BulkBody cs fs) \<and>
     mset cs + mset (map fst fs) = {#''7'', ''8''#}"
proof -
  let ?u = "\<lparr> accountId = Some ''GSENDER'', signer_count = None, threshold = None, role = None, isAdmin = False \<rparr>"
  have a: "authMiddleware account_libs (rq_ctx sample_bulk) (rq_authorization sample_bulk) 0 =
      (Inr ?u :: payload response + AuthUser)"
    by (simp add: authMiddleware_def bearer_token_def sample_bulk_def request_of_def account_libs_def
        startsWith_def)
  have b: "bulkCancelStreamsSchema (\<lambda>_. True) (rq_body sample_bulk) = Some ([''7'', ''8''], the (accountId ?u))"
    by code_simp
  show ?thesis
    using bulk_cancel_sorts [OF prod.collapse [symmetric] a b, of offline "\<lambda>_. dead_io" "\<lambda>_. 500" "\<lambda>_. 500" sample_app]
    by auto
qed

section \<open>Fees\<close>

lemma stroops_rounding:
  assumes "n < 2 ^ 52"
  shows "nat \<lfloor>fl (of_nat n / 10000000) * 10000000 + 1 / 2\<rfloor> = n"
proof (cases "n = 0")
  case False
  let ?x = "of_nat n / 10000000 :: rat"
  have x: "1 / 10000000 \<le> ?x" using False by (simp add: divide_right_mono)
  have "(2 :: rat) powi (- 1000) \<le> 2 powi (- 24)" by (rule powi_mono) simp
  also have "\<dots> \<le> 1 / 10000000" by (simp add: powi_pow2 pow2_def)
  finally have "\<bar>fl_pos ?x - ?x\<bar> \<le> ?x / 2 ^ 53" using x by (intro fl_pos_near) linarith
  moreover have "fl ?x = fl_pos ?x" using x by (simp add: fl_def)
  ultimately have near: "\<bar>fl ?x - ?x\<bar> \<le> ?x / 2 ^ 53" by simp
  have "of_nat n < (2 ^ 52 :: rat)" using assms of_nat_less_iff [where 'a = rat, of n "2 ^ 52"] by simp
  then have "of_nat n / 2 ^ 53 < (1 / 2 :: rat)" by (simp add: field_simps)
  then have "\<bar>fl ?x * 10000000 - of_nat n\<bar> < 1 / 2"
    using near by (simp add: field_simps abs_le_iff)
  then have "of_nat n \<le> fl ?x * 10000000 + 1 / 2" "fl ?x * 10000000 + 1 / 2 < of_nat n + 1"
    unfolding abs_less_iff by linarith+
  then have "\<lfloor>fl ?x * 10000000 + 1 / 2\<rfloor> = int n"
    by (intro floor_unique) simp_all
  then show ?thesis by simp
qed simp

lemma filter_digits: "list_all is_digit s \<Longrightarrow> filter is_digit s = s"
  by (simp add: filter_id_conv list_all_iff)

text \<open>A fee is shown to the last stroop: for a fee of fewer than $2^{52}$ stroops the text has the whole
  XLM before the point and exactly seven digits after it, and its digits read as one number are the
  fee, although the division is rounded to a double.\<close>

theorem fee_text_exact:
  assumes "n < 2 ^ 52"
  shows "formatStroopsAsXlm (of_nat n) =
      nat_to_string (n div 10000000) @ ''.'' @ pad_zeros 7 (nat_to_string (n mod 10000000)) \<and>
    length (pad_zeros 7 (nat_to_string (n mod 10000000))) = 7 \<and>
    digits_val (filter is_digit (formatStroopsAsXlm (of_nat n))) = n"
proof -
  let ?frac = "nat_to_string (n mod 10000000)"
  have shown: "formatStroopsAsXlm (of_nat n) = nat_to_string (n div 10000000) @ ''.'' @ pad_zeros 7 ?frac"
    by (simp only: formatStroopsAsXlm_def toFixed7_def STROOPS_PER_XLM_def of_int_numeral
        stroops_rounding [OF assms] Let_def)
  have len: "length ?frac \<le> 7" using length_nat_to_string [of "n mod 10000000" 6] by simp
  have "list_all is_digit (pad_zeros 7 ?frac)"
    using nat_to_string_digits by (auto simp: list_all_iff is_digit_def less_eq_char_def)
  then have "filter is_digit (formatStroopsAsXlm (of_nat n)) = nat_to_string (n div 10000000) @ pad_zeros 7 ?frac"
    using nat_to_string_digits [of "n div 10000000"]
    by (simp add: shown filter_digits list_all_iff is_digit_def less_eq_char_def del: nat_to_string.simps pad_zeros.simps)
  moreover have "digits_val (pad_zeros 7 ?frac) = n mod 10000000" by (simp add: digits_val_append digits_val_zeros)
  ultimately show ?thesis
    using shown len by (simp add: digits_val_append)
qed

theorem fee_text_exact_witness: "formatStroopsAsXlm (of_nat 1234567) = ''0.1234567''"
proof -
  have lt: "(1234567 :: nat) < 2 ^ 52" by simp
  have "nat_to_string (1234567 div 10000000) @ ''.'' @ pad_zeros 7 (nat_to_string (1234567 mod 10000000)) = ''0.1234567''"
    by (simp add: nat_to_string.simps digit_char_def) code_simp
  with conjunct1 [OF fee_text_exact [OF lt]] show ?thesis by (rule trans)
qed

end
