(* ===== verification/IndexerTheorems.thy ===== *)
theory IndexerTheorems
  imports Indexer
begin

text \<open>
  What the indexer guarantees: storing events again changes nothing, the checkpoint never moves
  back and agrees with the database, the two polling modes store the same events, and the circuit
  breaker stops the polls after five failures.
\<close>

section \<open>Storing events\<close>

definition settled :: "ContractEvent \<Rightarrow> Db \<Rightarrow> bool" where
  "settled e d = (processEvent e d = d)"

lemma process_events_Nil [simp]: "process_events [] d = d"
  by (simp add: process_events_def)

lemma process_events_Cons [simp]: "process_events (e # es) d = process_events es (processEvent e d)"
  by (simp add: process_events_def)

lemma process_events_append [simp]:
  "process_events (es @ fs) d = process_events fs (process_events es d)"
  by (simp add: process_events_def)

lemma event_row_ledger: "event_row e = Some row \<Longrightarrow> ledger_sequence row = Some (ce_ledger e)"
  by (auto simp: event_row_def mk_event_def split: option.splits nval.splits if_splits)

lemma processEvent_cases:
  obtains "processEvent e d = d"
  | row where "event_row e = Some row" "stream_exists (ev_stream_id row) d"
      "\<forall>x \<in> set (stream_events d). \<not> same_ledger_event row x" "processEvent e d = push_event row d"
proof (cases "insert_or_ignore_event (the (event_row e)) d")
  case (Inr d')
  then show ?thesis
  proof (cases rule: insert_event_cases)
    case 1
    with Inr that(1) show ?thesis by (cases "event_row e") (auto simp: processEvent_def)
  next
    case 2
    with Inr that show ?thesis
      by (cases "event_row e") (auto simp: processEvent_def insert_or_ignore_event_def split: if_splits)
  qed
next
  case (Inl err)
  with that(1) show ?thesis by (cases "event_row e") (auto simp: processEvent_def)
qed

lemma processEvent_streams [simp, frame_simps]: "streams (processEvent e d) = streams d"
  by (rule processEvent_cases [of e d]) simp_all

lemma processEvent_cursor [simp, frame_simps]: "indexer_cursor (processEvent e d) = indexer_cursor d"
  by (rule processEvent_cases [of e d]) (simp_all add: push_event_def)

lemma process_events_streams [simp, frame_simps]: "streams (process_events es d) = streams d"
  by (induction es arbitrary: d) simp_all

lemma process_events_cursor [simp, frame_simps]:
  "indexer_cursor (process_events es d) = indexer_cursor d"
  by (induction es arbitrary: d) simp_all

lemma processEvent_grows: "set (stream_events d) \<subseteq> set (stream_events (processEvent e d))"
  by (rule processEvent_cases [of e d]) (auto simp: stream_events_push)

lemma settled_iff:
  "settled e d \<longleftrightarrow>
     (\<forall>row. event_row e = Some row \<longrightarrow>
        (\<exists>x \<in> set (stream_events d). same_ledger_event row x) \<or> \<not> stream_exists (ev_stream_id row) d)"
  by (cases "event_row e")
    (auto simp: settled_def processEvent_def insert_or_ignore_event_def push_event_def
      dest: arg_cong [where f = events_seq])

lemma settled_after: "settled e (processEvent e d)"
proof (rule processEvent_cases [of e d])
  assume "processEvent e d = d"
  then show ?thesis by (simp add: settled_def)
next
  fix row assume "event_row e = Some row" "processEvent e d = push_event row d"
  moreover from this have "same_ledger_event row (row\<lparr>event_id := Suc (events_seq d)\<rparr>)"
    using event_row_ledger [of e row] by (simp add: same_ledger_event_def)
  ultimately show ?thesis by (auto simp: settled_iff stream_events_push)
qed

lemma settled_mono: "settled e d \<Longrightarrow> settled e (processEvent f d)"
  using processEvent_grows [of d f] by (fastforce simp: settled_iff stream_exists_def)

lemma settled_events_mono: "settled e d \<Longrightarrow> settled e (process_events es d)"
  by (induction es arbitrary: d) (simp_all add: settled_mono)

lemma settled_after_events: "e \<in> set es \<Longrightarrow> settled e (process_events es d)"
  by (induction es arbitrary: d) (auto intro: settled_after settled_events_mono)

lemma process_settled: "\<forall>e \<in> set es. settled e d \<Longrightarrow> process_events es d = d"
  by (induction es) (auto simp: settled_def)

lemma db_ok_processEvent [inv_intros]: "db_ok d \<Longrightarrow> db_ok (processEvent e d)"
  by (rule processEvent_cases [of e d]) (auto intro: db_ok_push_event)

lemma db_ok_process_events [inv_intros]: "db_ok d \<Longrightarrow> db_ok (process_events es d)"
  by (induction es arbitrary: d) (auto intro: db_ok_processEvent)

lemma db_ok_saveCheckpoint [inv_intros]: "db_ok d \<Longrightarrow> db_ok (saveCheckpoint l d)"
  by (simp add: saveCheckpoint_def db_ok_defs ledger_events_def stream_exists_def)

text \<open>C13: Storing a list of contract events again, in whatever state it left, changes nothing:
  the deduplication index skips the events that were stored, and those that were rejected are
  rejected again. A poll that fails after storing a page can therefore repeat it.\<close>

theorem reprocessing_changes_nothing:
  "process_events es (process_events es d) = process_events es d"
  by (rule process_settled) (simp add: settled_after_events)

text \<open>C40: An event of a stream that the local database does not hold is lost: a successful poll
  stores none of them, yet moves the checkpoint past their ledgers, so that no later poll asks for
  them again.\<close>

theorem unknown_stream_events_lost:
  assumes "\<forall>e \<in> set es. \<forall>row. event_row e = Some row \<longrightarrow> \<not> stream_exists (ev_stream_id row) d"
  shows "indexEventsWithFallback (Inr es) currentLedger st d =
           (Inr (), st\<lparr>lastProcessedLedger := currentLedger\<rparr>, d\<lparr>indexer_cursor := Some currentLedger\<rparr>)"
proof -
  have "process_events es d = d"
    using assms by (intro process_settled) (auto simp: settled_iff)
  then show ?thesis by (simp add: indexEventsWithFallback_def saveCheckpoint_def)
qed

definition sample_event :: "string \<Rightarrow> (string \<times> nval) list \<Rightarrow> int \<Rightarrow> ContractEvent" where
  "sample_event name v l = \<lparr> ce_topic = Some [NStr ''StellarStream'', NStr name], ce_value = Some v,
     ce_ledger = l, ce_closedAtMs = 1700000000000 \<rparr>"

definition sample_transfer :: ContractEvent where
  "sample_transfer = sample_event ''Transfer''
     [(''stream_id'', NBig 7), (''old_recipient'', NStr ''GOLD''), (''new_recipient'', NStr ''GNEW'')] 120"

definition sample_created :: ContractEvent where
  "sample_created = sample_event ''Created''
     [(''stream_id'', NBig 7), (''sender'', NStr ''GSENDER''), (''recipient'', NStr ''GRECIPIENT''),
      (''token'', NStr ''CTOKEN''), (''total_amount'', NBig 5000), (''start_time'', NBig 1700000000),
      (''end_time'', NBig 1700003600)] 120"

definition sample_idx :: Idx where
  "sample_idx = \<lparr> ix_rpcServer = True, ix_contractId = Some ''C1'', lastProcessedLedger = 100,
     indexerStartLedger = None, isIndexing = False, lastObservedLedger = None,
     lastFailureKind = None, circuitBreaker = newCircuitBreaker 60000 \<rparr>"

theorem unknown_stream_events_lost_witness:
  "event_row sample_transfer \<noteq> None \<and>
   indexEventsWithFallback (Inr [sample_transfer]) 130 sample_idx empty_db =
     (Inr (), sample_idx\<lparr>lastProcessedLedger := 130\<rparr>, empty_db\<lparr>indexer_cursor := Some 130\<rparr>)"
proof
  show "event_row sample_transfer \<noteq> None"
    by (simp add: sample_transfer_def sample_event_def event_row_def event_shape_def field_def
        nullish_or_def)
  show "indexEventsWithFallback (Inr [sample_transfer]) 130 sample_idx empty_db =
     (Inr (), sample_idx\<lparr>lastProcessedLedger := 130\<rparr>, empty_db\<lparr>indexer_cursor := Some 130\<rparr>)"
    by (rule unknown_stream_events_lost) (simp add: stream_exists_def empty_db_def)
qed

lemma stringify_bigint: "(k, NBig i) \<in> set kvs \<Longrightarrow> stringify_fields kvs = None"
  by (induction kvs rule: stringify_fields.induct) auto

lemma event_row_bigint:
  assumes "event_shape name = Some sh" "es_metadata sh = Some fs" "(k, f) \<in> set fs" "field v f = NBig i"
    and "ce_topic e = Some [c, NStr name]" "ce_value e = Some v"
  shows "event_row e = None"
proof -
  have "(k, NBig i) \<in> set (map (\<lambda>(k, f). (k, field v f)) fs)"
    using assms(3,4) by force
  then have "stringify_fields (map (\<lambda>(k, f). (k, field v f)) fs) = None"
    by (rule stringify_bigint)
  with assms show ?thesis
    by (cases "nval_toString (field v ''stream_id'')") (simp_all add: event_row_def)
qed

text \<open>A \<open>Created\<close> event whose start time is decoded to a BigInt is never stored, whether its
  stream is known or not: \<open>JSON.stringify\<close> of its metadata throws and the exception is swallowed.
  The same holds of a \<open>Claimed\<close>, \<open>Paused\<close> or \<open>Resumed\<close> event with such a field.\<close>

theorem bigint_metadata_never_stored:
  assumes "ce_topic e = Some [c, NStr name]" "ce_value e = Some v"
    and "(name, f) \<in> {(''Created'', ''start_time''), (''Created'', ''end_time''),
           (''Claimed'', ''claimed_amount''), (''Paused'', ''paused_at''), (''Resumed'', ''resumed_at'')}"
    and "field v f = NBig i"
  shows "processEvent e d = d"
proof -
  have "\<exists>sh fs k. event_shape name = Some sh \<and> es_metadata sh = Some fs \<and> (k, f) \<in> set fs"
    using assms(3) by (elim insertE) (auto simp: event_shape_def)
  then have "event_row e = None"
    using assms(1,2,4) event_row_bigint by metis
  then show ?thesis by (simp add: processEvent_def)
qed

theorem bigint_metadata_never_stored_witness: "processEvent sample_created empty_db = empty_db"
  using bigint_metadata_never_stored [of sample_created "NStr ''StellarStream''" "''Created''"
      "the (ce_value sample_created)" "''start_time''" 1700000000 empty_db]
  by (simp add: sample_created_def sample_event_def field_def)

section \<open>The two polling modes\<close>

text \<open>
  The pages of a list of event lists: the \<open>i\<close>-th request is answered by the \<open>i\<close>-th list, with a
  cursor while more follow, whatever cursor the request carries.
\<close>

definition serves :: "ContractEvent list list \<Rightarrow> nat \<Rightarrow> pages \<Rightarrow> bool" where
  "serves ess i pages \<longleftrightarrow>
     (\<forall>j < length ess. \<forall>c. \<exists>nx. pages (i + j) c = Inr (ess ! j, nx) \<and>
        (if Suc j < length ess then nx \<noteq> None \<and> nx \<noteq> Some [] else nx = None))"

lemma serves_Cons:
  assumes "serves (es # ess) i pages"
  shows "\<exists>nx. pages i c = Inr (es, nx) \<and> (if ess = [] then nx = None else nx \<noteq> None \<and> nx \<noteq> Some [])"
    and "serves ess (Suc i) pages"
proof -
  show "\<exists>nx. pages i c = Inr (es, nx) \<and> (if ess = [] then nx = None else nx \<noteq> None \<and> nx \<noteq> Some [])"
    using assms [unfolded serves_def, rule_format, of 0 c] by (cases ess) auto
  show "serves ess (Suc i) pages"
    unfolding serves_def
  proof (intro allI impI)
    fix j c assume "j < length ess"
    then show "\<exists>nx. pages (Suc i + j) c = Inr (ess ! j, nx) \<and>
        (if Suc j < length ess then nx \<noteq> None \<and> nx \<noteq> Some [] else nx = None)"
      using assms [unfolded serves_def, rule_format, of "Suc j" c] by simp
  qed
qed

lemma page_loop_serves:
  assumes "serves ess i pages" "[] \<notin> set ess" "ess \<noteq> []" "length ess \<le> fuel"
  shows "page_loop fuel pages i c m d =
     Some (Inr (foldl max m (map ce_ledger (concat ess))), process_events (concat ess) d)"
  using assms
proof (induction ess arbitrary: fuel i c m d)
  case (Cons es ess)
  obtain fuel' where fuel: "fuel = Suc fuel'" "length ess \<le> fuel'"
    using Cons.prems(4) by (cases fuel) auto
  obtain nx where page: "pages i c = Inr (es, nx)"
    "if ess = [] then nx = None else nx \<noteq> None \<and> nx \<noteq> Some []"
    using serves_Cons(1) [OF Cons.prems(1), of c] by blast
  show ?case
  proof (cases "ess = []")
    case True
    with page fuel Cons.prems(2) show ?thesis by simp
  next
    case False
    with page obtain k where "nx = Some k" "k \<noteq> []" by auto
    with False page fuel Cons.prems(2) show ?thesis
      using Cons.IH [OF serves_Cons(2) [OF Cons.prems(1)], of fuel'] by (auto simp: Let_def)
  qed
qed simp

lemma foldl_max_le: "(\<forall>x \<in> set xs. x \<le> (b :: int)) \<Longrightarrow> a \<le> b \<Longrightarrow> foldl max a xs \<le> b"
  by (induction xs arbitrary: a) auto


definition sample_pages :: pages where
  "sample_pages i c = (if i = 0 then Inr ([sample_created], Some ''p2'') else Inr ([sample_transfer], None))"


section \<open>One poll\<close>

lemma page_loop_keeps:
  assumes "page_loop fuel pages i c m d = Some (r, d')"
  shows "indexer_cursor d' = indexer_cursor d" "streams d' = streams d" "db_ok d \<Longrightarrow> db_ok d'"
  using assms
proof (induction fuel arbitrary: i c m d)
  case (Suc fuel)
  case 1 then show ?case using Suc(1) by (auto simp: Let_def split: sum.splits prod.splits if_splits option.splits)
  case 2 then show ?case using Suc(2) by (auto simp: Let_def split: sum.splits prod.splits if_splits option.splits)
  case 3 then show ?case using Suc(3) [OF db_ok_process_events]
    by (auto simp: Let_def db_ok_process_events split: sum.splits prod.splits if_splits option.splits)
qed simp_all

lemma fallback_poll:
  assumes "indexEventsWithFallback resp l st d = (r, st', d')"
  shows "streams d' = streams d \<and> (db_ok d \<longrightarrow> db_ok d') \<and>
    (case r of Inr u \<Rightarrow> st' = st\<lparr>lastProcessedLedger := l\<rparr> \<and> indexer_cursor d' = Some l
     | Inl err \<Rightarrow> st' = st \<and> indexer_cursor d' = indexer_cursor d)"
proof (cases resp)
  case (Inl err)
  with assms show ?thesis by (auto simp: indexEventsWithFallback_def)
next
  case (Inr es)
  have "db_ok d \<Longrightarrow> db_ok (saveCheckpoint l (process_events es d))"
    by (intro db_ok_saveCheckpoint db_ok_process_events)
  with Inr assms show ?thesis by (auto simp: indexEventsWithFallback_def saveCheckpoint_def)
qed

lemma cursor_poll:
  assumes "indexEventsWithCursorPagination fuel pages l st d = Some (r, st', d')"
  shows "streams d' = streams d \<and> (db_ok d \<longrightarrow> db_ok d') \<and>
    (case r of Inr u \<Rightarrow> \<exists>c \<ge> l. st' = st\<lparr>lastProcessedLedger := c\<rparr> \<and> indexer_cursor d' = Some c
     | Inl err \<Rightarrow> st' = st \<and> indexer_cursor d' = indexer_cursor d)"
proof -
  obtain res d1 where loop: "page_loop fuel pages 0 None (lastProcessedLedger st) d = Some (res, d1)"
    using assms by (auto simp: indexEventsWithCursorPagination_def split: option.splits)
  note keeps = page_loop_keeps(1-3) [OF loop]
  show ?thesis
  proof (cases res)
    case (Inl err)
    with loop keeps assms show ?thesis by (auto simp: indexEventsWithCursorPagination_def)
  next
    case (Inr seen)
    define c where "c = max l seen"
    have res: "r = Inr ()" "st' = st\<lparr>lastProcessedLedger := c\<rparr>" "d' = saveCheckpoint c d1"
      using Inr loop assms by (auto simp: indexEventsWithCursorPagination_def Let_def c_def)
    have "db_ok d \<Longrightarrow> db_ok d'"
      unfolding res(3) by (intro db_ok_saveCheckpoint keeps(3))
    moreover have "l \<le> c \<and> st' = st\<lparr>lastProcessedLedger := c\<rparr> \<and> indexer_cursor d' = Some c"
      by (simp add: c_def res(2,3) saveCheckpoint_def)
    ultimately show ?thesis
      unfolding res(1) sum.case using keeps(2) by (intro conjI exI [of _ c]) (simp_all add: res(3) saveCheckpoint_def)
  qed
qed

lemma getState_fst: "getState t cb = (s, cb') \<Longrightarrow> s = cb_state cb'"
  by (auto simp: getState_def Let_def)

text \<open>What one poll can do, in the order of the code's branches.\<close>

lemma indexEvents_cases:
  assumes "indexEvents fallback fuel rpc t1 t2 st d = Some (st', d')"
  obtains (skipped) "lastProcessedLedger st' = lastProcessedLedger st" "d' = d"
  | (failed) "lastProcessedLedger st' = lastProcessedLedger st" "indexer_cursor d' = indexer_cursor d"
      "streams d' = streams d" "db_ok d \<Longrightarrow> db_ok d'"
  | (advanced) "lastProcessedLedger st < lastProcessedLedger st'"
      "indexer_cursor d' = Some (lastProcessedLedger st')" "streams d' = streams d" "db_ok d \<Longrightarrow> db_ok d'"
proof (cases "(\<not> ix_rpcServer st \<or> ix_contractId st = None \<or> isIndexing st) \<or>
    fst (getState t1 (circuitBreaker st)) = OPEN")
  case True
  then show ?thesis
    using assms skipped by (auto simp: indexEvents_def Let_def split: prod.splits if_splits)
next
  case False
  define st1 where "st1 = st\<lparr>circuitBreaker := snd (getState t1 (circuitBreaker st))\<rparr>"
  show ?thesis
  proof (cases "rpc_latest rpc")
    case (Inl err)
    with False assms skipped show ?thesis
      by (auto simp: indexEvents_def Let_def split: prod.splits)
  next
    case (Inr l)
    define st2 where "st2 = st1\<lparr>lastObservedLedger := Some l\<rparr>"
    define poll where "poll = (if fallback then Some (indexEventsWithFallback (rpc_events rpc) l st2 d)
       else indexEventsWithCursorPagination fuel (rpc_pages rpc) l st2 d)"
    have last2: "lastProcessedLedger st2 = lastProcessedLedger st"
      by (simp add: st2_def st1_def)
    show ?thesis
    proof (cases "l \<le> lastProcessedLedger st")
      case True
      with Inr False assms skipped show ?thesis
        by (auto simp: indexEvents_def Let_def recordPollSuccess_def split: prod.splits)
    next
      case newer: False
      have "(case poll of None \<Rightarrow> None
          | Some (Inl err, st3, d3) \<Rightarrow> Some (st3\<lparr>circuitBreaker := onFailure t2 (circuitBreaker st3),
              lastFailureKind := Some (classifyRpcFailure err)\<rparr>, d3)
          | Some (Inr u, st3, d3) \<Rightarrow> Some (recordPollSuccess st3, d3)) = Some (st', d')"
        using assms False Inr newer
        by (auto simp: indexEvents_def Let_def poll_def st2_def st1_def split: prod.splits if_splits)
      then obtain r st3 where p: "poll = Some (r, st3, d')"
        "lastProcessedLedger st' = lastProcessedLedger st3"
        by (auto simp: recordPollSuccess_def split: option.splits sum.splits)
      show ?thesis
      proof (cases r)
        case (Inl err)
        have "lastProcessedLedger st3 = lastProcessedLedger st \<and> indexer_cursor d' = indexer_cursor d \<and>
            streams d' = streams d \<and> (db_ok d \<longrightarrow> db_ok d')"
          using p(1) Inl fallback_poll [of "rpc_events rpc" l st2 d r st3 d']
            cursor_poll [of fuel "rpc_pages rpc" l st2 d r st3 d'] last2
          by (cases fallback) (auto simp: poll_def)
        with p(2) failed show ?thesis by auto
      next
        case (Inr u)
        have "\<exists>c \<ge> l. st3 = st2\<lparr>lastProcessedLedger := c\<rparr> \<and> indexer_cursor d' = Some c \<and>
            streams d' = streams d \<and> (db_ok d \<longrightarrow> db_ok d')"
          using p(1) Inr fallback_poll [of "rpc_events rpc" l st2 d r st3 d']
            cursor_poll [of fuel "rpc_pages rpc" l st2 d r st3 d']
          by (cases fallback) (auto simp: poll_def)
        then obtain c where c: "c \<ge> l" "lastProcessedLedger st3 = c" "indexer_cursor d' = Some c"
          "streams d' = streams d" "db_ok d \<longrightarrow> db_ok d'" by auto
        show ?thesis by (rule advanced) (use c p(2) newer in auto)
      qed
    qed
  qed
qed


text \<open>A poll never moves the checkpoint back, and whenever it moves it the database row is the
  same number, so that an indexer restarted on that database continues exactly there; a poll that
  fails half way leaves both as they were. The rules of the schema are kept.\<close>

theorem poll_checkpoint_safe:
  assumes "indexEvents fallback fuel rpc t1 t2 st d = Some (st', d')"
    and "indexer_cursor d = Some (lastProcessedLedger st)" "0 < lastProcessedLedger st" "db_ok d"
  shows "lastProcessedLedger st \<le> lastProcessedLedger st' \<and>
    loadCheckpoint d' st0 = st0\<lparr>lastProcessedLedger := lastProcessedLedger st'\<rparr> \<and> db_ok d'"
  using assms(1) by (cases rule: indexEvents_cases; use assms(2-4) in \<open>simp add: loadCheckpoint_def\<close>)

definition sample_rpc :: IndexerRpc where
  "sample_rpc = \<lparr> rpc_latest = Inr 130, rpc_events = Inr [sample_transfer], rpc_pages = sample_pages \<rparr>"

theorem poll_checkpoint_safe_witness:
  "\<exists>st' d'. indexEvents True 2 sample_rpc 1000 2000 sample_idx (empty_db\<lparr>indexer_cursor := Some 100\<rparr>) = Some (st', d') \<and>
     100 \<le> lastProcessedLedger st' \<and> db_ok d' \<and>
     loadCheckpoint d' sample_idx = sample_idx\<lparr>lastProcessedLedger := lastProcessedLedger st'\<rparr>"
proof -
  let ?d = "empty_db\<lparr>indexer_cursor := Some 100\<rparr>"
  have "\<exists>p. indexEvents True 2 sample_rpc 1000 2000 sample_idx ?d = Some p"
    by (simp add: indexEvents_def sample_rpc_def sample_idx_def newCircuitBreaker_def getState_def
        indexEventsWithFallback_def)
  then obtain st' d' where poll: "indexEvents True 2 sample_rpc 1000 2000 sample_idx ?d = Some (st', d')"
    by auto
  have "db_ok ?d" "indexer_cursor ?d = Some (lastProcessedLedger sample_idx)" "0 < lastProcessedLedger sample_idx"
    by (simp_all add: db_ok_defs empty_db_def ledger_events_def sample_idx_def)
  with poll_checkpoint_safe [OF poll] poll show ?thesis by (auto simp: sample_idx_def)
qed

section \<open>The circuit breaker\<close>

definition ready :: "Idx \<Rightarrow> bool" where
  "ready st = (ix_rpcServer st \<and> ix_contractId st \<noteq> None \<and> \<not> isIndexing st)"

type_synonym poll = "IndexerRpc \<times> int \<times> int"

fun polls :: "bool \<Rightarrow> nat \<Rightarrow> poll list \<Rightarrow> Idx \<times> Db \<Rightarrow> (Idx \<times> Db) option" where
  "polls fallback fuel [] s = Some s"
| "polls fallback fuel ((rpc, t1, t2) # ps) (st, d) =
     (case indexEvents fallback fuel rpc t1 t2 st d of None \<Rightarrow> None | Some s \<Rightarrow> polls fallback fuel ps s)"

lemma polls_append:
  "polls fb fuel (ps @ qs) s = (case polls fb fuel ps s of None \<Rightarrow> None | Some s' \<Rightarrow> polls fb fuel qs s')"
  by (induction ps arbitrary: s) (auto split: option.splits)

lemma open_poll_skipped:
  "cb_state (circuitBreaker st) = OPEN \<Longrightarrow>
   t1 - lastFailureTime (circuitBreaker st) < timeoutMs (circuitBreaker st) \<Longrightarrow>
   indexEvents fallback fuel rpc t1 t2 st d = Some (st, d)"
  by (simp add: indexEvents_def getState_def Let_def)

lemma open_polls_skipped:
  "cb_state (circuitBreaker st) = OPEN \<Longrightarrow>
   \<forall>(rpc, t1, t2) \<in> set qs. t1 - lastFailureTime (circuitBreaker st) < timeoutMs (circuitBreaker st) \<Longrightarrow>
   polls fallback fuel qs (st, d) = Some (st, d)"
  by (induction qs) (auto simp: open_poll_skipped)

lemma failing_poll:
  "ready st \<Longrightarrow> cb_state (circuitBreaker st) \<noteq> OPEN \<Longrightarrow> rpc_latest rpc = Inl err \<Longrightarrow>
   indexEvents fallback fuel rpc t1 t2 st d =
     Some (st\<lparr>circuitBreaker := onFailure t2 (circuitBreaker st),
       lastFailureKind := Some (classifyRpcFailure err)\<rparr>, d)"
  by (auto simp: indexEvents_def getState_def Let_def ready_def)

definition failing :: "poll \<Rightarrow> bool" where
  "failing p = (case rpc_latest (fst p) of Inl err \<Rightarrow> True | Inr l \<Rightarrow> False)"

lemma failing_polls:
  assumes "ready st" "cb_state (circuitBreaker st) = CLOSED" "\<forall>p \<in> set fs. failing p"
    "failureCount (circuitBreaker st) + length fs \<le> 5" "fs \<noteq> []"
  shows "\<exists>st'. polls fb fuel fs (st, d) = Some (st', d) \<and> ready st' \<and>
    timeoutMs (circuitBreaker st') = timeoutMs (circuitBreaker st) \<and>
    lastFailureTime (circuitBreaker st') = snd (snd (List.last fs)) \<and>
    failureCount (circuitBreaker st') = failureCount (circuitBreaker st) + length fs \<and>
    cb_state (circuitBreaker st') =
      (if failureCount (circuitBreaker st) + length fs = 5 then OPEN else CLOSED)"
  using assms
proof (induction fs arbitrary: st)
  case (Cons p fs)
  obtain rpc t1 t2 where p: "p = (rpc, t1, t2)" by (cases p)
  obtain err where err: "rpc_latest rpc = Inl err"
    using Cons.prems(3) by (auto simp: failing_def p split: sum.splits)
  define st1 where "st1 = st\<lparr>circuitBreaker := onFailure t2 (circuitBreaker st),
       lastFailureKind := Some (classifyRpcFailure err)\<rparr>"
  have step: "polls fb fuel (p # fs) (st, d) = polls fb fuel fs (st1, d)"
    using failing_poll [OF Cons.prems(1) _ err] Cons.prems(2) by (simp add: p st1_def)
  have ready1: "ready st1" using Cons.prems(1) by (simp add: ready_def st1_def)
  show ?case
  proof (cases "fs = []")
    case True
    with step ready1 Cons.prems(2,4) show ?thesis
      by (simp add: p st1_def onFailure_def failureThreshold_def Let_def)
  next
    case False
    then have "\<not> failureCount (circuitBreaker st) + 1 \<ge> 5"
      using Cons.prems(4) by (cases fs) auto
    then have "cb_state (circuitBreaker st1) = CLOSED \<and>
        failureCount (circuitBreaker st1) = failureCount (circuitBreaker st) + 1 \<and>
        timeoutMs (circuitBreaker st1) = timeoutMs (circuitBreaker st)"
      using Cons.prems(2) by (simp add: st1_def onFailure_def failureThreshold_def Let_def)
    with step ready1 False Cons.prems(3,4) Cons.IH [of st1] show ?thesis by simp
  qed
qed simp

text \<open>C15: From a closed breaker without failures, fewer than five failed polls leave it closed and
  the fifth opens it; every poll before the timeout has passed is then skipped, whatever the RPC
  would have answered; the first poll after it is a probe, and a probe that fails opens the breaker
  again at once.\<close>

theorem breaker_opens_after_five:
  assumes "ready st" "cb_state (circuitBreaker st) = CLOSED" "failureCount (circuitBreaker st) = 0"
    and "\<forall>p \<in> set fs. failing p" "fs \<noteq> []" "length fs \<le> 5"
    and "\<forall>(rpc, t1, t2) \<in> set qs. t1 < snd (snd (List.last fs)) + timeoutMs (circuitBreaker st)"
    and "failing (rpc, p1, p2)" "p1 \<ge> snd (snd (List.last fs)) + timeoutMs (circuitBreaker st)"
  shows "\<exists>st' st''. polls fb fuel fs (st, d) = Some (st', d) \<and>
    (if length fs < 5 then cb_state (circuitBreaker st') = CLOSED
     else cb_state (circuitBreaker st') = OPEN \<and> polls fb fuel (fs @ qs) (st, d) = Some (st', d) \<and>
       polls fb fuel (fs @ qs @ [(rpc, p1, p2)]) (st, d) = Some (st'', d) \<and>
       cb_state (circuitBreaker st'') = OPEN \<and> lastFailureTime (circuitBreaker st'') = p2)"
proof -
  obtain st' where st': "polls fb fuel fs (st, d) = Some (st', d)" "ready st'"
    "timeoutMs (circuitBreaker st') = timeoutMs (circuitBreaker st)"
    "lastFailureTime (circuitBreaker st') = snd (snd (List.last fs))"
    "cb_state (circuitBreaker st') = (if length fs = 5 then OPEN else CLOSED)"
    using failing_polls [OF assms(1,2,4) _ assms(5), of fb fuel d] assms(3,6) by auto
  show ?thesis
  proof (cases "length fs < 5")
    case True
    with st' show ?thesis by auto
  next
    case False
    with assms(6) st'(5) have opn: "cb_state (circuitBreaker st') = OPEN" by simp
    have skip: "polls fb fuel (fs @ qs) (st, d) = Some (st', d)"
    proof -
      have "\<forall>(rpc, t1, t2) \<in> set qs.
          t1 - lastFailureTime (circuitBreaker st') < timeoutMs (circuitBreaker st')"
        using assms(7) st' by fastforce
      from open_polls_skipped [OF opn this] st'(1) show ?thesis by (simp add: polls_append)
    qed
    obtain err where err: "rpc_latest rpc = Inl err"
      using assms(8) by (auto simp: failing_def split: sum.splits)
    define st'' where "st'' = st'\<lparr>circuitBreaker :=
        onFailure p2 ((circuitBreaker st')\<lparr>cb_state := HALF_OPEN\<rparr>),
        lastFailureKind := Some (classifyRpcFailure err)\<rparr>"
    have "indexEvents fb fuel rpc p1 p2 st' d = Some (st'', d)"
      using st' opn err assms(9) by (auto simp: indexEvents_def getState_def Let_def ready_def st''_def)
    then have "polls fb fuel (fs @ qs @ [(rpc, p1, p2)]) (st, d) = Some (st'', d)"
      using skip polls_append [of fb fuel "fs @ qs" "[(rpc, p1, p2)]" "(st, d)"] by simp
    moreover have "cb_state (circuitBreaker st'') = OPEN \<and> lastFailureTime (circuitBreaker st'') = p2"
      by (simp add: st''_def onFailure_def Let_def)
    ultimately show ?thesis using st'(1) False opn skip by auto
  qed
qed

definition down_rpc :: IndexerRpc where
  "down_rpc = sample_rpc\<lparr>rpc_latest := Inl (plain_error ''fetch failed'')\<rparr>"

theorem breaker_opens_after_five_witness:
  "\<exists>st' st''. polls True 2 (replicate 5 (down_rpc, 0, 10)) (sample_idx, empty_db) = Some (st', empty_db) \<and>
    cb_state (circuitBreaker st') = OPEN \<and>
    polls True 2 (replicate 5 (down_rpc, 0, 10) @ [(sample_rpc, 50000, 50001)]) (sample_idx, empty_db)
      = Some (st', empty_db) \<and>
    polls True 2 (replicate 5 (down_rpc, 0, 10) @ [(sample_rpc, 50000, 50001)] @ [(down_rpc, 70000, 70001)])
      (sample_idx, empty_db) = Some (st'', empty_db) \<and> cb_state (circuitBreaker st'') = OPEN"
  using breaker_opens_after_five [of sample_idx "replicate 5 (down_rpc, 0, 10)" "[(sample_rpc, 50000, 50001)]"
      down_rpc 70000 70001 True 2 empty_db]
  by (auto simp: ready_def sample_idx_def newCircuitBreaker_def failing_def down_rpc_def)

end
