(* ===== verification/Process.thy ===== *)
theory Process
  imports RouteTheorems IndexerTheorems
begin

text \<open>
  The whole server as a transition system: the state of one process with the requests that wait for
  the network, every operation that changes it as a step, crash and restart included. Two locales
  give invariants and monotone facts of such a system once; they are interpreted on the server.
\<close>

section \<open>Transition systems\<close>

locale invariant_system =
  fixes step :: "'s \<Rightarrow> 's \<Rightarrow> bool" and start :: "'s \<Rightarrow> bool" and holds :: "'s \<Rightarrow> bool"
  assumes holds_start: "start s \<Longrightarrow> holds s"
    and holds_step: "holds s \<Longrightarrow> step s s' \<Longrightarrow> holds s'"
begin

lemma holds_steps: "step\<^sup>*\<^sup>* s s' \<Longrightarrow> holds s \<Longrightarrow> holds s'"
  by (induction rule: rtranclp_induct) (auto intro: holds_step)

lemma holds_reachable: "start s \<Longrightarrow> step\<^sup>*\<^sup>* s s' \<Longrightarrow> holds s'"
  by (blast intro: holds_start holds_steps)

end

text \<open>A system that moreover only moves up in a preorder, as long as the invariant holds.\<close>

locale growing_system = invariant_system +
  fixes below :: "'s \<Rightarrow> 's \<Rightarrow> bool"
  assumes below_refl: "below s s"
    and below_trans: "below a b \<Longrightarrow> below b c \<Longrightarrow> below a c"
    and below_step: "holds s \<Longrightarrow> step s s' \<Longrightarrow> below s s'"
begin

lemma below_steps: "step\<^sup>*\<^sup>* s s' \<Longrightarrow> holds s \<Longrightarrow> below s s'"
  by (induction rule: rtranclp_induct) (auto intro: below_refl below_trans below_step holds_steps)

end

section \<open>The state of a server\<close>

text \<open>
  Beside the application and the indexer: the nonces of used challenges, the cancellations that wait
  for the network with the record they read, and the claims that wait for their modules with the
  record and the amount they read.
\<close>

record Process =
  pr_app :: App
  pr_idx :: Idx
  pr_nonces :: nonceStore
  pr_cancels :: "(string \<times> StreamRecord) list"
  pr_claims :: "(StreamRecord \<times> jsnum) list"

abbreviation pr_db :: "Process \<Rightarrow> Db" where
  "pr_db p \<equiv> db (pr_app p)"

abbreviation with_app :: "Process \<Rightarrow> App \<Rightarrow> Process" where
  "with_app p app \<equiv> p\<lparr>pr_app := app\<rparr>"

abbreviation with_db :: "Process \<Rightarrow> Db \<Rightarrow> Process" where
  "with_db p d \<equiv> p\<lparr>pr_app := (pr_app p)\<lparr>db := d\<rparr>\<rparr>"

definition fresh_idx :: "int \<Rightarrow> Idx" where
  "fresh_idx breakerTimeout =
     \<lparr> ix_rpcServer = False, ix_contractId = None, lastProcessedLedger = 0, indexerStartLedger = None,
       isIndexing = False, lastObservedLedger = None, lastFailureKind = None,
       circuitBreaker = newCircuitBreaker breakerTimeout \<rparr>"

text \<open>A process that has just opened a database: empty caches, nothing waiting.\<close>

definition boot :: "(string \<Rightarrow> string option) \<Rightarrow> string option \<Rightarrow> int \<Rightarrow> Db \<Rightarrow> Process" where
  "boot ev contract breakerTimeout d =
     \<lparr> pr_app = empty_app\<lparr>db := d\<rparr>,
       pr_idx = (case contract of None \<Rightarrow> fresh_idx breakerTimeout
                 | Some c \<Rightarrow> initIndexer ev c d (fresh_idx breakerTimeout)),
       pr_nonces = Map.empty, pr_cancels = [], pr_claims = [] \<rparr>"

section \<open>Steps\<close>

inductive step :: "Process \<Rightarrow> Process \<Rightarrow> bool" where
  Create: "createStream cfg io input t0 t1 t2 (pr_app p) = (r, app) \<Longrightarrow> step p (with_app p app)"
| Cancel_begin: "cancel_read sid t (pr_app p) = Inr s \<Longrightarrow>
    step p (p\<lparr>pr_cancels := (sid, s) # pr_cancels p\<rparr>)"
| Cancel_end: "(sid, s) \<in> set (pr_cancels p) \<Longrightarrow>
    cancel_commit cfg sid (cancel_chain cfg io s) t (pr_app p) = (r, app) \<Longrightarrow>
    step p (p\<lparr>pr_app := app, pr_cancels := remove1 (sid, s) (pr_cancels p)\<rparr>)"
| Pause: "pauseStream cfg sid t1 t2 t3 (pr_app p) = (r, app) \<Longrightarrow> step p (with_app p app)"
| Resume: "resumeStream cfg sid t1 t2 (pr_app p) = (r, app) \<Longrightarrow> step p (with_app p app)"
| Reschedule: "updateStreamStartAt cfg sid n t1 t2 (pr_app p) = (r, app) \<Longrightarrow> step p (with_app p app)"
| Complete: "markStreamComplete cfg sid t h (pr_app p) = (r, app) \<Longrightarrow> step p (with_app p app)"
| Refresh: "refreshStreamStatuses cfg t (pr_app p) = (r, app) \<Longrightarrow> step p (with_app p app)"
| Claim_begin: "getStream sid (pr_db p) = Some s \<Longrightarrow> 0 < vestedAmount (calculateProgress s t) \<Longrightarrow>
    step p (p\<lparr>pr_claims := (s, vestedAmount (calculateProgress s t)) # pr_claims p\<rparr>)"
| Claim_end: "(s, v) \<in> set (pr_claims p) \<Longrightarrow> claim_commit s v t (pr_app p) = (r, app) \<Longrightarrow>
    step p (p\<lparr>pr_app := app, pr_claims := remove1 (s, v) (pr_claims p)\<rparr>)"
| Archive: "archiveOldStreams t1 t2 (pr_app p) = (n, app) \<Longrightarrow> step p (with_app p app)"
| Delete: "deleteStreamById sid t (pr_app p) = (b, app) \<Longrightarrow> step p (with_app p app)"
| Sync: "step p (with_app p (syncStreams cfg acc nid src src2 c1 c2 ord (pr_app p)))"
| Reconcile: "reconcileStream cfg acc src c1 c2 sid (pr_app p) = (r, app) \<Longrightarrow> step p (with_app p app)"
| Backfill: "runReconciliationCycle cfg acc nid src c1 c2 cnt (pr_app p) = (b, app) \<Longrightarrow> step p (with_app p app)"
| Poll: "indexEvents fallback fuel rpc t1 t2 (pr_idx p) (pr_db p) = Some (idx, d) \<Longrightarrow>
    step p (with_db (p\<lparr>pr_idx := idx\<rparr>) d)"
| Deliver: "step p (with_db p (processWebhookQueue ev nu now post (pr_db p)))"
| Requeue: "requeueDeadLetter n t (pr_db p) = Inr (b, d) \<Longrightarrow> step p (with_db p d)"
| Prune: "runDeadLetterPruningCycle t (pr_db p) = (n, d) \<Longrightarrow> step p (with_db p d)"
| Clear: "clearDeadLetters (pr_db p) = (n, d) \<Longrightarrow> step p (with_db p d)"
| Token: "token_route libs hz t1 t2 rq (pr_nonces p) = (r, ns) \<Longrightarrow> step p (p\<lparr>pr_nonces := ns\<rparr>)"
| Forget_nonces: "step p (p\<lparr>pr_nonces := cleanup_nonces t (pr_nonces p)\<rparr>)"
| List: "streams_route rc issues raw t1 t2 t3 (pr_app p) = (r, app) \<Longrightarrow> step p (with_app p app)"
| Export: "csv_route rc issues raw t1 t2 t3 (pr_app p) = (r, app) \<Longrightarrow> step p (with_app p app)"
| By_sender: "sender_route valid rc issues a raw t1 t2 (pr_app p) = (r, app) \<Longrightarrow> step p (with_app p app)"
| By_recipient: "recipient_route valid rc issues a raw t1 t2 (pr_app p) = (r, app) \<Longrightarrow> step p (with_app p app)"
| Metrics: "metrics_route libs sm t1 t2 rq (pr_app p) = (r, app) \<Longrightarrow> step p (with_app p app)"
| Metrics_history: "metrics_history_route sm t rq (pr_app p) = (r, app) \<Longrightarrow> step p (with_app p app)"
| Stats: "stats_route sm cnt t (pr_app p) = (r, app) \<Longrightarrow> step p (with_app p app)"
| Restart: "step p (boot ev contract tm (pr_db p))"

section \<open>Logs only grow\<close>

text \<open>
  The event log is extended at its end, by events that satisfy \<open>P\<close>, no stream disappears from the
  table, and the checkpoint stays.
\<close>

definition extends :: "(EventRow \<Rightarrow> bool) \<Rightarrow> Db \<Rightarrow> Db \<Rightarrow> bool" where
  "extends P d d' =
     ((\<exists>es. stream_events d' = stream_events d @ es \<and> (\<forall>e \<in> set es. P e)) \<and>
      (\<forall>sid. stream_exists sid d \<longrightarrow> stream_exists sid d') \<and> indexer_cursor d' = indexer_cursor d)"

text \<open>A claim the server logged itself, without a ledger number.\<close>

definition local_claim :: "EventRow \<Rightarrow> bool" where
  "local_claim e = (event_type e = ''claimed'' \<and> ledger_sequence e = None)"

abbreviation no_claim :: "EventRow \<Rightarrow> bool" where
  "no_claim e \<equiv> \<not> local_claim e"

lemma extends_refl [simp, intro]: "extends P d d"
  by (simp add: extends_def)

lemma extends_trans [trans]: "extends P a b \<Longrightarrow> extends P b c \<Longrightarrow> extends P a c"
  unfolding extends_def by (elim exE conjE) (metis UnE append.assoc set_append)

lemma extends_mono: "extends P d d' \<Longrightarrow> (\<And>e. P e \<Longrightarrow> Q e) \<Longrightarrow> extends Q d d'"
  by (fastforce simp: extends_def)

text \<open>Operations that leave both tables alone.\<close>

lemma extends_frame:
  "stream_events d' = stream_events d \<Longrightarrow> streams d' = streams d \<Longrightarrow>
   indexer_cursor d' = indexer_cursor d \<Longrightarrow> extends P d d'"
  by (simp add: extends_def stream_exists_def)

lemma extends_push: "P (e\<lparr>event_id := Suc (events_seq d)\<rparr>) \<Longrightarrow> extends P d (push_event e d)"
  by (simp add: extends_def stream_events_push stream_exists_def)

lemma extends_upsert: "extends P d (upsertStream s d)"
  by (simp add: extends_def)

lemma local_claim_id [simp]: "local_claim (e\<lparr>event_id := n\<rparr>) = local_claim e"
  by (simp add: local_claim_def)

lemma local_claim_mk [simp]:
  "local_claim (mk_event sid ty ts act amt meta ledger) \<longleftrightarrow> ty = ''claimed'' \<and> ledger = None"
  by (simp add: local_claim_def)

lemma extends_saved:
  "saved s e app app' \<Longrightarrow> no_claim e \<Longrightarrow> extends no_claim (db app) (db app')"
proof -
  assume sv: "saved s e app app'" and e: "no_claim e"
  have "stream_exists sid (db app') \<longleftrightarrow> stream_exists sid (upsertStream s (db app))" for sid
    using sv by (simp add: saved_def stream_exists_def)
  then show ?thesis
    using sv e by (simp add: saved_def extends_def)
qed

lemma extends_recordEvent:
  "recordEventWithDb sid ty ts act amt meta None d = Inr d' \<Longrightarrow> ty \<noteq> ''claimed'' \<Longrightarrow> extends no_claim d d'"
  by (auto simp: recordEvent_without_ledger intro: extends_push split: if_splits)

subsection \<open>Stream operations\<close>

lemma extends_createStream:
  "createStream cfg io input t0 t1 t2 app = (r, app') \<Longrightarrow> extends no_claim (db app) (db app')"
  by (auto simp: createStream_def Let_def dest!: store_created_saved intro: extends_saved
      split: if_splits sum.splits)

lemma extends_cancel_commit:
  "cancel_commit cfg sid s t app = (r, app') \<Longrightarrow> extends no_claim (db app) (db app')"
  by (auto dest!: cancel_commit_saved intro: extends_saved)

lemma extends_pauseStream:
  "pauseStream cfg sid t1 t2 t3 app = (r, app') \<Longrightarrow> extends no_claim (db app) (db app')"
  by (auto simp: pauseStream_def dest!: commit_change_saved intro: extends_saved
      split: option.splits if_splits)

lemma extends_resumeStream:
  "resumeStream cfg sid t1 t2 app = (r, app') \<Longrightarrow> extends no_claim (db app) (db app')"
  by (auto simp: resumeStream_def Let_def dest!: commit_change_saved intro: extends_saved
      split: option.splits if_splits)

lemma extends_updateStreamStartAt:
  "updateStreamStartAt cfg sid n t1 t2 app = (r, app') \<Longrightarrow> extends no_claim (db app) (db app')"
  by (auto simp: updateStreamStartAt_def dest!: commit_change_saved intro: extends_saved
      split: option.splits if_splits)

lemma extends_markStreamComplete:
  "markStreamComplete cfg sid t h app = (r, app') \<Longrightarrow> extends no_claim (db app) (db app')"
  by (erule markStreamComplete_cases) (auto intro: extends_saved)

lemma extends_set_archived: "extends P d (set_archived_at sid t d)"
  by (simp add: extends_def)

lemma extends_archive_loop: "archive_loop now rs d = Inr d' \<Longrightarrow> extends P d d'"
proof (induction rs arbitrary: d)
  case (Cons r rs)
  then obtain d1 where d1: "insert_archive (archive_row r now) d = Inr d1"
      "archive_loop now rs (set_archived_at (row_id r) now d1) = Inr d'"
    by (auto split: sum.splits)
  have "extends P d d1"
    using d1(1) by (intro extends_frame) (auto simp: insert_archive_def split: if_splits)
  also have "extends P d1 (set_archived_at (row_id r) now d1)" by (rule extends_set_archived)
  also have "extends P (set_archived_at (row_id r) now d1) d'" by (rule Cons.IH [OF d1(2)])
  finally show ?case .
qed simp

lemma extends_archiveOldStreams:
  "archiveOldStreams t1 now app = (n, app') \<Longrightarrow> extends P (db app) (db app')"
  by (auto simp: archiveOldStreams_def Let_def intro: extends_archive_loop
      split: sum.splits if_splits)

lemma extends_deleteStreamById:
  "deleteStreamById sid now app = (b, app') \<Longrightarrow> extends P (db app) (db app')"
  by (auto simp: deleteStreamById_def extends_set_archived split: option.splits if_splits)

subsection \<open>Synchronisation and indexing\<close>

lemma extends_sync_one:
  "sync_one src c1 c2 n app = (ok, app') \<Longrightarrow> extends P (db app) (db app')"
  using fetch_db [of src c1 c2 n False app]
  by (auto simp: sync_one_def extends_upsert split: prod.splits sum.splits option.splits)

lemma extends_sync_pass: "extends P (db app) (db (snd (sync_pass src c1 c2 ns app)))"
proof (induction ns arbitrary: app)
  case (Cons n ns)
  obtain ok app1 where one: "sync_one src c1 c2 n app = (ok, app1)" by fastforce
  have "extends P (db app) (db app1)" using one by (rule extends_sync_one)
  also have "extends P (db app1) (db (snd (sync_pass src c1 c2 ns app1)))" by (rule Cons.IH)
  finally show ?case by (simp add: one case_prod_beta Let_def)
qed simp

lemma extends_syncStreams: "extends P (db app) (db (syncStreams cfg acc nid src src2 c1 c2 ord app))"
proof -
  have "extends P (db app) (db (snd (sync_pass src2 c1 c2 ns (snd (sync_pass src c1 c2 ms app)))))" for ns ms
    by (rule extends_trans [OF extends_sync_pass extends_sync_pass])
  then show ?thesis
    by (simp add: syncStreams_def case_prod_beta Let_def extends_sync_pass split: option.split sum.split)
qed

lemma extends_reconcileStream:
  assumes "reconcileStream cfg acc src c1 c2 sid app = (r, app')"
  shows "extends P (db app) (db app')"
proof -
  have f: "db app1 = db app" if "fetchOnChainStreamRecord src c1 c2 n True app = (x, app1)" for n x app1
    using fetch_db [of src c1 c2 n True app] that by simp
  show ?thesis
    using assms
    by (auto simp: reconcileStream_def f extends_upsert
        split: if_splits option.splits prod.splits sum.splits dest: f)
qed

lemma extends_backfilled:
  "recordBackfilledCreatedEvent s d = Inr d' \<Longrightarrow> extends no_claim d d'"
  by (auto simp: recordBackfilledCreatedEvent_def intro: extends_recordEvent split: if_splits)

lemma extends_repair: "extends no_claim (db app) (db (snd (repair src c1 c2 ns app)))"
proof (induction ns arbitrary: app)
  case (Cons n ns)
  obtain x app1 where f: "fetchOnChainStreamRecord src c1 c2 n False app = (x, app1)" by fastforce
  then have d: "db app1 = db app" using fetch_db [of src c1 c2 n False app] by simp
  have go: "extends no_claim (db app) (db (snd (repair src c1 c2 ns app2)))"
    if "extends no_claim (db app) (db app2)" for app2
    by (rule extends_trans [OF that Cons.IH])
  have bkf: "extends no_claim (db app) d'"
    if "recordBackfilledCreatedEvent r (upsertStream r (db app)) = Inr d'" for r d'
    by (rule extends_trans [OF extends_upsert extends_backfilled [OF that]])
  show ?case
    by (auto simp: f d Let_def case_prod_beta intro!: go extends_upsert dest: bkf split: sum.split option.split)
qed simp

lemma extends_runReconciliationCycle:
  "runReconciliationCycle cfg acc nid src c1 c2 cnt app = (b, app') \<Longrightarrow> extends no_claim (db app) (db app')"
  by (auto simp: runReconciliationCycle_def reconcileMissingStreams_def Let_def extends_repair
      split: option.splits sum.splits)

lemma extends_processEvent: "extends no_claim d (processEvent e d)"
  by (rule processEvent_cases [of e d])
    (auto dest!: event_row_ledger intro!: extends_push simp: local_claim_def)

lemma extends_process_events: "extends no_claim d (process_events es d)"
  by (induction es arbitrary: d) (auto intro: extends_trans [OF extends_processEvent])

lemma extends_page_loop:
  "page_loop fuel pages i c m d = Some (r, d') \<Longrightarrow> extends no_claim d d'"
proof (induction fuel arbitrary: i c m d r d')
  case (Suc fuel)
  have go: "extends no_claim d d'" if "page_loop fuel pages j c' m' (process_events es d) = Some (r, d')" for j c' m' es
    by (rule extends_trans [OF extends_process_events Suc.IH [OF that]])
  show ?case
    using Suc.prems
    by (auto simp: Let_def extends_process_events dest: go split: sum.splits if_splits option.splits)
qed simp

text \<open>A poll stores events; then it may move the checkpoint.\<close>

lemma indexEvents_stores:
  assumes "indexEvents fallback fuel rpc t1 t2 st d = Some (st', d')"
  shows "\<exists>d1. extends no_claim d d1 \<and> (d' = d1 \<or> (\<exists>l. d' = saveCheckpoint l d1))"
proof -
  have a: "\<exists>d1. extends no_claim d d1 \<and> (d2 = d1 \<or> (\<exists>l. d2 = saveCheckpoint l d1))"
    if "indexEventsWithFallback resp l s d = (x, s2, d2)" for resp l s x s2 d2
    using that extends_process_events by (fastforce simp: indexEventsWithFallback_def split: sum.splits)
  have b: "\<exists>d1. extends no_claim d d1 \<and> (d2 = d1 \<or> (\<exists>l. d2 = saveCheckpoint l d1))"
    if "indexEventsWithCursorPagination fuel pages l s d = Some (x, s2, d2)" for pages l s x s2 d2
    using that extends_page_loop
    by (fastforce simp: indexEventsWithCursorPagination_def Let_def split: option.splits sum.splits)
  show ?thesis
    using assms
    by (auto simp: indexEvents_def Let_def split: if_splits prod.splits sum.splits option.splits
        dest: a b)
qed

subsection \<open>Webhooks and caches\<close>

lemma cursor_webhooks:
  "indexer_cursor (push_delivery r d) = indexer_cursor d" "indexer_cursor (update_delivery n f d) = indexer_cursor d"
  "indexer_cursor (delete_delivery n d) = indexer_cursor d" "indexer_cursor (delete_dead_letter n d) = indexer_cursor d"
  "indexer_cursor (push_dead_letter l d) = indexer_cursor d"
  by (simp_all add: push_delivery_def update_delivery_def delete_delivery_def delete_dead_letter_def
      push_dead_letter_def)

lemma extends_settle: "extends P d (settle_delivery url r res t d)"
  by (auto simp: settle_delivery_def Let_def cursor_webhooks intro!: extends_frame split: postResult.splits)

lemma extends_process_rows: "extends P d (process_rows url post rs d)"
  by (induction url post rs d rule: process_rows.induct)
    (force split: option.splits prod.splits intro: extends_trans [OF extends_settle])+

lemma extends_processWebhookQueue: "extends P d (processWebhookQueue ev nu now post d)"
  by (auto simp: processWebhookQueue_def extends_process_rows split: option.splits urlValidation.splits)

lemma extends_requeue: "requeueDeadLetter n t d = Inr (b, d') \<Longrightarrow> extends P d d'"
  by (auto simp: requeueDeadLetter_def insert_delivery_def cursor_webhooks intro!: extends_frame
      split: option.splits sum.splits if_splits)

lemma extends_prune: "runDeadLetterPruningCycle t d = (n, d') \<Longrightarrow> extends P d d'"
  by (auto simp: runDeadLetterPruningCycle_def pruneDeadLettersOlderThan_def intro!: extends_frame)

lemma extends_clear: "clearDeadLetters d = (n, d') \<Longrightarrow> extends P d d'"
  by (auto simp: clearDeadLetters_def intro!: extends_frame)

text \<open>The read routes change caches only.\<close>

lemma db_read_routes:
  "streams_route rc issues raw t1 t2 t3 app = (r, app') \<Longrightarrow> db app' = db app"
  "csv_route rc issues raw t1 t2 t3 app = (r, app') \<Longrightarrow> db app' = db app"
  "sender_route valid rc issues a raw t1 t2 app = (r, app') \<Longrightarrow> db app' = db app"
  "recipient_route valid rc issues a raw t1 t2 app = (r, app') \<Longrightarrow> db app' = db app"
  "metrics_route libs sm t1 t2 rq app = (r, app') \<Longrightarrow> db app' = db app"
  "metrics_history_route sm t1 rq app = (r, app') \<Longrightarrow> db app' = db app"
  "stats_route sm cnt t1 app = (r, app') \<Longrightarrow> db app' = db app"
  by (auto simp: streams_route_def csv_route_def sender_route_def recipient_route_def address_route_def
      metrics_route_def metrics_history_route_def stats_route_def authed_def Let_def
      split: option.splits prod.splits cacheValue.splits if_splits sum.splits)

lemma db_refresh: "refreshStreamStatuses cfg t app = (r, app') \<Longrightarrow> db app' = db app"
  by (auto simp: refreshStreamStatuses_def run_statement_def)

section \<open>The invariant\<close>

text \<open>Every stream has at most one claim of the server's own, of a positive amount.\<close>

definition claims_ok :: "Db \<Rightarrow> bool" where
  "claims_ok d =
     (distinct (map ev_stream_id (filter local_claim (stream_events d))) \<and>
      (\<forall>e \<in> set (filter local_claim (stream_events d)). case amount e of None \<Rightarrow> False | Some v \<Rightarrow> 0 < v))"

text \<open>What waits was read from a stream of the table.\<close>

definition waiting_ok :: "Process \<Rightarrow> bool" where
  "waiting_ok p =
     ((\<forall>(sid, s) \<in> set (pr_cancels p). stream_id s = sid \<and> canceledAt s \<noteq> None \<and> stream_exists sid (pr_db p)) \<and>
      (\<forall>(s, v) \<in> set (pr_claims p). 0 < v \<and> stream_exists (stream_id s) (pr_db p)))"

text \<open>The ledger in the memory of a running indexer is never behind the stored checkpoint.\<close>

definition checkpoint_ok :: "Db \<Rightarrow> Idx \<Rightarrow> bool" where
  "checkpoint_ok d st =
     (case indexer_cursor d of
        None \<Rightarrow> True
      | Some l \<Rightarrow> ix_rpcServer st \<and> 0 < l \<longrightarrow> l \<le> lastProcessedLedger st)"

definition process_ok :: "Process \<Rightarrow> bool" where
  "process_ok p =
     (db_ok (pr_db p) \<and> claims_ok (pr_db p) \<and> waiting_ok p \<and> checkpoint_ok (pr_db p) (pr_idx p))"

text \<open>A later state: the log extended, the streams still there, a positive checkpoint not lower.\<close>

definition later_state :: "Process \<Rightarrow> Process \<Rightarrow> bool" where
  "later_state p q =
     (prefix (stream_events (pr_db p)) (stream_events (pr_db q)) \<and>
      (\<forall>sid. stream_exists sid (pr_db p) \<longrightarrow> stream_exists sid (pr_db q)) \<and>
      (\<forall>l. indexer_cursor (pr_db p) = Some l \<and> 0 < l \<longrightarrow> (\<exists>l' \<ge> l. indexer_cursor (pr_db q) = Some l')))"

lemma claims_ok_extends:
  assumes "extends no_claim d d'" "claims_ok d"
  shows "claims_ok d'"
proof -
  obtain es where "stream_events d' = stream_events d @ es" "filter local_claim es = []"
    using assms(1) by (auto simp: extends_def filter_eq_nil_iff)
  then show ?thesis using assms(2) by (simp add: claims_ok_def)
qed

lemma waiting_ok_mono:
  assumes "waiting_ok p" "\<And>sid. stream_exists sid (pr_db p) \<Longrightarrow> stream_exists sid (pr_db q)"
    and "set (pr_cancels q) \<subseteq> set (pr_cancels p)" "set (pr_claims q) \<subseteq> set (pr_claims p)"
  shows "waiting_ok q"
  unfolding waiting_ok_def
proof (intro conjI ballI; clarify)
  fix sid s assume "(sid, s) \<in> set (pr_cancels q)"
  with assms(3) have "(sid, s) \<in> set (pr_cancels p)" by blast
  with assms(1,2) show "stream_id s = sid \<and> canceledAt s \<noteq> None \<and> stream_exists sid (pr_db q)"
    by (auto simp: waiting_ok_def)
next
  fix s v assume "(s, v) \<in> set (pr_claims q)"
  with assms(4) have "(s, v) \<in> set (pr_claims p)" by blast
  with assms(1,2) show "0 < v \<and> stream_exists (stream_id s) (pr_db q)"
    by (auto simp: waiting_ok_def)
qed

text \<open>A step that extends the log without a claim and leaves the waiting requests alone is safe.\<close>

lemma quiet_step:
  assumes "process_ok p" "extends no_claim (pr_db p) (pr_db q)" "db_ok (pr_db q)"
    and "pr_idx q = pr_idx p" "set (pr_cancels q) \<subseteq> set (pr_cancels p)" "set (pr_claims q) \<subseteq> set (pr_claims p)"
  shows "process_ok q \<and> later_state p q"
proof -
  have "waiting_ok q"
    using assms(1,2) by (intro waiting_ok_mono [of p q, OF _ _ assms(5,6)]) (simp_all add: process_ok_def extends_def)
  moreover have "checkpoint_ok (pr_db q) (pr_idx q)"
    using assms(1,2,4) by (simp add: process_ok_def checkpoint_ok_def extends_def)
  moreover have "later_state p q"
    using assms(2) by (auto simp: later_state_def extends_def)
  ultimately show ?thesis
    using assms(1,2,3) claims_ok_extends by (simp add: process_ok_def)
qed

text \<open>The same for a step that moves to another state of the application only.\<close>

lemma app_step:
  "process_ok p \<Longrightarrow> extends no_claim (pr_db p) (db app) \<Longrightarrow> db_ok (db app) \<Longrightarrow>
   process_ok (with_app p app) \<and> later_state p (with_app p app)"
  by (rule quiet_step) simp_all

lemma same_db_step:
  "process_ok p \<Longrightarrow> db app = pr_db p \<Longrightarrow> process_ok (with_app p app) \<and> later_state p (with_app p app)"
  by (rule app_step) (simp_all add: process_ok_def)

lemma process_okD: "process_ok p \<Longrightarrow> db_ok (pr_db p)"
  by (simp add: process_ok_def)

lemma claim_end_step:
  assumes "process_ok p" "(s, v) \<in> set (pr_claims p)" "claim_commit s v t (pr_app p) = (r, app)"
    and q: "q = p\<lparr>pr_app := app, pr_claims := remove1 (s, v) (pr_claims p)\<rparr>"
  shows "process_ok q \<and> later_state p q"
proof -
  have sub: "set (remove1 (s, v) (pr_claims p)) \<subseteq> set (pr_claims p)" by (rule set_remove1_subset)
  have same: "process_ok q \<and> later_state p q" if "app = pr_app p"
    by (rule quiet_step [OF assms(1)]) (use that sub process_okD [OF assms(1)] in \<open>simp_all add: q\<close>)
  show ?thesis
    using assms(3)
  proof (cases rule: claim_commit_cases)
  case 3
  let ?e = "mk_event (stream_id s) ''claimed'' t (Some (recipient s)) (Some v)
    (Some (JObj [(''assetCode'', JStr (assetCode s))])) None"
  have ext: "extends (\<lambda>_. True) (pr_db p) (pr_db q)"
    unfolding q 3(4) by (simp add: extends_push)
  have v: "0 < v" using assms(1,2) by (auto simp: process_ok_def waiting_ok_def)
  have "db_ok (pr_db q)"
    using process_okD [OF assms(1)] 3(3) unfolding q 3(4) by (simp add: db_ok_push_event same_ledger_event_def)
  moreover have "claims_ok (pr_db q)"
    using assms(1) 3(2) v unfolding q 3(4)
    by (auto simp: process_ok_def claims_ok_def stream_events_push streamHasEvent_def local_claim_def)
  moreover have "waiting_ok q"
    using assms(1) ext sub by (intro waiting_ok_mono [of p q]) (simp_all add: process_ok_def extends_def q)
  moreover have "checkpoint_ok (pr_db q) (pr_idx q)"
    using assms(1) ext by (simp add: process_ok_def checkpoint_ok_def extends_def q)
  moreover have "later_state p q"
    using ext by (auto simp: later_state_def extends_def)
  ultimately show ?thesis by (simp add: process_ok_def)
  qed (rule same; assumption)+
qed

lemma later_state_same: "pr_db q = pr_db p \<Longrightarrow> later_state p q"
  by (simp add: later_state_def)

lemma cancel_begin_step:
  assumes "process_ok p" "cancel_read sid t (pr_app p) = Inr s" and q: "q = p\<lparr>pr_cancels := (sid, s) # pr_cancels p\<rparr>"
  shows "process_ok q \<and> later_state p q"
proof -
  have "stream_id s = sid \<and> canceledAt s \<noteq> None \<and> stream_exists sid (pr_db p)"
    using assms(2) getStream_id by (auto simp: cancel_read_def split: option.splits if_splits)
  then show ?thesis
    using assms(1) by (auto simp: process_ok_def waiting_ok_def q intro: later_state_same)
qed

lemma claim_begin_step:
  assumes "process_ok p" "getStream sid (pr_db p) = Some s" "0 < v" and q: "q = p\<lparr>pr_claims := (s, v) # pr_claims p\<rparr>"
  shows "process_ok q \<and> later_state p q"
  using assms(1,3) getStream_id [OF assms(2)]
  by (auto simp: process_ok_def waiting_ok_def q intro: later_state_same)

lemma cancel_end_step:
  assumes "process_ok p" "cancel_commit cfg sid s t (pr_app p) = (r, app)"
    and q: "q = p\<lparr>pr_app := app, pr_cancels := remove1 c (pr_cancels p)\<rparr>"
  shows "process_ok q \<and> later_state p q"
  by (rule quiet_step [OF assms(1)])
    (use extends_cancel_commit [OF assms(2)] db_ok_cancel_commit [OF process_okD [OF assms(1)] assms(2)]
      set_remove1_subset [of c "pr_cancels p"] in \<open>simp_all add: q\<close>)

lemma poll_step:
  assumes "process_ok p" "indexEvents fallback fuel rpc t1 t2 (pr_idx p) (pr_db p) = Some (idx, d)"
    and q: "q = with_db (p\<lparr>pr_idx := idx\<rparr>) d"
  shows "process_ok q \<and> later_state p q"
proof -
  obtain d1 where d1: "extends no_claim (pr_db p) d1" "d = d1 \<or> (\<exists>l. d = saveCheckpoint l d1)"
    using indexEvents_stores [OF assms(2)] by blast
  have same: "stream_events d = stream_events d1" "\<And>sid. stream_exists sid d = stream_exists sid d1"
    using d1(2) by (auto simp: saveCheckpoint_def stream_exists_def)
  have ck: "checkpoint_ok (pr_db p) (pr_idx p)" using assms(1) by (simp add: process_ok_def)
  have led: "checkpoint_ok d idx \<and> db_ok d \<and>
      (\<forall>l. indexer_cursor (pr_db p) = Some l \<and> 0 < l \<longrightarrow> (\<exists>l' \<ge> l. indexer_cursor d = Some l'))"
  proof (cases "ix_rpcServer (pr_idx p)")
    case False
    then have "idx = pr_idx p" "d = pr_db p" using assms(2) by (simp_all add: indexEvents_def)
    then show ?thesis using ck process_okD [OF assms(1)] by auto
  next
    case True
    with ck have le: "\<And>l. indexer_cursor (pr_db p) = Some l \<Longrightarrow> 0 < l \<Longrightarrow> l \<le> lastProcessedLedger (pr_idx p)"
      by (simp add: checkpoint_ok_def)
    show ?thesis
      using assms(2)
      by (cases rule: indexEvents_cases)
        (use le process_okD [OF assms(1)] in \<open>force simp: checkpoint_ok_def split: option.splits\<close>)+
  qed
  have "claims_ok d"
    using claims_ok_extends [OF d1(1)] assms(1) same by (simp add: process_ok_def claims_ok_def)
  moreover have "waiting_ok q"
    using assms(1) d1(1) same by (intro waiting_ok_mono [of p q]) (simp_all add: process_ok_def extends_def q)
  moreover have "later_state p q"
    using d1(1) same led by (auto simp: later_state_def extends_def q)
  ultimately show ?thesis using led by (simp add: process_ok_def q)
qed

lemma checkpoint_boot: "checkpoint_ok d (pr_idx (boot ev contract tm d))"
  by (auto simp: boot_def initIndexer_def Let_def loadCheckpoint_def checkpoint_ok_def fresh_idx_def
      split: option.splits)

lemma restart_step:
  assumes "process_ok p" and q: "q = boot ev contract tm (pr_db p)"
  shows "process_ok q \<and> later_state p q"
  using assms(1) checkpoint_boot [of "pr_db p" ev contract tm]
  by (auto simp: process_ok_def waiting_ok_def q boot_def intro: later_state_same)

lemmas app_extends = extends_createStream extends_pauseStream extends_resumeStream
  extends_updateStreamStartAt extends_markStreamComplete extends_archiveOldStreams
  extends_deleteStreamById extends_reconcileStream extends_runReconciliationCycle

lemmas app_db_ok = db_ok_createStream db_ok_pauseStream db_ok_resumeStream db_ok_updateStreamStartAt
  db_ok_markStreamComplete db_ok_reconcileStream

lemma db_ok_more:
  assumes "db_ok (db app)"
  shows "archiveOldStreams t1 t2 app = (n, app') \<Longrightarrow> db_ok (db app')"
    and "deleteStreamById sid t app = (b, app') \<Longrightarrow> db_ok (db app')"
    and "runReconciliationCycle cfg acc nid src c1 c2 cnt app = (b, app') \<Longrightarrow> db_ok (db app')"
    and "db_ok (db (syncStreams cfg acc nid src src2 c1 c2 ord app))"
  using assms db_ok_archiveOldStreams [OF assms, of t1 t2] db_ok_deleteStreamById [OF assms, of sid t]
    db_ok_reconcileMissing [OF assms, of cfg acc nid src c1 c2]
  by (auto simp: runReconciliationCycle_def Let_def intro: db_ok_syncStreams)

lemma db_step:
  "process_ok p \<Longrightarrow> extends no_claim (pr_db p) d \<Longrightarrow> db_ok d \<Longrightarrow>
   process_ok (with_db p d) \<and> later_state p (with_db p d)"
  by (rule quiet_step) simp_all

lemma db_ok_clear: "db_ok d \<Longrightarrow> clearDeadLetters d = (n, d') \<Longrightarrow> db_ok d'"
  by (auto simp: clearDeadLetters_def db_ok_defs ledger_events_def stream_exists_def id_log_def)

lemma db_ok_pruning: "db_ok d \<Longrightarrow> runDeadLetterPruningCycle t d = (n, d') \<Longrightarrow> db_ok d'"
  using db_ok_prune [of d "t - DEAD_LETTER_RETENTION_SECONDS"] by (simp add: runDeadLetterPruningCycle_def)

lemma nonce_step:
  "process_ok p \<Longrightarrow> process_ok (p\<lparr>pr_nonces := ns\<rparr>) \<and> later_state p (p\<lparr>pr_nonces := ns\<rparr>)"
  by (rule quiet_step) (simp_all add: process_okD)

text \<open>Every step keeps the invariant and leads to a later state.\<close>

definition safe_move :: "Process \<Rightarrow> Process \<Rightarrow> bool" where
  "safe_move p q = (process_ok q \<and> later_state p q)"

lemmas safe_moves = app_step db_step same_db_step nonce_step cancel_begin_step cancel_end_step
  claim_begin_step claim_end_step poll_step restart_step

lemmas moves = safe_moves [folded safe_move_def]

lemma step_safe:
  assumes "step p q" "process_ok p"
  shows "safe_move p q"
  using assms
proof (induction rule: step.induct)
  case (Cancel_end sid s p cfg io t r app)
  then show ?case using moves(6) by blast
next
  case (Poll fallback fuel rpc t1 t2 p idx d)
  then show ?case using moves(9) by blast
next
  case (Sync p cfg acc nid src src2 c1 c2 ord)
  then show ?case by (intro moves(1) extends_syncStreams db_ok_more(4) process_okD)
next
  case (Deliver p ev nu now post)
  then show ?case by (intro moves(2) extends_processWebhookQueue db_ok_processWebhookQueue process_okD)
qed (auto intro: moves(3-5,7,8,10) dest: db_read_routes db_refresh |
    (rule moves(1), assumption, erule app_extends,
      rule app_db_ok [OF process_okD] db_ok_more(1-3) [OF process_okD], assumption, assumption) |
    (rule moves(2), assumption, (erule extends_requeue extends_prune extends_clear),
      (rule db_ok_requeue [OF process_okD] db_ok_pruning [OF process_okD] db_ok_clear [OF process_okD]),
      assumption, assumption))+

definition fresh_install :: "Process \<Rightarrow> bool" where
  "fresh_install p = (\<exists>ev contract tm. p = boot ev contract tm empty_db)"

lemma fresh_ok: "fresh_install p \<Longrightarrow> process_ok p"
proof -
  have "stream_events empty_db = []" by (simp add: empty_db_def)
  then show "fresh_install p \<Longrightarrow> process_ok p"
    using checkpoint_boot [of empty_db] empty_db_ok
    by (auto simp: fresh_install_def process_ok_def claims_ok_def waiting_ok_def boot_def)
qed

lemma later_state_trans: "later_state a b \<Longrightarrow> later_state b c \<Longrightarrow> later_state a c"
  unfolding later_state_def
  by (intro conjI allI impI; (elim conjE)?)
    (blast intro: prefix_order.trans, blast, meson order.trans order.strict_trans2)

interpretation server: growing_system step fresh_install process_ok later_state
  by unfold_locales (auto simp: fresh_ok later_state_same intro: later_state_trans dest: step_safe simp: safe_move_def)

lemma distinct_keys_once: "distinct (map f xs) \<Longrightarrow> length (filter (\<lambda>x. f x = k) xs) \<le> 1"
  by (induction xs) (auto simp: filter_eq_nil_iff image_iff)

text \<open>C1: Whatever a server does after a fresh installation, in whatever order, with requests waiting
  for the network and crashes in between, the rules of the schema hold: keys are unique, references
  lead to rows, no ledger event is stored twice, and a running indexer is never behind the stored
  checkpoint.\<close>

theorem server_database_consistent:
  assumes "step\<^sup>*\<^sup>* (boot ev contract tm empty_db) p"
  shows "db_ok (pr_db p) \<and> checkpoint_ok (pr_db p) (pr_idx p)"
  using server.holds_reachable [OF _ assms] by (auto simp: process_ok_def fresh_install_def)

text \<open>C2: No interleaving of requests pays a stream out twice: in every state a server can reach there is at
  most one claim of its own per stream, of a positive amount. Claims that were checked at the same
  time are serialised by the transaction that logs them.\<close>

theorem at_most_one_payout:
  assumes "step\<^sup>*\<^sup>* (boot ev contract tm empty_db) p"
  shows "length (filter (\<lambda>e. local_claim e \<and> ev_stream_id e = sid) (stream_events (pr_db p))) \<le> 1 \<and>
    (\<forall>e \<in> set (stream_events (pr_db p)). local_claim e \<longrightarrow> (\<exists>v > 0. amount e = Some v))"
proof -
  have "claims_ok (pr_db p)"
    using server.holds_reachable [OF _ assms] by (auto simp: process_ok_def fresh_install_def)
  then have "distinct (map ev_stream_id (filter local_claim (stream_events (pr_db p))))"
      and amounts: "\<forall>e \<in> set (stream_events (pr_db p)). local_claim e \<longrightarrow> (\<exists>v > 0. amount e = Some v)"
    by (auto simp: claims_ok_def split: option.splits)
  from this(1) have "length (filter (\<lambda>e. ev_stream_id e = sid) (filter local_claim (stream_events (pr_db p)))) \<le> 1"
    by (rule distinct_keys_once)
  with amounts show ?thesis by (simp add: conj_commute)
qed

text \<open>C3: History is append-only: along every run from a consistent state the event log is only extended
  at its end, no stream disappears from the table, and the checkpoint never moves back, restarts
  included.\<close>

theorem history_append_only:
  assumes "process_ok p" "step\<^sup>*\<^sup>* p q"
  shows "prefix (stream_events (pr_db p)) (stream_events (pr_db q)) \<and>
    (\<forall>sid. stream_exists sid (pr_db p) \<longrightarrow> stream_exists sid (pr_db q)) \<and>
    (\<forall>l. indexer_cursor (pr_db p) = Some l \<and> 0 < l \<longrightarrow> (\<exists>l' \<ge> l. indexer_cursor (pr_db q) = Some l'))"
  using server.below_steps [OF assms(2,1)] by (simp add: later_state_def)

section \<open>A run\<close>

text \<open>A stream is created on a fresh installation, two claims are read, both are committed.\<close>

definition run_input :: StreamInput where
  "run_input = \<lparr> in_sender = ''GS'', in_recipient = ''GR'', in_assetCode = ''USDC'', in_totalAmount = 1000,
     in_durationSeconds = 1000, in_startAt = Some 100, in_cliffSeconds = None \<rparr>"

definition run_created :: Process where
  "run_created = (let p = boot (\<lambda>_. None) None 0 empty_db in
     with_app p (snd (createStream offline dead_io run_input 90 90 90 (pr_app p))))"

definition run_stream :: StreamRecord where
  "run_stream = the (getStream ''1'' (pr_db run_created))"

definition run_vested :: jsnum where
  "run_vested = vestedAmount (calculateProgress run_stream 600)"

definition run_waiting :: Process where
  "run_waiting = run_created\<lparr>pr_claims := [(run_stream, run_vested), (run_stream, run_vested)]\<rparr>"

definition run_claim :: "Process \<Rightarrow> Process" where
  "run_claim p = p\<lparr>pr_app := snd (claim_commit run_stream run_vested 600 (pr_app p)),
     pr_claims := remove1 (run_stream, run_vested) (pr_claims p)\<rparr>"

lemma run_read: "getStream ''1'' (pr_db run_created) = Some run_stream" "0 < run_vested"
proof -
  have "(getStream ''1'' (pr_db run_created) \<noteq> None) \<and> 0 < run_vested"
    by code_simp
  then show "getStream ''1'' (pr_db run_created) = Some run_stream" "0 < run_vested"
    by (auto simp: run_stream_def)
qed

lemma run_steps: "step\<^sup>*\<^sup>* (boot (\<lambda>_. None) None 0 empty_db) (run_claim (run_claim run_waiting))"
proof -
  have a: "step (boot (\<lambda>_. None) None 0 empty_db) run_created"
    unfolding run_created_def Let_def by (rule step.Create [OF prod.collapse [symmetric]])
  have b: "step run_created (run_created\<lparr>pr_claims := [(run_stream, run_vested)]\<rparr>)"
    using step.Claim_begin [OF run_read(1), of 600] run_read(2)
    by (simp add: run_vested_def run_created_def boot_def Let_def)
  have c: "step (run_created\<lparr>pr_claims := [(run_stream, run_vested)]\<rparr>) run_waiting"
    using step.Claim_begin [of "''1''" "run_created\<lparr>pr_claims := [(run_stream, run_vested)]\<rparr>" run_stream 600]
      run_read by (simp add: run_waiting_def run_vested_def)
  have d: "step p (run_claim p)" if "(run_stream, run_vested) \<in> set (pr_claims p)" for p
    using step.Claim_end [OF that prod.collapse [symmetric], of 600] by (simp add: run_claim_def)
  have "step run_waiting (run_claim run_waiting)" "step (run_claim run_waiting) (run_claim (run_claim run_waiting))"
    by (rule d, simp add: run_waiting_def run_claim_def)+
  with a b c show ?thesis by (meson rtranclp.rtrancl_into_rtrancl rtranclp.rtrancl_refl)
qed

theorem server_database_consistent_witness: "db_ok (pr_db (run_claim (run_claim run_waiting)))"
  using server_database_consistent [OF run_steps] by blast

theorem at_most_one_payout_witness:
  "length (filter (\<lambda>e. local_claim e \<and> ev_stream_id e = ''1'')
     (stream_events (pr_db (run_claim (run_claim run_waiting))))) \<le> 1"
  using at_most_one_payout [OF run_steps, of "''1''"] by blast

theorem history_append_only_witness:
  "prefix (stream_events empty_db) (stream_events (pr_db (run_claim (run_claim run_waiting))))"
proof -
  have "process_ok (boot (\<lambda>_. None) None 0 empty_db)"
    by (rule fresh_ok) (unfold fresh_install_def, blast)
  then show ?thesis
    using history_append_only [OF _ run_steps] by (simp add: boot_def)
qed

end
