(* ===== verification/EnvConfig.thy ===== *)
theory EnvConfig
  imports Validation Auth
begin

text \<open>
  \<open>backend/src/config/validateEnv.ts\<close>: the configuration a server starts with. The environment is a
  map of texts; \<open>is_url\<close> is Zod's test for a URL. \<open>None\<close> stands for the exit of the process. Numbers are
  exact integers; the log lines are left out.
\<close>

section \<open>Pieces\<close>

definition contractIdSchema :: "string \<Rightarrow> bool" where
  "contractIdSchema s = (length s = 56 \<and> s ! 0 = CHR ''C'')"

definition stellarSecretKeySchema :: "string \<Rightarrow> bool" where
  "stellarSecretKeySchema s = (length s = 56 \<and> s ! 0 = CHR ''S'')"

definition adminApiKeySchema :: "string \<Rightarrow> bool" where
  "adminApiKeySchema s = (32 \<le> length s)"

text \<open>A number schema with its default for an unset variable.\<close>

definition number_env :: "env \<Rightarrow> string \<Rightarrow> (int \<Rightarrow> bool) \<Rightarrow> int \<Rightarrow> int option" where
  "number_env ev k P dflt = (case ev k of None \<Rightarrow> Some dflt | Some s \<Rightarrow> keep_if P (parseInt s))"

definition text_env :: "env \<Rightarrow> string \<Rightarrow> string \<Rightarrow> string" where
  "text_env ev k dflt = (case ev k of None \<Rightarrow> dflt | Some s \<Rightarrow> s)"

record EnvNumbers =
  n_port :: int
  n_indexerPoll :: int
  n_reconciliation :: int
  n_archive :: int
  n_fallbackPoll :: int
  n_pendingWarn :: int
  n_retryDueWarn :: int
  n_deadLetterAlert :: int
  n_maxLedgerLag :: int
  n_maxConsecutiveErrors :: int

text \<open>\<open>envSchema\<close>: the texts are only optional, so what can fail are the numbers.\<close>

definition envSchema :: "env \<Rightarrow> EnvNumbers option" where
  "envSchema ev =
     (case (number_env ev ''PORT'' (\<lambda>v. 0 < v \<and> v < 65536) 3001,
            number_env ev ''INDEXER_POLL_INTERVAL_MS'' (\<lambda>v. 5000 \<le> v) 10000,
            number_env ev ''RECONCILIATION_INTERVAL_MS'' (\<lambda>v. 10000 \<le> v) 60000,
            number_env ev ''ARCHIVE_CRON_INTERVAL_MS'' (\<lambda>v. 60000 \<le> v) 86400000,
            number_env ev ''INDEXER_FALLBACK_POLL_INTERVAL_MS'' (\<lambda>v. 1000 \<le> v) 10000,
            number_env ev ''WEBHOOK_MONITOR_PENDING_WARN_THRESHOLD'' (\<lambda>v. 0 < v) 100,
            number_env ev ''WEBHOOK_MONITOR_RETRY_DUE_WARN_THRESHOLD'' (\<lambda>v. 0 < v) 10,
            number_env ev ''WEBHOOK_MONITOR_DEAD_LETTER_ALERT_THRESHOLD'' (\<lambda>v. 0 < v) 1,
            number_env ev ''INDEXER_MONITOR_MAX_LEDGER_LAG'' (\<lambda>v. 0 \<le> v) 100,
            number_env ev ''INDEXER_MONITOR_MAX_CONSECUTIVE_ERRORS'' (\<lambda>v. 0 < v) 5) of
        (Some a, Some b, Some c, Some d, Some e, Some f, Some g, Some h, Some i, Some j) \<Rightarrow>
          Some \<lparr> n_port = a, n_indexerPoll = b, n_reconciliation = c, n_archive = d, n_fallbackPoll = e,
                 n_pendingWarn = f, n_retryDueWarn = g, n_deadLetterAlert = h, n_maxLedgerLag = i,
                 n_maxConsecutiveErrors = j \<rparr>
      | _ \<Rightarrow> None)"

section \<open>The validation\<close>

text \<open>The older variables fill in for the newer ones.\<close>

definition alias_env :: "string \<Rightarrow> string \<Rightarrow> env \<Rightarrow> env" where
  "alias_env newer older ev =
     (if env_value ev newer = None \<and> env_value ev older \<noteq> None then ev(newer := ev older) else ev)"

definition with_aliases :: "env \<Rightarrow> env" where
  "with_aliases ev = alias_env ''STELLAR_NETWORK'' ''NETWORK_PASSPHRASE''
     (alias_env ''SOROBAN_RPC_URL'' ''RPC_URL'' (alias_env ''STELLAR_CONTRACT_ID'' ''CONTRACT_ID'' ev))"

definition soroban_disabled :: "env \<Rightarrow> bool" where
  "soroban_disabled ev = (map_option toLowerCase (ev ''SOROBAN_DISABLED'') = Some ''true'')"

definition DEFAULT_RPC_URL :: string where "DEFAULT_RPC_URL = ''https://soroban-testnet.stellar.org:443''"

definition soroban_ok :: "(string \<Rightarrow> bool) \<Rightarrow> env \<Rightarrow> bool" where
  "soroban_ok is_url ev =
     (case (env_value ev ''CONTRACT_ID'', env_value ev ''SERVER_PRIVATE_KEY'') of
        (Some contract, Some key) \<Rightarrow>
          contractIdSchema contract \<and> stellarSecretKeySchema key \<and>
          is_url (text_env ev ''RPC_URL'' DEFAULT_RPC_URL) \<and>
          (case env_value ev ''STELLAR_CONTRACT_ID'' of None \<Rightarrow> True | Some c \<Rightarrow> contractIdSchema c)
      | _ \<Rightarrow> False)"

definition parsed_assets :: "env \<Rightarrow> string list" where
  "parsed_assets ev =
     filter (\<lambda>a. a \<noteq> []) (map (\<lambda>a. toUpperCase (trim a)) (split_on CHR '','' (text_env ev ''ALLOWED_ASSETS'' ''USDC,XLM'')))"

text \<open>The admin key of the configuration; a short one ends the process in production only.\<close>

definition checked_admin_key :: "env \<Rightarrow> string option option" where
  "checked_admin_key ev =
     (case env_value ev ''ADMIN_API_KEY'' of
        None \<Rightarrow> Some None
      | Some k \<Rightarrow> if adminApiKeySchema k then Some (Some k)
                  else if ev ''NODE_ENV'' = Some ''production'' then None else Some None)"

record ValidatedConfig =
  vc_numbers :: EnvNumbers
  vc_sorobanEnabled :: bool
  vc_contractId :: "string option"
  vc_serverPrivateKey :: "string option"
  vc_rpcUrl :: string
  vc_networkPassphrase :: string
  vc_allowedAssets :: "string list"
  vc_dbPath :: string
  vc_webhookDestinationUrl :: "string option"
  vc_webhookSigningSecret :: "string option"
  vc_jwtSecret :: string
  vc_serverSigningKey :: "string option"
  vc_domain :: string
  vc_fallbackPollingEnabled :: bool
  vc_adminApiKey :: "string option"
  vc_allowedOrigins :: "string option"

definition the_text :: "string option \<Rightarrow> string \<Rightarrow> string" where
  "the_text v dflt = (case v of Some s \<Rightarrow> s | None \<Rightarrow> dflt)"

definition config_of :: "env \<Rightarrow> EnvNumbers \<Rightarrow> string option \<Rightarrow> ValidatedConfig" where
  "config_of ev nums adminKey =
     \<lparr> vc_numbers = nums,
       vc_sorobanEnabled = (\<not> soroban_disabled ev),
       vc_contractId = env_value ev ''STELLAR_CONTRACT_ID'',
       vc_serverPrivateKey = (if soroban_disabled ev then None else env_value ev ''SERVER_PRIVATE_KEY''),
       vc_rpcUrl = (case env_value ev ''SOROBAN_RPC_URL'' of Some u \<Rightarrow> u
                    | None \<Rightarrow> the_text (env_value ev ''RPC_URL'') DEFAULT_RPC_URL),
       vc_networkPassphrase = the_text (env_value ev ''NETWORK_PASSPHRASE'') ''Test SDF Network ; September 2015'',
       vc_allowedAssets = parsed_assets ev,
       vc_dbPath = the_text (env_value ev ''DB_PATH'') ''backend/data/streams.db'',
       vc_webhookDestinationUrl = env_value ev ''WEBHOOK_DESTINATION_URL'',
       vc_webhookSigningSecret = env_value ev ''WEBHOOK_SIGNING_SECRET'',
       vc_jwtSecret = text_env ev ''JWT_SECRET'' [],
       vc_serverSigningKey = env_value ev ''SERVER_SIGNING_KEY'',
       vc_domain = text_env ev ''DOMAIN'' ''localhost'',
       vc_fallbackPollingEnabled = (ev ''INDEXER_FALLBACK_POLLING_ENABLED'' = Some ''true''),
       vc_adminApiKey = adminKey,
       vc_allowedOrigins = ev ''ALLOWED_ORIGINS'' \<rparr>"

definition validateEnv :: "(string \<Rightarrow> bool) \<Rightarrow> env \<Rightarrow> ValidatedConfig option" where
  "validateEnv is_url ev0 =
     (let ev = with_aliases ev0 in
      case envSchema ev of
        None \<Rightarrow> None
      | Some nums \<Rightarrow>
          if \<not> soroban_disabled ev \<and> \<not> soroban_ok is_url ev then None
          else if (case env_value ev ''WEBHOOK_DESTINATION_URL'' of None \<Rightarrow> False | Some u \<Rightarrow> \<not> is_url u) then None
          else if parsed_assets ev = [] then None
          else map_option (config_of ev nums) (checked_admin_key ev))"

section \<open>What a validated configuration guarantees\<close>

definition numbers_ok :: "EnvNumbers \<Rightarrow> bool" where
  "numbers_ok n =
     (0 < n_port n \<and> n_port n < 65536 \<and> 5000 \<le> n_indexerPoll n \<and> 10000 \<le> n_reconciliation n \<and>
      60000 \<le> n_archive n \<and> 1000 \<le> n_fallbackPoll n \<and> 0 < n_pendingWarn n \<and> 0 < n_retryDueWarn n \<and>
      0 < n_deadLetterAlert n \<and> 0 \<le> n_maxLedgerLag n \<and> 0 < n_maxConsecutiveErrors n)"

lemma number_env_ok: "number_env ev k P dflt = Some v \<Longrightarrow> P dflt \<Longrightarrow> P v"
  by (auto simp: number_env_def keep_if_def split: option.splits if_splits)

lemma all_given:
  "(case (a, b, c, d, e, f, g, h, i, j) of
      (Some a, Some b, Some c, Some d, Some e, Some f, Some g, Some h, Some i, Some j) \<Rightarrow>
        Some \<lparr> n_port = a, n_indexerPoll = b, n_reconciliation = c, n_archive = d, n_fallbackPoll = e,
               n_pendingWarn = f, n_retryDueWarn = g, n_deadLetterAlert = h, n_maxLedgerLag = i,
               n_maxConsecutiveErrors = j \<rparr>
    | _ \<Rightarrow> None) = Some n \<Longrightarrow>
   a = Some (n_port n) \<and> b = Some (n_indexerPoll n) \<and> c = Some (n_reconciliation n) \<and> d = Some (n_archive n) \<and>
   e = Some (n_fallbackPoll n) \<and> f = Some (n_pendingWarn n) \<and> g = Some (n_retryDueWarn n) \<and>
   h = Some (n_deadLetterAlert n) \<and> i = Some (n_maxLedgerLag n) \<and> j = Some (n_maxConsecutiveErrors n)"
  by (simp split: option.splits) force

lemma envSchema_ok: "envSchema ev = Some n \<Longrightarrow> numbers_ok n"
  unfolding envSchema_def numbers_ok_def
  by (drule all_given, elim conjE, (drule number_env_ok, simp)+, elim conjE, intro conjI; assumption)

lemma alias_env_other [simp]: "k \<noteq> newer \<Longrightarrow> alias_env newer older ev k = ev k"
  by (simp add: alias_env_def)

lemma alias_env_value:
  "env_value (alias_env newer older ev) newer =
     (case env_value ev newer of Some v \<Rightarrow> Some v | None \<Rightarrow> env_value ev older)"
  by (cases "env_value ev older") (auto simp: alias_env_def env_value_def split: option.splits)

lemma env_value_cong: "ev k = ev' k \<Longrightarrow> env_value ev k = env_value ev' k"
  by (simp add: env_value_def)

lemma with_aliases_other:
  "k \<notin> {''STELLAR_NETWORK'', ''SOROBAN_RPC_URL'', ''STELLAR_CONTRACT_ID''} \<Longrightarrow> with_aliases ev k = ev k"
  by (simp add: with_aliases_def)

lemma with_aliases_contract:
  "env_value (with_aliases ev) ''STELLAR_CONTRACT_ID'' =
     (case env_value ev ''STELLAR_CONTRACT_ID'' of Some v \<Rightarrow> Some v | None \<Rightarrow> env_value ev ''CONTRACT_ID'')"
proof -
  have "with_aliases ev ''STELLAR_CONTRACT_ID'' = alias_env ''STELLAR_CONTRACT_ID'' ''CONTRACT_ID'' ev ''STELLAR_CONTRACT_ID''"
    by (simp add: with_aliases_def)
  then have "env_value (with_aliases ev) ''STELLAR_CONTRACT_ID'' =
      env_value (alias_env ''STELLAR_CONTRACT_ID'' ''CONTRACT_ID'' ev) ''STELLAR_CONTRACT_ID''"
    by (rule env_value_cong)
  then show ?thesis by (simp add: alias_env_value)
qed

lemma env_value_nonempty: "env_value ev k = Some v \<Longrightarrow> v \<noteq> []"
  by (auto simp: env_value_def split: option.splits if_splits)


definition contract56 :: string where "contract56 = CHR ''C'' # replicate 55 CHR ''A''"
definition secret56 :: string where "secret56 = CHR ''S'' # replicate 55 CHR ''A''"

definition sample_environment :: env where
  "sample_environment = [''CONTRACT_ID'' \<mapsto> contract56, ''SERVER_PRIVATE_KEY'' \<mapsto> secret56,
     ''PORT'' \<mapsto> ''8080'', ''ADMIN_API_KEY'' \<mapsto> ''short'']"

lemma sample_environment_valid: "validateEnv (\<lambda>_. True) sample_environment \<noteq> None"
  by code_simp


section \<open>What is not checked\<close>

lemma alias_env_upd:
  "k \<noteq> newer \<Longrightarrow> k \<noteq> older \<Longrightarrow> alias_env newer older (ev(k := v)) = (alias_env newer older ev)(k := v)"
  by (auto simp: alias_env_def env_value_def fun_upd_twist)

lemma alias_env_given:
  "u \<noteq> [] \<Longrightarrow> alias_env newer older (ev(newer \<mapsto> u)) = (alias_env newer older ev)(newer \<mapsto> u)"
  by (simp add: alias_env_def env_value_def)

lemma with_aliases_rpc:
  "u \<noteq> [] \<Longrightarrow> with_aliases (ev(''SOROBAN_RPC_URL'' \<mapsto> u)) = (with_aliases ev)(''SOROBAN_RPC_URL'' \<mapsto> u)"
  by (simp add: with_aliases_def alias_env_upd alias_env_given)

lemma env_value_upd:
  "k \<noteq> k' \<Longrightarrow> env_value (ev(k := v)) k' = env_value ev k'"
  by (simp add: env_value_def)

lemma text_env_upd: "k \<noteq> k' \<Longrightarrow> text_env (ev(k := v)) k' dflt = text_env ev k' dflt"
  by (simp add: text_env_def)

lemma number_env_upd: "k \<noteq> k' \<Longrightarrow> number_env (ev(k := v)) k' P dflt = number_env ev k' P dflt"
  by (simp add: number_env_def)

lemma readers_ignore_rpc:
  "envSchema (ev(''SOROBAN_RPC_URL'' \<mapsto> u)) = envSchema ev"
  "soroban_disabled (ev(''SOROBAN_RPC_URL'' \<mapsto> u)) = soroban_disabled ev"
  "soroban_ok is_url (ev(''SOROBAN_RPC_URL'' \<mapsto> u)) = soroban_ok is_url ev"
  "parsed_assets (ev(''SOROBAN_RPC_URL'' \<mapsto> u)) = parsed_assets ev"
  "checked_admin_key (ev(''SOROBAN_RPC_URL'' \<mapsto> u)) = checked_admin_key ev"
  by (simp_all add: envSchema_def number_env_upd soroban_disabled_def soroban_ok_def text_env_upd
      parsed_assets_def checked_admin_key_def env_value_upd split: option.split)

text \<open>The URL the server uses is not the one that is checked: whatever text \<open>SOROBAN_RPC_URL\<close> is set to,
  the outcome of the validation is the same, and the text becomes the RPC URL of the configuration.\<close>

theorem rpc_url_unchecked:
  assumes "u \<noteq> []"
  shows "validateEnv is_url (ev(''SOROBAN_RPC_URL'' \<mapsto> u)) =
    map_option (\<lambda>cfg. cfg\<lparr>vc_rpcUrl := u\<rparr>) (validateEnv is_url ev)"
proof -
  have "env_value (ev'(''SOROBAN_RPC_URL'' \<mapsto> u)) ''SOROBAN_RPC_URL'' = Some u" for ev'
    using assms by (simp add: env_value_def)
  then have conf: "config_of (ev'(''SOROBAN_RPC_URL'' \<mapsto> u)) n = (\<lambda>ak. (config_of ev' n ak)\<lparr>vc_rpcUrl := u\<rparr>)" for ev' n
    by (simp add: fun_eq_iff config_of_def readers_ignore_rpc env_value_upd text_env_upd)
  show ?thesis
    by (simp add: validateEnv_def Let_def with_aliases_rpc [OF assms] readers_ignore_rpc env_value_upd conf
        option.map_comp comp_def split: option.split)
qed

theorem rpc_url_unchecked_witness:
  "map_option vc_rpcUrl (validateEnv (\<lambda>u. u \<noteq> ''nonsense'') (sample_environment(''SOROBAN_RPC_URL'' \<mapsto> ''nonsense''))) =
   Some ''nonsense''"
proof -
  have "validateEnv (\<lambda>u. u \<noteq> ''nonsense'') sample_environment \<noteq> None" by code_simp
  then show ?thesis
    using rpc_url_unchecked [of "''nonsense''" "\<lambda>u. u \<noteq> ''nonsense''" sample_environment]
    by (auto simp: option.map_comp comp_def)
qed

text \<open>The newer variable does not replace the older one.\<close>

theorem new_names_alone_rejected:
  assumes "env_value ev ''CONTRACT_ID'' = None" "\<not> soroban_disabled ev"
  shows "validateEnv is_url ev = None"
proof -
  have "env_value (with_aliases ev) ''CONTRACT_ID'' = env_value ev ''CONTRACT_ID''"
    by (rule env_value_cong) (simp add: with_aliases_other)
  moreover have "soroban_disabled (with_aliases ev) = soroban_disabled ev"
    by (simp add: soroban_disabled_def with_aliases_other)
  ultimately show ?thesis
    using assms by (simp add: validateEnv_def Let_def soroban_ok_def split: option.split)
qed

text \<open>Outside production a short key is left out of the configuration, yet the middleware takes it.\<close>

theorem short_admin_key_still_works:
  assumes "validateEnv is_url ev = Some cfg" "env_value ev ''ADMIN_API_KEY'' = Some k" "length k < 32"
  shows "vc_adminApiKey cfg = None \<and> adminAuth (ev ''ADMIN_API_KEY'') (Some k)"
proof -
  have "env_value (with_aliases ev) ''ADMIN_API_KEY'' = env_value ev ''ADMIN_API_KEY''"
    by (rule env_value_cong) (simp add: with_aliases_other)
  then have "vc_adminApiKey cfg = None"
    using assms by (auto simp: validateEnv_def Let_def checked_admin_key_def adminApiKeySchema_def config_of_def
        split: option.splits if_splits)
  then show ?thesis
    using assms(2) by (auto simp: adminAuth_def env_value_def split: option.splits if_splits)
qed

end
