(* ===== verification/Migrations.thy ===== *)
theory Migrations
  imports Prelude "HOL-Library.List_Lexorder"
begin

text \<open>
  \<open>backend/src/services/migrations.ts\<close> and \<open>dbRestoreOutcome.ts\<close>, with the opening of the SQLite
  database in \<open>db.ts\<close>: discovery of the migration scripts, applying and rolling them back, and the
  classification of a restored database. The SQL engine and the file system are parameters; an
  engine works on contents of any type.
\<close>

section \<open>Scripts\<close>

record Migration =
  version :: nat
  mg_name :: string
  upPath :: string
  downPath :: string

definition is_word :: "char \<Rightarrow> bool" where
  "is_word c = (is_alnum c \<or> c = CHR ''_'')"

text \<open>\<open>/^\d{3}_[\w.]+\.sql$/\<close>\<close>

definition migration_file :: "string \<Rightarrow> bool" where
  "migration_file f =
     (9 \<le> length f \<and> list_all is_digit (take 3 f) \<and> f ! 3 = CHR ''_'' \<and> endsWith f ''.sql'' \<and>
      list_all (\<lambda>c. is_word c \<or> c = CHR ''.'') (take (length f - 8) (drop 4 f)))"

definition script_name :: "string \<Rightarrow> string" where
  "script_name f = take (length f - 8) (drop 4 f)"

definition down_file :: "string \<Rightarrow> string" where
  "down_file f = take 3 f @ ''_'' @ script_name f @ ''.down.sql''"

text \<open>The second test of the code, \<open>match\<close>, always succeeds on a file that passed the filter.\<close>

fun migrations_of :: "string list \<Rightarrow> string list \<Rightarrow> string + Migration list" where
  "migrations_of files [] = Inr []"
| "migrations_of files (f # fs) =
     (if down_file f \<notin> set files then Inl (''Missing rollback script: '' @ down_file f)
      else (case migrations_of files fs of
              Inl msg \<Rightarrow> Inl msg
            | Inr ms \<Rightarrow> Inr (\<lparr> version = digits_val (take 3 f), mg_name = script_name f,
                             upPath = f, downPath = down_file f \<rparr> # ms)))"

definition discoverMigrations :: "string list \<Rightarrow> string + Migration list" where
  "discoverMigrations files =
     migrations_of files (sort (filter (\<lambda>f. migration_file f \<and> \<not> endsWith f ''.down.sql'') files))"

section \<open>Database\<close>

text \<open>The table \<open>schema_migrations\<close>, if it exists, and all other contents.\<close>

record 'c SqlDb =
  schema_migrations :: "(nat \<times> string \<times> int) list option"
  contents :: 'c

record 'c SqlEngine =
  exec_sql :: "string \<Rightarrow> 'c \<Rightarrow> string + 'c"
  has_table :: "string \<Rightarrow> 'c \<Rightarrow> bool"
  table_columns :: "string \<Rightarrow> 'c \<Rightarrow> string list option"

definition ensureSchemaMigrationsTable :: "'c SqlDb \<Rightarrow> 'c SqlDb" where
  "ensureSchemaMigrationsTable d =
     (case schema_migrations d of None \<Rightarrow> d\<lparr>schema_migrations := Some []\<rparr> | Some rows \<Rightarrow> d)"

definition rows_of :: "'c SqlDb \<Rightarrow> (nat \<times> string \<times> int) list" where
  "rows_of d = (case schema_migrations d of None \<Rightarrow> [] | Some rows \<Rightarrow> rows)"

definition getAppliedVersions :: "'c SqlDb \<Rightarrow> nat set" where
  "getAppliedVersions d = set (map fst (rows_of d))"

definition hasExistingSchema :: "'c SqlEngine \<Rightarrow> 'c SqlDb \<Rightarrow> bool" where
  "hasExistingSchema eng d = has_table eng ''streams'' (contents d)"

definition insert_version :: "Migration \<Rightarrow> int \<Rightarrow> 'c SqlDb \<Rightarrow> string + 'c SqlDb" where
  "insert_version m now d =
     (if version m \<in> getAppliedVersions d
      then Inl ''UNIQUE constraint failed: schema_migrations.version''
      else Inr (d\<lparr>schema_migrations := Some (rows_of d @ [(version m, mg_name m, now)])\<rparr>))"

fun insert_versions :: "Migration list \<Rightarrow> int \<Rightarrow> 'c SqlDb \<Rightarrow> string + 'c SqlDb" where
  "insert_versions [] now d = Inr d"
| "insert_versions (m # ms) now d =
     (case insert_version m now d of Inl e \<Rightarrow> Inl e | Inr d1 \<Rightarrow> insert_versions ms now d1)"

text \<open>A failed transaction rolls back: the state is the one before, and the error is thrown on.\<close>

definition in_transaction :: "('d \<Rightarrow> string + 'd) \<Rightarrow> 'd \<Rightarrow> (string + unit) \<times> 'd" where
  "in_transaction f d = (case f d of Inl e \<Rightarrow> (Inl e, d) | Inr d' \<Rightarrow> (Inr (), d'))"

definition seedBaselineMigrations :: "Migration list \<Rightarrow> int \<Rightarrow> 'c SqlDb \<Rightarrow> (string + unit) \<times> 'c SqlDb" where
  "seedBaselineMigrations ms now d = in_transaction (insert_versions ms now) d"

definition exec_script :: "'c SqlEngine \<Rightarrow> string \<Rightarrow> 'c SqlDb \<Rightarrow> string + 'c SqlDb" where
  "exec_script eng sql d =
     (case exec_sql eng sql (contents d) of Inl e \<Rightarrow> Inl e | Inr c \<Rightarrow> Inr (d\<lparr>contents := c\<rparr>))"

definition applyMigration ::
  "'c SqlEngine \<Rightarrow> (string \<Rightarrow> string option) \<Rightarrow> Migration \<Rightarrow> int \<Rightarrow> 'c SqlDb \<Rightarrow> (string + unit) \<times> 'c SqlDb" where
  "applyMigration eng readFile m now d =
     (case readFile (upPath m) of
        None \<Rightarrow> (Inl ''ENOENT: no such file or directory'', d)
      | Some sql \<Rightarrow> in_transaction (\<lambda>d0. case exec_script eng sql d0 of
                      Inl e \<Rightarrow> Inl e | Inr d1 \<Rightarrow> insert_version m now d1) d)"

text \<open>The loop reads the applied versions once, before it starts.\<close>

fun apply_pending ::
  "'c SqlEngine \<Rightarrow> (string \<Rightarrow> string option) \<Rightarrow> (nat \<Rightarrow> int) \<Rightarrow> nat set \<Rightarrow> Migration list \<Rightarrow> 'c SqlDb \<Rightarrow>
   (string + unit) \<times> 'c SqlDb" where
  "apply_pending eng readFile clk applied [] d = (Inr (), d)"
| "apply_pending eng readFile clk applied (m # ms) d =
     (if version m \<in> applied then apply_pending eng readFile clk applied ms d
      else (case applyMigration eng readFile m (clk (version m)) d of
              (Inl e, d1) \<Rightarrow> (Inl e, d1)
            | (Inr u, d1) \<Rightarrow> apply_pending eng readFile clk applied ms d1))"

definition runMigrations ::
  "'c SqlEngine \<Rightarrow> string list \<Rightarrow> (string \<Rightarrow> string option) \<Rightarrow> (nat \<Rightarrow> int) \<Rightarrow> 'c SqlDb \<Rightarrow>
   (string + unit) \<times> 'c SqlDb" where
  "runMigrations eng files readFile clk d =
     (case discoverMigrations files of
        Inl e \<Rightarrow> (Inl e, d)
      | Inr ms \<Rightarrow>
          (let d1 = ensureSchemaMigrationsTable d; applied = getAppliedVersions d1 in
           if applied = {} \<and> hasExistingSchema eng d1 then seedBaselineMigrations ms (clk 0) d1
           else apply_pending eng readFile clk applied ms d1))"

definition rollbackMigration ::
  "'c SqlEngine \<Rightarrow> string list \<Rightarrow> (string \<Rightarrow> string option) \<Rightarrow> nat \<Rightarrow> 'c SqlDb \<Rightarrow> (string + unit) \<times> 'c SqlDb" where
  "rollbackMigration eng files readFile v d =
     (case discoverMigrations files of
        Inl e \<Rightarrow> (Inl e, d)
      | Inr ms \<Rightarrow>
          (case List.find (\<lambda>m. version m = v) ms of
             None \<Rightarrow> (Inl (''Migration version '' @ nat_to_string v @ '' not found''), d)
           | Some m \<Rightarrow>
               if schema_migrations d = None then (Inl ''no such table: schema_migrations'', d)
               else if v \<notin> getAppliedVersions d
               then (Inl (''Migration version '' @ nat_to_string v @ '' has not been applied''), d)
               else (case readFile (downPath m) of
                       None \<Rightarrow> (Inl ''ENOENT: no such file or directory'', d)
                     | Some sql \<Rightarrow> in_transaction (\<lambda>d0. case exec_script eng sql d0 of
                         Inl e \<Rightarrow> Inl e
                       | Inr d1 \<Rightarrow> Inr (d1\<lparr>schema_migrations :=
                           Some (filter (\<lambda>r. fst r \<noteq> v) (rows_of d1))\<rparr>)) d)))"

section \<open>Restored databases\<close>

datatype RestoreOutcome = RestoreSuccess | RestoreTransientDelay | RestoreBlocked | RestoreInterrupted

fun restore_code :: "RestoreOutcome \<Rightarrow> nat" where
  "restore_code RestoreSuccess = 0"
| "restore_code RestoreTransientDelay = 1"
| "restore_code RestoreBlocked = 2"
| "restore_code RestoreInterrupted = 3"

text \<open>\<open>integrityOk\<close> may be absent.\<close>

record RestoreSchemaSnapshot =
  appliedVersions :: "nat list"
  expectedVersions :: "nat list"
  integrityOk :: "bool option"

record RestoreOutcomeCounts =
  rc_applied :: nat
  rc_expected :: nat
  rc_pending :: nat
  rc_unknown :: nat

record RestoreOutcomeSignal =
  rs_outcome :: RestoreOutcome
  rs_outcomeCode :: nat
  rs_detail :: string
  rs_counts :: RestoreOutcomeCounts

definition uniqueSorted :: "nat list \<Rightarrow> nat list" where
  "uniqueSorted vs = sort (remdups vs)"

definition classifyRestoreOutcome :: "RestoreSchemaSnapshot \<Rightarrow> RestoreOutcomeSignal" where
  "classifyRestoreOutcome snapshot =
     (let applied = uniqueSorted (appliedVersions snapshot); expected = uniqueSorted (expectedVersions snapshot);
          pending = length (filter (\<lambda>v. v \<notin> set applied) expected);
          unknown = length (filter (\<lambda>v. v \<notin> set expected) applied);
          counts = \<lparr> rc_applied = length applied, rc_expected = length expected, rc_pending = pending,
                     rc_unknown = unknown \<rparr>;
          (outcome, detail) =
            (if integrityOk snapshot = Some False then
               (RestoreInterrupted, ''The restored database backup was interrupted before completion or corrupted during active writes. Owner action: discard the incomplete backup file, restore a valid complete backup, and confirm this signal returns to success.'')
             else if unknown > 0 then
               (RestoreBlocked, ''The restored database is ahead of the running code: '' @ nat_to_string unknown @ '' applied schema version(s) are unknown to this build. Forward-only migrations cannot reconcile a newer snapshot. Owner action: deploy the code version that wrote the snapshot, or restore a snapshot taken with this build, then confirm this signal returns to success.'')
             else if pending > 0 then
               (RestoreTransientDelay, ''The restored database is behind the running code: '' @ nat_to_string pending @ '' of '' @ nat_to_string (length expected) @ '' migration(s) are pending. Startup applies them automatically, so no data is at risk. Owner action: none while the count reaches zero; if it does not, restart the backend once and re-read the signal.'')
             else
               (RestoreSuccess, ''The database schema matches the running code ('' @ nat_to_string (length applied) @ '' of '' @ nat_to_string (length expected) @ '' migration(s) applied).''))
      in \<lparr> rs_outcome = outcome, rs_outcomeCode = restore_code outcome, rs_detail = detail, rs_counts = counts \<rparr>)"

definition readAppliedSchemaVersions :: "'c SqlDb \<Rightarrow> nat list" where
  "readAppliedSchemaVersions d = uniqueSorted (map fst (rows_of d))"

text \<open>\<open>check\<close> is the answer to the integrity pragma, \<open>None\<close> where it throws.\<close>

definition readRestoreSnapshot ::
  "string list option \<Rightarrow> string list \<Rightarrow> 'c SqlDb \<Rightarrow> string + RestoreSchemaSnapshot" where
  "readRestoreSnapshot check files d =
     (let ok = (case check of None \<Rightarrow> False | Some rows \<Rightarrow> list_all (\<lambda>r. r = ''ok'') rows) in
      case discoverMigrations files of
        Inl e \<Rightarrow> Inl e
      | Inr ms \<Rightarrow> Inr \<lparr> appliedVersions = (if ok then readAppliedSchemaVersions d else []),
                       expectedVersions = uniqueSorted (map version ms), integrityOk = Some ok \<rparr>)"

definition getLiveRestoreOutcomeSignal ::
  "string list option \<Rightarrow> string list \<Rightarrow> 'c SqlDb \<Rightarrow> string + RestoreOutcomeSignal" where
  "getLiveRestoreOutcomeSignal check files d =
     (case readRestoreSnapshot check files d of
        Inl e \<Rightarrow> Inl e | Inr snap \<Rightarrow> Inr (classifyRestoreOutcome snap))"

text \<open>What is recorded at the opening; a database without recorded versions leaves the record alone.\<close>

definition recordSqliteRestoreOutcome ::
  "string list option \<Rightarrow> string list \<Rightarrow> 'c SqlDb \<Rightarrow> RestoreOutcomeSignal option \<Rightarrow> RestoreOutcomeSignal option" where
  "recordSqliteRestoreOutcome check files d recorded =
     (case getLiveRestoreOutcomeSignal check files d of
        Inl e \<Rightarrow> recorded
      | Inr signal \<Rightarrow> if rc_applied (rs_counts signal) = 0 then recorded else Some signal)"

definition addColumnIfMissing ::
  "'c SqlEngine \<Rightarrow> string \<Rightarrow> string \<Rightarrow> string \<Rightarrow> 'c SqlDb \<Rightarrow> (string + unit) \<times> 'c SqlDb" where
  "addColumnIfMissing eng table column typeDef d =
     (case table_columns eng table (contents d) of
        None \<Rightarrow> (Inr (), d)
      | Some cols \<Rightarrow>
          if column \<in> set cols then (Inr (), d)
          else in_transaction
                 (exec_script eng (''ALTER TABLE '' @ table @ '' ADD COLUMN '' @ column @ '' '' @ typeDef)) d)"

text \<open>\<open>initDb\<close> for SQLite: record the outcome, migrate, patch two columns; an error ends it.\<close>

definition initDb ::
  "'c SqlEngine \<Rightarrow> string list option \<Rightarrow> string list \<Rightarrow> (string \<Rightarrow> string option) \<Rightarrow> (nat \<Rightarrow> int) \<Rightarrow>
   'c SqlDb \<Rightarrow> RestoreOutcomeSignal option \<Rightarrow> (string + unit) \<times> 'c SqlDb \<times> RestoreOutcomeSignal option" where
  "initDb eng check files readFile clk d recorded =
     (let recorded1 = recordSqliteRestoreOutcome check files d recorded in
      case runMigrations eng files readFile clk d of
        (Inl e, d1) \<Rightarrow> (Inl e, d1, recorded1)
      | (Inr u, d1) \<Rightarrow>
          (case addColumnIfMissing eng ''streams'' ''cliff_seconds'' ''INTEGER NOT NULL DEFAULT 0'' d1 of
             (Inl e, d2) \<Rightarrow> (Inl e, d2, recorded1)
           | (Inr u, d2) \<Rightarrow>
               (let (r, d3) = addColumnIfMissing eng ''stream_archive'' ''cliff_seconds''
                                ''INTEGER NOT NULL DEFAULT 0'' d2
                in (r, d3, recorded1))))"

section \<open>Facts\<close>

lemma set_uniqueSorted [simp]: "set (uniqueSorted vs) = set vs"
  by (simp add: uniqueSorted_def)

lemma ensure_rows [simp]: "rows_of (ensureSchemaMigrationsTable d) = rows_of d"
  by (simp add: ensureSchemaMigrationsTable_def rows_of_def split: option.splits)

lemma ensure_contents [simp]: "contents (ensureSchemaMigrationsTable d) = contents d"
  by (simp add: ensureSchemaMigrationsTable_def split: option.splits)

lemma ensure_table: "schema_migrations (ensureSchemaMigrationsTable d) \<noteq> None"
  by (simp add: ensureSchemaMigrationsTable_def split: option.splits)

lemma ensure_again: "schema_migrations d \<noteq> None \<Longrightarrow> ensureSchemaMigrationsTable d = d"
  by (simp add: ensureSchemaMigrationsTable_def split: option.splits)

lemma rows_of_update [simp]: "rows_of (d\<lparr>schema_migrations := Some rows\<rparr>) = rows"
  by (simp add: rows_of_def)

lemma insert_version_effect:
  "insert_version m now d = Inr d' \<Longrightarrow>
   getAppliedVersions d' = insert (version m) (getAppliedVersions d) \<and> contents d' = contents d \<and>
   schema_migrations d' \<noteq> None"
  by (auto simp: insert_version_def getAppliedVersions_def split: if_splits)

lemma insert_versions_effect:
  "insert_versions ms now d = Inr d' \<Longrightarrow> schema_migrations d \<noteq> None \<Longrightarrow>
   getAppliedVersions d' = version ` set ms \<union> getAppliedVersions d \<and> contents d' = contents d \<and>
   schema_migrations d' \<noteq> None"
proof (induction ms arbitrary: d)
  case (Cons m ms)
  then obtain d1 where "insert_version m now d = Inr d1" "insert_versions ms now d1 = Inr d'"
    by (auto split: sum.splits)
  with insert_version_effect [OF this(1)] Cons.IH [of d1] show ?case by auto
qed auto

lemma in_transaction_Inr: "in_transaction f d = (Inr u, d') \<longleftrightarrow> f d = Inr d'"
  by (auto simp: in_transaction_def split: sum.splits)

lemma exec_script_rows:
  "exec_script eng sql d = Inr d' \<Longrightarrow> schema_migrations d' = schema_migrations d \<and> rows_of d' = rows_of d"
  by (auto simp: exec_script_def rows_of_def split: sum.splits)

lemma applyMigration_effect:
  assumes "applyMigration eng rf m now d = (Inr u, d')"
  shows "getAppliedVersions d' = insert (version m) (getAppliedVersions d) \<and> schema_migrations d' \<noteq> None"
proof -
  obtain sql d1 where d1: "exec_script eng sql d = Inr d1" "insert_version m now d1 = Inr d'"
    using assms by (auto simp: applyMigration_def in_transaction_Inr split: option.splits sum.splits)
  then show ?thesis
    using insert_version_effect [OF d1(2)] exec_script_rows [OF d1(1)] by (simp add: getAppliedVersions_def)
qed

lemma apply_pending_effect:
  "apply_pending eng rf clk applied ms d = (Inr u, d') \<Longrightarrow> schema_migrations d \<noteq> None \<Longrightarrow>
   applied \<subseteq> getAppliedVersions d \<Longrightarrow>
   getAppliedVersions d' = version ` set ms \<union> getAppliedVersions d \<and> schema_migrations d' \<noteq> None"
proof (induction ms arbitrary: d)
  case (Cons m ms)
  show ?case
  proof (cases "version m \<in> applied")
    case True
    with Cons.IH [of d] Cons.prems show ?thesis by auto
  next
    case False
    then obtain d1 where d1: "applyMigration eng rf m (clk (version m)) d = (Inr (), d1)"
        "apply_pending eng rf clk applied ms d1 = (Inr u, d')"
      using Cons.prems(1) by (auto split: prod.splits sum.splits)
    with applyMigration_effect [OF d1(1)] Cons.IH [of d1] Cons.prems(3) show ?thesis by auto
  qed
qed auto

lemma apply_pending_nothing:
  "version ` set ms \<subseteq> applied \<Longrightarrow> apply_pending eng rf clk applied ms d = (Inr (), d)"
  by (induction ms) auto

lemma runMigrations_effect:
  assumes "runMigrations eng files rf clk d = (Inr u, d')" "discoverMigrations files = Inr ms"
  shows "getAppliedVersions d' = version ` set ms \<union> getAppliedVersions d \<and> schema_migrations d' \<noteq> None"
  using assms ensure_table [of d] insert_versions_effect [of ms "clk 0" "ensureSchemaMigrationsTable d" d']
    apply_pending_effect [of eng rf clk _ ms "ensureSchemaMigrationsTable d" u d']
  by (auto simp: runMigrations_def Let_def seedBaselineMigrations_def in_transaction_Inr
      getAppliedVersions_def split: if_splits)

text \<open>C31: Starting again on a migrated database changes nothing: after a run of the migrations that ended
  without an error, a second run with the same scripts, at any time, ends without an error and leaves
  schema, data and the table of versions as they are.\<close>

theorem migrations_run_once:
  assumes "runMigrations eng files rf clk d = (Inr u, d1)"
  shows "runMigrations eng files rf clk' d1 = (Inr (), d1)"
proof -
  obtain ms where ms: "discoverMigrations files = Inr ms"
    using assms by (auto simp: runMigrations_def split: sum.splits)
  note eff = runMigrations_effect [OF assms ms]
  have again: "ensureSchemaMigrationsTable d1 = d1" using eff by (simp add: ensure_again)
  show ?thesis
  proof (cases "getAppliedVersions d1 = {}")
    case True
    with eff have "ms = []" by auto
    then show ?thesis
      by (simp add: runMigrations_def ms again Let_def seedBaselineMigrations_def in_transaction_def)
  next
    case False
    have "apply_pending eng rf clk' (getAppliedVersions d1) ms d1 = (Inr (), d1)"
      using eff by (intro apply_pending_nothing) auto
    then show ?thesis
      by (simp add: runMigrations_def Let_def ms again False)
  qed
qed

text \<open>A restored database that is not ahead of the code is brought to success by starting the server: when
  every recorded version is known to the build and the migrations run without an error, the live
  signal over the same scripts is success.\<close>

theorem restart_clears_restore_delay:
  assumes "runMigrations eng files rf clk d = (Inr u, d1)" "discoverMigrations files = Inr ms"
    and "getAppliedVersions d \<subseteq> version ` set ms"
  shows "map_sum id rs_outcome (getLiveRestoreOutcomeSignal (Some [''ok'']) files d1) = Inr RestoreSuccess"
proof -
  have "set (map fst (rows_of d1)) = version ` set ms"
    using runMigrations_effect [OF assms(1,2)] assms(3) by (auto simp: getAppliedVersions_def)
  then show ?thesis
    using assms(2)
    by (simp add: getLiveRestoreOutcomeSignal_def readRestoreSnapshot_def classifyRestoreOutcome_def
        readAppliedSchemaVersions_def Let_def filter_eq_nil_iff)
qed

text \<open>A database that has the streams table but no recorded version is declared up to date without
  running a single script: every version the build ships is recorded as applied, and the contents stay
  as they were, whatever columns they lack.\<close>

theorem baseline_runs_no_script:
  assumes "runMigrations eng files rf clk d = (Inr u, d1)" "discoverMigrations files = Inr ms"
    and "getAppliedVersions d = {}" "hasExistingSchema eng d"
  shows "contents d1 = contents d \<and> getAppliedVersions d1 = version ` set ms"
proof -
  have "insert_versions ms (clk 0) (ensureSchemaMigrationsTable d) = Inr d1"
    using assms by (simp add: runMigrations_def Let_def getAppliedVersions_def hasExistingSchema_def
        seedBaselineMigrations_def in_transaction_Inr)
  from insert_versions_effect [OF this ensure_table] assms(3) show ?thesis
    by (simp add: getAppliedVersions_def)
qed

section \<open>Examples\<close>

text \<open>The scripts the repository ships, and an engine whose contents are the scripts it ran.\<close>

definition shipped :: "string list" where
  "shipped = [''003_add_metadata.sql'', ''001_initial_schema.down.sql'', ''001_initial_schema.sql'',
     ''002_add_paused_duration.down.sql'', ''002_add_paused_duration.sql'', ''003_add_metadata.down.sql'',
     ''004_webhook_dead_letters_columns.down.sql'', ''004_webhook_dead_letters_columns.sql'']"

definition logging_engine :: "string list SqlEngine" where
  "logging_engine = \<lparr> exec_sql = (\<lambda>sql c. Inr (c @ [sql])),
     has_table = (\<lambda>t c. ''001_initial_schema.sql'' \<in> set c), table_columns = (\<lambda>t c. Some []) \<rparr>"

definition empty_sqlite :: "string list SqlDb" where
  "empty_sqlite = \<lparr> schema_migrations = None, contents = [] \<rparr>"

lemma shipped_run:
  "fst (runMigrations logging_engine shipped Some (\<lambda>_. 7) empty_sqlite) = Inr ()"
  "discoverMigrations shipped = Inr (projr (discoverMigrations shipped))"
  by code_simp+

theorem migrations_run_once_witness:
  "runMigrations logging_engine shipped Some (\<lambda>_. 9)
     (snd (runMigrations logging_engine shipped Some (\<lambda>_. 7) empty_sqlite)) =
   (Inr (), snd (runMigrations logging_engine shipped Some (\<lambda>_. 7) empty_sqlite))"
  using migrations_run_once [of logging_engine shipped Some "\<lambda>_. 7" empty_sqlite "()"] shipped_run(1)
  by (metis prod.collapse)

theorem restart_clears_restore_delay_witness:
  "map_sum id rs_outcome (getLiveRestoreOutcomeSignal (Some [''ok'']) shipped
     (snd (runMigrations logging_engine shipped Some (\<lambda>_. 7) empty_sqlite))) = Inr RestoreSuccess"
  using restart_clears_restore_delay [of logging_engine shipped Some "\<lambda>_. 7" empty_sqlite "()" _
      "projr (discoverMigrations shipped)"] shipped_run
  by (simp add: prod_eq_iff getAppliedVersions_def rows_of_def empty_sqlite_def)

definition old_sqlite :: "string list SqlDb" where
  "old_sqlite = \<lparr> schema_migrations = None, contents = [''001_initial_schema.sql''] \<rparr>"

theorem baseline_runs_no_script_witness:
  "contents (snd (runMigrations logging_engine shipped Some (\<lambda>_. 7) old_sqlite)) = [''001_initial_schema.sql'']"
proof -
  have "fst (runMigrations logging_engine shipped Some (\<lambda>_. 7) old_sqlite) = Inr ()"
    by code_simp
  then show ?thesis
    using baseline_runs_no_script [of logging_engine shipped Some "\<lambda>_. 7" old_sqlite "()" _
        "projr (discoverMigrations shipped)"] shipped_run(2)
    by (simp add: prod_eq_iff getAppliedVersions_def rows_of_def old_sqlite_def hasExistingSchema_def
        logging_engine_def)
qed

end
