(* ===== verification/SqlTranslate.thy ===== *)
theory SqlTranslate
  imports Migrations ApiErrors
begin

text \<open>
  The translation of statements for Postgres in \<open>backend/src/services/db.ts\<close>: placeholders become
  numbered ones, the two SQLite conflict clauses are rewritten, and the schema's types are translated. The worker thread that runs the
  statement is not modelled.
\<close>

section \<open>Scanning\<close>

text \<open>
  Both loops track quotes: \<open>prev\<close> is the character before the current one, \<open>q\<close> the quote that is
  open. A quote after a backslash is not one.
\<close>

definition is_quote :: "char option \<Rightarrow> char \<Rightarrow> bool" where
  "is_quote prev c =
     ((of_char c = (39 :: nat) \<or> of_char c = (34 :: nat)) \<and> prev \<noteq> Some (char_of (92 :: nat)))"

definition toggle :: "char \<Rightarrow> char option \<Rightarrow> char option" where
  "toggle c q = (case q of None \<Rightarrow> Some c | Some k \<Rightarrow> if c = k then None else Some k)"

definition placeholder :: "nat \<Rightarrow> string" where
  "placeholder n = CHR ''$'' # nat_to_string n"

fun positional :: "char option \<Rightarrow> char option \<Rightarrow> nat \<Rightarrow> string \<Rightarrow> string" where
  "positional prev q n [] = []"
| "positional prev q n (c # cs) =
     (if is_quote prev c then c # positional (Some c) (toggle c q) n cs
      else if c = CHR ''?'' \<and> q = None then placeholder n @ positional (Some c) q (n + 1) cs
      else c # positional (Some c) q n cs)"

text \<open>
  The named loop: \<open>pos\<close> maps a name to its number, \<open>params\<close> are the values so far. A name that the
  object lacks is bound to null.
\<close>

function named ::
  "(string \<Rightarrow> json option) \<Rightarrow> char option \<Rightarrow> char option \<Rightarrow> (string \<times> nat) list \<Rightarrow> json list \<Rightarrow> string \<Rightarrow>
   string \<times> json list" where
  "named obj prev q pos params [] = ([], params)"
| "named obj prev q pos params (c # cs) =
     (if is_quote prev c then
        (let (out, ps) = named obj (Some c) (toggle c q) pos params cs in (c # out, ps))
      else if c = CHR ''@'' \<and> q = None then
        (let name = takeWhile is_word cs; rest = dropWhile is_word cs in
         if name = [] then (let (out, ps) = named obj (Some c) q pos params cs in (c # out, ps))
         else (case map_of pos name of
                 Some n \<Rightarrow>
                   (let (out, ps) = named obj (Some (List.last name)) q pos params rest in (placeholder n @ out, ps))
               | None \<Rightarrow>
                   (let n = length params + 1;
                        v = (case obj name of None \<Rightarrow> JNull | Some v \<Rightarrow> v);
                        (out, ps) = named obj (Some (List.last name)) q ((name, n) # pos) (params @ [v]) rest
                    in (placeholder n @ out, ps))))
      else (let (out, ps) = named obj (Some c) q pos params cs in (c # out, ps)))"
  by pat_completeness auto
termination
  by (relation "measure (\<lambda>(obj, prev, q, pos, params, s). length s)")
    (auto simp: le_imp_less_Suc length_dropWhile_le)

datatype sqlParams = NoParams | PositionalParams "json list" | NamedParams "string \<Rightarrow> json option"

fun translateSqlAndParams :: "string \<Rightarrow> sqlParams \<Rightarrow> string \<times> json list" where
  "translateSqlAndParams sql NoParams = (positional None None 1 sql, [])"
| "translateSqlAndParams sql (PositionalParams ps) = (positional None None 1 sql, ps)"
| "translateSqlAndParams sql (NamedParams obj) = named obj None None [] [] sql"

text \<open>\<open>String.prototype.replace\<close> with a text: the first occurrence.\<close>

fun replace_first :: "string \<Rightarrow> string \<Rightarrow> string \<Rightarrow> string" where
  "replace_first old new [] = (if old = [] then new else [])"
| "replace_first old new (c # cs) =
     (if startsWith (c # cs) old then new @ drop (length old) (c # cs) else c # replace_first old new cs)"

definition replace_clause :: "string \<Rightarrow> string \<Rightarrow> string \<Rightarrow> string \<Rightarrow> string" where
  "replace_clause old new tail sql =
     (if includes_str sql old then replace_first old new sql @ tail else sql)"

definition translateSqlPostgres :: "string \<Rightarrow> string" where
  "translateSqlPostgres sql =
     replace_clause ''INSERT OR IGNORE INTO allowed_assets'' ''INSERT INTO allowed_assets''
       '' ON CONFLICT (code) DO NOTHING''
       (replace_clause ''INSERT OR IGNORE INTO stream_events'' ''INSERT INTO stream_events''
         '' ON CONFLICT (stream_id, event_type, ledger_sequence) WHERE ledger_sequence IS NOT NULL DO NOTHING''
         sql)"

section \<open>What named statements bind\<close>

text \<open>The names a statement mentions outside quotes, in order, with repetitions.\<close>

function names_of :: "char option \<Rightarrow> char option \<Rightarrow> string \<Rightarrow> string list" where
  "names_of prev q [] = []"
| "names_of prev q (c # cs) =
     (if is_quote prev c then names_of (Some c) (toggle c q) cs
      else if c = CHR ''@'' \<and> q = None then
        (let name = takeWhile is_word cs in
         if name = [] then names_of (Some c) q cs
         else name # names_of (Some (List.last name)) q (dropWhile is_word cs))
      else names_of (Some c) q cs)"
  by pat_completeness auto
termination
  by (relation "measure (\<lambda>(prev, q, s). length s)") (auto simp: le_imp_less_Suc length_dropWhile_le)

text \<open>The first occurrence of each, added to those that came before.\<close>

fun first_uses :: "string list \<Rightarrow> string list \<Rightarrow> string list" where
  "first_uses seen [] = []"
| "first_uses seen (x # xs) = (if x \<in> set seen then first_uses seen xs else x # first_uses (x # seen) xs)"

lemma named_params:
  "snd (named obj prev q pos params sql) = params @
     map (\<lambda>k. case obj k of None \<Rightarrow> JNull | Some v \<Rightarrow> v) (first_uses (map fst pos) (names_of prev q sql))"
proof (induction obj prev q pos params sql rule: named.induct)
  case (2 obj prev q pos params c cs)
  let ?name = "takeWhile is_word cs"
  consider "is_quote prev c" | "\<not> is_quote prev c" "c = CHR ''@''" "q = None" "?name = []"
    | "\<not> is_quote prev c" "c = CHR ''@''" "q = None" "?name \<noteq> []" | "\<not> is_quote prev c" "\<not> (c = CHR ''@'' \<and> q = None)"
    by blast
  then show ?case
  proof cases
    case 3
    show ?thesis
    proof (cases "map_of pos ?name")
      case None
      then have "?name \<notin> set (map fst pos)" by (simp add: map_of_eq_None_iff)
      with None 3 "2.IH"(3) [OF 3(1) _ refl refl 3(4) None refl refl] show ?thesis
        by (simp add: Let_def case_prod_beta)
    next
      case (Some n)
      then have "?name \<in> set (map fst pos)" by (metis map_of_eq_None_iff list.set_map option.distinct(1))
      with Some 3 "2.IH"(4) [OF 3(1) _ refl refl 3(4) Some] show ?thesis
        by (simp add: Let_def case_prod_beta)
    qed
  qed (use "2.IH"(1,2,5) in \<open>auto simp: Let_def case_prod_beta\<close>)
qed simp

text \<open>A named statement binds each name once: the parameters are the values of the names the statement
  mentions outside quotes, in the order of their first mention, null for a name the object lacks.\<close>

theorem named_binds_first_mentions:
  "snd (translateSqlAndParams sql (NamedParams obj)) =
     map (\<lambda>k. case obj k of None \<Rightarrow> JNull | Some v \<Rightarrow> v) (first_uses [] (names_of None None sql))"
  using named_params [of obj None None "[]" "[]" sql] by simp

section \<open>Schema statements\<close>

text \<open>
  \<open>translateDdl\<close> splits at semicolons, drops what belongs to the search index, and rewrites keys and types. A
  pattern of words with spaces between them is matched whatever its case; the pattern of a type is
  bounded by \<open>\b\<close> on both sides, so that it matches whole runs of word characters.
\<close>

definition match_word :: "string \<Rightarrow> string \<Rightarrow> string option" where
  "match_word pat s =
     (if map upper_char (take (length pat) s) = pat then Some (drop (length pat) s) else None)"

fun match_spaces :: "string \<Rightarrow> string option" where
  "match_spaces [] = None"
| "match_spaces (c # cs) = (if is_space c then Some (dropWhile is_space cs) else None)"

fun match_words :: "string list \<Rightarrow> string \<Rightarrow> string option" where
  "match_words [] s = Some s"
| "match_words [p] s = match_word p s"
| "match_words (p # ps) s = Option.bind (match_word p s) (\<lambda>r. Option.bind (match_spaces r) (match_words ps))"

lemma match_word_length: "match_word p s = Some r \<Longrightarrow> length r \<le> length s"
  by (auto simp: match_word_def split: if_splits)

lemma match_word_shorter: "match_word p s = Some r \<Longrightarrow> p \<noteq> [] \<Longrightarrow> length r < length s"
  by (cases s) (auto simp: match_word_def split: if_splits)

lemma match_spaces_length: "match_spaces s = Some r \<Longrightarrow> length r \<le> length s"
  by (cases s) (auto split: if_splits simp: le_SucI length_dropWhile_le)

definition autoincrement :: "string \<Rightarrow> string \<Rightarrow> string option" where
  "autoincrement ty = match_words [ty, ''PRIMARY'', ''KEY'', ''AUTOINCREMENT'']"

function serial_keys :: "string \<Rightarrow> string \<Rightarrow> string" where
  "serial_keys ty [] = []"
| "serial_keys ty (c # cs) =
     (case autoincrement ty (c # cs) of
        None \<Rightarrow> c # serial_keys ty cs
      | Some r \<Rightarrow> if length r < length (c # cs) then ''SERIAL PRIMARY KEY'' @ serial_keys ty r else c # cs)"
  by pat_completeness auto
termination
  by (relation "measure (\<lambda>(ty, s). length s)") auto

text \<open>The guard only serves termination: a match is never empty.\<close>

lemma autoincrement_shorter:
  assumes "autoincrement ty s = Some r"
  shows "length r < length s"
proof -
  obtain u v w x y z where "match_word ty s = Some u" "match_spaces u = Some v" "match_word ''PRIMARY'' v = Some w"
    "match_spaces w = Some x" "match_word ''KEY'' x = Some y" "match_spaces y = Some z" "match_word ''AUTOINCREMENT'' z = Some r"
    using assms by (auto simp: autoincrement_def bind_eq_Some_conv)
  then show ?thesis
    using match_word_length [of ty s u] match_spaces_length [of u v] match_word_shorter [of "''PRIMARY''" v w]
      match_spaces_length [of w x] match_word_length [of "''KEY''" x y] match_spaces_length [of y z]
      match_word_length [of "''AUTOINCREMENT''" z r]
    by simp
qed

function map_words :: "(string \<Rightarrow> string) \<Rightarrow> string \<Rightarrow> string" where
  "map_words f [] = []"
| "map_words f (c # cs) =
     (if is_word c then f (c # takeWhile is_word cs) @ map_words f (dropWhile is_word cs) else c # map_words f cs)"
  by pat_completeness auto
termination
  by (relation "measure (\<lambda>(f, s). length s)") (auto simp: le_imp_less_Suc length_dropWhile_le)

definition replace_word :: "string \<Rightarrow> string \<Rightarrow> string \<Rightarrow> string" where
  "replace_word old new = map_words (\<lambda>w. if w = old then new else w)"

definition is_search_ddl :: "string \<Rightarrow> bool" where
  "is_search_ddl stmt =
     (includes_str (toUpperCase stmt) ''CREATE VIRTUAL TABLE'' \<or> includes_str (toUpperCase stmt) ''STREAMS_FTS'')"

definition translate_stmt :: "string \<Rightarrow> string" where
  "translate_stmt stmt =
     replace_word ''REAL'' ''DOUBLE PRECISION'' (replace_word ''INTEGER'' ''BIGINT''
       (serial_keys ''BIGINT'' (serial_keys ''INTEGER'' stmt)))"

definition ddl_statements :: "string \<Rightarrow> string list" where
  "ddl_statements sql =
     map translate_stmt (filter (\<lambda>stmt. stmt \<noteq> [] \<and> \<not> is_search_ddl stmt) (map trim (split_on (CHR '';'') sql)))"

definition translateDdl :: "bool \<Rightarrow> string \<Rightarrow> string" where
  "translateDdl isPostgres sql =
     (if \<not> isPostgres then sql else join_with [CHR '';'', CHR 0x0A] (ddl_statements sql) @ '';'')"

text \<open>The words of a text, and what replacing them does to them.\<close>

function words :: "string \<Rightarrow> string list" where
  "words [] = []"
| "words (c # cs) = (if is_word c then (c # takeWhile is_word cs) # words (dropWhile is_word cs) else words cs)"
  by pat_completeness auto
termination
  by (relation "measure length") (auto simp: le_imp_less_Suc length_dropWhile_le)

lemma words_append:
  assumes "v = [] \<or> \<not> is_word (hd v)"
  shows "words (u @ v) = words u @ words v"
  using assms
proof (induction u rule: words.induct)
  case (2 c cs)
  have "takeWhile is_word (cs @ v) = takeWhile is_word cs \<and>
      dropWhile is_word (cs @ v) = dropWhile is_word cs @ v"
  proof (cases "\<forall>x \<in> set cs. is_word x")
    case True
    then show ?thesis using 2(3) by (cases v) (simp_all add: takeWhile_eq_all_conv [THEN iffD2])
  next
    case False
    then show ?thesis by (metis dropWhile_append1 takeWhile_append1)
  qed
  then show ?case using 2 by simp
qed simp

lemma words_map_words: "words (map_words f s) = concat (map (\<lambda>w. words (f w)) (words s))"
proof (induction f s rule: map_words.induct)
  case (2 f c cs)
  show ?case
  proof (cases "is_word c")
    case True
    let ?rest = "dropWhile is_word cs"
    have "map_words f ?rest = [] \<or> \<not> is_word (hd (map_words f ?rest))"
    proof (cases ?rest)
      case (Cons d ds)
      then have "\<not> is_word d" by (metis hd_dropWhile list.distinct(1) list.sel(1))
      then show ?thesis using Cons by simp
    next
      case Nil
      then show ?thesis unfolding Nil by simp
    qed
    then show ?thesis using True 2 by (simp add: words_append)
  next
    case False
    then show ?thesis using 2 by simp
  qed
qed simp

lemma words_are_words: "w \<in> set (words s) \<Longrightarrow> w \<noteq> [] \<and> list_all is_word w"
proof (induction s rule: words.induct)
  case (2 c cs)
  have "list_all is_word (takeWhile is_word cs)" by (auto simp: list_all_iff dest: set_takeWhileD)
  then show ?case using 2 by (cases "is_word c") auto
qed simp

lemma words_word:
  assumes "w \<noteq> []" "list_all is_word w"
  shows "words w = [w]"
proof (cases w)
  case (Cons c cs)
  have "takeWhile is_word cs = cs" "dropWhile is_word cs = []"
    using assms(2) Cons by (simp_all add: list_all_iff takeWhile_eq_all_conv)
  moreover from this(2) have "words (dropWhile is_word cs) = []" by (simp only: words.simps)
  ultimately show ?thesis using assms(2) Cons by simp
qed (use assms in simp)

lemma words_replace_word:
  "set (words (replace_word old new s)) \<subseteq> (set (words s) - {old}) \<union> set (words new)"
proof -
  have "words (if w = old then new else w) = (if w = old then words new else [w])" if "w \<in> set (words s)" for w
    using words_are_words [OF that] words_word by auto
  then show ?thesis by (auto simp: replace_word_def words_map_words split: if_splits)
qed

text \<open>No statement that is sent to Postgres contains one of SQLite's type names as a word.\<close>

theorem ddl_types_translated:
  assumes "stmt \<in> set (ddl_statements sql)"
  shows "''INTEGER'' \<notin> set (words stmt) \<and> ''REAL'' \<notin> set (words stmt)"
proof -
  have news: "words ''BIGINT'' = [''BIGINT'']" "words ''DOUBLE PRECISION'' = [''DOUBLE'', ''PRECISION'']"
    by code_simp+
  have integer: "''INTEGER'' \<notin> set (words (replace_word ''INTEGER'' ''BIGINT'' s))" for s
    using words_replace_word [of "''INTEGER''" "''BIGINT''" s] unfolding news by auto
  have "set (words (translate_stmt s)) \<subseteq> - {''INTEGER'', ''REAL''}" for s
    using words_replace_word [of "''REAL''" "''DOUBLE PRECISION''"] integer unfolding translate_stmt_def news by fastforce
  then show ?thesis using assms by (auto simp: ddl_statements_def)
qed

definition sample_ddl :: string where
  "sample_ddl = ''a integer  PRIMARY KEY AUTOINCREMENT, x REAL;STREAMS_FTS''"

lemma sample_ddl_statements:
  "ddl_statements sample_ddl = [''a SERIAL PRIMARY KEY, x DOUBLE PRECISION'']"
  by code_simp

theorem ddl_types_translated_witness:
  "''INTEGER'' \<notin> set (words ''a SERIAL PRIMARY KEY, x DOUBLE PRECISION'')"
  using ddl_types_translated [of _ sample_ddl] by (simp add: sample_ddl_statements del: words.simps)

end
