(* ===== verification/Postgres.thy ===== *)
theory Postgres
  imports SqlTranslate
begin

text \<open>
  The database object of \<open>backend/src/services/db.ts\<close> for Postgres: the bridge that makes a worker thread answer
  queries synchronously through shared memory, the statements it offers, and its transactions. The client
  library inside the worker is a parameter: a function from a query and the state of the database to an answer
  and the state after it.
\<close>

section \<open>The bridge\<close>

text \<open>
  \<open>flag\<close> is \<open>state[0]\<close>: 0 idle, 1 query pending, 2 success, 3 error. The length in \<open>state[1]\<close> and the bytes of the
  buffer are one message. Each side is where it stands in its code; every write to shared memory is a step of
  its own. \<open>calls\<close>, \<open>answers\<close> and \<open>world\<close> record what was asked, what was answered and the database. The worker has
  connected; one that cannot connect exits, and the caller then waits for ever.
\<close>

datatype ('q, 'r) message = Blank | Query 'q | Result 'r

datatype ('q, 'r) caller = Ready | Written 'q | Waiting | HasRead 'r

datatype ('q, 'r) server = Polling | Got 'q | Ran 'r | Stored 'r

record ('q, 'r, 'w) Bridge =
  flag :: nat
  buffer :: "('q, 'r) message"
  main :: "('q, 'r) caller"
  worker :: "('q, 'r) server"
  world :: 'w
  calls :: "'q list"
  answers :: "'r list"

definition bridge_start :: "'w \<Rightarrow> ('q, 'r, 'w) Bridge" where
  "bridge_start w =
     \<lparr> flag = 0, buffer = Blank, main = Ready, worker = Polling, world = w, calls = [], answers = [] \<rparr>"

inductive bridge_step ::
  "('q \<Rightarrow> 'w \<Rightarrow> 'r \<times> 'w) \<Rightarrow> ('r \<Rightarrow> bool) \<Rightarrow> ('q, 'r, 'w) Bridge \<Rightarrow> ('q, 'r, 'w) Bridge \<Rightarrow> bool"
  for client :: "'q \<Rightarrow> 'w \<Rightarrow> 'r \<times> 'w" and failed :: "'r \<Rightarrow> bool" where
  Write: "main b = Ready \<Longrightarrow> bridge_step client failed b (b\<lparr>buffer := Query q, main := Written q, calls := calls b @ [q]\<rparr>)"
| Publish: "main b = Written q \<Longrightarrow> bridge_step client failed b (b\<lparr>flag := 1, main := Waiting\<rparr>)"
| Take: "worker b = Polling \<Longrightarrow> flag b = 1 \<Longrightarrow> buffer b = Query q \<Longrightarrow> bridge_step client failed b (b\<lparr>worker := Got q\<rparr>)"
| Run: "worker b = Got q \<Longrightarrow> client q (world b) = (r, w) \<Longrightarrow> bridge_step client failed b (b\<lparr>worker := Ran r, world := w\<rparr>)"
| Store: "worker b = Ran r \<Longrightarrow> bridge_step client failed b (b\<lparr>buffer := Result r, worker := Stored r\<rparr>)"
| Notify: "worker b = Stored r \<Longrightarrow> bridge_step client failed b (b\<lparr>flag := (if failed r then 3 else 2), worker := Polling\<rparr>)"
| Wake: "main b = Waiting \<Longrightarrow> flag b \<noteq> 1 \<Longrightarrow> buffer b = Result r \<Longrightarrow> bridge_step client failed b (b\<lparr>main := HasRead r\<rparr>)"
| Return: "main b = HasRead r \<Longrightarrow> bridge_step client failed b (b\<lparr>flag := 0, main := Ready, answers := answers b @ [r]\<rparr>)"

text \<open>What the bridge should be: the queries run one after the other.\<close>

fun run_calls :: "('q \<Rightarrow> 'w \<Rightarrow> 'r \<times> 'w) \<Rightarrow> 'q list \<Rightarrow> 'w \<Rightarrow> 'r list \<times> 'w" where
  "run_calls client [] w = ([], w)"
| "run_calls client (q # qs) w =
     (let (r, w1) = client q w; (rs, w2) = run_calls client qs w1 in (r # rs, w2))"

lemma run_calls_append:
  "run_calls client (qs @ [q]) w =
     (let (rs, w1) = run_calls client qs w; (r, w2) = client q w1 in (rs @ [r], w2))"
  by (induction qs arbitrary: w) (simp_all add: case_prod_beta Let_def)

text \<open>The query that is under way, and where the two sides may stand.\<close>

definition bridge_ok :: "('q \<Rightarrow> 'w \<Rightarrow> 'r \<times> 'w) \<Rightarrow> 'w \<Rightarrow> ('q, 'r, 'w) Bridge \<Rightarrow> bool" where
  "bridge_ok client w0 b =
     (case main b of
        Ready \<Rightarrow> flag b = 0 \<and> worker b = Polling \<and> run_calls client (calls b) w0 = (answers b, world b)
      | Written q \<Rightarrow> flag b = 0 \<and> worker b = Polling \<and> buffer b = Query q \<and>
          (\<exists>qs. calls b = qs @ [q] \<and> run_calls client qs w0 = (answers b, world b))
      | Waiting \<Rightarrow>
          (\<exists>qs q. calls b = qs @ [q] \<and>
             (case worker b of
                Polling \<Rightarrow>
                  (flag b = 1 \<and> buffer b = Query q \<and> run_calls client qs w0 = (answers b, world b)) \<or>
                  (flag b \<noteq> 1 \<and> (\<exists>r. buffer b = Result r \<and> run_calls client (calls b) w0 = (answers b @ [r], world b)))
              | Got q' \<Rightarrow> flag b = 1 \<and> q' = q \<and> run_calls client qs w0 = (answers b, world b)
              | Ran r \<Rightarrow> flag b = 1 \<and> run_calls client (calls b) w0 = (answers b @ [r], world b)
              | Stored r \<Rightarrow> flag b = 1 \<and> buffer b = Result r \<and> run_calls client (calls b) w0 = (answers b @ [r], world b)))
      | HasRead r \<Rightarrow> flag b \<noteq> 1 \<and> worker b = Polling \<and> run_calls client (calls b) w0 = (answers b @ [r], world b))"

lemma bridge_step_ok:
  assumes "bridge_step client failed b b'" "bridge_ok client w0 b"
  shows "bridge_ok client w0 b'"
  using assms
proof (induction rule: bridge_step.induct)
  case (Run b q r w)
  then show ?case by (auto simp: bridge_ok_def run_calls_append Let_def split: caller.splits)
next
  case (Wake b r)
  then show ?case by (cases "worker b") (auto simp: bridge_ok_def)
qed (auto simp: bridge_ok_def split: caller.splits server.splits)

lemma bridge_reaches_ok:
  assumes "(bridge_step client failed)\<^sup>*\<^sup>* (bridge_start w0) b"
  shows "bridge_ok client w0 b"
  using assms
proof (induction rule: rtranclp_induct)
  case base
  show ?case by (simp add: bridge_ok_def bridge_start_def)
qed (rule bridge_step_ok)

text \<open>How far the query under way still has to go.\<close>

definition steps_left :: "('q, 'r, 'w) Bridge \<Rightarrow> nat" where
  "steps_left b =
     (case main b of
        Ready \<Rightarrow> 0
      | Written q \<Rightarrow> 7
      | Waiting \<Rightarrow> (case worker b of Polling \<Rightarrow> if flag b = 1 then 6 else 2 | Got q \<Rightarrow> 5 | Ran r \<Rightarrow> 4 | Stored r \<Rightarrow> 3)
      | HasRead r \<Rightarrow> 1)"

lemma bridge_progress:
  assumes "bridge_ok client w0 b" "main b \<noteq> Ready"
  shows "\<exists>b'. bridge_step client failed b b'"
proof (cases "main b")
  case Waiting
  show ?thesis
  proof (cases "worker b")
    case Polling
    then have "flag b = 1 \<and> (\<exists>q. buffer b = Query q) \<or> flag b \<noteq> 1 \<and> (\<exists>r. buffer b = Result r)"
      using assms(1) Waiting by (auto simp: bridge_ok_def)
    then show ?thesis using Take [OF Polling] Wake [OF Waiting] by blast
  next
    case (Got q)
    then show ?thesis using Run [OF Got] by (metis surj_pair)
  next
    case (Ran r)
    then show ?thesis using Store [OF Ran] by blast
  next
    case (Stored r)
    then show ?thesis using Notify [OF Stored] by blast
  qed
next
  case (Written q)
  then show ?thesis using Publish [OF Written] by blast
next
  case (HasRead r)
  then show ?thesis using Return [OF HasRead] by blast
qed (use assms(2) in simp)

lemma bridge_decreases:
  assumes "bridge_step client failed b b'" "bridge_ok client w0 b" "main b \<noteq> Ready"
  shows "Suc (steps_left b') = steps_left b"
  using assms by (induction rule: bridge_step.induct) (auto simp: bridge_ok_def steps_left_def split: caller.splits server.splits)

text \<open>C36: The worker is a function call: in every interleaving of the two threads, whenever the caller is back, each of
  its queries has been run once, in order, and has been given its own answer; and while a query is under way
  some step is possible and every step brings the answer nearer, so that at most seven steps return it.\<close>

theorem bridge_is_a_call:
  assumes "(bridge_step client failed)\<^sup>*\<^sup>* (bridge_start w0) b"
  shows "(main b = Ready \<longrightarrow> run_calls client (calls b) w0 = (answers b, world b)) \<and> steps_left b \<le> 7 \<and>
    (main b \<noteq> Ready \<longrightarrow> (\<exists>b'. bridge_step client failed b b') \<and>
      (\<forall>b'. bridge_step client failed b b' \<longrightarrow> Suc (steps_left b') = steps_left b))"
proof -
  have ok: "bridge_ok client w0 b" by (rule bridge_reaches_ok [OF assms])
  have "steps_left b \<le> 7" by (simp add: steps_left_def split: caller.split server.split)
  then show ?thesis
    using ok bridge_progress [OF ok] bridge_decreases [OF _ ok] by (auto simp: bridge_ok_def)
qed

definition doubling :: "nat \<Rightarrow> nat \<Rightarrow> nat \<times> nat" where
  "doubling q w = (q + w, w + 1)"

lemma two_calls:
  "\<exists>b. (bridge_step doubling (\<lambda>r. False))\<^sup>*\<^sup>* (bridge_start 5) b \<and> main b = Ready \<and> calls b = [10]"
proof -
  let ?s = "bridge_step doubling (\<lambda>r. False)"
  let ?b1 = "(bridge_start 5)\<lparr>buffer := Query 10, main := Written 10, calls := [10]\<rparr> :: (nat, nat, nat) Bridge"
  let ?b2 = "?b1\<lparr>flag := 1, main := Waiting\<rparr>"
  let ?b3 = "?b2\<lparr>worker := Got 10\<rparr>"
  let ?b4 = "?b3\<lparr>worker := Ran 15, world := 6\<rparr>"
  let ?b5 = "?b4\<lparr>buffer := Result 15, worker := Stored 15\<rparr>"
  let ?b6 = "?b5\<lparr>flag := 2, worker := Polling\<rparr>"
  let ?b7 = "?b6\<lparr>main := HasRead 15\<rparr>"
  let ?b8 = "?b7\<lparr>flag := 0, main := Ready, answers := [15]\<rparr>"
  have "?s (bridge_start 5) ?b1" using Write [of "bridge_start 5 :: (nat, nat, nat) Bridge" doubling "\<lambda>r. False" 10] by (simp add: bridge_start_def)
  moreover have "?s ?b1 ?b2" by (rule Publish) simp
  moreover have "?s ?b2 ?b3" by (rule Take) (simp_all add: bridge_start_def)
  moreover have "?s ?b3 ?b4" by (rule Run) (simp_all add: bridge_start_def doubling_def)
  moreover have "?s ?b4 ?b5" by (rule Store) simp
  moreover have "?s ?b5 ?b6" using Notify [of ?b5 15 doubling "\<lambda>r. False"] by simp
  moreover have "?s ?b6 ?b7" by (rule Wake) simp_all
  moreover have "?s ?b7 ?b8" using Return [of ?b7 15 doubling "\<lambda>r. False"] by (simp add: bridge_start_def)
  ultimately have "?s\<^sup>*\<^sup>* (bridge_start 5) ?b8" by (meson converse_rtranclp_into_rtranclp rtranclp.rtrancl_refl)
  then show ?thesis by (intro exI [of _ ?b8]) simp
qed

theorem bridge_is_a_call_witness:
  "\<exists>b :: (nat, nat, nat) Bridge. main b = Ready \<and> calls b = [10] \<and> run_calls doubling [10] 5 = (answers b, world b)"
proof -
  obtain b :: "(nat, nat, nat) Bridge"
    where b: "(bridge_step doubling (\<lambda>r. False))\<^sup>*\<^sup>* (bridge_start 5) b" "main b = Ready" "calls b = [10]"
    using two_calls by blast
  from bridge_is_a_call [OF b(1)] b(2,3) have "run_calls doubling [10] 5 = (answers b, world b)" by simp
  then show ?thesis using b(2,3) by blast
qed

section \<open>Statements\<close>

record 'row PgResult =
  pr_rows :: "'row list"
  pr_rowCount :: nat

type_synonym ('row, 'w) pgClient = "string \<times> json list \<Rightarrow> 'w \<Rightarrow> (string + 'row PgResult) \<times> 'w"

definition pg_text :: "string \<Rightarrow> sqlParams \<Rightarrow> string \<times> json list" where
  "pg_text sql ps = (let (s, vs) = translateSqlAndParams sql ps in (translateDdl True (translateSqlPostgres s), vs))"

text \<open>
  \<open>encoded\<close> is the length of a query in the encoding of the bridge, \<open>room\<close> that of the buffer. Of the message of an
  error only its beginning is kept.
\<close>

definition querySync ::
  "nat \<Rightarrow> (string \<times> json list \<Rightarrow> nat) \<Rightarrow> ('row, 'w) pgClient \<Rightarrow> string \<Rightarrow> sqlParams \<Rightarrow> 'w \<Rightarrow> (string + 'row PgResult) \<times> 'w" where
  "querySync room encoded client sql ps w =
     (let q = pg_text sql ps in
      if trim (fst q) = [] then (Inr \<lparr> pr_rows = [], pr_rowCount = 0 \<rparr>, w)
      else if encoded q > room then (Inl ''Query too large for SharedArrayBuffer'', w)
      else (case client q w of
              (Inl m, w') \<Rightarrow> (Inl (''Postgres query error: '' @ m), w')
            | (Inr r, w') \<Rightarrow> (Inr r, w')))"

definition pg_exec ::
  "nat \<Rightarrow> (string \<times> json list \<Rightarrow> nat) \<Rightarrow> ('row, 'w) pgClient \<Rightarrow> string \<Rightarrow> 'w \<Rightarrow> (string + unit) \<times> 'w" where
  "pg_exec room encoded client sql w =
     (case querySync room encoded client sql NoParams w of (Inl e, w') \<Rightarrow> (Inl e, w') | (Inr r, w') \<Rightarrow> (Inr (), w'))"

text \<open>The three ways to run a prepared statement. The identifier of an inserted row is always 0.\<close>

definition pg_run :: "(string + 'row PgResult) \<times> 'w \<Rightarrow> (string + nat \<times> nat) \<times> 'w" where
  "pg_run a = (case a of (Inl e, w) \<Rightarrow> (Inl e, w) | (Inr r, w) \<Rightarrow> (Inr (pr_rowCount r, 0), w))"

definition pg_get :: "(string + 'row PgResult) \<times> 'w \<Rightarrow> (string + 'row option) \<times> 'w" where
  "pg_get a =
     (case a of
        (Inl e, w) \<Rightarrow> (Inl e, w)
      | (Inr r, w) \<Rightarrow> (Inr (case pr_rows r of [] \<Rightarrow> None | x # xs \<Rightarrow> Some x), w))"

definition pg_all :: "(string + 'row PgResult) \<times> 'w \<Rightarrow> (string + 'row list) \<times> 'w" where
  "pg_all a = (case a of (Inl e, w) \<Rightarrow> (Inl e, w) | (Inr r, w) \<Rightarrow> (Inr (pr_rows r), w))"

lemma trim_Nil: "trim s = [] \<longleftrightarrow> (\<forall>c \<in> set s. is_space c)"
proof -
  have "(\<forall>c \<in> set (dropWhile is_space s). is_space c) \<longleftrightarrow> (\<forall>c \<in> set s. is_space c)"
    by (induction s) auto
  then show ?thesis by (simp add: trim_def dropWhile_eq_Nil_conv)
qed

text \<open>
  The test for an empty statement never succeeds, since the translation ends every text with a semicolon: a statement
  about the search index reaches the server as a lone semicolon.
\<close>

lemma never_empty: "trim (fst (pg_text sql ps)) \<noteq> []"
proof -
  have "CHR '';'' \<in> set (translateDdl True t)" for t by (simp add: translateDdl_def)
  moreover have "\<not> is_space (CHR '';'')" by (simp add: is_space_def less_eq_char_def)
  ultimately show ?thesis by (auto simp: pg_text_def Let_def trim_Nil split: prod.split)
qed

lemma search_statement_dropped: "fst (pg_text ''streams_fts'' NoParams) = '';''"
  by code_simp

lemma querySync_client:
  assumes "encoded (pg_text sql ps) \<le> room"
  shows "snd (querySync room encoded client sql ps w) = snd (client (pg_text sql ps) w)"
    "isl (fst (querySync room encoded client sql ps w)) = isl (fst (client (pg_text sql ps) w))"
  using assms never_empty [of sql ps] by (auto simp: querySync_def Let_def split: prod.split sum.split)

section \<open>Transactions\<close>

definition pg_rollback ::
  "nat \<Rightarrow> (string \<times> json list \<Rightarrow> nat) \<Rightarrow> ('row, 'w) pgClient \<Rightarrow> string \<Rightarrow> 'w \<Rightarrow> (string + 'a) \<times> 'w" where
  "pg_rollback room encoded client e w =
     (case pg_exec room encoded client ''ROLLBACK'' w of (Inl e', w') \<Rightarrow> (Inl e', w') | (Inr u, w') \<Rightarrow> (Inl e, w'))"

definition pg_transaction ::
  "nat \<Rightarrow> (string \<times> json list \<Rightarrow> nat) \<Rightarrow> ('row, 'w) pgClient \<Rightarrow> ('w \<Rightarrow> (string + 'a) \<times> 'w) \<Rightarrow> 'w \<Rightarrow> (string + 'a) \<times> 'w" where
  "pg_transaction room encoded client fn w =
     (case pg_exec room encoded client ''BEGIN'' w of
        (Inl e, w1) \<Rightarrow> (Inl e, w1)
      | (Inr u, w1) \<Rightarrow>
          (case fn w1 of
             (Inl e, w2) \<Rightarrow> pg_rollback room encoded client e w2
           | (Inr a, w2) \<Rightarrow>
               (case pg_exec room encoded client ''COMMIT'' w2 of
                  (Inl e, w3) \<Rightarrow> pg_rollback room encoded client e w3
                | (Inr u, w3) \<Rightarrow> (Inr a, w3))))"

text \<open>
  What the code relies on, as the Postgres manual documents it. \<open>saved\<close> is what other sessions see. A transaction
  leaves it alone until it is committed; after an error in it every further statement is an error; and committing it
  then rolls back, without an error.
\<close>

datatype txMode = Auto | Open | Failed

definition control :: "string list" where
  "control = [''BEGIN;'', ''COMMIT;'', ''ROLLBACK;'']"

definition opens :: "('row, 'w) pgClient \<Rightarrow> ('w \<Rightarrow> txMode) \<Rightarrow> ('w \<Rightarrow> 'd) \<Rightarrow> bool" where
  "opens client mode saved =
     (\<forall>w. mode w = Auto \<longrightarrow> (case client (''BEGIN;'', []) w of (a, w') \<Rightarrow> \<not> isl a \<and> mode w' = Open \<and> saved w' = saved w))"

definition isolates :: "('row, 'w) pgClient \<Rightarrow> ('w \<Rightarrow> txMode) \<Rightarrow> ('w \<Rightarrow> 'd) \<Rightarrow> bool" where
  "isolates client mode saved =
     (\<forall>q w. fst q \<notin> set control \<longrightarrow> mode w \<noteq> Auto \<longrightarrow>
        (case client q w of (a, w') \<Rightarrow>
           saved w' = saved w \<and> mode w' = (if mode w = Failed \<or> isl a then Failed else Open)))"

definition commits_failed_silently :: "('row, 'w) pgClient \<Rightarrow> ('w \<Rightarrow> txMode) \<Rightarrow> ('w \<Rightarrow> 'd) \<Rightarrow> bool" where
  "commits_failed_silently client mode saved =
     (\<forall>w. mode w = Failed \<longrightarrow> (case client (''COMMIT;'', []) w of (a, w') \<Rightarrow> \<not> isl a \<and> saved w' = saved w))"

text \<open>Statements whose errors are caught one by one, as \<open>processEvent\<close> of the indexer catches its own.\<close>

definition pg_batch ::
  "nat \<Rightarrow> (string \<times> json list \<Rightarrow> nat) \<Rightarrow> ('row, 'w) pgClient \<Rightarrow> (string \<times> sqlParams) list \<Rightarrow> 'w \<Rightarrow> (string + unit) \<times> 'w" where
  "pg_batch room encoded client qs w = (Inr (), fold (\<lambda>(sql, ps) w. snd (querySync room encoded client sql ps w)) qs w)"

lemma control_text: "pg_text ''BEGIN'' NoParams = (''BEGIN;'', [])" "pg_text ''COMMIT'' NoParams = (''COMMIT;'', [])"
  by code_simp+

lemma batch_isolated:
  assumes "isolates client mode saved" "\<forall>q. encoded q \<le> room" "mode w \<noteq> Auto"
    and "\<forall>(sql, ps) \<in> set qs. fst (pg_text sql ps) \<notin> set control"
  shows "saved (snd (pg_batch room encoded client qs w)) = saved w \<and> mode (snd (pg_batch room encoded client qs w)) \<noteq> Auto \<and>
    (mode w = Failed \<longrightarrow> mode (snd (pg_batch room encoded client qs w)) = Failed)"
  using assms(3,4)
proof (induction qs arbitrary: w)
  case Nil
  then show ?case by (simp add: pg_batch_def)
next
  case (Cons x qs)
  obtain sql ps where x: "x = (sql, ps)" by fastforce
  obtain a w1 where c: "client (pg_text sql ps) w = (a, w1)" by fastforce
  have w1: "snd (querySync room encoded client sql ps w) = w1"
    using querySync_client(1) [of encoded sql ps room client w] assms(2) c by simp
  have "saved w1 = saved w \<and> mode w1 = (if mode w = Failed \<or> isl a then Failed else Open)"
    using assms(1) Cons.prems x c unfolding isolates_def by fastforce
  then show ?case
    using Cons.IH [of w1] Cons.prems x w1 by (auto simp: pg_batch_def split: if_splits)
qed


text \<open>A server on which the statement \<open>bad\<close> fails and any other counts up.\<close>

fun counting :: "(nat, txMode \<times> nat \<times> nat) pgClient" where
  "counting (s, ps) (m, d, k) =
     (if s = ''BEGIN;'' then (Inr \<lparr> pr_rows = [], pr_rowCount = 0 \<rparr>, (Open, d, d))
      else if s = ''COMMIT;'' then (Inr \<lparr> pr_rows = [], pr_rowCount = 0 \<rparr>, (Auto, if m = Open then k else d, k))
      else if s = ''ROLLBACK;'' then (Inr \<lparr> pr_rows = [], pr_rowCount = 0 \<rparr>, (Auto, d, d))
      else if m = Failed then (Inl ''current transaction is aborted'', (m, d, k))
      else if s = ''bad;'' then (Inl ''bad'', (if m = Open then Failed else m, d, k))
      else (Inr \<lparr> pr_rows = [], pr_rowCount = 1 \<rparr>, (m, if m = Auto then d + 1 else d, k + 1)))"


end
