(* ===== verification/Jobs.thy ===== *)
theory Jobs
  imports Prelude
begin

text \<open>
  The background jobs of the server and their timers: \<open>services/archiveJob.ts\<close>, \<open>reconciliationJob.ts\<close>,
  \<open>webhookDeadLetterPruningJob.ts\<close>, \<open>streamProgressBroadcaster.ts\<close>, \<open>webhookWorker.ts\<close>, the start and stop of
  \<open>indexer.ts\<close>, and \<open>startServer\<close> of \<open>index.ts\<close>, which starts them. What one cycle of a job does is modelled with
  the job's service; here a cycle is its name in the list of the cycles begun.
\<close>

section \<open>Timers\<close>

datatype Job = IndexerJob | ReconciliationJob | ArchiveJob | PruningJob | BroadcasterJob | WebhookJob

record Timer =
  tm_handle :: nat
  tm_job :: Job
  tm_period :: int

text \<open>
  The live timers of the runtime, the module variables that hold a handle or null, the flags for a run in
  progress, the number of cycles that have begun and not ended, and the cycles begun so far.
\<close>

record Runtime =
  timers :: "Timer list"
  next_handle :: nat
  interval :: "Job \<Rightarrow> nat option"
  in_flight :: "Job \<Rightarrow> bool"
  running :: "Job \<Rightarrow> nat"
  cycles :: "Job list"

definition idle_runtime :: Runtime where
  "idle_runtime =
     \<lparr> timers = [], next_handle = 0, interval = (\<lambda>j. None), in_flight = (\<lambda>j. False), running = (\<lambda>j. 0), cycles = [] \<rparr>"

definition setInterval :: "Job \<Rightarrow> int \<Rightarrow> Runtime \<Rightarrow> Runtime" where
  "setInterval j ms rt =
     rt\<lparr>timers := timers rt @ [\<lparr> tm_handle = next_handle rt, tm_job = j, tm_period = ms \<rparr>],
        next_handle := next_handle rt + 1, interval := (interval rt)(j := Some (next_handle rt))\<rparr>"

definition clearInterval :: "nat \<Rightarrow> Runtime \<Rightarrow> Runtime" where
  "clearInterval h rt = rt\<lparr>timers := filter (\<lambda>t. tm_handle t \<noteq> h) (timers rt)\<rparr>"

section \<open>Cycles\<close>

text \<open>A cycle begins unless one is in progress, and ends in \<open>finally\<close>.\<close>

definition begin_cycle :: "Job \<Rightarrow> Runtime \<Rightarrow> Runtime" where
  "begin_cycle j rt =
     (if in_flight rt j then rt
      else rt\<lparr>in_flight := (in_flight rt)(j := True), running := (running rt)(j := running rt j + 1), cycles := cycles rt @ [j]\<rparr>)"

definition end_cycle :: "Job \<Rightarrow> Runtime \<Rightarrow> Runtime" where
  "end_cycle j rt =
     (if running rt j = 0 then rt
      else rt\<lparr>in_flight := (in_flight rt)(j := False), running := (running rt)(j := running rt j - 1)\<rparr>)"

text \<open>Pruning runs to its end at once and keeps no flag; a broadcast never waits, so that it ends as it began.\<close>

definition pruning_cycle :: "Runtime \<Rightarrow> Runtime" where
  "pruning_cycle rt = rt\<lparr>cycles := cycles rt @ [PruningJob]\<rparr>"

definition broadcast_cycle :: "Runtime \<Rightarrow> Runtime" where
  "broadcast_cycle rt =
     (if in_flight rt BroadcasterJob then rt else end_cycle BroadcasterJob (begin_cycle BroadcasterJob rt))"

text \<open>What a timer calls. \<open>ready\<close>: the indexer is set up and its breaker is not open.\<close>

definition tick :: "bool \<Rightarrow> Job \<Rightarrow> Runtime \<Rightarrow> Runtime" where
  "tick ready j rt =
     (case j of
        PruningJob \<Rightarrow> pruning_cycle rt
      | BroadcasterJob \<Rightarrow> broadcast_cycle rt
      | IndexerJob \<Rightarrow> if ready then begin_cycle IndexerJob rt else rt
      | ReconciliationJob \<Rightarrow> begin_cycle ReconciliationJob rt
      | ArchiveJob \<Rightarrow> begin_cycle ArchiveJob rt
      | WebhookJob \<Rightarrow> begin_cycle WebhookJob rt)"

section \<open>Starting and stopping\<close>

definition startArchiveJob :: "int \<Rightarrow> Runtime \<Rightarrow> Runtime" where
  "startArchiveJob ms rt =
     (if interval rt ArchiveJob \<noteq> None then rt else begin_cycle ArchiveJob (setInterval ArchiveJob ms rt))"

definition startReconciliationJob :: "int \<Rightarrow> Runtime \<Rightarrow> Runtime" where
  "startReconciliationJob ms rt =
     (if interval rt ReconciliationJob \<noteq> None then rt
      else begin_cycle ReconciliationJob (setInterval ReconciliationJob ms rt))"

definition startDeadLetterPruningJob :: "int \<Rightarrow> Runtime \<Rightarrow> Runtime" where
  "startDeadLetterPruningJob ms rt =
     (if interval rt PruningJob \<noteq> None then rt else setInterval PruningJob ms (pruning_cycle rt))"

definition startStreamProgressBroadcaster :: "int \<Rightarrow> Runtime \<Rightarrow> Runtime" where
  "startStreamProgressBroadcaster ms rt =
     (if interval rt BroadcasterJob \<noteq> None then rt else setInterval BroadcasterJob ms rt)"

text \<open>\<open>fallback\<close>: the period of the polling mode without cursors, when that mode is enabled.\<close>

definition getFallbackPollInterval :: "int \<Rightarrow> int" where
  "getFallbackPollInterval ms = max 1000 ms"

definition startIndexer :: "int option \<Rightarrow> bool \<Rightarrow> int \<Rightarrow> Runtime \<Rightarrow> Runtime" where
  "startIndexer fallback ready ms rt =
     (if interval rt IndexerJob \<noteq> None then rt
      else tick ready IndexerJob
        (setInterval IndexerJob (case fallback of Some f \<Rightarrow> getFallbackPollInterval f | None \<Rightarrow> ms) rt))"

text \<open>The worker replaces its timer.\<close>

definition startWebhookWorker :: "int \<Rightarrow> Runtime \<Rightarrow> Runtime" where
  "startWebhookWorker ms rt =
     setInterval WebhookJob ms
       (begin_cycle WebhookJob (case interval rt WebhookJob of None \<Rightarrow> rt | Some h \<Rightarrow> clearInterval h rt))"

definition stop_job :: "Job \<Rightarrow> Runtime \<Rightarrow> Runtime" where
  "stop_job j rt =
     (case interval rt j of
        None \<Rightarrow> rt
      | Some h \<Rightarrow> (clearInterval h rt)\<lparr>interval := (interval rt)(j := None)\<rparr>)"

definition stopArchiveJob :: "Runtime \<Rightarrow> Runtime" where
  "stopArchiveJob = stop_job ArchiveJob"

definition stopReconciliationJob :: "Runtime \<Rightarrow> Runtime" where
  "stopReconciliationJob = stop_job ReconciliationJob"

definition stopDeadLetterPruningJob :: "Runtime \<Rightarrow> Runtime" where
  "stopDeadLetterPruningJob = stop_job PruningJob"

definition stopStreamProgressBroadcaster :: "Runtime \<Rightarrow> Runtime" where
  "stopStreamProgressBroadcaster = stop_job BroadcasterJob"

definition stopIndexer :: "Runtime \<Rightarrow> Runtime" where
  "stopIndexer = stop_job IndexerJob"

definition stopWebhookWorker :: "Runtime \<Rightarrow> Runtime" where
  "stopWebhookWorker = stop_job WebhookJob"

section \<open>The invariant\<close>

definition handles :: "Job \<Rightarrow> Runtime \<Rightarrow> nat list" where
  "handles j rt = map tm_handle (filter (\<lambda>t. tm_job t = j) (timers rt))"

definition runtime_ok :: "Runtime \<Rightarrow> bool" where
  "runtime_ok rt =
     (distinct (map tm_handle (timers rt)) \<and> (\<forall>t \<in> set (timers rt). tm_handle t < next_handle rt) \<and>
      (\<forall>j. handles j rt = (case interval rt j of None \<Rightarrow> [] | Some h \<Rightarrow> [h])) \<and>
      (\<forall>j. running rt j = (if in_flight rt j then 1 else 0)) \<and> \<not> in_flight rt PruningJob)"

lemma idle_ok: "runtime_ok idle_runtime"
  by (simp add: runtime_ok_def idle_runtime_def handles_def)

lemma begin_cycle_ok: "runtime_ok rt \<Longrightarrow> j \<noteq> PruningJob \<Longrightarrow> runtime_ok (begin_cycle j rt)"
  by (simp add: runtime_ok_def begin_cycle_def handles_def)

lemma end_cycle_ok: "runtime_ok rt \<Longrightarrow> runtime_ok (end_cycle j rt)"
  by (simp add: runtime_ok_def end_cycle_def handles_def)

lemma pruning_cycle_ok: "runtime_ok rt \<Longrightarrow> runtime_ok (pruning_cycle rt)"
  by (simp add: runtime_ok_def pruning_cycle_def handles_def)

lemma broadcast_cycle_ok: "runtime_ok rt \<Longrightarrow> runtime_ok (broadcast_cycle rt)"
  by (simp add: broadcast_cycle_def begin_cycle_ok end_cycle_ok)

lemmas cycles_ok = begin_cycle_ok end_cycle_ok pruning_cycle_ok broadcast_cycle_ok

lemma tick_ok: "runtime_ok rt \<Longrightarrow> runtime_ok (tick ready j rt)"
  by (cases j) (simp_all add: tick_def cycles_ok)

lemma setInterval_ok:
  assumes "runtime_ok rt" "interval rt j = None"
  shows "runtime_ok (setInterval j ms rt)"
proof -
  have "handles k (setInterval j ms rt) = handles k rt @ (if k = j then [next_handle rt] else [])" for k
    by (auto simp: handles_def setInterval_def)
  moreover have "handles k rt = (case interval rt k of None \<Rightarrow> [] | Some h \<Rightarrow> [h])" for k
    using assms(1) by (simp add: runtime_ok_def)
  ultimately have "handles k (setInterval j ms rt) =
      (case interval (setInterval j ms rt) k of None \<Rightarrow> [] | Some h \<Rightarrow> [h])" for k
    using assms(2) by (simp add: setInterval_def)
  then show ?thesis using assms(1) by (auto simp: runtime_ok_def setInterval_def less_Suc_eq)
qed

text \<open>Stopping a job removes its own timer and no other.\<close>

lemma stop_job_ok:
  assumes "runtime_ok rt"
  shows "runtime_ok (stop_job j rt)"
proof (cases "interval rt j")
  case None
  then show ?thesis using assms by (simp add: stop_job_def)
next
  case (Some h)
  have dist: "inj_on tm_handle (set (timers rt))" using assms by (simp add: runtime_ok_def distinct_map)
  have own: "\<exists>t \<in> set (timers rt). tm_job t = j \<and> tm_handle t = h"
  proof -
    have "h \<in> set (handles j rt)" using assms Some by (simp add: runtime_ok_def)
    then show ?thesis by (auto simp: handles_def)
  qed
  have only: "handles j rt = [h]" using assms Some by (simp add: runtime_ok_def)
  have keep: "handles k (clearInterval h rt) = (if k = j then [] else handles k rt)" for k
  proof (cases "k = j")
    case True
    have "filter (\<lambda>t. tm_handle t \<noteq> h \<and> tm_job t = j) (timers rt) = []"
    proof (rule ccontr)
      assume "filter (\<lambda>t. tm_handle t \<noteq> h \<and> tm_job t = j) (timers rt) \<noteq> []"
      then obtain t where "t \<in> set (timers rt)" "tm_handle t \<noteq> h" "tm_job t = j" by (auto simp: filter_empty_conv)
      then have "tm_handle t \<in> set (handles j rt)" by (auto simp: handles_def)
      then show False using only \<open>tm_handle t \<noteq> h\<close> by simp
    qed
    then show ?thesis using True by (simp add: handles_def clearInterval_def conj_commute)
  next
    case False
    have "filter (\<lambda>t. tm_handle t \<noteq> h \<and> tm_job t = k) (timers rt) = filter (\<lambda>t. tm_job t = k) (timers rt)"
      using own dist False by (intro filter_cong) (auto dest: inj_onD)
    then show ?thesis using False by (simp add: handles_def clearInterval_def conj_commute)
  qed
  have rest: "handles k (stop_job j rt) = handles k (clearInterval h rt)" for k
    using Some by (simp add: stop_job_def handles_def)
  have "handles k (stop_job j rt) = (case interval (stop_job j rt) k of None \<Rightarrow> [] | Some h \<Rightarrow> [h])" for k
    using assms Some by (simp add: rest keep) (simp add: stop_job_def runtime_ok_def)
  then show ?thesis
    using assms Some by (simp add: runtime_ok_def) (simp add: stop_job_def clearInterval_def distinct_map_filter)
qed

text \<open>
  What every job promises of its start and its stop: it keeps the invariant, has a timer after the one and none
  after the other, and leaves the timers of the other jobs alone.
\<close>

locale background_job =
  fixes j :: Job and start stop :: "Runtime \<Rightarrow> Runtime"
  assumes start_ok: "runtime_ok rt \<Longrightarrow> runtime_ok (start rt)"
    and start_on: "interval (start rt) j \<noteq> None"
    and start_others: "k \<noteq> j \<Longrightarrow> interval (start rt) k = interval rt k"
    and stop_ok: "runtime_ok rt \<Longrightarrow> runtime_ok (stop rt)"
    and stop_off: "interval (stop rt) j = None"
    and stop_others: "k \<noteq> j \<Longrightarrow> interval (stop rt) k = interval rt k"
begin

lemma started: "runtime_ok rt \<Longrightarrow> length (handles j (start rt)) = 1"
  using start_ok [of rt] start_on [of rt] by (auto simp: runtime_ok_def split: option.splits)

lemma stopped: "runtime_ok rt \<Longrightarrow> handles j (stop rt) = []"
  using stop_ok [of rt] stop_off [of rt] by (simp add: runtime_ok_def)

lemma twice_is_once: "runtime_ok rt \<Longrightarrow> length (handles j (start (start rt))) = 1"
  by (intro started start_ok)

lemma others_untouched:
  assumes "runtime_ok rt" "k \<noteq> j"
  shows "handles k (start rt) = handles k rt" "handles k (stop rt) = handles k rt"
  using start_ok [OF assms(1)] stop_ok [OF assms(1)] assms start_others [OF assms(2)] stop_others [OF assms(2)]
  by (simp_all add: runtime_ok_def)

end

lemma interval_cycles [simp]:
  "interval (begin_cycle j rt) = interval rt" "interval (end_cycle j rt) = interval rt"
  "interval (pruning_cycle rt) = interval rt" "interval (broadcast_cycle rt) = interval rt"
  "interval (tick ready j rt) = interval rt" "interval (clearInterval h rt) = interval rt"
  by (simp_all add: begin_cycle_def end_cycle_def pruning_cycle_def broadcast_cycle_def tick_def clearInterval_def
      split: Job.split)

lemma interval_set [simp]: "interval (setInterval j ms rt) = (interval rt)(j := Some (next_handle rt))"
  by (simp add: setInterval_def)

lemma interval_stop [simp]: "interval (stop_job j rt) = (interval rt)(j := None)"
  by (auto simp: stop_job_def fun_eq_iff split: option.split)

interpretation archive: background_job ArchiveJob "startArchiveJob ms" stopArchiveJob
  by unfold_locales
    (auto simp: startArchiveJob_def stopArchiveJob_def intro: begin_cycle_ok setInterval_ok stop_job_ok)

interpretation reconciliation: background_job ReconciliationJob "startReconciliationJob ms" stopReconciliationJob
  by unfold_locales
    (auto simp: startReconciliationJob_def stopReconciliationJob_def intro: begin_cycle_ok setInterval_ok stop_job_ok)

interpretation pruning: background_job PruningJob "startDeadLetterPruningJob ms" stopDeadLetterPruningJob
  by unfold_locales
    (auto simp: startDeadLetterPruningJob_def stopDeadLetterPruningJob_def intro: pruning_cycle_ok setInterval_ok stop_job_ok)

interpretation broadcaster: background_job BroadcasterJob "startStreamProgressBroadcaster ms" stopStreamProgressBroadcaster
  by unfold_locales
    (auto simp: startStreamProgressBroadcaster_def stopStreamProgressBroadcaster_def intro: setInterval_ok stop_job_ok)

interpretation indexer: background_job IndexerJob "startIndexer fallback ready ms" stopIndexer
  by unfold_locales
    (auto simp: startIndexer_def stopIndexer_def intro: tick_ok setInterval_ok stop_job_ok)

text \<open>Replacing the timer of the worker is stopping it and setting a new one.\<close>

lemma startWebhookWorker_stop:
  "startWebhookWorker ms rt = setInterval WebhookJob ms (begin_cycle WebhookJob (stop_job WebhookJob rt))"
  by (cases "interval rt WebhookJob")
    (simp_all add: startWebhookWorker_def stop_job_def setInterval_def begin_cycle_def)

interpretation webhooks: background_job WebhookJob "startWebhookWorker ms" stopWebhookWorker
  by unfold_locales
    (simp_all add: startWebhookWorker_stop stopWebhookWorker_def begin_cycle_ok setInterval_ok stop_job_ok)

section \<open>Every order of events\<close>

inductive ticking :: "Runtime \<Rightarrow> Runtime \<Rightarrow> bool" where
  Tick: "t \<in> set (timers rt) \<Longrightarrow> ticking rt (tick ready (tm_job t) rt)"
| CycleEnds: "ticking rt (end_cycle j rt)"

inductive job_step :: "Runtime \<Rightarrow> Runtime \<Rightarrow> bool" where
  Ticking: "ticking rt rt' \<Longrightarrow> job_step rt rt'"
| StartArchive: "job_step rt (startArchiveJob ms rt)"
| StartReconciliation: "job_step rt (startReconciliationJob ms rt)"
| StartPruning: "job_step rt (startDeadLetterPruningJob ms rt)"
| StartBroadcaster: "job_step rt (startStreamProgressBroadcaster ms rt)"
| StartIndexer: "job_step rt (startIndexer fallback ready ms rt)"
| StartWebhooks: "job_step rt (startWebhookWorker ms rt)"
| StopArchive: "job_step rt (stopArchiveJob rt)"
| StopReconciliation: "job_step rt (stopReconciliationJob rt)"
| StopPruning: "job_step rt (stopDeadLetterPruningJob rt)"
| StopBroadcaster: "job_step rt (stopStreamProgressBroadcaster rt)"
| StopIndexer: "job_step rt (stopIndexer rt)"
| StopWebhooks: "job_step rt (stopWebhookWorker rt)"

lemma ticking_ok: "ticking rt rt' \<Longrightarrow> runtime_ok rt \<Longrightarrow> runtime_ok rt'"
  by (induction rule: ticking.induct) (simp_all add: tick_ok end_cycle_ok)

lemma job_step_ok: "job_step rt rt' \<Longrightarrow> runtime_ok rt \<Longrightarrow> runtime_ok rt'"
  by (induction rule: job_step.induct)
    (simp_all add: ticking_ok archive.start_ok archive.stop_ok reconciliation.start_ok reconciliation.stop_ok
      pruning.start_ok pruning.stop_ok broadcaster.start_ok broadcaster.stop_ok indexer.start_ok indexer.stop_ok
      webhooks.start_ok webhooks.stop_ok)

lemma job_steps_ok: "job_step\<^sup>*\<^sup>* rt rt' \<Longrightarrow> runtime_ok rt \<Longrightarrow> runtime_ok rt'"
  by (induction rule: rtranclp_induct) (simp_all add: job_step_ok)

text \<open>A step begins at most one cycle, of a job with no cycle in progress that has its timer.\<close>

definition begins :: "Runtime \<Rightarrow> Runtime \<Rightarrow> Job list \<Rightarrow> bool" where
  "begins rt rt' js =
     (cycles rt' = cycles rt @ js \<and> length js \<le> 1 \<and> (\<forall>k \<in> set js. running rt k = 0 \<and> interval rt' k \<noteq> None))"

lemma begins_none: "cycles rt' = cycles rt \<Longrightarrow> begins rt rt' []"
  by (simp add: begins_def)

lemma begins_cycle:
  assumes "runtime_ok rt" "cycles rt1 = cycles rt" "in_flight rt1 = in_flight rt" "interval rt2 j \<noteq> None"
    and "cycles rt2 = cycles (begin_cycle j rt1)"
  shows "\<exists>js. begins rt rt2 js"
proof (cases "in_flight rt j")
  case True
  then show ?thesis using assms begins_none [of rt2 rt] by (auto simp: begin_cycle_def)
next
  case False
  then have "running rt j = 0" using assms(1) by (simp add: runtime_ok_def)
  then show ?thesis using assms False by (intro exI [of _ "[j]"]) (simp add: begins_def begin_cycle_def)
qed

lemma cycles_same [simp]:
  "cycles (end_cycle j rt) = cycles rt" "cycles (setInterval j ms rt) = cycles rt" "cycles (clearInterval h rt) = cycles rt"
  "cycles (stop_job j rt) = cycles rt"
  by (simp_all add: end_cycle_def setInterval_def clearInterval_def stop_job_def split: option.split)

lemma in_flight_same [simp]:
  "in_flight (setInterval j ms rt) = in_flight rt" "in_flight (clearInterval h rt) = in_flight rt"
  "in_flight (stop_job j rt) = in_flight rt"
  by (simp_all add: setInterval_def clearInterval_def stop_job_def split: option.split)

lemma timer_on:
  assumes "runtime_ok rt" "t \<in> set (timers rt)"
  shows "interval rt (tm_job t) \<noteq> None"
proof -
  have "handles (tm_job t) rt \<noteq> []" using assms(2) by (auto simp: handles_def filter_empty_conv)
  then show ?thesis using assms(1) by (simp add: runtime_ok_def split: option.splits)
qed

lemma tick_begins:
  assumes "runtime_ok rt" "cycles rt1 = cycles rt" "in_flight rt1 = in_flight rt" "interval rt1 j \<noteq> None"
  shows "\<exists>js. begins rt (tick ready j rt1) js"
proof (cases j)
  case PruningJob
  have "running rt PruningJob = 0" using assms(1) by (simp add: runtime_ok_def)
  then show ?thesis
    using assms PruningJob by (intro exI [of _ "[PruningJob]"]) (auto simp: begins_def tick_def pruning_cycle_def)
next
  case BroadcasterJob
  then show ?thesis
    using assms begins_cycle [OF assms(1-3), of "tick ready j rt1" j] begins_none [of "tick ready j rt1" rt]
    by (auto simp: tick_def broadcast_cycle_def)
next
  case IndexerJob
  then show ?thesis
    using assms begins_cycle [OF assms(1-3), of "tick ready j rt1" j] begins_none [of "tick ready j rt1" rt]
    by (auto simp: tick_def)
qed (use assms begins_cycle [OF assms(1-3), of "tick ready j rt1" j] in \<open>auto simp: tick_def\<close>)

lemma job_step_begins:
  assumes "job_step rt rt'" "runtime_ok rt"
  shows "\<exists>js. begins rt rt' js"
  using assms
proof (induction rule: job_step.induct)
  case (Ticking rt rt')
  from Ticking(1) show ?case
  proof cases
    case (Tick t ready)
    then show ?thesis using tick_begins [OF Ticking(2)] timer_on [OF Ticking(2)] by simp
  next
    case (CycleEnds j)
    then show ?thesis using begins_none [of rt' rt] by auto
  qed
next
  case (StartArchive rt ms)
  let ?rt1 = "setInterval ArchiveJob ms rt"
  show ?case
    using begins_none [of rt rt] begins_cycle [OF StartArchive, of ?rt1 "begin_cycle ArchiveJob ?rt1" ArchiveJob]
    by (auto simp: startArchiveJob_def)
next
  case (StartReconciliation rt ms)
  let ?rt1 = "setInterval ReconciliationJob ms rt"
  show ?case
    using begins_none [of rt rt]
      begins_cycle [OF StartReconciliation, of ?rt1 "begin_cycle ReconciliationJob ?rt1" ReconciliationJob]
    by (auto simp: startReconciliationJob_def)
next
  case (StartPruning rt ms)
  then have "running rt PruningJob = 0" by (simp add: runtime_ok_def)
  then have "begins rt (setInterval PruningJob ms (pruning_cycle rt)) [PruningJob]"
    by (simp add: begins_def pruning_cycle_def)
  then show ?case using begins_none [of rt rt] by (auto simp: startDeadLetterPruningJob_def)
next
  case (StartIndexer rt fallback ready ms)
  then show ?case
    using begins_none [of rt rt] tick_begins [OF StartIndexer, of "setInterval IndexerJob _ rt" IndexerJob ready]
    by (auto simp: startIndexer_def)
next
  case (StartWebhooks rt ms)
  let ?rt1 = "stop_job WebhookJob rt"
  show ?case
    using begins_cycle [OF StartWebhooks, of ?rt1 "setInterval WebhookJob ms (begin_cycle WebhookJob ?rt1)" WebhookJob]
    by (simp add: startWebhookWorker_stop)
qed (auto simp: startStreamProgressBroadcaster_def stopArchiveJob_def stopReconciliationJob_def
    stopDeadLetterPruningJob_def stopStreamProgressBroadcaster_def stopIndexer_def stopWebhookWorker_def
    intro!: exI [of _ "[]"] begins_none)

text \<open>C12: Jobs never pile up: however starts, stops, ticks of live timers and ends of cycles follow each other, each
  job has one timer while it is started and none otherwise, at most one of its cycles is in progress, and a step
  begins at most one cycle, of a job that is started and has no cycle in progress.\<close>

theorem jobs_one_at_a_time:
  assumes "job_step\<^sup>*\<^sup>* idle_runtime rt" "job_step rt rt'"
  shows "(\<forall>k. length (handles k rt') = (if interval rt' k = None then 0 else 1) \<and> running rt' k \<le> 1) \<and>
    (\<exists>js. begins rt rt' js)"
proof -
  have ok: "runtime_ok rt" by (rule job_steps_ok [OF assms(1) idle_ok])
  have "runtime_ok rt'" by (rule job_step_ok [OF assms(2) ok])
  then show ?thesis using job_step_begins [OF assms(2) ok] by (auto simp: runtime_ok_def split: option.splits)
qed

theorem jobs_one_at_a_time_witness:
  "running (startWebhookWorker 5 (startWebhookWorker 7 idle_runtime)) WebhookJob \<le> 1 \<and>
   length (timers (startWebhookWorker 5 (startWebhookWorker 7 idle_runtime))) = 1 \<and>
   cycles (startWebhookWorker 5 (startWebhookWorker 7 idle_runtime)) = [WebhookJob]"
proof -
  have "job_step\<^sup>*\<^sup>* idle_runtime (startWebhookWorker 7 idle_runtime)" by (blast intro: StartWebhooks)
  from jobs_one_at_a_time [OF this StartWebhooks [of _ 5]]
  have "running (startWebhookWorker 5 (startWebhookWorker 7 idle_runtime)) WebhookJob \<le> 1" by blast
  then show ?thesis
    by (simp add: startWebhookWorker_def setInterval_def begin_cycle_def clearInterval_def idle_runtime_def)
qed

text \<open>
  \<open>resetIndexerState\<close>, meant for tests, forgets the handle without clearing the timer: a start after it leaves
  two timers that poll.
\<close>

definition reset_interval :: "Runtime \<Rightarrow> Runtime" where
  "reset_interval rt = rt\<lparr>interval := (interval rt)(IndexerJob := None)\<rparr>"

lemma reset_leaks_timer:
  "length (handles IndexerJob (startIndexer None False b (reset_interval (startIndexer None False a idle_runtime)))) = 2"
  by (simp add: startIndexer_def reset_interval_def setInterval_def tick_def handles_def idle_runtime_def)

section \<open>The server's jobs\<close>

text \<open>What \<open>startServer\<close> starts; the worker for webhooks is imported there and not started.\<close>

record JobConfig =
  jc_soroban :: bool
  jc_fallback :: "int option"
  jc_indexer :: int
  jc_reconciliation :: int
  jc_archive :: int
  jc_pruning :: int

definition startJobs :: "bool \<Rightarrow> JobConfig \<Rightarrow> Runtime \<Rightarrow> Runtime" where
  "startJobs ready c rt =
     startStreamProgressBroadcaster 5000 (startDeadLetterPruningJob (jc_pruning c) (startArchiveJob (jc_archive c)
       (if jc_soroban c
        then startReconciliationJob (jc_reconciliation c) (startIndexer (jc_fallback c) ready (jc_indexer c) rt)
        else rt)))"

definition job_periods :: "JobConfig \<Rightarrow> (Job \<times> int) list" where
  "job_periods c =
     (if jc_soroban c
      then [(IndexerJob, case jc_fallback c of Some f \<Rightarrow> getFallbackPollInterval f | None \<Rightarrow> jc_indexer c),
            (ReconciliationJob, jc_reconciliation c)] else []) @
     [(ArchiveJob, jc_archive c), (PruningJob, jc_pruning c), (BroadcasterJob, 5000)]"

lemma timers_cycles [simp]:
  "timers (begin_cycle j rt) = timers rt" "timers (end_cycle j rt) = timers rt"
  "timers (pruning_cycle rt) = timers rt" "timers (broadcast_cycle rt) = timers rt" "timers (tick ready j rt) = timers rt"
  by (simp_all add: begin_cycle_def end_cycle_def pruning_cycle_def broadcast_cycle_def tick_def split: Job.split)

lemma timers_set [simp]:
  "map (\<lambda>t. (tm_job t, tm_period t)) (timers (setInterval j ms rt)) =
     map (\<lambda>t. (tm_job t, tm_period t)) (timers rt) @ [(j, ms)]"
  by (simp add: setInterval_def)

lemma tick_cycles: "set (cycles (tick ready j rt)) \<subseteq> insert j (set (cycles rt))"
  by (cases j) (auto simp: tick_def begin_cycle_def pruning_cycle_def broadcast_cycle_def)

lemma ticking_cycles:
  "ticking rt rt' \<Longrightarrow> timers rt' = timers rt \<and> set (cycles rt') \<subseteq> set (cycles rt) \<union> tm_job ` set (timers rt)"
  by (induction rule: ticking.induct) (use tick_cycles in fastforce)+

text \<open>
  From the start of the server on, its timers are those of the configuration and stay so, and no webhook
  that is queued is ever delivered by it.
\<close>

theorem server_delivers_no_webhooks:
  assumes "ticking\<^sup>*\<^sup>* (startJobs ready c idle_runtime) rt"
  shows "map (\<lambda>t. (tm_job t, tm_period t)) (timers rt) = job_periods c \<and> WebhookJob \<notin> set (cycles rt)"
proof -
  let ?p = "map (\<lambda>t. (tm_job t, tm_period t))"
  have jobs: "tm_job ` set ts = fst ` set (?p ts)" for ts by force
  show ?thesis
    using assms
  proof (induction rule: rtranclp_induct)
    case base
    show ?case
      by (auto simp: startJobs_def job_periods_def startStreamProgressBroadcaster_def startDeadLetterPruningJob_def
          startArchiveJob_def startReconciliationJob_def startIndexer_def idle_runtime_def begin_cycle_def tick_def
          pruning_cycle_def)
  next
    case (step rt rt')
    then have "WebhookJob \<notin> tm_job ` set (timers rt)" by (auto simp: jobs job_periods_def)
    then show ?case using ticking_cycles [OF step(2)] step(3) by auto
  qed
qed

theorem server_delivers_no_webhooks_witness:
  "WebhookJob \<notin> set (cycles (startJobs True
     \<lparr> jc_soroban = True, jc_fallback = None, jc_indexer = 10000, jc_reconciliation = 60000, jc_archive = 86400000,
       jc_pruning = 86400000 \<rparr> idle_runtime))"
  using server_delivers_no_webhooks by blast

end
