(* ===== verification/RedisCache.thy ===== *)
theory RedisCache
  imports CacheAdapter
begin

text \<open>
  The Redis adapter of \<open>backend/src/services/cache.ts\<close> and the choice of an adapter (\<open>initCache\<close>, \<open>getCache\<close>,
  \<open>shutdownCache\<close>). The Redis client is a parameter: each of its calls may throw and gives the server's next state.
  What Redis documents of the calls is the predicate \<open>redis_documented\<close>; under it the adapter is shown to answer
  reads as the in-memory one does.
\<close>

section \<open>RedisCache\<close>

record ('r, 'v) RedisClient =
  rc_get :: "int \<Rightarrow> string \<Rightarrow> 'r \<Rightarrow> (string + 'v jsonText option) \<times> 'r"
  rc_setex :: "int \<Rightarrow> string \<Rightarrow> int \<Rightarrow> 'v jsonText \<Rightarrow> 'r \<Rightarrow> (string + unit) \<times> 'r"
  rc_keys :: "int \<Rightarrow> string \<Rightarrow> 'r \<Rightarrow> (string + string list) \<times> 'r"
  rc_del :: "int \<Rightarrow> string list \<Rightarrow> 'r \<Rightarrow> (string + nat) \<times> 'r"
  rc_flushdb :: "int \<Rightarrow> 'r \<Rightarrow> (string + unit) \<times> 'r"

text \<open>Every exception is caught: a failed read is a miss, a failed write or deletion is passed over.\<close>

definition redis_get :: "('r, 'v) RedisClient \<Rightarrow> int \<Rightarrow> string \<Rightarrow> 'r \<Rightarrow> 'v option \<times> 'r" where
  "redis_get lib now key r =
     (case rc_get lib now key r of
        (Inl err, r') \<Rightarrow> (None, r')
      | (Inr None, r') \<Rightarrow> (None, r')
      | (Inr (Some value), r') \<Rightarrow> (if \<not> text_truthy value then None else parse value, r'))"

definition redis_set :: "('r, 'v) RedisClient \<Rightarrow> int \<Rightarrow> string \<Rightarrow> 'v \<Rightarrow> int \<Rightarrow> 'r \<Rightarrow> 'r" where
  "redis_set lib now key v ttlSeconds r = snd (rc_setex lib now key ttlSeconds (stringify v) r)"

definition redis_del :: "('r, 'v) RedisClient \<Rightarrow> int \<Rightarrow> string \<Rightarrow> 'r \<Rightarrow> nat \<times> 'r" where
  "redis_del lib now pattern r =
     (case rc_keys lib now (''*'' @ pattern @ ''*'') r of
        (Inl err, r') \<Rightarrow> (0, r')
      | (Inr keys, r') \<Rightarrow>
          (if keys = [] then (0, r')
           else (case rc_del lib now keys r' of (Inl err, r'') \<Rightarrow> (0, r'') | (Inr n, r'') \<Rightarrow> (n, r''))))"

definition redis_clear :: "('r, 'v) RedisClient \<Rightarrow> int \<Rightarrow> 'r \<Rightarrow> 'r" where
  "redis_clear lib now r = snd (rc_flushdb lib now r)"

text \<open>The wait before the next attempt to connect, in milliseconds, and the flag behind \<open>isConnected\<close>.\<close>

definition retryStrategy :: "nat \<Rightarrow> nat" where
  "retryStrategy attempts = min (attempts * 50) 2000"

datatype redisEvent = Connect | ErrorEvent | CloseEvent

definition redis_connected :: "redisEvent list \<Rightarrow> bool" where
  "redis_connected evs = foldl (\<lambda>c e. e = Connect) False evs"

section \<open>What Redis documents\<close>

text \<open>
  \<open>view r t k\<close> is what the server holds under a key at a time. Values expire when the clock has passed their time to
  live; a pattern between two stars lists the keys that contain it, provided it has none of the characters Redis reads
  as part of a pattern.
\<close>

definition plain_pattern :: "string \<Rightarrow> bool" where
  "plain_pattern p = list_all (\<lambda>c. is_alnum c \<or> c = CHR '':'') p"

definition unchanged :: "('r \<Rightarrow> int \<Rightarrow> string \<Rightarrow> 'v jsonText option) \<Rightarrow> int \<Rightarrow> 'r \<Rightarrow> 'r \<Rightarrow> bool" where
  "unchanged view t r r' = (\<forall>t' k. t \<le> t' \<longrightarrow> view r' t' k = view r t' k)"

definition redis_documented :: "('r, 'v) RedisClient \<Rightarrow> ('r \<Rightarrow> int \<Rightarrow> string \<Rightarrow> 'v jsonText option) \<Rightarrow> bool" where
  "redis_documented lib view =
     ((\<forall>t k r. \<exists>r'. rc_get lib t k r = (Inr (view r t k), r') \<and> unchanged view t r r') \<and>
      (\<forall>t k ttl v r. 0 < ttl \<longrightarrow> (\<exists>r'. rc_setex lib t k ttl v r = (Inr (), r') \<and>
         (\<forall>t' k'. t \<le> t' \<longrightarrow>
            view r' t' k' = (if k' = k then (if t' > t + ttl * 1000 then None else Some v) else view r t' k')))) \<and>
      (\<forall>t p r. plain_pattern p \<longrightarrow> (\<exists>ks r'. rc_keys lib t (''*'' @ p @ ''*'') r = (Inr ks, r') \<and>
         set ks = {k. view r t k \<noteq> None \<and> includes_str k p} \<and> unchanged view t r r')) \<and>
      (\<forall>t ks r. \<exists>n r'. rc_del lib t ks r = (Inr n, r') \<and>
         (\<forall>t' k'. t \<le> t' \<longrightarrow> view r' t' k' = (if k' \<in> set ks then None else view r t' k'))) \<and>
      (\<forall>t r. \<exists>r'. rc_flushdb lib t r = (Inr (), r') \<and> (\<forall>t' k'. t \<le> t' \<longrightarrow> view r' t' k' = None)) \<and>
      (\<forall>t t' k r. t \<le> t' \<longrightarrow> view r t k = None \<longrightarrow> view r t' k = None))"

lemmas redis_doc_get = redis_documented_def [THEN iffD1, THEN conjunct1, rule_format]
lemmas redis_doc_set = redis_documented_def [THEN iffD1, THEN conjunct2, THEN conjunct1, rule_format]
lemmas redis_doc_keys = redis_documented_def [THEN iffD1, THEN conjunct2, THEN conjunct2, THEN conjunct1, rule_format]
lemmas redis_doc_del =
  redis_documented_def [THEN iffD1, THEN conjunct2, THEN conjunct2, THEN conjunct2, THEN conjunct1, rule_format]
lemmas redis_doc_flush =
  redis_documented_def [THEN iffD1, THEN conjunct2, THEN conjunct2, THEN conjunct2, THEN conjunct2, THEN conjunct1, rule_format]
lemmas redis_doc_gone =
  redis_documented_def [THEN iffD1, THEN conjunct2, THEN conjunct2, THEN conjunct2, THEN conjunct2, THEN conjunct2, rule_format]

section \<open>Both adapters answer alike\<close>

datatype 'v cacheOp = GetOp string | SetOp string 'v int | DelOp string | ClearOp

text \<open>Operations with the times of their calls, and the values the reads among them return.\<close>

fun memory_reads :: "(int \<times> 'v cacheOp) list \<Rightarrow> 'v cacheMap \<Rightarrow> 'v option list" where
  "memory_reads [] c = []"
| "memory_reads ((t, GetOp k) # ops) c = (let (v, c') = cache_get t k c in v # memory_reads ops c')"
| "memory_reads ((t, SetOp k v ttl) # ops) c = memory_reads ops (cache_set t k v ttl c)"
| "memory_reads ((t, DelOp p) # ops) c = memory_reads ops (snd (cache_del p c))"
| "memory_reads ((t, ClearOp) # ops) c = memory_reads ops (cache_clear c)"

fun redis_reads :: "('r, 'v) RedisClient \<Rightarrow> (int \<times> 'v cacheOp) list \<Rightarrow> 'r \<Rightarrow> 'v option list" where
  "redis_reads lib [] r = []"
| "redis_reads lib ((t, GetOp k) # ops) r = (let (v, r') = redis_get lib t k r in v # redis_reads lib ops r')"
| "redis_reads lib ((t, SetOp k v ttl) # ops) r = redis_reads lib ops (redis_set lib t k v ttl r)"
| "redis_reads lib ((t, DelOp p) # ops) r = redis_reads lib ops (snd (redis_del lib t p r))"
| "redis_reads lib ((t, ClearOp) # ops) r = redis_reads lib ops (redis_clear lib t r)"

fun usual_op :: "'v cacheOp \<Rightarrow> bool" where
  "usual_op (SetOp k v ttl) = (0 < ttl)"
| "usual_op (DelOp p) = plain_pattern p"
| "usual_op _ = True"

text \<open>From a time on, the server holds what a read of the map would return.\<close>

definition same_from ::
  "('r \<Rightarrow> int \<Rightarrow> string \<Rightarrow> 'v jsonText option) \<Rightarrow> int \<Rightarrow> 'r \<Rightarrow> 'v cacheMap \<Rightarrow> bool" where
  "same_from view t r c = (\<forall>t' k. t \<le> t' \<longrightarrow> view r t' k = map_option stringify (cache_peek t' k c))"

lemma same_from_later: "same_from view t r c \<Longrightarrow> t \<le> t' \<Longrightarrow> same_from view t' r c"
  by (auto simp: same_from_def)

lemma cache_peek_clear: "cache_peek t k (cache_clear c) = None"
  by (simp add: cache_peek_eq cache_clear_def lookup_by_def)

lemma get_same:
  assumes "redis_documented lib view" "same_from view t r c"
  shows "fst (redis_get lib t k r) = fst (cache_get t k c)"
    "same_from view t (snd (redis_get lib t k r)) (snd (cache_get t k c))"
proof -
  obtain r' where g: "rc_get lib t k r = (Inr (view r t k), r')" "unchanged view t r r'"
    using redis_doc_get [OF assms(1)] by blast
  have v: "view r t k = map_option stringify (cache_peek t k c)" using assms(2) by (simp add: same_from_def)
  show "fst (redis_get lib t k r) = fst (cache_get t k c)"
    by (simp add: redis_get_def g(1) v cache_get_result split: option.split)
  have "snd (redis_get lib t k r) = r'" by (simp add: redis_get_def g(1) split: option.split)
  then show "same_from view t (snd (redis_get lib t k r)) (snd (cache_get t k c))"
    using g(2) assms(2) by (simp add: same_from_def unchanged_def cache_peek_get)
qed

lemma set_same:
  assumes "redis_documented lib view" "same_from view t r c" "0 < ttl"
  shows "same_from view t (redis_set lib t k v ttl r) (cache_set t k v ttl c)"
proof -
  obtain r' where "rc_setex lib t k ttl (stringify v) r = (Inr (), r')"
    "\<forall>t' k'. t \<le> t' \<longrightarrow> view r' t' k' = (if k' = k then (if t' > t + ttl * 1000 then None else Some (stringify v)) else view r t' k')"
    using redis_doc_set [OF assms(1, 3)] by blast
  then show ?thesis using assms(2) by (simp add: same_from_def redis_set_def cache_peek_set)
qed

lemma del_same:
  assumes "redis_documented lib view" "same_from view t r c" "plain_pattern p"
  shows "same_from view t (snd (redis_del lib t p r)) (snd (cache_del p c))"
proof -
  obtain ks r1 where k: "rc_keys lib t (''*'' @ p @ ''*'') r = (Inr ks, r1)"
    "set ks = {k. view r t k \<noteq> None \<and> includes_str k p}" "unchanged view t r r1"
    using redis_doc_keys [OF assms(1, 3)] by blast
  obtain n r2 where d: "rc_del lib t ks r1 = (Inr n, r2)"
    "\<forall>t' k'. t \<le> t' \<longrightarrow> view r2 t' k' = (if k' \<in> set ks then None else view r1 t' k')"
    using redis_doc_del [OF assms(1)] by blast
  note gone = redis_doc_gone [OF assms(1)]
  have "view (snd (redis_del lib t p r)) t' k' = (if includes_str k' p then None else view r t' k')" if "t \<le> t'" for t' k'
  proof (cases "ks = []")
    case True
    with k(2) gone [OF that] have "includes_str k' p \<Longrightarrow> view r t' k' = None" by auto
    then show ?thesis using True k(1, 3) that by (simp add: redis_del_def unchanged_def)
  next
    case False
    with k d that gone [OF that] show ?thesis by (auto simp: redis_del_def unchanged_def)
  qed
  then show ?thesis using assms(2) by (simp add: same_from_def cache_peek_del)
qed

lemma clear_same:
  assumes "redis_documented lib view"
  shows "same_from view t (redis_clear lib t r) (cache_clear c)"
proof -
  obtain r' where "rc_flushdb lib t r = (Inr (), r')" "\<forall>t' k'. t \<le> t' \<longrightarrow> view r' t' k' = None"
    using redis_doc_flush [OF assms] by blast
  then show ?thesis by (simp add: same_from_def redis_clear_def cache_peek_clear)
qed

lemma reads_agree:
  assumes "redis_documented lib view"
  shows "same_from view t0 r c \<Longrightarrow> sorted (t0 # map fst ops) \<Longrightarrow> list_all (\<lambda>(t, op). usual_op op) ops \<Longrightarrow>
    redis_reads lib ops r = memory_reads ops c"
proof (induction ops arbitrary: t0 r c)
  case (Cons x ops)
  obtain t op where x: "x = (t, op)" by (cases x)
  have same: "same_from view t r c" using Cons.prems x by (auto intro: same_from_later)
  have rest: "sorted (t # map fst ops)" "list_all (\<lambda>(t, op). usual_op op) ops" "usual_op op" using Cons.prems x by auto
  note IH = Cons.IH [OF _ rest(1, 2)]
  show ?case
  proof (cases op)
    case (GetOp k)
    with IH [OF get_same(2) [OF assms same, of k]] get_same(1) [OF assms same, of k] x
    show ?thesis by (auto simp: Let_def split: prod.splits)
  qed (use x rest(3) IH set_same [OF assms same] del_same [OF assms same] clear_same [OF assms] in auto)
qed simp

text \<open>C18: The two adapters are interchangeable: on a Redis server that is empty and answers as it documents, every sequence
  of reads, writes with a positive time to live, deletions by patterns of letters, digits and colons, and clearings,
  at times that do not go back, returns for every read what the in-memory cache returns.\<close>

theorem adapters_interchangeable:
  assumes "redis_documented lib view" "\<forall>t k. view r0 t k = None" "sorted (map fst ops)"
    "list_all (\<lambda>(t, op). usual_op op) ops"
  shows "redis_reads lib ops r0 = memory_reads ops []"
proof (cases ops)
  case (Cons x xs)
  have "same_from view (fst x) r0 []" using assms(2) by (simp add: same_from_def cache_peek_eq lookup_by_def)
  with reads_agree [OF assms(1) this, of ops] assms(3, 4) Cons show ?thesis by auto
qed simp

text \<open>A server as documented: the map of the in-memory cache, with texts for values.\<close>

definition sample_redis :: "('v jsonText cacheMap, 'v) RedisClient" where
  "sample_redis =
     \<lparr> rc_get = (\<lambda>t k r. (Inr (cache_peek t k r), r)),
       rc_setex = (\<lambda>t k ttl v r. (Inr (), cache_set t k v ttl r)),
       rc_keys = (\<lambda>t p r. (Inr (filter (\<lambda>k. cache_peek t k r \<noteq> None \<and> includes_str k (butlast (tl p))) (map fst r)), r)),
       rc_del = (\<lambda>t ks r. (Inr (length ks), filter (\<lambda>x. fst x \<notin> set ks) r)),
       rc_flushdb = (\<lambda>t r. (Inr (), [])) \<rparr>"

lemma sample_redis_documented: "redis_documented sample_redis (\<lambda>r t k. cache_peek t k r)"
proof -
  have "k \<in> fst ` set r" if "cache_peek t k r = Some y" for t k y and r :: "'a jsonText cacheMap"
    using that by (auto simp: cache_peek_eq split: option.splits dest!: lookup_by_Some intro: rev_image_eqI)
  then have keys: "{x \<in> fst ` set r. (\<exists>y. cache_peek t x r = Some y) \<and> includes_str x p} =
      {k. (\<exists>y. cache_peek t k r = Some y) \<and> includes_str k p}" for t p and r :: "'a jsonText cacheMap" by blast
  have del: "cache_peek t k (filter (\<lambda>x. fst x \<notin> set ks) r) = (if k \<in> set ks then None else cache_peek t k r)"
    for t k ks and r :: "'a jsonText cacheMap"
    using lookup_by_filter [of k "\<lambda>k. k \<notin> set ks" r] by (simp add: cache_peek_eq)
  have empty: "cache_peek t k [] = None" for t k by (simp add: cache_peek_eq lookup_by_def)
  show ?thesis unfolding redis_documented_def sample_redis_def unchanged_def
    by (simp add: keys del empty cache_peek_set cache_peek_expired)
qed

definition sample_ops :: "(int \<times> nat cacheOp) list" where
  "sample_ops =
     [(0, SetOp ''streams:a'' 1 5), (1, SetOp ''stats'' 2 5), (2, GetOp ''streams:a''), (3, DelOp ''streams:''),
      (4, GetOp ''streams:a''), (5, GetOp ''stats''), (9000, GetOp ''stats'')]"

theorem adapters_interchangeable_witness:
  "redis_reads sample_redis sample_ops [] = memory_reads sample_ops [] \<and>
   memory_reads sample_ops [] = [Some 1, None, Some 2, None]"
proof -
  have "sorted (map fst sample_ops)" "list_all (\<lambda>(t, op). usual_op op) sample_ops" by code_simp+
  then have "redis_reads sample_redis sample_ops [] = memory_reads sample_ops []"
    by (intro adapters_interchangeable [OF sample_redis_documented]) (simp_all add: cache_peek_eq lookup_by_def)
  moreover have "memory_reads sample_ops [] = [Some 1, None, Some 2, None]" by code_simp
  ultimately show ?thesis by simp
qed

section \<open>Failures\<close>

text \<open>A deletion during which the server cannot be asked answers 0 and leaves what later reads are given.\<close>

lemma failed_del_keeps:
  assumes "rc_keys lib t (''*'' @ p @ ''*'') r = (Inl err, r)"
  shows "redis_del lib t p r = (0, r)" "redis_get lib t k (snd (redis_del lib t p r)) = redis_get lib t k r"
  using assms by (simp_all add: redis_del_def)

lemma failed_get_misses: "rc_get lib t k r = (Inl err, r') \<Longrightarrow> redis_get lib t k r = (None, r')"
  by (simp add: redis_get_def)

section \<open>The adapter in use\<close>

text \<open>The connections opened to Redis are numbered in the order in which they are opened.\<close>

datatype adapter = MemoryAdapter | RedisAdapter nat

record CacheModule =
  cacheInstance :: "adapter option"
  connections :: "nat list"
  opened :: nat

definition initCache :: "string option \<Rightarrow> CacheModule \<Rightarrow> adapter \<times> CacheModule" where
  "initCache REDIS_URL m =
     (if REDIS_URL \<noteq> None \<and> REDIS_URL \<noteq> Some []
      then (RedisAdapter (opened m), m\<lparr>cacheInstance := Some (RedisAdapter (opened m)),
              connections := opened m # connections m, opened := opened m + 1\<rparr>)
      else (MemoryAdapter, m\<lparr>cacheInstance := Some MemoryAdapter\<rparr>))"

definition getCache :: "CacheModule \<Rightarrow> string + adapter" where
  "getCache m = (case cacheInstance m of
     None \<Rightarrow> Inl ''Cache not initialized. Call initCache() first.'' | Some a \<Rightarrow> Inr a)"

definition shutdownCache :: "CacheModule \<Rightarrow> CacheModule" where
  "shutdownCache m = (case cacheInstance m of
     Some (RedisAdapter n) \<Rightarrow> m\<lparr>connections := removeAll n (connections m)\<rparr> | _ \<Rightarrow> m)"

text \<open>The server initialises the cache twice, when it starts and again with Soroban: one connection stays open for good.\<close>

lemma second_init_leaks:
  assumes "url \<noteq> []" "m = \<lparr> cacheInstance = None, connections = [], opened = 0 \<rparr>"
  shows "connections (shutdownCache (snd (initCache (Some url) (snd (initCache (Some url) m))))) = [0]"
    "getCache (snd (initCache (Some url) (snd (initCache (Some url) m)))) = Inr (RedisAdapter 1)"
  using assms by (simp_all add: initCache_def shutdownCache_def getCache_def)

end
