(* ===== verification/Logging.thy ===== *)
theory Logging
  imports Webhook
begin

text \<open>
  What the server reports about itself: the redaction of log entries (\<open>backend/src/logger.ts\<close>), the correlation
  identifier that is put into each of them (\<open>correlationContext.ts\<close>, \<open>middleware/requestLogger.ts\<close>), the registry
  of metrics (\<open>services/metrics.ts\<close>) and the secret the tokens are signed with (\<open>services/auth.ts\<close>). A logged value
  is a JSON value, undefined, or an \<open>Error\<close>, whose message and stack are not among its own enumerable properties.
\<close>

section \<open>Redaction\<close>

datatype logValue =
    LNull
  | LUndefined
  | LBool bool
  | LNum rat
  | LText string
  | LArr "logValue list"
  | LObj "(string \<times> logValue) list"
  | LError string "(string \<times> logValue) list"

definition stellar_secret :: "string \<Rightarrow> bool" where
  "stellar_secret s =
     (length s = 56 \<and> hd s = CHR ''S'' \<and> list_all (\<lambda>c. is_digit c \<or> (CHR ''A'' \<le> c \<and> c \<le> CHR ''Z'')) (tl s))"

definition secret_key :: "string \<Rightarrow> bool" where
  "secret_key k = (k = ''secretKey'' \<or> k = ''privateKey'' \<or> k = ''seed'')"

definition redacted :: logValue where
  "redacted = LText ''[REDACTED]''"

definition redactValue :: "string \<Rightarrow> logValue" where
  "redactValue s = (if stellar_secret s then redacted else LText s)"

text \<open>An object is rebuilt from its own enumerable properties, an \<open>Error\<close> like any other.\<close>

fun redactObject :: "logValue \<Rightarrow> logValue" where
  "redactObject (LArr xs) = LArr (map redactObject xs)"
| "redactObject (LObj kvs) = LObj (map (\<lambda>(k, v). (k, if secret_key k then redacted else redactObject v)) kvs)"
| "redactObject (LError msg kvs) = LObj (map (\<lambda>(k, v). (k, if secret_key k then redacted else redactObject v)) kvs)"
| "redactObject (LText s) = redactValue s"
| "redactObject v = v"

text \<open>No secret in a value: no text is one, and what stands under the three names is the mark.\<close>

fun keeps_no_key :: "logValue \<Rightarrow> bool" where
  "keeps_no_key (LArr xs) = list_all keeps_no_key xs"
| "keeps_no_key (LObj kvs) = list_all (\<lambda>(k, v). if secret_key k then v = redacted else keeps_no_key v) kvs"
| "keeps_no_key (LError msg kvs) = False"
| "keeps_no_key (LText s) = (\<not> stellar_secret s)"
| "keeps_no_key v = True"

lemma redacted_clean [simp]: "keeps_no_key redacted" "keeps_no_key (redactValue s)"
  by (simp_all add: redacted_def redactValue_def stellar_secret_def)

lemma redactObject_clean: "keeps_no_key (redactObject v)"
  by (induction v rule: redactObject.induct) (auto simp: list_all_iff)

lemma clean_kept: "keeps_no_key v \<Longrightarrow> redactObject v = v"
proof (induction v rule: redactObject.induct)
  case (1 xs)
  then show ?case by (auto simp: list_all_iff intro!: map_idI)
next
  case (2 kvs)
  have "(case kv of (k, v) \<Rightarrow> (k, if secret_key k then redacted else redactObject v)) = kv" if "kv \<in> set kvs" for kv
    using 2 that by (cases kv) (auto simp: list_all_iff split: if_splits)
  then show ?case by (simp add: map_idI)
qed (auto simp: redactValue_def)

text \<open>The \<open>log\<close> formatter: the identifier of the request is added unless the entry has a truthy one, then all is redacted.\<close>

fun log_truthy :: "logValue \<Rightarrow> bool" where
  "log_truthy LNull = False"
| "log_truthy LUndefined = False"
| "log_truthy (LBool b) = b"
| "log_truthy (LNum n) = (n \<noteq> 0)"
| "log_truthy (LText s) = (s \<noteq> [])"
| "log_truthy _ = True"

definition set_property :: "string \<Rightarrow> 'a \<Rightarrow> (string \<times> 'a) list \<Rightarrow> (string \<times> 'a) list" where
  "set_property k v kvs = (if k \<in> set (map fst kvs) then map (\<lambda>(k', w). (k', if k' = k then v else w)) kvs else kvs @ [(k, v)])"

definition log_entry :: "string option \<Rightarrow> (string \<times> logValue) list \<Rightarrow> logValue" where
  "log_entry correlationId obj =
     redactObject (LObj
       (case correlationId of
          Some c \<Rightarrow>
            if c \<noteq> [] \<and> \<not> (case map_of obj ''correlation_id'' of Some v \<Rightarrow> log_truthy v | None \<Rightarrow> False)
            then set_property ''correlation_id'' (LText c) obj else obj
        | None \<Rightarrow> obj))"

text \<open>Logs keep no secrets and lose errors: whatever is logged, no text of the entry is a Stellar secret key and every
  property named like one is the mark, redacting again changes nothing, and of a logged \<open>Error\<close> only its own
  properties are left, so entries whose errors differ in their messages are the same.\<close>

theorem logs_keep_no_secrets:
  "keeps_no_key (log_entry cid obj) \<and> redactObject (log_entry cid obj) = log_entry cid obj \<and>
   log_entry cid [(''err'', LError msg props)] = log_entry cid [(''err'', LError msg' props)]"
proof (intro conjI)
  show keeps_no_key: "keeps_no_key (log_entry cid obj)" unfolding log_entry_def by (rule redactObject_clean)
  show "redactObject (log_entry cid obj) = log_entry cid obj" by (rule clean_kept [OF keeps_no_key])
  show "log_entry cid [(''err'', LError msg props)] = log_entry cid [(''err'', LError msg' props)]"
    by (simp add: log_entry_def set_property_def secret_key_def split: option.split)
qed

lemma error_logged_empty: "log_entry None [(''err'', LError msg [])] = LObj [(''err'', LObj [])]"
  by (simp add: log_entry_def secret_key_def)

text \<open>The entry of a finished request and its level.\<close>

definition request_level :: "int \<Rightarrow> string" where
  "request_level statusCode = (if 500 \<le> statusCode then ''error'' else if 400 \<le> statusCode then ''warn'' else ''info'')"

definition request_entry :: "string \<Rightarrow> string \<Rightarrow> string \<Rightarrow> int \<Rightarrow> int \<Rightarrow> (string \<times> logValue) list" where
  "request_entry correlationId meth url statusCode durationMs =
     [(''correlation_id'', LText correlationId), (''method'', LText meth), (''route'', LText url),
      (''statusCode'', LNum (of_int statusCode)), (''durationMs'', LNum (of_int durationMs))]"

section \<open>Metrics\<close>

datatype metricKind = CounterM | GaugeM

definition registry :: "(metricKind \<times> string \<times> string) list" where
  "registry =
     [(CounterM, ''events_indexed_total'', ''Total number of contract events successfully indexed''),
      (CounterM, ''ledgers_scanned_total'', ''Total number of ledgers scanned by the indexer''),
      (GaugeM, ''last_indexed_ledger'', ''Sequence number of the last ledger processed by the indexer''),
      (GaugeM, ''indexer_latest_ledger'', ''Sequence number of the latest ledger observed from Stellar RPC''),
      (GaugeM, ''indexer_ledger_lag'', ''Difference between the latest RPC ledger and the persisted indexer checkpoint''),
      (CounterM, ''indexer_errors_total'', ''Total number of errors encountered during indexer polls''),
      (GaugeM, ''indexer_circuit_state'', ''Current circuit breaker state: 0=CLOSED, 1=HALF_OPEN, 2=OPEN''),
      (GaugeM, ''webhook_queue_pending'', ''Webhook deliveries currently queued (not yet successful or dead-lettered)''),
      (GaugeM, ''webhook_queue_due_now'', ''Queued webhook deliveries whose retry window has elapsed''),
      (GaugeM, ''webhook_queue_scheduled_retries'', ''Queued webhook deliveries still waiting out their backoff window''),
      (GaugeM, ''webhook_dead_letters'', ''Webhook deliveries that exhausted their retry budget''),
      (GaugeM, ''webhook_outcome'', ''Webhook delivery health: 0=success, 1=transient_delay, 2=blocked''),
      (GaugeM, ''indexer_outcome'', ''Indexer monitoring health: 0=success, 1=transient_delay, 2=blocked''),
      (GaugeM, ''sqlite_restore_outcome'', ''SQLite restore schema check outcome at startup: 0=success, 1=transient_delay, 2=blocked, 3=interrupted'')]"

text \<open>The registry refuses a second metric of the same name: there is none.\<close>

lemma registry_distinct: "distinct (map (\<lambda>(k, n, h). n) registry)"
  by (simp add: registry_def)

section \<open>The secret of the tokens\<close>

text \<open>At start-up: the configured secret, or a random one outside production, or the process ends with an exception.\<close>

definition jwt_secret :: "env \<Rightarrow> string \<Rightarrow> string + string" where
  "jwt_secret env randomHex =
     (case env_value env ''JWT_SECRET'' of
        Some s \<Rightarrow> Inr s
      | None \<Rightarrow> if env ''NODE_ENV'' = Some ''production'' then Inl ''JWT_SECRET must be set in production'' else Inr randomHex)"

definition server_signing_key :: "env \<Rightarrow> string \<Rightarrow> string + string" where
  "server_signing_key env randomSecret =
     (case env_value env ''SERVER_SIGNING_KEY'' of
        Some s \<Rightarrow> Inr s
      | None \<Rightarrow> if env ''NODE_ENV'' = Some ''production'' then Inl ''SERVER_SIGNING_KEY must be set in production''
                else Inr randomSecret)"

lemma production_secrets_configured:
  "env ''NODE_ENV'' = Some ''production'' \<Longrightarrow> jwt_secret env r = Inr s \<Longrightarrow> env ''JWT_SECRET'' = Some s \<and> s \<noteq> []"
  "env ''NODE_ENV'' = Some ''production'' \<Longrightarrow> server_signing_key env r = Inr s \<Longrightarrow>
     env ''SERVER_SIGNING_KEY'' = Some s \<and> s \<noteq> []"
  by (auto simp: jwt_secret_def server_signing_key_def env_value_def split: option.splits if_splits)

end
