(* ===== verification/ClientChart.thy ===== *)
theory ClientChart
  imports JsNumber
begin

text \<open>
  The window of the metrics chart, \<open>frontend/src/components/StreamMetricsChart.tsx\<close>: zooming, dragging,
  pinching and selecting an area, over \<open>n\<close> data points. Positions and the factor of a pinch are what the
  browser reports, factors and the width of the chart being positive; date labels are given, since their
  text depends on the locale.
\<close>

section \<open>The window\<close>

type_synonym range = "int \<times> int"

definition maxIndex :: "nat \<Rightarrow> int" where
  "maxIndex n = max 0 (int n - 1)"

definition currentRange :: "nat \<Rightarrow> range option \<Rightarrow> range" where
  "currentRange n zoomRange = (case zoomRange of None \<Rightarrow> (0, maxIndex n) | Some r \<Rightarrow> r)"

definition currentData :: "'a list \<Rightarrow> range \<Rightarrow> 'a list" where
  "currentData xs r =
     (let a = nat (max 0 (fst r)); b = nat (min (int (length xs)) (snd r + 1)) in take (b - a) (drop a xs))"

definition clamp :: "nat \<Rightarrow> range \<Rightarrow> range" where
  "clamp n r = (max 0 (fst r), min (maxIndex n) (snd r))"

text \<open>\<open>Math.round\<close> as an integer.\<close>

definition round_index :: "jsnum \<Rightarrow> int" where
  "round_index x = \<lfloor>x + 1 / 2\<rfloor>"

lemma round_index_math_round: "math_round x = of_int (round_index x)"
  by (simp add: math_round_def round_index_def)

text \<open>The computation that \<open>zoomInOut\<close> and \<open>handleTouchMove\<close> share.\<close>

definition rescale :: "nat \<Rightarrow> jsnum \<Rightarrow> range \<Rightarrow> range" where
  "rescale n factor r =
     (let len = snd r - fst r;
          newLength = max 1 (round_index (fl (of_int len / factor)));
          half = fl (of_int newLength / 2);
          center = fl (of_int (fst r) + fl (of_int len / 2))
      in clamp n (round_index (fl (center - half)), round_index (fl (center + half))))"

definition zoomInOut :: "nat \<Rightarrow> jsnum \<Rightarrow> range option \<Rightarrow> range" where
  "zoomInOut n factor prev =
     (let r = currentRange n prev in if snd r - fst r \<le> 1 \<and> 1 < factor then r else rescale n factor r)"

definition pan :: "nat \<Rightarrow> jsnum \<Rightarrow> jsnum \<Rightarrow> range \<Rightarrow> range" where
  "pan n deltaX width startRange =
     (let shiftPoints = round_index (fl (fl (deltaX / width) * of_int (snd startRange - fst startRange)));
          s0 = fst startRange - shiftPoints; e0 = snd startRange - shiftPoints;
          (s1, e1) = (if s0 < 0 then (0, e0 - s0) else (s0, e0));
          (s2, e2) = (if maxIndex n < e1 then (s1 - (e1 - maxIndex n), maxIndex n) else (s1, e1))
      in clamp n (s2, e2))"

text \<open>\<open>findIndex\<close>: the first point with the label.\<close>

fun findIndex :: "('a \<Rightarrow> bool) \<Rightarrow> 'a list \<Rightarrow> nat option" where
  "findIndex P [] = None"
| "findIndex P (x # xs) = (if P x then Some 0 else map_option Suc (findIndex P xs))"

definition select_area :: "nat \<Rightarrow> string list \<Rightarrow> string \<Rightarrow> string \<Rightarrow> range option \<Rightarrow> range option" where
  "select_area n labels l r zoomRange =
     (let cur = currentRange n zoomRange; shown = currentData labels cur in
      case (findIndex (\<lambda>d. d = l) shown, findIndex (\<lambda>d. d = r) shown) of
        (Some i, Some j) \<Rightarrow> Some (clamp n (fst cur + int (min i j), fst cur + int (max i j)))
      | _ \<Rightarrow> zoomRange)"

section \<open>Gestures\<close>

datatype interactionMode = Pan | Zoom

record ChartState =
  zoomRange :: "range option"
  mode :: interactionMode
  drag :: "range option"
  pinch :: "range option"
  refLeft :: "string option"
  refRight :: "string option"

datatype gesture =
    ZoomBy jsnum
  | ResetZoom
  | ToggleMode
  | PointerDown
  | PointerMove jsnum jsnum
  | PointerUp
  | TouchStart
  | TouchMove jsnum
  | TouchEnd
  | AreaDown string
  | AreaMove string
  | AreaUp

definition chart_start :: ChartState where
  "chart_start = \<lparr> zoomRange = None, mode = Pan, drag = None, pinch = None, refLeft = None, refRight = None \<rparr>"

text \<open>\<open>drag\<close> is the start of an active drag; two fingers are on the chart in the touch gestures.\<close>

fun gesture_step :: "string list \<Rightarrow> gesture \<Rightarrow> ChartState \<Rightarrow> ChartState" where
  "gesture_step labels (ZoomBy factor) st = st\<lparr>zoomRange := Some (zoomInOut (length labels) factor (zoomRange st))\<rparr>"
| "gesture_step labels ResetZoom st = st\<lparr>zoomRange := None\<rparr>"
| "gesture_step labels ToggleMode st = st\<lparr>mode := (if mode st = Pan then Zoom else Pan)\<rparr>"
| "gesture_step labels PointerDown st =
     (if mode st \<noteq> Pan then st else st\<lparr>drag := Some (currentRange (length labels) (zoomRange st))\<rparr>)"
| "gesture_step labels (PointerMove deltaX width) st =
     (case drag st of None \<Rightarrow> st | Some r \<Rightarrow> st\<lparr>zoomRange := Some (pan (length labels) deltaX width r)\<rparr>)"
| "gesture_step labels PointerUp st = st\<lparr>drag := None\<rparr>"
| "gesture_step labels TouchStart st = st\<lparr>pinch := Some (currentRange (length labels) (zoomRange st))\<rparr>"
| "gesture_step labels (TouchMove factor) st =
     (case pinch st of
        None \<Rightarrow> st
      | Some r \<Rightarrow> if snd r - fst r \<le> 1 \<and> 1 < factor then st
                  else st\<lparr>zoomRange := Some (rescale (length labels) factor r)\<rparr>)"
| "gesture_step labels TouchEnd st = st\<lparr>pinch := None\<rparr>"
| "gesture_step labels (AreaDown l) st = (if mode st = Zoom \<and> l \<noteq> [] then st\<lparr>refLeft := Some l\<rparr> else st)"
| "gesture_step labels (AreaMove l) st =
     (if mode st = Zoom \<and> refLeft st \<noteq> None \<and> l \<noteq> [] then st\<lparr>refRight := Some l\<rparr> else st)"
| "gesture_step labels AreaUp st =
     (if mode st \<noteq> Zoom then st
      else (case (refLeft st, refRight st) of
              (Some l, Some r) \<Rightarrow> st\<lparr>zoomRange := select_area (length labels) labels l r (zoomRange st),
                                     refLeft := None, refRight := None\<rparr>
            | _ \<Rightarrow> st\<lparr>refLeft := None, refRight := None\<rparr>))"

definition gestures :: "string list \<Rightarrow> gesture list \<Rightarrow> ChartState" where
  "gestures labels gs = fold (gesture_step labels) gs chart_start"

section \<open>The window stays on the data\<close>

definition range_ok :: "nat \<Rightarrow> range \<Rightarrow> bool" where
  "range_ok n r = (0 \<le> fst r \<and> fst r \<le> snd r \<and> snd r \<le> maxIndex n)"

definition chart_ok :: "nat \<Rightarrow> ChartState \<Rightarrow> bool" where
  "chart_ok n st =
     (pred_option (range_ok n) (zoomRange st) \<and> pred_option (range_ok n) (drag st) \<and>
      pred_option (range_ok n) (pinch st))"

lemma currentRange_ok: "pred_option (range_ok n) z \<Longrightarrow> range_ok n (currentRange n z)"
  by (cases z) (simp_all add: currentRange_def range_ok_def maxIndex_def)

lemma round_index_mono: "x \<le> y \<Longrightarrow> round_index x \<le> round_index y"
  by (simp add: round_index_def floor_mono)

lemma round_index_int [simp]: "round_index (of_int k) = k"
  unfolding round_index_def by (rule floor_unique) simp_all

text \<open>Rounding keeps a number between two integers that are doubles.\<close>

lemma fl_between:
  assumes "of_int a \<le> x" "x \<le> of_int b" "\<bar>a\<bar> \<le> 2 ^ 53" "\<bar>b\<bar> \<le> 2 ^ 53"
  shows "of_int a \<le> fl x \<and> fl x \<le> of_int b"
  using fl_mono [OF assms(1)] fl_mono [OF assms(2)] fl_int [OF assms(3)] fl_int [OF assms(4)] by simp

lemma rescale_ok:
  assumes "range_ok n r" "int n \<le> 2 ^ 53"
  shows "range_ok n (rescale n factor r)"
proof -
  define a where "a = fst r"
  define b where "b = snd r"
  define k where "k = max 1 (round_index (fl (of_int (b - a) / factor)))"
  define half where "half = fl (of_int k / 2 :: rat)"
  define center where "center = fl (of_int a + fl (of_int (b - a) / 2))"
  have ab: "0 \<le> a" "a \<le> b" "b \<le> maxIndex n" "maxIndex n \<le> 2 ^ 53"
    using assms by (simp_all add: range_ok_def a_def b_def maxIndex_def)
  have "0 \<le> (of_int (b - a) / 2 :: rat)" "(of_int (b - a) / 2 :: rat) \<le> of_int (b - a)" using ab by simp_all
  then have "0 \<le> fl (of_int (b - a) / 2)" "fl (of_int (b - a) / 2) \<le> of_int (b - a)"
    using fl_between [of 0 "of_int (b - a) / 2" "b - a"] ab by simp_all
  then have "of_int a \<le> of_int a + fl (of_int (b - a) / 2)" "of_int a + fl (of_int (b - a) / 2) \<le> of_int b"
    by simp_all
  then have c: "of_int a \<le> center" "center \<le> of_int b"
    using fl_between [of a _ b] ab unfolding center_def by simp_all
  have h: "0 \<le> half" by (simp add: half_def k_def fl_nonneg)
  have "fl (center - half) \<le> of_int b"
    using fl_mono [of "center - half" "of_int b"] fl_int [of b] c h ab by simp
  then have s: "round_index (fl (center - half)) \<le> b"
    using round_index_mono [of _ "of_int b"] by fastforce
  have "of_int a \<le> fl (center + half)"
    using fl_mono [of "of_int a" "center + half"] fl_int [of a] c h ab by simp
  then have e: "a \<le> round_index (fl (center + half))"
    using round_index_mono [of "of_int a"] by fastforce
  have se: "round_index (fl (center - half)) \<le> round_index (fl (center + half))"
    using h by (intro round_index_mono fl_mono) simp
  have "rescale n factor r = clamp n (round_index (fl (center - half)), round_index (fl (center + half)))"
    by (simp add: rescale_def Let_def center_def half_def k_def a_def b_def)
  then show ?thesis using s e se ab by (simp add: range_ok_def clamp_def)
qed

text \<open>Dragging moves the window and keeps its width.\<close>

lemma pan_ok:
  assumes "range_ok n r"
  shows "range_ok n (pan n deltaX width r) \<and> snd (pan n deltaX width r) - fst (pan n deltaX width r) = snd r - fst r"
  using assms by (auto simp: pan_def clamp_def range_ok_def Let_def split: prod.splits if_splits)

lemma findIndex_less: "findIndex P xs = Some i \<Longrightarrow> i < length xs"
  by (induction P xs arbitrary: i rule: findIndex.induct) (auto split: if_splits)

lemma length_currentData:
  "range_ok n r \<Longrightarrow> length xs = n \<Longrightarrow> 0 < n \<Longrightarrow> int (length (currentData xs r)) = snd r - fst r + 1"
  by (auto simp: currentData_def range_ok_def maxIndex_def Let_def min_def max_def)

lemma select_area_ok:
  assumes "pred_option (range_ok n) z" "length labels = n"
  shows "pred_option (range_ok n) (select_area n labels l r z)"
proof (cases "n = 0")
  case True
  then have "currentData labels (currentRange n z) = []" using assms(2) by (simp add: currentData_def)
  then show ?thesis using assms(1) by (simp add: select_area_def Let_def)
next
  case False
  let ?cur = "currentRange n z"
  have ok: "range_ok n ?cur" by (rule currentRange_ok [OF assms(1)])
  have len: "int (length (currentData labels ?cur)) = snd ?cur - fst ?cur + 1"
    using length_currentData [OF ok assms(2)] False by simp
  show ?thesis
  proof (cases "findIndex (\<lambda>d. d = l) (currentData labels ?cur)")
    case None
    then show ?thesis using assms(1) by (simp add: select_area_def Let_def)
  next
    case (Some i)
    then show ?thesis
      using assms(1) ok len findIndex_less [of _ "currentData labels ?cur"]
      by (cases "findIndex (\<lambda>d. d = r) (currentData labels ?cur)")
        (fastforce simp: select_area_def Let_def clamp_def range_ok_def)+
  qed
qed

lemma gesture_keeps:
  assumes "chart_ok (length labels) st" "int (length labels) \<le> 2 ^ 53"
  shows "chart_ok (length labels) (gesture_step labels g st)"
proof (cases g)
  case (ZoomBy factor)
  then show ?thesis
    using assms currentRange_ok [of "length labels" "zoomRange st"]
    by (simp add: chart_ok_def zoomInOut_def Let_def rescale_ok)
next
  case (PointerMove deltaX width)
  then show ?thesis
    using assms by (cases "drag st") (simp_all add: chart_ok_def pan_ok)
next
  case (TouchMove factor)
  then show ?thesis
    using assms by (cases "pinch st") (simp_all add: chart_ok_def rescale_ok)
next
  case AreaUp
  then show ?thesis
    using assms(1) by (simp add: chart_ok_def select_area_ok split: option.split)
qed (use assms in \<open>simp_all add: chart_ok_def currentRange_ok\<close>)

text \<open>The chart never leaves its data: however the user zooms, drags, pinches, selects areas and resets, the
  window lies within the points, and the points shown are as many as it spans, at least one when there is any.\<close>

theorem chart_window_on_data:
  assumes "int (length labels) \<le> 2 ^ 53" "0 < length labels"
  shows "let r = currentRange (length labels) (zoomRange (gestures labels gs)) in
    0 \<le> fst r \<and> fst r \<le> snd r \<and> snd r < int (length labels) \<and>
    int (length (currentData labels r)) = snd r - fst r + 1"
proof -
  have "chart_ok (length labels) (fold (gesture_step labels) gs st)" if "chart_ok (length labels) st" for st
    using that
  proof (induction gs arbitrary: st)
    case (Cons g gs)
    then show ?case using gesture_keeps [OF _ assms(1)] by simp
  qed simp
  then have "chart_ok (length labels) (gestures labels gs)"
    unfolding gestures_def by (simp add: chart_ok_def chart_start_def)
  then have "range_ok (length labels) (currentRange (length labels) (zoomRange (gestures labels gs)))"
    by (simp add: chart_ok_def currentRange_ok)
  then show ?thesis
    using length_currentData [OF _ refl assms(2)] assms(2) by (simp add: range_ok_def maxIndex_def Let_def)
qed

definition week :: "string list" where
  "week = [''Mon'', ''Tue'', ''Wed'', ''Thu'', ''Fri'', ''Sat'', ''Sun'']"

definition sample_gestures :: "gesture list" where
  "sample_gestures = [ZoomBy (3 / 2), PointerDown, PointerMove (- 400) 800, PointerUp, ToggleMode, AreaDown ''Sun'',
     AreaMove ''Fri'', AreaUp]"

lemma sample_window: "currentRange 7 (zoomRange (gestures week sample_gestures)) = (4, 6)"
  by code_simp

theorem chart_window_on_data_witness:
  "currentRange 7 (zoomRange (gestures week sample_gestures)) = (4, 6) \<and>
   int (length (currentData week (4, 6))) = 6 - 4 + 1"
proof -
  have "length week = 7" by (simp add: week_def)
  then show ?thesis
    using chart_window_on_data [of week sample_gestures] sample_window by (simp add: Let_def)
qed

text \<open>
  \<open>Zoom Out\<close> has the factor \<open>0.67\<close>, the wheel \<open>0.9\<close>: a window of two neighbouring points divided by them
  still rounds to length one, so that it never grows again; only \<open>Reset\<close> leaves it.
\<close>

lemma zoom_out_stuck: "list_all (\<lambda>r. zoomInOut 7 (fl (67 / 100)) (Some r) = r \<and> zoomInOut 7 (fl (9 / 10)) (Some r) = r)
    [(0, 1), (4, 5)]"
  by code_simp

end
