(* ===== verification/ClientUrls.thy ===== *)
theory ClientUrls
  imports Listing
begin

text \<open>
  What the browser client keeps in its URL: \<open>frontend/src/hooks/useUrlFilters.ts\<close>,
  \<open>hooks/useStreamFilter.ts\<close>.
\<close>

section \<open>Search parameters\<close>

text \<open>
  \<open>URLSearchParams\<close> as the list of its pairs; writing them to a text and reading them back are inverse.
  The locale states what the hooks rely on.
\<close>

type_synonym params = "(string \<times> string) list"

locale search_params =
  fixes get :: "string \<Rightarrow> 'p \<Rightarrow> string option" and put :: "string \<Rightarrow> string \<Rightarrow> 'p \<Rightarrow> 'p"
    and remove :: "string \<Rightarrow> 'p \<Rightarrow> 'p"
  assumes get_put: "get k' (put k v p) = (if k' = k then Some v else get k' p)"
    and get_remove: "get k' (remove k p) = (if k' = k then None else get k' p)"
begin

text \<open>\<open>if (value) params.set(key, value)\<close>, else leave the parameters alone.\<close>

definition put_text :: "string \<Rightarrow> string \<Rightarrow> 'p \<Rightarrow> 'p" where
  "put_text k v p = (if v = [] then p else put k v p)"

definition text_of :: "string \<Rightarrow> 'p \<Rightarrow> string" where
  "text_of k p = (case get k p of None \<Rightarrow> [] | Some v \<Rightarrow> v)"

lemma get_put_text: "get k' (put_text k v p) = (if k' = k \<and> v \<noteq> [] then Some v else get k' p)"
  by (simp add: put_text_def get_put)

lemma text_of_put_text: "get k p = None \<Longrightarrow> text_of k (put_text k v p) = v"
  by (simp add: text_of_def get_put_text)

end

definition param_get :: "string \<Rightarrow> params \<Rightarrow> string option" where
  "param_get k p = map_of p k"

definition param_delete :: "string \<Rightarrow> params \<Rightarrow> params" where
  "param_delete k p = filter (\<lambda>kv. fst kv \<noteq> k) p"

text \<open>\<open>set\<close>: the first pair of the name is replaced, further ones go, a new name is appended.\<close>

fun param_set :: "string \<Rightarrow> string \<Rightarrow> params \<Rightarrow> params" where
  "param_set k v [] = [(k, v)]"
| "param_set k v (kv # p) = (if fst kv = k then (k, v) # param_delete k p else kv # param_set k v p)"

lemma param_get_delete: "param_get k' (param_delete k p) = (if k' = k then None else param_get k' p)"
  by (induction p) (auto simp: param_get_def param_delete_def)

lemma param_get_set: "param_get k' (param_set k v p) = (if k' = k then Some v else param_get k' p)"
proof (induction p)
  case (Cons kv p)
  then show ?case
    using param_get_delete [of k' k p] by (auto simp: param_get_def)
qed (simp add: param_get_def)

interpretation url: search_params param_get param_set param_delete
  by unfold_locales (simp_all add: param_get_set param_get_delete)

definition set_text :: "string \<Rightarrow> string \<Rightarrow> params \<Rightarrow> params" where
  "set_text k v p = (if v = [] then p else param_set k v p)"

definition get_text :: "string \<Rightarrow> params \<Rightarrow> string" where
  "get_text k p = (case param_get k p of None \<Rightarrow> [] | Some v \<Rightarrow> v)"

lemma param_get_set_text:
  "param_get k' (set_text k v p) = (if k' = k \<and> v \<noteq> [] then Some v else param_get k' p)"
  using url.get_put_text [of k' k v p] by (simp add: url.put_text_def set_text_def)

section \<open>View and filters in the URL\<close>

datatype ViewMode = Dashboard | RecipientView | SenderView

fun view_name :: "ViewMode \<Rightarrow> string" where
  "view_name Dashboard = ''dashboard''"
| "view_name RecipientView = ''recipient''"
| "view_name SenderView = ''sender''"

text \<open>An absent text is the empty one: every use of a filter asks whether it is truthy.\<close>

record ListStreamsFilters =
  f_recipient :: string
  f_sender :: string
  f_status :: string
  f_asset :: string
  f_q :: string
  f_sort :: string
  f_page :: "int option"
  f_limit :: "int option"

definition VALID_STATUSES :: "string list" where
  "VALID_STATUSES = [''active'', ''scheduled'', ''completed'', ''canceled'']"

text \<open>\<open>[^\x20-\x7E]\<close> is cut out after the trimming, and the length is cut last.\<close>

definition printable :: "char \<Rightarrow> bool" where
  "printable c = (CHR '' '' \<le> c \<and> c \<le> CHR ''~'')"

definition sanitizeString :: "nat \<Rightarrow> string option \<Rightarrow> string" where
  "sanitizeString maxLen raw =
     (case raw of None \<Rightarrow> [] | Some s \<Rightarrow> take maxLen (filter printable (trim s)))"

definition parseViewMode :: "string option \<Rightarrow> ViewMode" where
  "parseViewMode raw =
     (let v = sanitizeString 64 raw in
      if v = ''recipient'' then RecipientView else if v = ''sender'' then SenderView else Dashboard)"

definition parseStatus :: "string option \<Rightarrow> string" where
  "parseStatus raw = (let v = sanitizeString 64 raw in if v \<in> set VALID_STATUSES then v else [])"

definition parsePage :: "string option \<Rightarrow> int option" where
  "parsePage raw = (case Option.bind raw parseInt of None \<Rightarrow> None | Some n \<Rightarrow> if 1 \<le> n then Some n else None)"

definition readParams :: "params \<Rightarrow> ViewMode \<times> ListStreamsFilters \<times> string option" where
  "readParams p =
     (parseViewMode (param_get ''view'' p),
      \<lparr> f_recipient = sanitizeString 64 (param_get ''recipient'' p),
        f_sender = sanitizeString 64 (param_get ''sender'' p),
        f_status = parseStatus (param_get ''status'' p),
        f_asset = sanitizeString 64 (param_get ''asset'' p),
        f_q = [],
        f_sort = sanitizeString 64 (param_get ''sort'' p),
        f_page = parsePage (param_get ''page'' p),
        f_limit = None \<rparr>,
      (case sanitizeString 128 (param_get ''streamId'' p) of [] \<Rightarrow> None | s \<Rightarrow> Some s))"

definition buildSearch :: "ViewMode \<Rightarrow> ListStreamsFilters \<Rightarrow> string option \<Rightarrow> params" where
  "buildSearch view f streamId =
     set_text ''streamId'' (case streamId of None \<Rightarrow> [] | Some s \<Rightarrow> s)
       (set_text ''page'' (case f_page f of Some n \<Rightarrow> if n > 1 then int_to_string n else [] | None \<Rightarrow> [])
         (set_text ''sort'' (f_sort f) (set_text ''recipient'' (f_recipient f)
           (set_text ''sender'' (f_sender f) (set_text ''asset'' (f_asset f)
             (set_text ''status'' (f_status f)
               (set_text ''view'' (if view = Dashboard then [] else view_name view) [])))))))"

text \<open>What reading the URL can give back: texts that sanitising leaves alone, a listed status, a later page.\<close>

definition clean :: "nat \<Rightarrow> string \<Rightarrow> bool" where
  "clean n s = (sanitizeString n (Some s) = s)"

definition url_state_ok :: "ListStreamsFilters \<Rightarrow> string option \<Rightarrow> bool" where
  "url_state_ok f streamId =
     (clean 64 (f_recipient f) \<and> clean 64 (f_sender f) \<and> clean 64 (f_asset f) \<and> clean 64 (f_sort f) \<and>
      f_status f \<in> set ([] # VALID_STATUSES) \<and> f_q f = [] \<and> f_limit f = None \<and>
      (case f_page f of None \<Rightarrow> True | Some n \<Rightarrow> 1 < n) \<and>
      (case streamId of None \<Rightarrow> True | Some s \<Rightarrow> s \<noteq> [] \<and> clean 128 s))"

text \<open>What \<open>get\<close> finds of a text that was set when it is not empty.\<close>

definition shown :: "string \<Rightarrow> string option" where
  "shown v = (if v = [] then None else Some v)"

definition page_text :: "int option \<Rightarrow> string" where
  "page_text pg = (case pg of Some n \<Rightarrow> if n > 1 then int_to_string n else [] | None \<Rightarrow> [])"

lemma sanitize_clean: "clean n s \<Longrightarrow> sanitizeString n (shown s) = s"
  by (cases "s = []") (simp_all add: clean_def shown_def sanitizeString_def)

lemma statuses_parse: "list_all (\<lambda>s. parseStatus (shown s) = s) ([] # VALID_STATUSES)"
  by code_simp

lemma parseStatus_valid: "s \<in> set ([] # VALID_STATUSES) \<Longrightarrow> parseStatus (shown s) = s"
  using statuses_parse unfolding list_all_iff by blast

lemma views_parse: "list_all (\<lambda>v. parseViewMode (shown (if v = Dashboard then [] else view_name v)) = v)
    [Dashboard, RecipientView, SenderView]"
  by code_simp

lemma parseViewMode_name: "parseViewMode (shown (if v = Dashboard then [] else view_name v)) = v"
  using views_parse by (cases v) simp_all

lemma parsePage_shown:
  "(case pg of None \<Rightarrow> True | Some n \<Rightarrow> 1 < n) \<Longrightarrow> parsePage (shown (page_text pg)) = pg"
  by (cases pg) (simp_all add: parsePage_def page_text_def shown_def del: int_to_string.simps)

lemma param_get_Nil [simp]: "param_get k [] = None"
  by (simp add: param_get_def)

lemma get_buildSearch:
  "param_get ''view'' (buildSearch view f sid) = shown (if view = Dashboard then [] else view_name view)"
  "param_get ''status'' (buildSearch view f sid) = shown (f_status f)"
  "param_get ''asset'' (buildSearch view f sid) = shown (f_asset f)"
  "param_get ''sender'' (buildSearch view f sid) = shown (f_sender f)"
  "param_get ''recipient'' (buildSearch view f sid) = shown (f_recipient f)"
  "param_get ''sort'' (buildSearch view f sid) = shown (f_sort f)"
  "param_get ''page'' (buildSearch view f sid) = shown (page_text (f_page f))"
  "param_get ''streamId'' (buildSearch view f sid) = shown (case sid of None \<Rightarrow> [] | Some s \<Rightarrow> s)"
  by (simp_all add: buildSearch_def page_text_def [symmetric] param_get_set_text shown_def)

lemma readParams_buildSearch:
  assumes "url_state_ok f streamId"
  shows "readParams (buildSearch view f streamId) = (view, f, streamId)"
proof -
  have "parseStatus (shown (f_status f)) = f_status f" "parsePage (shown (page_text (f_page f))) = f_page f"
    using assms by (simp_all only: url_state_ok_def parseStatus_valid parsePage_shown)
  moreover have "sanitizeString 128 (shown (case streamId of None \<Rightarrow> [] | Some s \<Rightarrow> s)) =
      (case streamId of None \<Rightarrow> [] | Some s \<Rightarrow> s)"
    using assms by (cases streamId) (simp_all add: url_state_ok_def sanitize_clean clean_def, simp add: shown_def sanitizeString_def)
  moreover have "sanitizeString 64 (shown (f_recipient f)) = f_recipient f" "sanitizeString 64 (shown (f_sender f)) = f_sender f"
      "sanitizeString 64 (shown (f_asset f)) = f_asset f" "sanitizeString 64 (shown (f_sort f)) = f_sort f"
    using assms by (simp_all add: url_state_ok_def sanitize_clean)
  moreover have "f_q f = []" "f_limit f = None"
    using assms by (simp_all add: url_state_ok_def)
  ultimately show ?thesis
    using assms by (cases streamId)
      (auto simp: readParams_def get_buildSearch parseViewMode_name url_state_ok_def split: list.split)
qed


definition sample_filters :: ListStreamsFilters where
  "sample_filters = \<lparr> f_recipient = ''GR'', f_sender = [], f_status = ''active'', f_asset = ''USDC'', f_q = [],
     f_sort = ''startAt'', f_page = Some 3, f_limit = None \<rparr>"

lemma sample_filters_ok: "url_state_ok sample_filters (Some ''17'')"
  by code_simp


section \<open>The filters of the table\<close>

record StreamFilters =
  sf_status :: string
  sf_sender :: string
  sf_recipient :: string
  sf_assetCode :: string
  sf_q :: string
  sf_sort :: string
  sf_page :: int

definition EMPTY_FILTERS :: StreamFilters where
  "EMPTY_FILTERS = \<lparr> sf_status = [], sf_sender = [], sf_recipient = [], sf_assetCode = [], sf_q = [], sf_sort = [],
     sf_page = 1 \<rparr>"

definition getFiltersFromUrl :: "params \<Rightarrow> StreamFilters" where
  "getFiltersFromUrl p =
     \<lparr> sf_status = get_text ''status'' p, sf_sender = get_text ''sender'' p,
       sf_recipient = get_text ''recipient'' p,
       sf_assetCode = (case param_get ''assetCode'' p of Some v \<Rightarrow> v | None \<Rightarrow> get_text ''asset'' p),
       sf_q = get_text ''q'' p, sf_sort = get_text ''sort'' p,
       sf_page = (case get_text ''page'' p of [] \<Rightarrow> 1
                  | s \<Rightarrow> (case parseInt s of None \<Rightarrow> 1 | Some n \<Rightarrow> if 1 \<le> n then n else 1)) \<rparr>"

text \<open>\<open>syncValue\<close>: a blank value is removed; the asset is kept under both of its names.\<close>

definition syncValue :: "string \<Rightarrow> string \<Rightarrow> params \<Rightarrow> params" where
  "syncValue key v p =
     (if trim v = [] then (let p1 = param_delete key p in if key = ''assetCode'' then param_delete ''asset'' p1 else p1)
      else (let p1 = param_set key v p in if key = ''assetCode'' then param_set ''asset'' v p1 else p1))"

definition sync_filters :: "StreamFilters \<Rightarrow> params \<Rightarrow> params" where
  "sync_filters f p =
     (let p1 = syncValue ''sort'' (sf_sort f) (syncValue ''q'' (sf_q f) (syncValue ''assetCode'' (sf_assetCode f)
                 (syncValue ''recipient'' (sf_recipient f) (syncValue ''sender'' (sf_sender f)
                   (syncValue ''status'' (sf_status f) p)))))
      in if sf_page f > 1 then param_set ''page'' (int_to_string (sf_page f)) p1 else param_delete ''page'' p1)"

definition includesCaseInsensitive :: "string \<Rightarrow> string \<Rightarrow> bool" where
  "includesCaseInsensitive v needle = includes_str (toLowerCase v) (toLowerCase needle)"

definition filteredStreams :: "StreamFilters \<Rightarrow> ListItem list \<Rightarrow> ListItem list" where
  "filteredStreams f items =
     filter (\<lambda>i. let s = item_stream i in
       (sf_status f = [] \<or> status_name (status (item_progress i)) = sf_status f) \<and>
       (sf_sender f = [] \<or> includesCaseInsensitive (sender s) (sf_sender f)) \<and>
       (sf_recipient f = [] \<or> includesCaseInsensitive (recipient s) (sf_recipient f)) \<and>
       (sf_assetCode f = [] \<or> includesCaseInsensitive (assetCode s) (sf_assetCode f)) \<and>
       (sf_q f = [] \<or> (let search = toLowerCase (sf_q f) in
          includes_str (toLowerCase (stream_id s)) search \<or> includes_str (toLowerCase (sender s)) search \<or>
          includes_str (toLowerCase (recipient s)) search \<or> includes_str (toLowerCase (assetCode s)) search))) items"

definition unblank :: "string \<Rightarrow> string" where
  "unblank v = (if trim v = [] then [] else v)"

lemma param_get_syncValue:
  "param_get k (syncValue key v p) =
     (if k = key \<or> key = ''assetCode'' \<and> k = ''asset'' then if trim v = [] then None else Some v else param_get k p)"
  by (simp add: syncValue_def Let_def param_get_set param_get_delete)

lemma get_text_syncValue:
  "get_text k (syncValue key v p) =
     (if k = key \<or> key = ''assetCode'' \<and> k = ''asset'' then unblank v else get_text k p)"
  by (simp add: get_text_def param_get_syncValue unblank_def)

lemma get_text_set: "get_text k' (param_set k v p) = (if k' = k then v else get_text k' p)"
  by (simp add: get_text_def param_get_set)

lemma get_text_delete: "get_text k' (param_delete k p) = (if k' = k then [] else get_text k' p)"
  by (simp add: get_text_def param_get_delete)

text \<open>Whatever the URL held, after the effect has run it reads back as the filters, blank ones emptied.\<close>

lemma filters_survive_reload:
  assumes "1 \<le> sf_page f"
  shows "getFiltersFromUrl (sync_filters f p) =
    f\<lparr>sf_status := unblank (sf_status f), sf_sender := unblank (sf_sender f),
      sf_recipient := unblank (sf_recipient f), sf_assetCode := unblank (sf_assetCode f), sf_q := unblank (sf_q f),
      sf_sort := unblank (sf_sort f)\<rparr>"
proof -
  obtain c cs where n: "int_to_string (sf_page f) = c # cs" by (metis int_to_string_nonempty neq_Nil_conv)
  then have "parseInt (c # cs) = Some (sf_page f)" using parseInt_int_to_string by metis
  then show ?thesis
    using assms n
    by (cases f; cases "trim (sf_assetCode f) = []")
      (simp_all add: getFiltersFromUrl_def sync_filters_def Let_def get_text_set get_text_delete get_text_syncValue
        param_get_set param_get_delete param_get_syncValue unblank_def del: int_to_string.simps)
qed

end
