(* ===== verification/ClientDashboard.thy ===== *)
theory ClientDashboard
  imports ClientUrls
begin

text \<open>
  The list of streams of the browser client: the query of \<open>frontend/src/services/api.ts\<close> and the paged
  loading of \<open>pages/DashboardPage.tsx\<close>, composed with the listing route of the server; then the
  progress frames, the selection of \<open>components/StreamsTable.tsx\<close> and the figures of the dashboards.
\<close>

section \<open>Queries\<close>

definition number_text :: "int option \<Rightarrow> string" where
  "number_text v = (case v of None \<Rightarrow> [] | Some n \<Rightarrow> if n = 0 then [] else int_to_string n)"

definition list_params :: "ListStreamsFilters \<Rightarrow> params" where
  "list_params f =
     set_text ''limit'' (number_text (f_limit f)) (set_text ''page'' (number_text (f_page f))
       (set_text ''sort'' (f_sort f) (set_text ''q'' (f_q f) (set_text ''asset'' (f_asset f)
         (set_text ''status'' (f_status f) (set_text ''sender'' (f_sender f)
           (set_text ''recipient'' (f_recipient f) [])))))))"

text \<open>What the server sees of a parameter.\<close>

definition server_query :: "params \<Rightarrow> query" where
  "server_query p k = map_option JStr (param_get k p)"

text \<open>The entries that are not empty are appended one by one.\<close>

definition export_params :: "(string \<times> string) list \<Rightarrow> params" where
  "export_params entries = filter (\<lambda>(k, v). v \<noteq> []) entries"

definition or_text :: "string \<Rightarrow> string \<Rightarrow> string" where
  "or_text a b = (if a = [] then b else a)"

definition apiFilters :: "StreamFilters \<Rightarrow> ListStreamsFilters \<Rightarrow> ListStreamsFilters" where
  "apiFilters f url =
     \<lparr> f_recipient = or_text (sf_recipient f) (f_recipient url), f_sender = or_text (sf_sender f) (f_sender url),
       f_status = or_text (sf_status f) (f_status url), f_asset = or_text (sf_assetCode f) (f_asset url), f_q = [],
       f_sort = or_text (sf_sort f) (f_sort url),
       f_page = (if sf_page f > 1 then Some (sf_page f) else f_page url), f_limit = None \<rparr>"

definition tableFilters :: "StreamFilters \<Rightarrow> ListStreamsFilters" where
  "tableFilters f =
     \<lparr> f_recipient = sf_recipient f, f_sender = sf_sender f, f_status = sf_status f, f_asset = sf_assetCode f,
       f_q = [], f_sort = [], f_page = None, f_limit = None \<rparr>"

section \<open>Paged loading\<close>

record DashState =
  ds_streams :: "ListItem list"
  ds_hasMore :: bool
  ds_currentPage :: nat

text \<open>The answer to a query, \<open>None\<close> where \<open>listStreams\<close> throws; a failed load leaves the state.\<close>

definition refreshStreams :: "(params \<Rightarrow> ListResult option) \<Rightarrow> ListStreamsFilters \<Rightarrow> DashState \<Rightarrow> DashState" where
  "refreshStreams serve f st =
     (case serve (list_params (f\<lparr>f_limit := Some 20\<rparr>)) of
        None \<Rightarrow> st
      | Some r \<Rightarrow> \<lparr> ds_streams = lr_data r, ds_hasMore = (lr_page r * lr_limit r < lr_total r),
                    ds_currentPage = lr_page r \<rparr>)"

definition loadMore :: "(params \<Rightarrow> ListResult option) \<Rightarrow> ListStreamsFilters \<Rightarrow> DashState \<Rightarrow> DashState" where
  "loadMore serve f st =
     (if \<not> ds_hasMore st then st
      else (case serve (list_params (f\<lparr>f_page := Some (int (ds_currentPage st + 1)), f_limit := Some 20\<rparr>)) of
              None \<Rightarrow> st
            | Some r \<Rightarrow> \<lparr> ds_streams = ds_streams st @ lr_data r,
                          ds_hasMore = (lr_page r * lr_limit r < lr_total r), ds_currentPage = lr_page r \<rparr>))"

text \<open>The listing of the server for a query, when its cache has nothing for it.\<close>

definition list_answer :: "int \<Rightarrow> Db \<Rightarrow> params \<Rightarrow> ListResult option" where
  "list_answer now d p =
     (let raw = server_query p in
      case listStreamsQuerySchema raw of
        None \<Rightarrow> None
      | Some q \<Rightarrow> Some (paginate raw q (filter_list q (map (with_progress now)
                    (listStreams (lq_include_archived q) (query_sort q) (query_order q) d)))))"

lemma list_answer_route:
  assumes "list_answer t2 (db app) p = Some r"
    "\<forall>q. listStreamsQuerySchema (server_query p) = Some q \<longrightarrow>
       cache_peek t1 (''streams:list:'' @ json_render (query_json q)) (cache app) = None"
  shows "fst (streams_route req issues (server_query p) t1 t2 t3 app) = sendJson 200 (PageBody r)"
proof -
  obtain q where q: "listStreamsQuerySchema (server_query p) = Some q"
    using assms(1) by (auto simp: list_answer_def Let_def split: option.splits)
  let ?key = "''streams:list:'' @ json_render (query_json q)"
  obtain c1 where "cache_get t1 ?key (cache app) = (None, c1)"
    using assms(2) q by (metis cache_peek_def prod.collapse)
  with assms(1) q show ?thesis by (simp add: list_answer_def streams_route_def Let_def)
qed

subsection \<open>Numbers in a query\<close>

lemma digit_or_more: "is_digit c \<Longrightarrow> c \<noteq> CHR ''x'' \<and> c \<noteq> CHR ''X'' \<and> c \<noteq> CHR ''o'' \<and> c \<noteq> CHR ''O'' \<and>
    c \<noteq> CHR ''b'' \<and> c \<noteq> CHR ''B''"
  by (auto simp: is_digit_def less_eq_char_def)

lemma trim_digits: "list_all is_digit s \<Longrightarrow> trim s = s"
proof -
  have "dropWhile is_space s = s" if "list_all is_digit s" for s
    using that digit_not_space by (cases s) auto
  then show "list_all is_digit s \<Longrightarrow> trim s = s" by (simp add: trim_def)
qed

lemma digits_int_val: "digits_int ds = int (digits_val ds)"
proof -
  have "foldl (\<lambda>a c. 10 * a + int (digit_val c)) (int k) ds = int (foldl (\<lambda>a c. 10 * a + digit_val c) k ds)" for k
  proof (induction ds arbitrary: k)
    case (Cons d ds)
    show ?case using Cons [of "10 * k + digit_val d"] by simp
  qed simp
  from this [of 0] show ?thesis by (simp add: digits_int_def digits_val_def)
qed

lemma number_of_digits:
  assumes "n \<le> 2 ^ 53"
  shows "number_of_string (nat_to_string n) = Some (of_nat n)"
proof -
  let ?s = "nat_to_string n"
  have ds: "list_all is_digit ?s" using nat_to_string_digits by (simp add: list_all_iff)
  then have tr: "trim ?s = ?s" by (rule trim_digits)
  obtain c cs where s: "?s = c # cs" by (metis nat_to_string_nonempty neq_Nil_conv)
  have c: "is_digit c" using ds s by simp
  have pre: "prefixed_number ?s = None"
  proof (cases cs)
    case (Cons r rs)
    then have "is_digit r" using ds s by simp
    from digit_or_more [OF this] show ?thesis by (simp add: prefixed_number_def s Cons)
  qed (simp add: prefixed_number_def s)
  have fl: "fl (of_nat n) = of_nat n"
    using fl_int [of "int n"] assms by simp
  have drop: "dropWhile is_digit ?s = []" using ds by (simp add: list_all_iff dropWhile_eq_Nil_conv)
  have "unsigned_decimal ?s = Some (of_nat n)"
    by (simp add: unsigned_decimal_def Let_def drop digits_int_val exponent_part_def del: dropWhile_eq_Nil_conv)
  moreover have "\<lfloor>of_nat n :: rat\<rfloor> < 2 ^ 1024"
  proof -
    have "int n < 2 ^ 1024" using assms by (simp add: le_less_trans [of _ "2 ^ 53"] flip: of_nat_less_iff)
    then show ?thesis by simp
  qed
  ultimately show ?thesis
    using tr pre s c digit_not_space [OF c] fl by (simp add: number_of_string_def Let_def)
qed

lemma coerce_int_digits: "n < 2 ^ 53 \<Longrightarrow> coerce_int (Some (JStr (nat_to_string n))) = Some (int n)"
  by (simp add: coerce_int_def coerce_number_def number_of_digits as_int_def)

subsection \<open>All pages\<close>

text \<open>A filter the server accepts: the status and the sort field are listed ones, or absent.\<close>

definition filters_accepted :: "ListStreamsFilters \<Rightarrow> bool" where
  "filters_accepted f = (f_status f \<in> set ([] # STREAM_STATUSES) \<and> (f_sort f = [] \<or> sort_field (f_sort f) \<noteq> None))"

definition text_param :: "string \<Rightarrow> string option" where
  "text_param s = (if s = [] then None else Some (trim s))"

text \<open>The query the server reads from a filter with page and limit.\<close>

definition client_query :: "ListStreamsFilters \<Rightarrow> ListQuery" where
  "client_query f =
     \<lparr> lq_status = shown (f_status f), lq_recipient = text_param (f_recipient f), lq_sender = text_param (f_sender f),
       lq_asset = text_param (f_asset f), lq_assetCode = None, lq_q = text_param (f_q f), lq_minAmount = None,
       lq_maxAmount = None, lq_include_archived = False, lq_page = None, lq_limit = None, lq_sort = shown (f_sort f),
       lq_order = None \<rparr>"

lemma get_list_params:
  "param_get ''recipient'' (list_params f) = shown (f_recipient f)"
  "param_get ''sender'' (list_params f) = shown (f_sender f)"
  "param_get ''status'' (list_params f) = shown (f_status f)"
  "param_get ''asset'' (list_params f) = shown (f_asset f)"
  "param_get ''q'' (list_params f) = shown (f_q f)"
  "param_get ''sort'' (list_params f) = shown (f_sort f)"
  "param_get ''page'' (list_params f) = shown (number_text (f_page f))"
  "param_get ''limit'' (list_params f) = shown (number_text (f_limit f))"
  "param_get ''assetCode'' (list_params f) = None" "param_get ''minAmount'' (list_params f) = None"
  "param_get ''maxAmount'' (list_params f) = None" "param_get ''include_archived'' (list_params f) = None"
  "param_get ''order'' (list_params f) = None"
  by (simp_all add: list_params_def param_get_set_text shown_def)

lemma number_text_nat: "0 < n \<Longrightarrow> shown (number_text (Some (int n))) = Some (nat_to_string n)"
  by (simp add: number_text_def shown_def)

lemma optional_number:
  assumes "0 < n" "n < 2 ^ 53" "P (int n)"
  shows "optional (\<lambda>j. keep_if P (coerce_int j)) (map_option JStr (shown (number_text (Some (int n))))) = Some (Some (int n))"
  using assms by (simp add: number_text_nat optional_def coerce_int_digits keep_if_def)

lemma optional_text: "optional trimmed (map_option JStr (shown s)) = Some (text_param s)"
  by (simp add: optional_def shown_def text_param_def trimmed_def)

lemma optional_listed:
  "s = [] \<or> P s \<Longrightarrow> optional (\<lambda>j. keep_if P (as_string j)) (map_option JStr (shown s)) = Some (shown s)"
  by (auto simp: optional_def shown_def keep_if_def)

lemma optional_None: "optional f None = Some None"
  by (simp add: optional_def)

lemma server_reads_filters:
  assumes "filters_accepted f" "0 < p" "p < 2 ^ 53" "0 < n" "n \<le> 100"
  shows "listStreamsQuerySchema (server_query (list_params (f\<lparr>f_page := Some (int p), f_limit := Some (int n)\<rparr>))) =
    Some (page_query (client_query f) n (p - 1))"
proof -
  have n53: "n < 2 ^ 53" using assms(5) by simp
  have st: "f_status f = [] \<or> f_status f \<in> set STREAM_STATUSES" and srt: "f_sort f = [] \<or> sort_field (f_sort f) \<noteq> None"
    using assms(1) by (auto simp: filters_accepted_def)
  show ?thesis
    using assms(2-5)
    by (simp add: listStreamsQuerySchema_def server_query_def get_list_params optional_text optional_None
        optional_listed [where P = "\<lambda>s. s \<in> set STREAM_STATUSES", OF st]
        optional_listed [where P = "\<lambda>s. sort_field s \<noteq> None", OF srt] optional_number [OF assms(2,3)] optional_number [OF assms(4) n53]
        client_query_def of_nat_diff del: not_None_eq)
qed

text \<open>What the dashboard should show in the end.\<close>

definition whole_listing :: "int \<Rightarrow> Db \<Rightarrow> ListStreamsFilters \<Rightarrow> ListItem list" where
  "whole_listing now d f =
     (let q = client_query f in filter (list_matches q) (map (with_progress now)
        (listStreams False (query_sort q) (query_order q) d)))"

lemma list_answer_page:
  assumes "filters_accepted f" "p + 1 < 2 ^ 53"
  shows "list_answer now d (list_params (f\<lparr>f_page := Some (int (p + 1)), f_limit := Some 20\<rparr>)) =
    Some \<lparr> lr_data = slice (p * 20) 20 (whole_listing now d f), lr_total = length (whole_listing now d f),
           lr_page = p + 1, lr_limit = 20 \<rparr>"
proof -
  have q: "listStreamsQuerySchema (server_query (list_params (f\<lparr>f_page := Some (int (p + 1)), f_limit := Some 20\<rparr>))) =
      Some (page_query (client_query f) 20 p)"
    using server_reads_filters [OF assms(1) _ assms(2), of 20] by simp
  have all: "filter_list (page_query (client_query f) 20 p) (map (with_progress now)
      (listStreams (lq_include_archived (page_query (client_query f) 20 p)) (query_sort (page_query (client_query f) 20 p))
        (query_order (page_query (client_query f) 20 p)) d)) = whole_listing now d f"
    by (simp only: filter_list_matches page_query_same whole_listing_def Let_def) (simp add: client_query_def)
  have given: "server_query (list_params (f\<lparr>f_page := Some (int (p + 1)), f_limit := Some 20\<rparr>)) ''page'' \<noteq> None"
    using number_text_nat [of "p + 1"] by (simp add: server_query_def get_list_params)
  show ?thesis
    using given
    by (simp only: list_answer_def Let_def q all option.case) (simp add: paginate_def nat_or_def nat_add_distrib)
qed

definition loaded :: "ListItem list \<Rightarrow> nat \<Rightarrow> DashState" where
  "loaded xs k = \<lparr> ds_streams = take (Suc k * 20) xs, ds_hasMore = (Suc k * 20 < length xs), ds_currentPage = Suc k \<rparr>"

lemma load_next:
  assumes "filters_accepted f" "k + 2 < 2 ^ 53" "ds_hasMore (loaded (whole_listing now d f) k)"
  shows "loadMore (list_answer now d) f (loaded (whole_listing now d f) k) = loaded (whole_listing now d f) (Suc k)"
proof -
  have "take (Suc k * 20) xs @ slice (Suc k * 20) 20 xs = take (Suc (Suc k) * 20) xs" for xs :: "ListItem list"
    using take_add [of "Suc k * 20" 20 xs] by (simp add: slice_def add.commute)
  then show ?thesis
    using assms list_answer_page [of f "Suc k" now d]
    by (simp add: loadMore_def loaded_def)
qed

lemma server_reads_first:
  assumes "filters_accepted f" "f_page f = None" "0 < n" "n \<le> 100"
  shows "listStreamsQuerySchema (server_query (list_params (f\<lparr>f_limit := Some (int n)\<rparr>))) =
    Some ((client_query f)\<lparr>lq_limit := Some (int n)\<rparr>)"
proof -
  have n53: "n < 2 ^ 53" using assms(4) by simp
  have st: "f_status f = [] \<or> f_status f \<in> set STREAM_STATUSES" and srt: "f_sort f = [] \<or> sort_field (f_sort f) \<noteq> None"
    using assms(1) by (auto simp: filters_accepted_def)
  have "shown (number_text None) = None" by (simp add: shown_def number_text_def)
  then show ?thesis
    using assms(2-4)
    by (simp add: listStreamsQuerySchema_def server_query_def get_list_params optional_text optional_None
        optional_listed [where P = "\<lambda>s. s \<in> set STREAM_STATUSES", OF st]
        optional_listed [where P = "\<lambda>s. sort_field s \<noteq> None", OF srt] optional_number [OF assms(3) n53]
        client_query_def del: not_None_eq)
qed

lemma first_answer:
  assumes "filters_accepted f" "f_page f = None"
  shows "refreshStreams (list_answer now d) f st = loaded (whole_listing now d f) 0"
proof -
  let ?raw = "server_query (list_params (f\<lparr>f_limit := Some 20\<rparr>))"
  let ?q = "(client_query f)\<lparr>lq_limit := Some 20\<rparr>"
  have q: "listStreamsQuerySchema ?raw = Some ?q"
    using server_reads_first [OF assms, of 20] by simp
  have same: "list_matches ?q = list_matches (client_query f)"
    by (simp add: fun_eq_iff list_matches_def codes_given_def asset_given_def)
  have all: "filter_list ?q (map (with_progress now) (listStreams (lq_include_archived ?q) (query_sort ?q) (query_order ?q) d)) =
      whole_listing now d f"
    by (simp only: filter_list_matches same whole_listing_def Let_def)
      (simp add: client_query_def query_sort_def query_order_def)
  have "?raw ''limit'' \<noteq> None" "?raw ''page'' = None" "lq_page ?q = None"
    using number_text_nat [of 20] assms(2)
    by (simp_all add: server_query_def get_list_params client_query_def shown_def number_text_def)
  then have "list_answer now d (list_params (f\<lparr>f_limit := Some 20\<rparr>)) =
      Some \<lparr> lr_data = take 20 (whole_listing now d f), lr_total = length (whole_listing now d f), lr_page = 1, lr_limit = 20 \<rparr>"
    by (simp only: list_answer_def Let_def q all option.case)
      (simp add: paginate_def nat_or_def slice_def PAGINATION_DEFAULT_PAGE_def)
  then show ?thesis by (simp add: refreshStreams_def loaded_def)
qed

text \<open>C25: Scrolling shows everything once: on a database that does not change, the first load and repeated
  loading of more pages, client and server together, end after finitely many pages with no page left
  and with exactly the listing the filters describe, each stream once and in the server's order.\<close>

theorem scrolling_shows_all:
  assumes "filters_accepted f" "f_page f = None" "length (whole_listing now d f) < 2 ^ 52"
  shows "\<exists>k. k * 20 \<le> length (whole_listing now d f) \<and>
    (loadMore (list_answer now d) f ^^ k) (refreshStreams (list_answer now d) f st) =
      \<lparr> ds_streams = whole_listing now d f, ds_hasMore = False, ds_currentPage = k + 1 \<rparr>"
proof -
  let ?all = "whole_listing now d f"
  have steps: "(loadMore (list_answer now d) f ^^ k) (refreshStreams (list_answer now d) f st) = loaded ?all k"
    if "k * 20 < length ?all \<or> k = 0" for k
    using that
  proof (induction k)
    case 0
    show ?case using first_answer [OF assms(1,2)] by simp
  next
    case (Suc k)
    then have more: "Suc k * 20 < length ?all" by simp
    then have "ds_hasMore (loaded ?all k)" "k + 2 < 2 ^ 53" using assms(3) by (simp_all add: loaded_def)
    with Suc more show ?case using load_next [OF assms(1)] by simp
  qed
  let ?k = "(length ?all - 1) div 20"
  have ok: "?k * 20 < length ?all \<or> ?k = 0" "length ?all \<le> Suc ?k * 20" "?k * 20 \<le> length ?all" by auto
  with steps [OF ok(1)] show ?thesis
    by (intro exI [of _ ?k]) (simp add: loaded_def not_less)
qed

definition many_streams :: Db where
  "many_streams = empty_db\<lparr>streams := map (\<lambda>i. recordToRow (sample_stream\<lparr>stream_id := nat_to_string i\<rparr>)) [0..<45]\<rparr>"

definition no_filters :: ListStreamsFilters where
  "no_filters = apiFilters EMPTY_FILTERS \<lparr> f_recipient = [], f_sender = [], f_status = [], f_asset = [], f_q = [], f_sort = [],
     f_page = None, f_limit = None \<rparr>"

lemma no_filters_match: "list_matches (client_query no_filters) i"
  by (simp add: list_matches_def client_query_def no_filters_def apiFilters_def EMPTY_FILTERS_def or_text_def
      text_holds_def text_param_def shown_def codes_given_def Let_def)

lemma length_many: "length (whole_listing 150 many_streams no_filters) = 45"
proof -
  have "length (order_rows f ord rows) = length rows" for f ord rows
    using arg_cong [OF mset_order_rows [of f ord rows], of size] by simp
  moreover have "length (filter (\<lambda>r. archived_at r = None) (streams many_streams)) = 45"
    by (simp add: many_streams_def filter_map comp_def)
  ultimately show ?thesis
    by (simp add: whole_listing_def Let_def no_filters_match listStreams_def)
qed

theorem scrolling_shows_all_witness:
  "\<exists>k. k * 20 \<le> 45 \<and>
    ds_streams ((loadMore (list_answer 150 many_streams) no_filters ^^ k)
      (refreshStreams (list_answer 150 many_streams) no_filters (loaded [] 0))) =
    whole_listing 150 many_streams no_filters \<and> length (whole_listing 150 many_streams no_filters) = 45"
proof -
  have "filters_accepted no_filters" "f_page no_filters = None"
    by (simp_all add: filters_accepted_def no_filters_def apiFilters_def EMPTY_FILTERS_def or_text_def)
  from scrolling_shows_all [OF this, of 150 many_streams "loaded [] 0"] show ?thesis
    by (auto simp: length_many)
qed

end
