(* ===== verification/Realtime.thy ===== *)
theory Realtime
  imports Validation
begin

text \<open>
  \<open>backend/src/services/websocket.ts\<close> and \<open>streamProgressBroadcaster.ts\<close>: the WebSocket clients with
  the streams they subscribed to, and the periodic broadcast of the progress of every stream. The
  server hands a frame to the transport of a client; what it handed over is kept per client.
\<close>

section \<open>Clients\<close>

record Client =
  client_id :: nat
  client_open :: bool
  subscribedStreams :: "string set"
  frames :: "json list"

text \<open>\<open>wss\<close>: \<open>None\<close> before \<open>initWebSocket\<close>.\<close>

type_synonym wsServer = "Client list option"

definition send_frame :: "json \<Rightarrow> Client \<Rightarrow> Client" where
  "send_frame j c = (if client_open c then c\<lparr>frames := frames c @ [j]\<rparr> else c)"

definition ack :: "string \<Rightarrow> string \<Rightarrow> json" where
  "ack ty sid = JObj [(''type'', JStr ty), (''streamId'', JStr sid)]"

text \<open>\<open>msg\<close> is the frame after \<open>JSON.parse\<close>, \<open>None\<close> where that throws.\<close>

definition on_message :: "json option \<Rightarrow> Client \<Rightarrow> Client" where
  "on_message msg c =
     (case msg of
        None \<Rightarrow> c
      | Some j \<Rightarrow>
          (case (obj_field j ''type'', obj_field j ''streamId'') of
             (Some (JStr ty), Some (JStr sid)) \<Rightarrow>
               if ty = ''subscribe''
               then send_frame (ack ''subscribed'' sid) (c\<lparr>subscribedStreams := insert sid (subscribedStreams c)\<rparr>)
               else if ty = ''unsubscribe''
               then send_frame (ack ''unsubscribed'' sid) (c\<lparr>subscribedStreams := subscribedStreams c - {sid}\<rparr>)
               else c
           | _ \<Rightarrow> c))"

definition new_client :: "nat \<Rightarrow> Client" where
  "new_client n = \<lparr> client_id = n, client_open = True, subscribedStreams = {}, frames = [] \<rparr>"

section \<open>Broadcasts\<close>

definition send_to_subscribers :: "string \<Rightarrow> json \<Rightarrow> wsServer \<Rightarrow> wsServer" where
  "send_to_subscribers sid j wss =
     map_option (map (\<lambda>c. if client_open c \<and> sid \<in> subscribedStreams c then send_frame j c else c)) wss"

definition progress_frame :: "string \<Rightarrow> jsnum \<Rightarrow> jsnum \<Rightarrow> int \<Rightarrow> json" where
  "progress_frame sid vested percent now =
     JObj [(''type'', JStr ''stream_progress''), (''streamId'', JStr sid), (''vestedAmount'', JNum vested),
       (''percentComplete'', JNum percent), (''timestamp'', JNum (of_int now))]"

definition broadcastStreamProgress :: "string \<Rightarrow> jsnum \<Rightarrow> jsnum \<Rightarrow> int \<Rightarrow> wsServer \<Rightarrow> wsServer" where
  "broadcastStreamProgress sid vested percent now wss =
     send_to_subscribers sid (progress_frame sid vested percent now) wss"

definition broadcastStreamEvent :: "string \<Rightarrow> string \<Rightarrow> json option \<Rightarrow> int \<Rightarrow> wsServer \<Rightarrow> wsServer" where
  "broadcastStreamEvent sid eventType data now wss =
     send_to_subscribers sid
       (JObj ([(''type'', JStr eventType), (''streamId'', JStr sid)] @ opt_field ''data'' (\<lambda>j. j) data @
          [(''timestamp'', JNum (of_int now))])) wss"

text \<open>One cycle; \<open>clocks\<close> gives the millisecond clock of the frame of each stream.\<close>

definition runBroadcastCycle :: "int \<Rightarrow> (string \<Rightarrow> int) \<Rightarrow> Db \<Rightarrow> wsServer \<Rightarrow> wsServer" where
  "runBroadcastCycle now clocks d wss =
     fold (\<lambda>s w. let p = calculateProgress s now in
             broadcastStreamProgress (stream_id s) (vestedAmount p) (percentComplete p) (clocks (stream_id s)) w)
       (listStreams False ByCreatedAt Desc d) wss"

section \<open>The server as a sequence of events\<close>

datatype wsEvent =
    Connect nat
  | Message nat "json option"
  | Close nat
  | Progress string jsnum jsnum int
  | StreamNews string string "json option" int

definition on_client :: "nat \<Rightarrow> (Client \<Rightarrow> Client) \<Rightarrow> Client list \<Rightarrow> Client list" where
  "on_client n f cs = map (\<lambda>c. if client_id c = n then f c else c) cs"

text \<open>A closed client is no longer written to; the server's set drops it, here it stays to be looked at.\<close>

fun ws_step :: "wsEvent \<Rightarrow> Client list \<Rightarrow> Client list" where
  "ws_step (Connect n) cs = (if n \<in> client_id ` set cs then cs else cs @ [new_client n])"
| "ws_step (Message n msg) cs = on_client n (\<lambda>c. if client_open c then on_message msg c else c) cs"
| "ws_step (Close n) cs = on_client n (\<lambda>c. c\<lparr>client_open := False\<rparr>) cs"
| "ws_step (Progress sid v p t) cs = the (broadcastStreamProgress sid v p t (Some cs))"
| "ws_step (StreamNews sid ty j t) cs = the (broadcastStreamEvent sid ty j t (Some cs))"

definition ws_run :: "wsEvent list \<Rightarrow> Client list" where
  "ws_run evs = fold ws_step evs []"

text \<open>The stream a frame is about.\<close>

definition about :: "json \<Rightarrow> string option" where
  "about j = as_string (obj_field j ''streamId'')"

text \<open>Whether the client asked for the stream, or to be rid of it.\<close>

fun asks_for :: "nat \<Rightarrow> string \<Rightarrow> wsEvent \<Rightarrow> bool" where
  "asks_for n sid (Message m (Some j)) =
     (m = n \<and> about j = Some sid \<and>
      (obj_field j ''type'' = Some (JStr ''subscribe'') \<or> obj_field j ''type'' = Some (JStr ''unsubscribe'')))"
| "asks_for n sid _ = False"

definition unaware :: "string \<Rightarrow> Client \<Rightarrow> bool" where
  "unaware sid c = (sid \<notin> subscribedStreams c \<and> (\<forall>j \<in> set (frames c). about j \<noteq> Some sid))"

lemma about_simps [simp]:
  "about (ack ty sid) = Some sid" "about (progress_frame sid v p t) = Some sid"
  "about (JObj ((''type'', JStr ty) # (''streamId'', JStr sid) # rest)) = Some sid"
  by (simp_all add: about_def ack_def progress_frame_def)

lemma unaware_send: "unaware sid c \<Longrightarrow> about j \<noteq> Some sid \<Longrightarrow> unaware sid (send_frame j c)"
  by (simp add: unaware_def send_frame_def)

lemma unaware_message:
  assumes "unaware sid c" "\<not> asks_for (client_id c) sid (Message (client_id c) msg)"
  shows "unaware sid (on_message msg c)"
proof (cases msg)
  case (Some j)
  with assms show ?thesis
    by (auto simp: on_message_def about_def unaware_def send_frame_def ack_def
        split: option.splits json.splits)
qed (use assms in \<open>simp add: on_message_def\<close>)

lemma unaware_broadcast:
  assumes "\<forall>c \<in> set cs. client_id c = n \<longrightarrow> unaware sid c" "about j = Some k"
  shows "\<forall>c \<in> set (the (send_to_subscribers k j (Some cs))). client_id c = n \<longrightarrow> unaware sid c"
  using assms by (auto simp: send_to_subscribers_def send_frame_def unaware_def)

lemma unaware_step:
  assumes "\<forall>c \<in> set cs. client_id c = n \<longrightarrow> unaware sid c" "\<not> asks_for n sid e"
  shows "\<forall>c \<in> set (ws_step e cs). client_id c = n \<longrightarrow> unaware sid c"
proof (cases e)
  case (Message m msg)
  have "client_id (on_message msg c) = client_id c" for c
    by (simp add: on_message_def send_frame_def split: option.splits json.splits)
  then show ?thesis
    using assms unaware_message [of sid _ msg] by (auto simp: Message on_client_def split: if_splits)
next
  case (Progress k v p t)
  then show ?thesis
    using unaware_broadcast [OF assms(1), of "progress_frame k v p t" k] by (simp add: broadcastStreamProgress_def)
next
  case (StreamNews k ty j t)
  show ?thesis
    unfolding StreamNews ws_step.simps broadcastStreamEvent_def
    by (rule unaware_broadcast [OF assms(1)]) simp
qed (use assms in \<open>auto simp: on_client_def new_client_def unaware_def\<close>)

text \<open>C34: Per-stream frames reach subscribers only: whatever connections, messages, disconnections and
  broadcasts a server sees in whatever order, a client that never named a stream in a subscribe or
  unsubscribe message is never sent a frame about that stream.\<close>

theorem no_frames_without_subscription:
  assumes "\<forall>e \<in> set evs. \<not> asks_for n sid e" "c \<in> set (ws_run evs)" "client_id c = n" "j \<in> set (frames c)"
  shows "about j \<noteq> Some sid"
proof -
  have "\<forall>c \<in> set (fold ws_step evs cs). client_id c = n \<longrightarrow> unaware sid c"
    if "\<forall>c \<in> set cs. client_id c = n \<longrightarrow> unaware sid c" for cs
    using assms(1) that
  proof (induction evs arbitrary: cs)
    case (Cons e evs)
    then show ?case using unaware_step [of cs n sid e] by simp
  qed simp
  from this [of "[]"] show ?thesis
    using assms(2-4) by (auto simp: ws_run_def unaware_def)
qed

definition ws_subscribe :: "string \<Rightarrow> json" where
  "ws_subscribe sid = JObj [(''type'', JStr ''subscribe''), (''streamId'', JStr sid)]"

definition sample_events :: "wsEvent list" where
  "sample_events = [Connect 1, Connect 2, Message 1 (Some (ws_subscribe ''7'')), Message 2 (Some (ws_subscribe ''8'')),
     Progress ''7'' 10 50 1000, StreamNews ''8'' ''canceled'' None 1001, Close 1, Progress ''7'' 11 55 2000]"

theorem no_frames_without_subscription_witness:
  "\<not> list_ex (\<lambda>c. client_id c = 2 \<and> list_ex (\<lambda>j. about j = Some ''7'') (frames c)) (ws_run sample_events)"
proof -
  have "\<forall>e \<in> set sample_events. \<not> asks_for 2 ''7'' e"
    by (simp add: sample_events_def ws_subscribe_def about_def)
  then show ?thesis
    using no_frames_without_subscription [of sample_events 2 "''7''"] by (auto simp: list_ex_iff)
qed

section \<open>One cycle\<close>

text \<open>The frame of a cycle for a stream.\<close>

definition cycle_frame :: "int \<Rightarrow> (string \<Rightarrow> int) \<Rightarrow> StreamRecord \<Rightarrow> json" where
  "cycle_frame now clocks s =
     (let p = calculateProgress s now in
      progress_frame (stream_id s) (vestedAmount p) (percentComplete p) (clocks (stream_id s)))"

definition cycle_client :: "int \<Rightarrow> (string \<Rightarrow> int) \<Rightarrow> StreamRecord list \<Rightarrow> Client \<Rightarrow> Client" where
  "cycle_client now clocks ss c =
     (if client_open c
      then c\<lparr>frames := frames c @ map (cycle_frame now clocks)
             (filter (\<lambda>s. stream_id s \<in> subscribedStreams c) ss)\<rparr>
      else c)"

lemma cycle_fold:
  "fold (\<lambda>s w. let p = calculateProgress s now in
       broadcastStreamProgress (stream_id s) (vestedAmount p) (percentComplete p) (clocks (stream_id s)) w) ss w =
     map_option (map (cycle_client now clocks ss)) w"
proof (induction ss arbitrary: w)
  case Nil
  have "cycle_client now clocks [] = (\<lambda>c. c)" by (simp add: cycle_client_def fun_eq_iff)
  then show ?case by (cases w) simp_all
next
  case (Cons s ss)
  have "cycle_client now clocks ss
      (if client_open c \<and> stream_id s \<in> subscribedStreams c then send_frame (cycle_frame now clocks s) c else c) =
      cycle_client now clocks (s # ss) c" for c
    by (simp add: cycle_client_def send_frame_def)
  moreover have "broadcastStreamProgress (stream_id s) (vestedAmount p) (percentComplete p) (clocks (stream_id s)) w =
      map_option (map (\<lambda>c. if client_open c \<and> stream_id s \<in> subscribedStreams c
        then send_frame (cycle_frame now clocks s) c else c)) w" if "p = calculateProgress s now" for p
    by (simp only: that broadcastStreamProgress_def send_to_subscribers_def cycle_frame_def Let_def)
  ultimately show ?case
    using Cons by (simp add: Let_def option.map_comp comp_def)
qed

text \<open>A broadcast cycle sends every open client exactly one frame for each stream that is not archived and
  that it subscribed to, with the progress of that moment and newest stream first, and nothing else;
  closed clients get nothing, and the subscriptions stay.\<close>

theorem cycle_serves_subscribers:
  "runBroadcastCycle now clocks d wss =
     map_option (map (cycle_client now clocks (listStreams False ByCreatedAt Desc d))) wss"
  by (simp only: runBroadcastCycle_def cycle_fold)

end
