(* ===== verification/ClientView.thy ===== *)
theory ClientView
  imports ClientDashboard Realtime
begin

text \<open>
  What the browser client makes of the answers: the recent events of a sender (\<open>frontend/src/services/api.ts\<close>),
  progress frames (\<open>pages/DashboardPage.tsx\<close>), selection (\<open>components/StreamsTable.tsx\<close>), badges
  (\<open>utils/streamHealthBadges.ts\<close>), the timeline, the figures of the dashboards and the window of the
  chart. The events and progresses are the ones the server's handlers produce.
\<close>

section \<open>Recent events of a sender\<close>

text \<open>
  \<open>arrived\<close> are the streams of the sender in the order in which their histories arrive; a history that
  cannot be fetched is left out.
\<close>

definition getSenderEvents :: "(string \<Rightarrow> StreamEvent list option) \<Rightarrow> string list \<Rightarrow> nat \<Rightarrow> StreamEvent list" where
  "getSenderEvents history arrived most =
     take most (sort_key (\<lambda>e. - se_timestamp e)
       (concat (map (\<lambda>sid. case history sid of None \<Rightarrow> [] | Some es \<Rightarrow> es) arrived)))"

text \<open>Taking the first few of each sorted list is enough to find the first few of them all.\<close>

lemma sorted_desc: "sorted_wrt (\<lambda>a b. f b \<le> f a) (sort_key (\<lambda>x. - (f x :: int)) xs)"
  using sorted_sort_key [of "\<lambda>x. - f x" xs] by (simp add: sorted_wrt_map)

lemma top_before:
  assumes "sorted_wrt (\<lambda>a b. (f b :: int) \<le> f a) s" "x \<in> set (take most s)"
  shows "length (filter (\<lambda>y. f x < f y) s) < most"
proof -
  obtain i where i: "i < most" "i < length s" "x = s ! i"
    using assms(2) by (auto simp: in_set_conv_nth)
  have "f y \<le> f x" if y_late: "y \<in> set (drop i s)" for y
  proof -
    obtain j where j: "j < length (drop i s)" "y = drop i s ! j"
      using y_late by (auto simp only: in_set_conv_nth)
    have y: "y = s ! (i + j)"
      unfolding j(2) by (rule nth_drop) (use i(2) in linarith)
    have len: "i + j < length s" using j(1) by simp
    show ?thesis
    proof (cases "j = 0")
      case False
      then have "f (s ! (i + j)) \<le> f (s ! i)"
        using len by (intro sorted_wrt_nth_less [OF assms(1)]) simp_all
      then show ?thesis by (simp only: y i(3))
    next
      case True
      then show ?thesis by (simp only: y i(3) add_0_right order_refl)
    qed
  qed
  then have "filter (\<lambda>y. f x < f y) (drop i s) = []" by (simp add: filter_eq_nil_iff not_less)
  then have "filter (\<lambda>y. f x < f y) s = filter (\<lambda>y. f x < f y) (take i s)"
    by (metis append_Nil2 append_take_drop_id filter_append)
  moreover have "length (filter (\<lambda>y. f x < f y) (take i s)) \<le> i"
    using length_filter_le [of _ "take i s"] by (metis le_trans length_take min.cobounded2)
  ultimately show ?thesis using i(1) by simp
qed

lemma top_of_tops:
  assumes "most \<le> m" "\<forall>xs \<in> set xss. sorted_wrt (\<lambda>a b. (f b :: int) \<le> f a) xs"
    and "e \<in> set (concat xss)" "e \<notin> set (take most (sort_key (\<lambda>x. - f x) (concat (map (take m) xss))))"
    and "x \<in> set (take most (sort_key (\<lambda>x. - f x) (concat (map (take m) xss))))"
  shows "f e \<le> f x"
proof (rule ccontr)
  let ?c = "concat (map (take m) xss)"
  let ?s = "sort_key (\<lambda>x. - f x) ?c"
  assume "\<not> f e \<le> f x"
  then have less: "f x < f e" by simp
  show False
  proof (cases "e \<in> set ?c")
    case True
    then have "e \<in> set ?s" by (simp only: set_sort)
    then have "e \<in> set (take most ?s) \<union> set (drop most ?s)" by (metis append_take_drop_id set_append)
    with assms(4) have "e \<in> set (drop most ?s)" by simp
    moreover have "sorted_wrt (\<lambda>a b. f b \<le> f a) (take most ?s @ drop most ?s)" using sorted_desc by simp
    ultimately have "f e \<le> f x"
      using assms(5) unfolding sorted_wrt_append by blast
    with less show False by simp
  next
    case False
    obtain xs where xs: "xs \<in> set xss" "e \<in> set xs" using assms(3) by auto
    with False have "e \<notin> set (take m xs)" by auto
    with xs(2) have late: "e \<in> set (drop m xs)" by (metis Un_iff append_take_drop_id set_append)
    then have len: "m < length xs" by (metis drop_all empty_iff list.set(1) not_less)
    have "sorted_wrt (\<lambda>a b. f b \<le> f a) (take m xs @ drop m xs)" using assms(2) xs(1) by simp
    then have "\<forall>y \<in> set (take m xs). f e \<le> f y"
      using late by (auto simp: sorted_wrt_append simp del: append_take_drop_id)
    with less have "filter (\<lambda>y. f x < f y) (take m xs) = take m xs" by (fastforce intro: filter_True)
    then have "m \<le> length (filter (\<lambda>y. f x < f y) (take m xs))" using len by simp
    also have "\<dots> \<le> length (filter (\<lambda>y. f x < f y) ?c)"
      using split_list [OF xs(1)] by auto
    also have "\<dots> = length (filter (\<lambda>y. f x < f y) ?s)"
      by (metis mset_filter mset_sort size_mset)
    also have "\<dots> < most" by (rule top_before [OF sorted_desc assms(5)])
    finally show False using assms(1) by simp
  qed
qed

lemma length_tops:
  assumes "most \<le> m"
  shows "min most (length (concat (map (take m) xss))) = min most (length (concat xss))"
proof -
  have "length (concat (map (take m) xss)) \<le> length (concat xss) \<and>
      (length (concat (map (take m) xss)) < most \<longrightarrow> length (concat (map (take m) xss)) = length (concat xss))"
    using assms by (induction xss) auto
  then show ?thesis by linarith
qed

text \<open>All events of a stream, newest first, when none is unreadable.\<close>

definition whole_history :: "string \<Rightarrow> Db \<Rightarrow> StreamEvent list option" where
  "whole_history sid d = getStreamHistory sid (length (stream_events d)) 0 Desc d"

lemma rowToEvent_timestamp: "rowToEvent r = Some e \<Longrightarrow> se_timestamp e = timestamp r"
  by (auto simp: rowToEvent_def Let_def split: option.splits if_splits)

lemma those_Some_iff: "those ms = Some xs \<longleftrightarrow> ms = map Some xs"
  by (induction ms arbitrary: xs) (auto split: option.splits)

lemma order_events_desc: "sorted_wrt (\<lambda>a b. timestamp b \<le> timestamp a) (order_events Desc rows)"
proof -
  have "sorted_wrt (\<lambda>a b. event_order b \<le> event_order a) (order_events Desc rows)"
    using sorted_sort_key [of event_order rows]
    by (simp add: order_events_def sorted_wrt_map sorted_wrt_rev)
  then show ?thesis
    by (rule sorted_wrt_mono_rel [rotated]) (auto simp: event_order_def less_eq_prod_def)
qed

lemma history_sorted:
  assumes "getStreamHistory sid n 0 Desc d = Some es"
  shows "sorted_wrt (\<lambda>a b. se_timestamp b \<le> se_timestamp a) es"
proof -
  let ?rows = "take n (order_events Desc (filter (\<lambda>e. ev_stream_id e = sid) (stream_events d)))"
  have m: "map rowToEvent ?rows = map Some es"
    using assms by (simp add: getStreamHistory_def slice_def those_Some_iff)
  then have len: "length ?rows = length es" by (metis length_map)
  have "map se_timestamp es = map timestamp ?rows"
  proof (rule nth_equalityI)
    fix i assume i: "i < length (map se_timestamp es)"
    then have "rowToEvent (?rows ! i) = Some (es ! i)"
      using arg_cong [OF m, of "\<lambda>l. l ! i"] len by simp
    then show "map se_timestamp es ! i = map timestamp ?rows ! i"
      using i len by (simp add: rowToEvent_timestamp)
  qed (use len in simp)
  moreover have "sorted_wrt (\<lambda>a b. timestamp b \<le> timestamp a) ?rows"
    by (rule sorted_wrt_take [OF order_events_desc])
  ultimately have "sorted_wrt (\<lambda>a b. b \<le> a) (map se_timestamp es)"
    by (simp only: sorted_wrt_map)
  then show ?thesis by (simp only: sorted_wrt_map)
qed

lemma history_page:
  assumes "whole_history sid d = Some es"
  shows "getStreamHistory sid n 0 Desc d = Some (take n es)"
proof -
  let ?rows = "order_events Desc (filter (\<lambda>e. ev_stream_id e = sid) (stream_events d))"
  have "length ?rows \<le> length (stream_events d)" by (simp add: order_events_def)
  then have "map rowToEvent ?rows = map Some es"
    using assms by (simp add: whole_history_def getStreamHistory_def slice_def those_Some_iff)
  then have "map rowToEvent (take n ?rows) = map Some (take n es)" by (metis take_map)
  then show ?thesis by (simp add: getStreamHistory_def slice_def those_Some_iff)
qed

text \<open>C28: The recent events of a sender are the most recent ones of all its streams, although only the first
  twenty of each stream are fetched: whatever the order in which the answers of the server arrive, up to
  twenty events come out, as many as there are, newest first, all of them events of the streams, and
  no event that is left out is newer than one that is shown.\<close>

theorem sender_events_latest:
  assumes "most \<le> 20" "\<forall>sid \<in> set arrived. whole_history sid d = Some (full sid)"
    and "r = getSenderEvents (\<lambda>sid. getStreamHistory sid 20 0 Desc d) arrived most"
  shows "length r = min most (length (concat (map full arrived))) \<and>
    sorted_wrt (\<lambda>a b. se_timestamp b \<le> se_timestamp a) r \<and> set r \<subseteq> set (concat (map full arrived)) \<and>
    (\<forall>e \<in> set (concat (map full arrived)) - set r. \<forall>x \<in> set r. se_timestamp e \<le> se_timestamp x)"
proof -
  let ?xss = "map full arrived"
  let ?c = "concat (map (take 20) ?xss)"
  have pages: "map (\<lambda>sid. case getStreamHistory sid 20 0 Desc d of None \<Rightarrow> [] | Some es \<Rightarrow> es) arrived = map (take 20) ?xss"
    using assms(2) by (simp add: history_page)
  then have r: "r = take most (sort_key (\<lambda>e. - se_timestamp e) ?c)"
    by (simp only: assms(3) getSenderEvents_def)
  have sorted: "\<forall>xs \<in> set ?xss. sorted_wrt (\<lambda>a b. se_timestamp b \<le> se_timestamp a) xs"
    using assms(2) history_sorted by (auto simp: whole_history_def)
  have "length r = min most (length (concat ?xss))"
    using length_tops [OF assms(1), of ?xss] by (simp add: r)
  moreover have "sorted_wrt (\<lambda>a b. se_timestamp b \<le> se_timestamp a) r"
    unfolding r by (rule sorted_wrt_take [OF sorted_desc])
  moreover have "set r \<subseteq> set (concat ?xss)"
  proof
    fix x assume "x \<in> set r"
    then have "x \<in> set (sort_key (\<lambda>e. - se_timestamp e) ?c)" unfolding r by (rule in_set_takeD)
    then have "x \<in> set ?c" by (simp only: set_sort)
    then show "x \<in> set (concat ?xss)" by (auto dest: in_set_takeD)
  qed
  moreover have "se_timestamp e \<le> se_timestamp x" if "e \<in> set (concat ?xss) - set r" "x \<in> set r" for e x
    using top_of_tops [OF assms(1) sorted] that unfolding r by blast
  ultimately show ?thesis by blast
qed

definition two_histories :: Db where
  "two_histories = empty_db\<lparr>stream_events := map (\<lambda>(i, sid, ts). (mk_event sid ''claimed'' ts None None None None)\<lparr>event_id := i\<rparr>)
     [(1, ''1'', 10), (2, ''2'', 20), (3, ''1'', 30)]\<rparr>"

definition both :: "string \<Rightarrow> StreamEvent list" where
  "both sid = (case whole_history sid two_histories of None \<Rightarrow> [] | Some es \<Rightarrow> es)"

lemma both_readable: "list_all (\<lambda>sid. whole_history sid two_histories = Some (both sid)) [''2'', ''1'']"
proof -
  have "list_all (\<lambda>sid. \<not> Option.is_none (whole_history sid two_histories)) [''2'', ''1'']"
    by code_simp
  then show ?thesis by (auto simp: both_def Option.is_none_def)
qed

theorem sender_events_latest_witness:
  "length (getSenderEvents (\<lambda>sid. getStreamHistory sid 20 0 Desc two_histories) [''2'', ''1''] 2) = 2 \<and>
   map se_timestamp (getSenderEvents (\<lambda>sid. getStreamHistory sid 20 0 Desc two_histories) [''2'', ''1''] 2) = [30, 20]"
proof -
  have "length (concat (map both [''2'', ''1''])) = 3" by code_simp
  then have "length (getSenderEvents (\<lambda>sid. getStreamHistory sid 20 0 Desc two_histories) [''2'', ''1''] 2) = 2"
    using sender_events_latest [of 2 "[''2'', ''1'']" two_histories both, OF _ _ refl] both_readable
    by (simp add: list_all_iff)
  moreover have "map se_timestamp (getSenderEvents (\<lambda>sid. getStreamHistory sid 20 0 Desc two_histories) [''2'', ''1''] 2) = [30, 20]"
    by code_simp
  ultimately show ?thesis ..
qed

end
