(* ===== verification/ClientTables.thy ===== *)
theory ClientTables
  imports ClientView MutationRoutes
begin

text \<open>
  The streams on the screen: progress frames arriving at \<open>frontend/src/pages/DashboardPage.tsx\<close> and
  \<open>components/StreamsTable.tsx\<close>, the selection of the table and its bulk cancellation, the badges of
  \<open>utils/streamHealthBadges.ts\<close>, the event filter of \<open>components/StreamTimeline.tsx\<close>, and the figures
  and tables of the sender and recipient dashboards.
\<close>

section \<open>Frames\<close>

text \<open>
  What the effect on \<open>lastMessage\<close> does with a frame: nothing, new streams, or a reload after an optional
  toast. A field \<open>type\<close> that is no text, which the declared type of the frame excludes, counts as absent, and
  so does a figure that is no number.
\<close>

datatype frameEffect = NoEffect | SetStreams "ListItem list" | Reload "(string \<times> string) option"

definition number_or :: "jsnum \<Rightarrow> json option \<Rightarrow> jsnum" where
  "number_or old v = (case v of Some (JNum n) \<Rightarrow> n | _ \<Rightarrow> old)"

definition with_figures :: "jsnum \<Rightarrow> jsnum \<Rightarrow> ListItem \<Rightarrow> ListItem" where
  "with_figures vested percent i =
     i\<lparr>item_progress := (item_progress i)\<lparr>vestedAmount := vested, percentComplete := percent\<rparr>\<rparr>"

definition apply_progress :: "json \<Rightarrow> ListItem list \<Rightarrow> ListItem list" where
  "apply_progress frame items =
     map (\<lambda>i. if obj_field frame ''streamId'' = Some (JStr (stream_id (item_stream i)))
              then with_figures (number_or (vestedAmount (item_progress i)) (obj_field frame ''vestedAmount''))
                     (number_or (percentComplete (item_progress i)) (obj_field frame ''percentComplete'')) i
              else i) items"

definition on_frame :: "json \<Rightarrow> ListItem list \<Rightarrow> frameEffect" where
  "on_frame frame items =
     (let eventKind = (case obj_field frame ''type'' of Some (JStr s) \<Rightarrow> s | _ \<Rightarrow> []) in
      if eventKind = [] then NoEffect
      else if eventKind = ''stream_progress'' then SetStreams (apply_progress frame items)
      else if includes_str eventKind ''created'' then Reload (Some (''Stream created'', ''success''))
      else if includes_str eventKind ''cancel'' then Reload (Some (''Stream canceled'', ''info''))
      else if includes_str eventKind ''complete'' then Reload (Some (''Stream completed'', ''success''))
      else Reload None)"

text \<open>The streams after a frame, before any reload is answered.\<close>

definition show_frame :: "json \<Rightarrow> ListItem list \<Rightarrow> ListItem list" where
  "show_frame frame items = (case on_frame frame items of SetStreams xs \<Rightarrow> xs | _ \<Rightarrow> items)"

text \<open>What a cycle of the broadcaster should leave of a stream on the screen.\<close>

definition live_item :: "int \<Rightarrow> StreamRecord list \<Rightarrow> ListItem \<Rightarrow> ListItem" where
  "live_item now ss i =
     (case find (\<lambda>s. stream_id s = stream_id (item_stream i)) ss of
        None \<Rightarrow> i
      | Some s \<Rightarrow> with_figures (vestedAmount (calculateProgress s now)) (percentComplete (calculateProgress s now)) i)"

lemma item_stream_with_figures [simp]: "item_stream (with_figures v p i) = item_stream i"
  by (simp add: with_figures_def)

lemma show_cycle_frame:
  "show_frame (cycle_frame now clocks s) items = map (live_item now [s]) items"
  by (simp add: show_frame_def on_frame_def cycle_frame_def progress_frame_def apply_progress_def live_item_def
      number_or_def Let_def del: calculateProgress_sel)

lemma live_item_Cons:
  assumes "stream_id s \<notin> stream_id ` set ss"
  shows "live_item now ss (live_item now [s] i) = live_item now (s # ss) i"
proof (cases "stream_id s = stream_id (item_stream i)")
  case True
  then have "find (\<lambda>s. stream_id s = stream_id (item_stream i)) ss = None"
    using assms by (metis (mono_tags, lifting) find_None_iff image_eqI)
  then show ?thesis using True by (simp add: live_item_def)
qed (simp add: live_item_def)

lemma show_cycle_frames:
  "distinct (map stream_id ss) \<Longrightarrow>
     fold show_frame (map (cycle_frame now clocks) ss) items = map (live_item now ss) items"
proof (induction ss arbitrary: items)
  case Nil
  have "live_item now [] = (\<lambda>i. i)" by (simp add: live_item_def fun_eq_iff)
  then show ?case by simp
next
  case (Cons s ss)
  then show ?case by (simp add: show_cycle_frame live_item_Cons comp_def)
qed

lemma listed_distinct:
  assumes "distinct (map row_id (streams d))"
  shows "distinct (map stream_id (listStreams False ByCreatedAt Desc d))"
proof -
  let ?rows = "filter (\<lambda>r. archived_at r = None) (streams d)"
  have ids: "map stream_id (map rowToRecord rs) = map row_id rs" for rs
    by (induction rs) simp_all
  have "mset (map row_id (order_rows ByCreatedAt Desc ?rows)) = mset (map row_id ?rows)"
    by (simp add: mset_order_rows)
  moreover have "distinct (map row_id ?rows)" using assms by (rule distinct_map_filter)
  ultimately have "distinct (map row_id (order_rows ByCreatedAt Desc ?rows))"
    using mset_eq_imp_distinct_iff by blast
  then show ?thesis by (simp only: listStreams_def if_False ids)
qed


definition one_stream :: Db where
  "one_stream = empty_db\<lparr>streams := [recordToRow sample_stream]\<rparr>"

definition watcher :: Client where
  "watcher = (new_client 1)\<lparr>subscribedStreams := {''7''}\<rparr>"

definition watched :: Client where
  "watched = cycle_client 150 (\<lambda>k. 150000) (listStreams False ByCreatedAt Desc one_stream) watcher"


section \<open>Frames at the table\<close>

text \<open>\<open>streamProgressUpdates\<close>; a progress is kept as the JSON value it arrives as.\<close>

definition table_message :: "json \<Rightarrow> (string \<Rightarrow> json option) \<Rightarrow> (string \<Rightarrow> json option)" where
  "table_message frame updates =
     (case (obj_field frame ''type'', obj_field frame ''streamId'', obj_field frame ''progress'') of
        (Some (JStr ty), Some (JStr sid), p) \<Rightarrow>
          if ty = ''stream_progress'' \<and> sid \<noteq> [] \<and> truthy p then updates(sid := p) else updates
      | _ \<Rightarrow> updates)"

text \<open>
  None of the frames the server sends has the field the table waits for: it never updates a row. An event may
  carry any data.
\<close>

lemma table_ignores_progress: "table_message (progress_frame sid v p t) updates = updates"
  by (simp add: table_message_def progress_frame_def)

lemma table_ignores_events:
  "table_message (JObj ([(''type'', JStr ty), (''streamId'', JStr sid)] @ opt_field ''data'' (\<lambda>j. j) data @
     [(''timestamp'', JNum t)])) updates = updates"
  by (cases data) (simp_all add: table_message_def opt_field_def)

section \<open>The selection of the table\<close>

text \<open>A JavaScript \<open>Set\<close> keeps the order of insertion: it is a list without repetitions.\<close>

record TableState =
  rows :: "ListItem list"
  selected :: "string list"

definition row_ids :: "ListItem list \<Rightarrow> string list" where
  "row_ids items = map (\<lambda>i. stream_id (item_stream i)) items"

definition isStreamSelectable :: "ListItem \<Rightarrow> bool" where
  "isStreamSelectable i = (status (item_progress i) = Active \<or> status (item_progress i) = Scheduled)"

definition selectableIds :: "ListItem list \<Rightarrow> string list" where
  "selectableIds items = row_ids (filter isStreamSelectable items)"

definition allSelectableSelected :: "TableState \<Rightarrow> bool" where
  "allSelectableSelected st =
     (selectableIds (rows st) \<noteq> [] \<and> list_all (\<lambda>k. k \<in> set (selected st)) (selectableIds (rows st)))"

definition add_to :: "string \<Rightarrow> string list \<Rightarrow> string list" where
  "add_to k ks = (if k \<in> set ks then ks else ks @ [k])"

definition handleCheckboxToggle :: "string \<Rightarrow> TableState \<Rightarrow> TableState" where
  "handleCheckboxToggle k st =
     st\<lparr>selected := (if k \<in> set (selected st) then removeAll k (selected st) else selected st @ [k])\<rparr>"

definition handleSelectAllToggle :: "TableState \<Rightarrow> TableState" where
  "handleSelectAllToggle st =
     st\<lparr>selected := fold (if allSelectableSelected st then removeAll else add_to) (selectableIds (rows st)) (selected st)\<rparr>"

definition clear_selection :: "TableState \<Rightarrow> TableState" where
  "clear_selection st = st\<lparr>selected := []\<rparr>"

text \<open>New streams, and the effect that drops what is no longer among them.\<close>

definition new_rows :: "ListItem list \<Rightarrow> TableState \<Rightarrow> TableState" where
  "new_rows items st = \<lparr> rows = items, selected = filter (\<lambda>k. k \<in> set (row_ids items)) (selected st) \<rparr>"

text \<open>
  \<open>cancel\<close> asks the server to cancel one stream; whether it refuses is only logged. The selection is the one
  of the click, the state the one after the last answer.
\<close>

definition handleBulkCancel :: "(string \<Rightarrow> 'w \<Rightarrow> bool \<times> 'w) \<Rightarrow> string list \<Rightarrow> TableState \<times> 'w \<Rightarrow> TableState \<times> 'w" where
  "handleBulkCancel cancel idsToCancel s =
     (if idsToCancel = [] then s
      else (clear_selection (fst s), fold (\<lambda>k w. snd (cancel k w)) idsToCancel (snd s)))"

text \<open>What a user and the polling do to a table; a row has a checkbox of its own.\<close>

inductive table_step :: "TableState \<Rightarrow> TableState \<Rightarrow> bool" where
  Tick: "k \<in> set (row_ids (rows st)) \<Longrightarrow> table_step st (handleCheckboxToggle k st)"
| TickAll: "table_step st (handleSelectAllToggle st)"
| Escape: "table_step st (clear_selection st)"
| Arrive: "table_step st (new_rows items st)"

inductive table_reaches :: "TableState \<Rightarrow> bool" where
  Empty: "table_reaches \<lparr> rows = [], selected = [] \<rparr>"
| Step: "table_reaches st \<Longrightarrow> table_step st st' \<Longrightarrow> table_reaches st'"

inductive_cases table_stepE: "table_step st st'"

definition selection_ok :: "TableState \<Rightarrow> bool" where
  "selection_ok st = (distinct (selected st) \<and> set (selected st) \<subseteq> set (row_ids (rows st)))"

lemma fold_removeAll: "fold removeAll ks xs = filter (\<lambda>x. x \<notin> set ks) xs"
proof (induction ks arbitrary: xs)
  case (Cons k ks)
  have "filter (\<lambda>x. x \<notin> set ks) (removeAll k xs) = filter (\<lambda>x. x \<notin> set (k # ks)) xs"
    by (induction xs) auto
  then show ?case by (simp add: Cons)
qed simp

lemma fold_add_to: "set (fold add_to ks xs) = set ks \<union> set xs" "distinct xs \<Longrightarrow> distinct (fold add_to ks xs)"
  by (induction ks arbitrary: xs) (auto simp: add_to_def)

lemma selectable_shown: "set (selectableIds items) \<subseteq> set (row_ids items)"
  by (auto simp: selectableIds_def row_ids_def)

lemma table_step_ok: "table_step st st' \<Longrightarrow> selection_ok st \<Longrightarrow> selection_ok st'"
proof (induction rule: table_step.induct)
  case (Tick k st)
  then show ?case by (auto simp: selection_ok_def handleCheckboxToggle_def distinct_removeAll)
next
  case (TickAll st)
  then show ?case
    using selectable_shown [of "rows st"]
    by (auto simp: selection_ok_def handleSelectAllToggle_def fold_removeAll fold_add_to)
qed (auto simp: selection_ok_def clear_selection_def new_rows_def)

text \<open>Bulk cancellation asks for what is on the screen: however rows were ticked, all ticked, unticked and
  reloaded, the selection names streams that are shown, each once, so that a bulk cancellation sends one
  request for each of them, and ticking all then selects every stream that can be selected, or none of them.\<close>

theorem selection_is_shown:
  assumes "table_reaches st"
  shows "distinct (selected st) \<and> set (selected st) \<subseteq> set (row_ids (rows st)) \<and>
    snd (handleBulkCancel (\<lambda>k sent. (True, sent @ [k])) (selected st) (st, [])) = selected st \<and>
    (let st' = handleSelectAllToggle st in
     if allSelectableSelected st then set (selected st') \<inter> set (selectableIds (rows st)) = {}
     else set (selectableIds (rows st)) \<subseteq> set (selected st'))"
proof -
  have ok: "selection_ok st"
    using assms
  proof (induction rule: table_reaches.induct)
    case Empty
    show ?case by (simp add: selection_ok_def)
  qed (use table_step_ok in blast)
  have "fold (\<lambda>k sent. sent @ [k]) ks acc = acc @ ks" for ks acc :: "string list"
    by (induction ks arbitrary: acc) simp_all
  then have "snd (handleBulkCancel (\<lambda>k sent. (True, sent @ [k])) (selected st) (st, [])) = selected st"
    by (simp add: handleBulkCancel_def)
  moreover have "if allSelectableSelected st then set (selected (handleSelectAllToggle st)) \<inter> set (selectableIds (rows st)) = {}
      else set (selectableIds (rows st)) \<subseteq> set (selected (handleSelectAllToggle st))"
    by (auto simp: handleSelectAllToggle_def fold_removeAll fold_add_to)
  ultimately show ?thesis using ok by (simp only: selection_ok_def Let_def)
qed

definition ticked :: TableState where
  "ticked = handleCheckboxToggle ''7'' (new_rows [with_progress 150 sample_stream] \<lparr> rows = [], selected = [] \<rparr>)"

lemma ticked_reached: "table_reaches ticked"
proof -
  let ?st = "new_rows [with_progress 150 sample_stream] \<lparr> rows = [], selected = [] \<rparr>"
  have "table_reaches ?st" by (rule Step [OF Empty Arrive])
  moreover have "''7'' \<in> set (row_ids (rows ?st))"
    by (simp add: new_rows_def row_ids_def with_progress_def sample_stream_def)
  ultimately show ?thesis unfolding ticked_def by (rule Step [OF _ Tick])
qed

theorem selection_is_shown_witness:
  "distinct (selected ticked) \<and> selected ticked = [''7''] \<and>
   snd (handleBulkCancel (\<lambda>k sent. (True, sent @ [k])) (selected ticked) (ticked, [])) = [''7'']"
proof -
  have "selected ticked = [''7'']"
    by (simp add: ticked_def handleCheckboxToggle_def new_rows_def)
  with selection_is_shown [OF ticked_reached] show ?thesis by simp
qed

section \<open>Health badges\<close>

record HealthBadge =
  hb_key :: string
  hb_label :: string
  hb_cssClass :: string
  hb_title :: string

definition STARTS_SOON_THRESHOLD_S :: int where "STARTS_SOON_THRESHOLD_S = 60 * 60"
definition CLAIM_PENDING_MIN_PCT :: int where "CLAIM_PENDING_MIN_PCT = 10"
definition ALMOST_DONE_PCT :: int where "ALMOST_DONE_PCT = 90"
definition EXPIRING_SOON_THRESHOLD_S :: int where "EXPIRING_SOON_THRESHOLD_S = 15 * 60"
definition RECENTLY_CANCELED_THRESHOLD_S :: int where "RECENTLY_CANCELED_THRESHOLD_S = 24 * 60 * 60"

definition minutes_text :: "jsnum \<Rightarrow> string" where
  "minutes_text secs =
     (let mins = \<lceil>fl (secs / 60)\<rceil> in int_to_string mins @ '' minute'' @ (if mins = 1 then [] else ''s'') @ ''.'')"

definition starts_soon :: "StreamRecord \<Rightarrow> int \<Rightarrow> HealthBadge list" where
  "starts_soon s now =
     (let secs = startAt s - now in
      if 0 < secs \<and> secs \<le> STARTS_SOON_THRESHOLD_S
      then [\<lparr> hb_key = ''starts-soon'', hb_label = ''Starts Soon'', hb_cssClass = ''badge-health badge-health--soon'',
              hb_title = ''Stream starts in roughly '' @ minutes_text (of_int secs) \<rparr>]
      else [])"

definition claim_pending :: "ListItem \<Rightarrow> HealthBadge list" where
  "claim_pending i =
     (if percentComplete (item_progress i) > of_int CLAIM_PENDING_MIN_PCT \<and>
         remainingAmount (item_progress i) = totalAmount (item_stream i)
      then [\<lparr> hb_key = ''claim-pending'', hb_label = ''Claim Pending'', hb_cssClass = ''badge-health badge-health--claim'',
              hb_title = ''Over '' @ int_to_string CLAIM_PENDING_MIN_PCT @
                ''% has vested but no tokens have been claimed yet.'' \<rparr>]
      else [])"

definition almost_done :: "StreamProgress \<Rightarrow> HealthBadge list" where
  "almost_done p =
     (if percentComplete p \<ge> of_int ALMOST_DONE_PCT
      then [\<lparr> hb_key = ''almost-done'', hb_label = ''Almost Done'', hb_cssClass = ''badge-health badge-health--ending'',
              hb_title = ''Stream is '' @ num_toString (percentComplete p) @ ''% complete.'' \<rparr>]
      else [])"

text \<open>JSON has no \<open>Infinity\<close>: the server's one arrives as \<open>null\<close>, and \<open>null > 0\<close> is false.\<close>

definition expiring_soon :: "StreamProgress \<Rightarrow> HealthBadge list" where
  "expiring_soon p =
     (case ratePerSecond p of
        PosInfinity \<Rightarrow> []
      | Finite rate \<Rightarrow>
          if 0 < rate
          then (let secs = fl (remainingAmount p / rate) in
                if 0 < secs \<and> secs \<le> of_int EXPIRING_SOON_THRESHOLD_S
                then [\<lparr> hb_key = ''expiring-soon'', hb_label = ''Expiring Soon'',
                        hb_cssClass = ''badge-health badge-health--expiring'',
                        hb_title = ''Stream ends in roughly '' @ minutes_text secs \<rparr>]
                else [])
          else [])"

definition recently_canceled :: "StreamRecord \<Rightarrow> int \<Rightarrow> HealthBadge list" where
  "recently_canceled s now =
     (case canceledAt s of
        None \<Rightarrow> []
      | Some t \<Rightarrow>
          if 0 \<le> now - t \<and> now - t \<le> RECENTLY_CANCELED_THRESHOLD_S
          then [\<lparr> hb_key = ''recently-canceled'', hb_label = ''Recently Canceled'',
                  hb_cssClass = ''badge-health badge-health--recent-cancel'',
                  hb_title = ''This stream was canceled within the last 24 hours.'' \<rparr>]
          else [])"

definition getHealthBadges :: "ListItem \<Rightarrow> int \<Rightarrow> HealthBadge list" where
  "getHealthBadges i now =
     (case status (item_progress i) of
        Scheduled \<Rightarrow> starts_soon (item_stream i) now
      | Active \<Rightarrow> claim_pending i @ almost_done (item_progress i) @ expiring_soon (item_progress i)
      | Canceled \<Rightarrow> recently_canceled (item_stream i) now
      | _ \<Rightarrow> [])"

lemma one_badge:
  "map hb_key (starts_soon s now) = [] \<or> map hb_key (starts_soon s now) = [''starts-soon'']"
  "map hb_key (claim_pending i) = [] \<or> map hb_key (claim_pending i) = [''claim-pending'']"
  "map hb_key (almost_done p) = [] \<or> map hb_key (almost_done p) = [''almost-done'']"
  "map hb_key (expiring_soon p) = [] \<or> map hb_key (expiring_soon p) = [''expiring-soon'']"
  "map hb_key (recently_canceled s now) = [] \<or> map hb_key (recently_canceled s now) = [''recently-canceled'']"
  by (simp_all add: starts_soon_def claim_pending_def almost_done_def expiring_soon_def recently_canceled_def Let_def
      split: rate.split option.split)

text \<open>At most three badges, no key twice: the keys are what React tells them apart by.\<close>

lemma badge_keys: "distinct (map hb_key (getHealthBadges i now)) \<and> length (map hb_key (getHealthBadges i now)) \<le> 3"
proof (cases "status (item_progress i)")
  case Active
  then have "map hb_key (getHealthBadges i now) =
      map hb_key (claim_pending i) @ map hb_key (almost_done (item_progress i)) @ map hb_key (expiring_soon (item_progress i))"
    by (simp only: getHealthBadges_def StreamStatus.case map_append)
  then show ?thesis
    using one_badge(2) [of i] one_badge(3,4) [of "item_progress i"] by (elim disjE) simp_all
next
  case Scheduled
  then show ?thesis using one_badge(1) [of "item_stream i" now] by (elim disjE) (simp_all add: getHealthBadges_def)
next
  case Canceled
  then show ?thesis using one_badge(5) [of "item_stream i" now] by (elim disjE) (simp_all add: getHealthBadges_def)
qed (simp_all add: getHealthBadges_def)

text \<open>
  Claims do not change the remaining amount of the server's progress, so that the badge for a pending claim
  never shows for a whole amount from ten on: a tenth of it has left the remainder when ten percent are over.
\<close>

lemma claim_pending_never:
  assumes "totalAmount s = of_int n" "10 \<le> n" "n \<le> 2 ^ 53"
  shows "claim_pending (with_progress now s) = []"
proof (rule ccontr)
  assume "claim_pending (with_progress now s) \<noteq> []"
  then have pc: "10 < round6 (fl (ratio s now * 100))" and
    re: "round6 (max 0 (fl (totalAmount s - vestedRaw s now))) = totalAmount s"
    by (simp_all add: claim_pending_def with_progress_def CLAIM_PENDING_MIN_PCT_def split: if_splits)
  have "\<not> fl (ratio s now * 100) \<le> 10"
  proof
    assume le: "fl (ratio s now * 100) \<le> 10"
    have "0 \<le> ratio s now" by (simp add: ratio_def elapsed_def fl_nonneg)
    then have "0 \<le> fl (ratio s now * 100)" by (intro fl_nonneg) simp
    then have "round6 (fl (ratio s now * 100)) \<le> round6 10" using le by (intro round6_mono_small) simp_all
    then show False using pc round6_int [of 10] by simp
  qed
  then have "\<not> ratio s now * 100 \<le> 10"
    using fl_mono [of "ratio s now * 100" 10] fl_int [of 10] by auto
  then have "1 \<le> totalAmount s * ratio s now"
  proof -
    assume "\<not> ratio s now * 100 \<le> 10"
    then have "1 / 10 \<le> ratio s now" by simp
    then have "10 * (1 / 10) \<le> totalAmount s * ratio s now"
      using assms(1,2) by (intro mult_mono) simp_all
    then show ?thesis by simp
  qed
  then have "1 \<le> vestedRaw s now"
    using fl_mono [of 1 "totalAmount s * ratio s now"] by (simp add: vestedRaw_def)
  then have "totalAmount s - vestedRaw s now \<le> of_int (n - 1)" using assms(1) by simp
  then have "fl (totalAmount s - vestedRaw s now) \<le> of_int (n - 1)"
    using fl_mono [of "totalAmount s - vestedRaw s now" "of_int (n - 1)"] fl_int [of "n - 1"] assms(2,3) by simp
  then have small: "max 0 (fl (totalAmount s - vestedRaw s now)) \<le> of_int (n - 1)" using assms(2) by simp
  have "(of_int (n - 1) :: rat) \<le> of_int (2 ^ 53)" using assms(3) by (simp only: of_int_le_iff)
  then have "(of_int (n - 1) :: rat) < 10 ^ 21" by simp
  then have "round6 (max 0 (fl (totalAmount s - vestedRaw s now))) \<le> round6 (of_int (n - 1))"
    using small by (intro round6_mono_small) simp_all
  then have "of_int n \<le> (of_int (n - 1) :: rat)"
    using re assms round6_int [of "n - 1"] by simp
  then show False by simp
qed

section \<open>The timeline\<close>

text \<open>The active filters are a \<open>Set\<close> of event types.\<close>

definition computeFilteredEvents :: "StreamEvent list \<Rightarrow> string list \<Rightarrow> StreamEvent list" where
  "computeFilteredEvents events active =
     sort_key se_timestamp (if active = [] then events else filter (\<lambda>e. se_eventType e \<in> set active) events)"

definition toggleFilter :: "string list \<Rightarrow> string \<Rightarrow> string list" where
  "toggleFilter prev ty = (if ty \<in> set prev then removeAll ty prev else prev @ [ty])"

definition clearFilters :: "string list" where
  "clearFilters = []"

definition FILTER_BUTTONS :: "(string \<times> string) list" where
  "FILTER_BUTTONS =
     [(''created'', ''Created''), (''claimed'', ''Claimed''), (''canceled'', ''Canceled''),
      (''start_time_updated'', ''Start Time Updated''), (''paused'', ''Paused''), (''resumed'', ''Resumed'')]"

definition timeAgo :: "int \<Rightarrow> int \<Rightarrow> string" where
  "timeAgo nowMs t =
     (let seconds = nowMs div 1000 - t; minutes = seconds div 60; hours = minutes div 60; days = hours div 24
      in if seconds < 60 then ''just now''
         else if minutes < 60 then int_to_string minutes @ ''m ago''
         else if hours < 24 then int_to_string hours @ ''h ago''
         else int_to_string days @ ''d ago'')"

definition formatEventTitle :: "string \<Rightarrow> string" where
  "formatEventTitle ty =
     (if ty = ''created'' then ''Stream created''
      else if ty = ''claimed'' then ''Stream claimed''
      else if ty = ''canceled'' then ''Stream canceled''
      else if ty = ''start_time_updated'' then ''Start time updated''
      else if ty = ''paused'' then ''Stream paused''
      else if ty = ''resumed'' then ''Stream resumed''
      else ''Stream event'')"

text \<open>\<open>slice(0, 6)\<close> and \<open>slice(-4)\<close>.\<close>

definition short_actor :: "string option \<Rightarrow> string" where
  "short_actor a =
     (case a of
        None \<Rightarrow> ''Unknown''
      | Some s \<Rightarrow> if s = [] then ''Unknown'' else take 6 s @ ''...'' @ drop (length s - 4) s)"

definition getEventDescription :: "StreamEvent \<Rightarrow> string" where
  "getEventDescription e =
     (let who = short_actor (se_actor e); tokens = num_toString (case se_amount e of None \<Rightarrow> 0 | Some a \<Rightarrow> a);
          ty = se_eventType e
      in if ty = ''created'' then ''Initiated by '' @ who @ '' for '' @ tokens @ '' tokens''
         else if ty = ''claimed'' then ''Claim of '' @ tokens @ '' tokens processed by '' @ who
         else if ty = ''canceled'' then ''Closed by '' @ who
         else if ty = ''start_time_updated'' then ''New start time set by '' @ who
         else if ty = ''paused'' then ''Stream paused by '' @ who
         else if ty = ''resumed'' then ''Stream resumed by '' @ who
         else ''Action performed by '' @ who)"

lemma toggle_twice: "set (toggleFilter (toggleFilter prev ty) ty) = set prev"
  by (auto simp: toggleFilter_def)

lemma timeline_events:
  "sorted (map se_timestamp (computeFilteredEvents es active)) \<and>
   mset (computeFilteredEvents es active) = mset (filter (\<lambda>e. active = [] \<or> se_eventType e \<in> set active) es)"
  by (simp add: computeFilteredEvents_def)

text \<open>
  The server answers newest first; the sorting is stable, so that events of the same second are shown in the
  wrong order, the later one before the earlier one.
\<close>

lemma timeline_same_second:
  "se_timestamp newer = se_timestamp older \<Longrightarrow> computeFilteredEvents [newer, older] [] = [newer, older]"
  by (simp add: computeFilteredEvents_def)

section \<open>Figures of the dashboards\<close>

text \<open>\<open>reduce((sum, s) => sum + f(s), 0)\<close>.\<close>

definition js_sum :: "(ListItem \<Rightarrow> jsnum) \<Rightarrow> ListItem list \<Rightarrow> jsnum" where
  "js_sum f items = foldl (\<lambda>sum i. fl (sum + f i)) 0 items"

definition vested_of :: "ListItem \<Rightarrow> jsnum" where
  "vested_of i = vestedAmount (item_progress i)"

definition with_status :: "StreamStatus list \<Rightarrow> ListItem list \<Rightarrow> ListItem list" where
  "with_status sts items = filter (\<lambda>i. status (item_progress i) \<in> set sts) items"

record Metrics =
  mt_total :: nat
  mt_active :: nat
  mt_completed :: nat
  mt_vested :: jsnum

definition dashboard_metrics :: "nat \<Rightarrow> ListItem list \<Rightarrow> Metrics" where
  "dashboard_metrics totalUnfilteredCount items =
     \<lparr> mt_total = totalUnfilteredCount, mt_active = length (with_status [Active] items),
       mt_completed = length (with_status [Completed] items), mt_vested = js_sum vested_of items \<rparr>"

record SenderSummary =
  ss_totalStreaming :: jsnum
  ss_totalVested :: jsnum
  ss_totalClaimed :: jsnum

definition sender_summary :: "ListItem list \<Rightarrow> SenderSummary" where
  "sender_summary items =
     foldl (\<lambda>s i. let st = status (item_progress i) in
         \<lparr> ss_totalStreaming = (if st = Active \<or> st = Scheduled then fl (ss_totalStreaming s + totalAmount (item_stream i))
                                else ss_totalStreaming s),
           ss_totalVested = fl (ss_totalVested s + vested_of i),
           ss_totalClaimed = (if st = Completed then fl (ss_totalClaimed s + vested_of i) else ss_totalClaimed s) \<rparr>)
       \<lparr> ss_totalStreaming = 0, ss_totalVested = 0, ss_totalClaimed = 0 \<rparr> items"

text \<open>The tables of the page of a sender, with their titles, empty ones left out.\<close>

definition sender_tables :: "ListItem list \<Rightarrow> (string \<times> ListItem list) list" where
  "sender_tables items =
     filter (\<lambda>t. snd t \<noteq> [])
       [(''Active'', with_status [Active] items), (''Scheduled'', with_status [Scheduled] items),
        (''Completed'', with_status [Completed] items), (''Canceled'', with_status [Canceled] items)]"

text \<open>The buttons of a row.\<close>

definition row_actions :: "StreamStatus \<Rightarrow> string list" where
  "row_actions st =
     (if st = Active then [''pause''] else []) @ (if st = Paused then [''resume''] else []) @
     (if st = Active \<or> st = Paused \<or> st = Scheduled then [''cancel''] else [])"

record RecipientFigures =
  rf_active :: "ListItem list"
  rf_completed :: "ListItem list"
  rf_claimable :: jsnum
  rf_claimed :: jsnum

definition recipient_figures :: "ListItem list \<Rightarrow> RecipientFigures" where
  "recipient_figures items =
     (let act = with_status [Active, Scheduled] items; com = with_status [Completed, Canceled] items
      in \<lparr> rf_active = act, rf_completed = com, rf_claimable = js_sum vested_of act, rf_claimed = js_sum vested_of com \<rparr>)"

text \<open>The statistics of \<open>components/SenderDashboard.tsx\<close>; an asset without a stream is absent.\<close>

record SenderStats =
  st_totalStreams :: nat
  st_totalAmount :: jsnum
  st_assetAmounts :: "string \<Rightarrow> jsnum option"
  st_statusCounts :: "StreamStatus \<Rightarrow> nat"

definition sender_stats :: "ListItem list \<Rightarrow> SenderStats" where
  "sender_stats items =
     \<lparr> st_totalStreams = length items, st_totalAmount = js_sum (\<lambda>i. totalAmount (item_stream i)) items,
       st_assetAmounts = foldl (\<lambda>m i. let a = assetCode (item_stream i) in
          m(a \<mapsto> fl ((case m a of None \<Rightarrow> 0 | Some v \<Rightarrow> v) + totalAmount (item_stream i)))) Map.empty items,
       st_statusCounts = foldl (\<lambda>c i. let st = status (item_progress i) in c(st := c st + 1)) (\<lambda>st. 0) items \<rparr>"

definition chart_data :: "SenderStats \<Rightarrow> (string \<times> nat) list" where
  "chart_data s =
     filter (\<lambda>item. 0 < snd item)
       [(''Scheduled'', st_statusCounts s Scheduled), (''Active'', st_statusCounts s Active),
        (''Paused'', st_statusCounts s Paused), (''Completed'', st_statusCounts s Completed),
        (''Canceled'', st_statusCounts s Canceled)]"

text \<open>A paused stream is in no table of either page, so its row and its button to resume are never shown.\<close>

lemma sender_tables_not_paused:
  "t \<in> set (sender_tables items) \<Longrightarrow> i \<in> set (snd t) \<Longrightarrow> ''resume'' \<notin> set (row_actions (status (item_progress i)))"
  by (auto simp: sender_tables_def with_status_def row_actions_def split: if_splits)

lemma status_counts: "st_statusCounts (sender_stats items) st = length (with_status [st] items)"
proof -
  have "foldl (\<lambda>c i. let st = status (item_progress i) in c(st := c st + 1)) c items st =
      c st + length (with_status [st] items)" for c
    by (induction items arbitrary: c) (simp_all add: with_status_def Let_def)
  then show ?thesis by (simp only: sender_stats_def SenderStats.simps add_0)
qed

text \<open>Leaving out what is zero or empty changes no total.\<close>

lemma sum_nonzero: "sum_list (map snd (filter (\<lambda>x. 0 < snd x) ts)) = sum_list (map (snd :: 'a \<times> nat \<Rightarrow> nat) ts)"
  by (induction ts) auto

lemma concat_nonempty: "concat (map snd (filter (\<lambda>t. snd t \<noteq> []) ts)) = concat (map snd ts)"
  by (induction ts) auto

text \<open>The dashboards account for every stream: the tables of a sender's page together hold each listed
  stream that is not paused exactly once, those of a recipient's page too, and the slices of the status
  chart add up to the number of streams.\<close>

theorem dashboards_account_for_streams:
  "mset (concat (map snd (sender_tables items))) = mset (filter (\<lambda>i. status (item_progress i) \<noteq> Paused) items) \<and>
   mset (rf_active (recipient_figures items)) + mset (rf_completed (recipient_figures items)) =
     mset (filter (\<lambda>i. status (item_progress i) \<noteq> Paused) items) \<and>
   sum_list (map snd (chart_data (sender_stats items))) = length items"
proof -
  have tables: "concat (map snd (sender_tables items)) =
      with_status [Active] items @ with_status [Scheduled] items @ with_status [Completed] items @ with_status [Canceled] items"
    unfolding sender_tables_def concat_nonempty by simp
  have four: "mset (with_status [Active] items) + mset (with_status [Scheduled] items) + mset (with_status [Completed] items) +
      mset (with_status [Canceled] items) = mset (filter (\<lambda>i. status (item_progress i) \<noteq> Paused) items)"
  proof (induction items)
    case (Cons i items)
    then show ?case by (cases "status (item_progress i)") (simp_all add: with_status_def)
  qed (simp add: with_status_def)
  have two: "mset (with_status [Active, Scheduled] items) + mset (with_status [Completed, Canceled] items) =
      mset (filter (\<lambda>i. status (item_progress i) \<noteq> Paused) items)"
  proof (induction items)
    case (Cons i items)
    then show ?case by (cases "status (item_progress i)") (simp_all add: with_status_def)
  qed (simp add: with_status_def)
  have "sum_list (map snd (chart_data (sender_stats items))) =
      (\<Sum>st\<leftarrow>[Scheduled, Active, Paused, Completed, Canceled]. length (with_status [st] items))"
    unfolding chart_data_def sum_nonzero status_counts by simp
  also have "\<dots> = length items"
  proof (induction items)
    case (Cons i items)
    then show ?case by (cases "status (item_progress i)") (simp_all add: with_status_def)
  qed (simp add: with_status_def)
  finally have chart: "sum_list (map snd (chart_data (sender_stats items))) = length items" .
  have "mset (concat (map snd (sender_tables items))) = mset (filter (\<lambda>i. status (item_progress i) \<noteq> Paused) items)"
    by (simp only: tables mset_append four [symmetric] add.assoc)
  then show ?thesis using two chart by (simp add: recipient_figures_def Let_def)
qed

end
