(* ===== verification/ClientSession.thy ===== *)
theory ClientSession
  imports ClientTables
begin

text \<open>
  What the browser client keeps between actions: the request cache and the reading of answers
  (\<open>frontend/src/services/api.ts\<close>), the wallet session (\<open>hooks/useFreighter.ts\<close>), the history of the URL
  (\<open>hooks/useUrlFilters.ts\<close>), the detail drawer, drafts, table columns, theme, toasts and the reconnecting
  WebSocket (\<open>hooks/\<close>), the filter bar and the dialog for a start time (\<open>components/\<close>).
\<close>

section \<open>Answers\<close>

text \<open>
  The body of an answer is a JSON text, or another text. A message is the JSON value found in the body; the
  last case is the \<open>TypeError\<close> of looking for a field of \<open>null\<close>.
\<close>

datatype apiFailure = ApiError json nat json | NullBody

definition body_of :: "json jsonText \<Rightarrow> json" where
  "body_of raw =
     (case raw of
        Encoded j \<Rightarrow> j
      | RawText s \<Rightarrow> if s = [] then JObj [] else JObj [(''message'', JStr s)])"

definition nullish :: "json option \<Rightarrow> bool" where
  "nullish v = (v = None \<or> v = Some JNull)"

text \<open>The value or the error, and the token kept for later requests.\<close>

definition parseResponse :: "nat \<Rightarrow> json jsonText \<Rightarrow> string option \<Rightarrow> (apiFailure + json) \<times> string option" where
  "parseResponse statusCode raw token =
     (let body = body_of raw in
      if 200 \<le> statusCode \<and> statusCode < 300 then (Inr body, token)
      else let token' = (if statusCode = 401 then None else token);
               e = obj_field body ''error''; m = obj_field body ''message'' in
        if body = JNull then (Inl NullBody, token')
        else (Inl (ApiError (if \<not> nullish e then the e else if \<not> nullish m then the m else JStr ''Unexpected API error'')
                statusCode body), token'))"

definition auth_headers :: "string option \<Rightarrow> (string \<times> string) list" where
  "auth_headers token =
     (case token of
        None \<Rightarrow> []
      | Some t \<Rightarrow> if t = [] then [] else [(''Authorization'', ''Bearer '' @ t)])"

section \<open>The request cache\<close>

record 'a CacheEntry =
  ce_data :: 'a
  ce_timestamp :: int
  ce_promise :: bool

type_synonym 'a requestCache = "string \<Rightarrow> 'a CacheEntry option"

text \<open>An answer at once, perhaps with a refresh in the background, or a fetch that is awaited.\<close>

datatype 'a cached = Answer 'a bool | Await

definition DEFAULT_STALE_AFTER_MS :: int where "DEFAULT_STALE_AFTER_MS = 4000"

definition fetchWithCache :: "int \<Rightarrow> int \<Rightarrow> string \<Rightarrow> 'a requestCache \<Rightarrow> 'a cached \<times> 'a requestCache" where
  "fetchWithCache staleAfterMs now key c =
     (case c key of
        None \<Rightarrow> (Await, c)
      | Some e \<Rightarrow>
          if now - ce_timestamp e < staleAfterMs then (Answer (ce_data e) False, c)
          else if ce_promise e then (Answer (ce_data e) False, c)
          else (Answer (ce_data e) True, c(key \<mapsto> e\<lparr>ce_promise := True\<rparr>)))"

text \<open>The end of an awaited fetch that began at \<open>now\<close>, and of a refresh, in success or failure.\<close>

definition await_done :: "string \<Rightarrow> 'a \<Rightarrow> int \<Rightarrow> 'a requestCache \<Rightarrow> 'a requestCache" where
  "await_done key data now c = c(key \<mapsto> \<lparr> ce_data = data, ce_timestamp = now, ce_promise = False \<rparr>)"

definition refresh_done :: "string \<Rightarrow> 'a \<Rightarrow> int \<Rightarrow> 'a requestCache \<Rightarrow> 'a requestCache" where
  "refresh_done key data now c = c(key \<mapsto> \<lparr> ce_data = data, ce_timestamp = now, ce_promise = False \<rparr>)"

definition refresh_failed :: "string \<Rightarrow> 'a requestCache \<Rightarrow> 'a requestCache" where
  "refresh_failed key c =
     (case c key of None \<Rightarrow> c | Some e \<Rightarrow> c(key \<mapsto> e\<lparr>ce_promise := False\<rparr>))"

definition clearCache :: "'a requestCache" where
  "clearCache = Map.empty"

text \<open>
  A cached stream is answered however old it is; a refresh only helps a later request. The drawer loads the
  stream again after cancelling, pausing or resuming it, and is answered with the stream from before.
\<close>

lemma drawer_shows_stale:
  "\<exists>refresh c'. fetchWithCache stale later key (await_done key before now c) = (Answer before refresh, c')"
  by (auto simp: fetchWithCache_def await_done_def)

text \<open>No second refresh of a key starts while one is running.\<close>

lemma one_refresh:
  assumes "fetchWithCache stale t key c = (Answer d True, c')"
  shows "\<not> (case fst (fetchWithCache stale t' key c') of Answer d' refresh \<Rightarrow> refresh | Await \<Rightarrow> False)"
  using assms by (auto simp: fetchWithCache_def split: option.splits if_splits)

section \<open>The wallet session\<close>

datatype WalletStatus = WIdle | WConnecting | WConnected | WError

record Session =
  installed :: bool
  allowed :: bool
  address :: "string option"
  wallet_status :: WalletStatus
  wallet_error :: "string option"
  auth_token :: "string option"
  stored_token :: "string option"

definition new_session :: "string option \<Rightarrow> Session" where
  "new_session stored =
     \<lparr> installed = False, allowed = False, address = None, wallet_status = WIdle, wallet_error = None,
       auth_token = None, stored_token = stored \<rparr>"

text \<open>
  What the wallet and the server answer; an \<open>Inl\<close> is the message of what they throw. The dash of the friendly
  message is an em dash in the source.
\<close>

definition connect_failed :: "string \<Rightarrow> Session \<Rightarrow> Session" where
  "connect_failed msg s =
     s\<lparr>stored_token := None, auth_token := None, wallet_status := WError,
       wallet_error := Some (if includes_str (toLowerCase msg) ''user declined''
         then ''Connection cancelled - please approve the request in Freighter.'' else msg)\<rparr>"

definition connect ::
  "string + string \<Rightarrow> (string \<Rightarrow> string + string) \<Rightarrow> (string \<Rightarrow> string + string) \<Rightarrow> (string \<Rightarrow> string + string) \<Rightarrow> Session \<Rightarrow> Session" where
  "connect requestAccess getAuthChallenge signAuthEntry verifyAuthToken s0 =
     (let s = s0\<lparr>wallet_error := None, wallet_status := WConnecting\<rparr> in
      case requestAccess of
        Inl m \<Rightarrow> connect_failed m s
      | Inr pk \<Rightarrow>
          if pk = [] then connect_failed ''Freighter did not return an account address.'' s
          else let s1 = s\<lparr>installed := True\<rparr> in
            (case getAuthChallenge pk of
               Inl m \<Rightarrow> connect_failed m s1
             | Inr challengeXdr \<Rightarrow>
                 (case signAuthEntry challengeXdr of
                    Inl m \<Rightarrow> connect_failed m s1
                  | Inr signedChallenge \<Rightarrow>
                      (case verifyAuthToken signedChallenge of
                         Inl m \<Rightarrow> connect_failed m s1
                       | Inr token \<Rightarrow>
                           s1\<lparr>stored_token := Some token, auth_token := Some token, allowed := True,
                              address := Some pk, wallet_status := WConnected\<rparr>))))"

definition disconnect :: "Session \<Rightarrow> Session" where
  "disconnect s =
     s\<lparr>stored_token := None, auth_token := None, address := None, allowed := False, wallet_status := WIdle,
       wallet_error := None\<rparr>"

text \<open>The probe on mounting: whether the extension is there, whether it is allowed, and its key.\<close>

definition detect :: "bool \<Rightarrow> bool \<Rightarrow> string \<Rightarrow> Session \<Rightarrow> Session" where
  "detect present permitted pk s =
     (if \<not> present then s\<lparr>installed := False\<rparr>
      else let s1 = s\<lparr>installed := True\<rparr> in
        if \<not> permitted then s1
        else (case stored_token s1 of
                Some (c # cs) \<Rightarrow>
                  if pk = [] then s1
                  else s1\<lparr>auth_token := Some (c # cs), allowed := True, address := Some pk, wallet_status := WConnected\<rparr>
              | _ \<Rightarrow> s1))"

definition receive :: "nat \<Rightarrow> json jsonText \<Rightarrow> Session \<Rightarrow> Session" where
  "receive statusCode raw s = s\<lparr>auth_token := snd (parseResponse statusCode raw (auth_token s))\<rparr>"

text \<open>
  An expired token is dropped for the next requests only: the wallet still shows as connected, and the expired
  token is taken up again when the page is loaded the next time.
\<close>

lemma expired_token_returns:
  assumes "address s = Some (c # pk)" "stored_token s = Some (t # ts)" "wallet_status s = WConnected"
  shows "auth_headers (auth_token (receive 401 raw s)) = []" "wallet_status (receive 401 raw s) = WConnected"
    "auth_token (detect True True (c # pk) (new_session (stored_token (receive 401 raw s)))) = Some (t # ts)"
  using assms by (simp_all add: receive_def parseResponse_def auth_headers_def detect_def new_session_def Let_def)

section \<open>The history of the URL\<close>

text \<open>The entries to go back to, and the current one. The effect on the state rewrites the current entry.\<close>

record Nav =
  nav_view :: ViewMode
  nav_filters :: ListStreamsFilters
  nav_stream :: "string option"
  nav_back :: "params list"
  nav_search :: params

definition nav_sync :: "Nav \<Rightarrow> Nav" where
  "nav_sync n = n\<lparr>nav_search := buildSearch (nav_view n) (nav_filters n) (nav_stream n)\<rparr>"

definition push_state :: "Nav \<Rightarrow> Nav" where
  "push_state n =
     n\<lparr>nav_back := nav_search n # nav_back n, nav_search := buildSearch (nav_view n) (nav_filters n) (nav_stream n)\<rparr>"

definition setView :: "ViewMode \<Rightarrow> Nav \<Rightarrow> Nav" where
  "setView v n = nav_sync (push_state (n\<lparr>nav_view := v\<rparr>))"

definition setFilters :: "ListStreamsFilters \<Rightarrow> Nav \<Rightarrow> Nav" where
  "setFilters f n = nav_sync (n\<lparr>nav_filters := f\<rparr>)"

definition openStream :: "string \<Rightarrow> Nav \<Rightarrow> Nav" where
  "openStream k n = nav_sync (push_state (n\<lparr>nav_stream := Some k\<rparr>))"

definition closeStream :: "Nav \<Rightarrow> Nav" where
  "closeStream n = nav_sync (push_state (n\<lparr>nav_stream := None\<rparr>))"

definition onPop :: "Nav \<Rightarrow> Nav" where
  "onPop n =
     (case nav_back n of
        [] \<Rightarrow> n
      | p # older \<Rightarrow>
          (let (v, f, s) = readParams p in
           nav_sync \<lparr> nav_view = v, nav_filters = f, nav_stream = s, nav_back = older, nav_search = p \<rparr>))"

text \<open>The back button undoes opening, closing and changing the view, when the URL says what the state is.\<close>

lemma back_undoes:
  assumes "nav_sync n = n" "url_state_ok (nav_filters n) (nav_stream n)"
  shows "onPop (openStream k n) = n" "onPop (closeStream n) = n" "onPop (setView v n) = n"
proof -
  have search: "nav_search n = buildSearch (nav_view n) (nav_filters n) (nav_stream n)"
    using assms(1) by (metis Nav.select_convs(5) Nav.surjective Nav.update_convs(5) nav_sync_def)
  have read: "readParams (nav_search n) = (nav_view n, nav_filters n, nav_stream n)"
    unfolding search by (rule readParams_buildSearch [OF assms(2)])
  have "onPop m = n" if "nav_back m = nav_search n # nav_back n" for m
    using that read search by (cases n) (simp add: onPop_def nav_sync_def)
  then show "onPop (openStream k n) = n" "onPop (closeStream n) = n" "onPop (setView v n) = n"
    by (simp_all add: openStream_def closeStream_def setView_def nav_sync_def push_state_def)
qed

section \<open>Filter bar and start time\<close>

definition with_field :: "string \<Rightarrow> string \<Rightarrow> ListStreamsFilters \<Rightarrow> ListStreamsFilters" where
  "with_field name v f =
     (if name = ''q'' then f\<lparr>f_q := v\<rparr> else if name = ''asset'' then f\<lparr>f_asset := v\<rparr>
      else if name = ''sender'' then f\<lparr>f_sender := v\<rparr> else if name = ''recipient'' then f\<lparr>f_recipient := v\<rparr>
      else if name = ''status'' then f\<lparr>f_status := v\<rparr> else f)"

definition applyPreset :: "string \<Rightarrow> ListStreamsFilters" where
  "applyPreset st =
     \<lparr> f_recipient = [], f_sender = [], f_status = st, f_asset = [], f_q = [], f_sort = [], f_page = None, f_limit = None \<rparr>"

definition handleReset :: ListStreamsFilters where
  "handleReset = applyPreset []"

text \<open>What the filter bar also hands to the URL: the first page.\<close>

definition to_url :: "ListStreamsFilters \<Rightarrow> ListStreamsFilters" where
  "to_url f = f\<lparr>f_page := Some 1\<rparr>"

text \<open>The status \<open>paused\<close> that the filter bar offers is dropped on the way through the URL.\<close>

lemma paused_filter_lost:
  "f_status (fst (snd (readParams (buildSearch Dashboard (to_url (applyPreset ''paused'')) None)))) = []"
  by code_simp

text \<open>\<open>ts\<close> is what the date field reads as, \<open>None\<close> where it is no date.\<close>

definition validate_start :: "int \<Rightarrow> string \<Rightarrow> int option \<Rightarrow> string + int" where
  "validate_start now v ts =
     (if v = [] then Inl ''Please select a date and time.''
      else (case ts of
              None \<Rightarrow> Inl ''Invalid date/time.''
            | Some t \<Rightarrow> if t < now + 60 then Inl ''Start time must be in the future (at least 60 seconds).'' else Inr t))"

text \<open>A start that the dialog accepts is accepted by the server within fifty seconds, when it is at most a year away.\<close>

lemma start_accepted_by_server:
  assumes "validate_start now v ts = Inr t" "0 \<le> now" "arrival \<le> now + 50" "t \<le> arrival + 365 * 24 * 60 * 60" "t \<le> 2 ^ 53 - 1"
  shows "updateStreamStartAtSchema arrival (JObj [(''startAt'', JNum (of_int t))]) = Some t"
proof -
  have t: "now + 60 \<le> t" using assms(1) by (auto simp: validate_start_def split: if_splits option.splits)
  then have "coerce_int (Some (JNum (of_int t))) = Some t"
    using assms(2,5) by (simp add: coerce_int_def coerce_number_def as_int_def)
  then have "unixTimestampSchema (Some (JNum (of_int t))) = Some t"
    using t assms(2) unfolding unixTimestampSchema_def by (simp add: keep_if_def)
  then show ?thesis
    using t assms(3,4) by (simp add: updateStreamStartAtSchema_def keep_if_def start_at_ok_def)
qed

section \<open>The drawer\<close>

record 'a Drawer =
  dr_stream :: "'a option"
  dr_history :: "StreamEvent list"
  dr_loading :: bool
  dr_error :: "string option"
  dr_request :: nat

text \<open>A new request aborts the one before; its answer then changes nothing.\<close>

definition drawer_fetch :: "'a Drawer \<Rightarrow> 'a Drawer" where
  "drawer_fetch d = \<lparr> dr_stream = None, dr_history = [], dr_loading = True, dr_error = None, dr_request = dr_request d + 1 \<rparr>"

definition drawer_answer :: "string \<Rightarrow> nat \<Rightarrow> string + ('a \<times> StreamEvent list) \<Rightarrow> 'a Drawer \<Rightarrow> 'a Drawer" where
  "drawer_answer sid k r d =
     (if k \<noteq> dr_request d then d
      else (case r of
              Inr (s, h) \<Rightarrow> d\<lparr>dr_stream := Some s, dr_history := h, dr_loading := False\<rparr>
            | Inl m \<Rightarrow> d\<lparr>dr_error := Some (if includes_str (toLowerCase m) ''not found''
                  then ''Stream '' @ [CHR 0x22] @ sid @ [CHR 0x22] @ '' could not be found. It may have been deleted.'' else m),
                dr_loading := False\<rparr>))"

lemma late_answer_ignored: "k \<le> dr_request d \<Longrightarrow> drawer_answer sid k r (drawer_fetch d) = drawer_fetch d"
  by (simp add: drawer_answer_def drawer_fetch_def)

section \<open>Drafts, columns, theme\<close>

record 'a Draft =
  draft_value :: 'a
  hasDraft :: bool
  draft_stored :: "'a jsonText option"

definition draft_load :: "'a \<Rightarrow> 'a jsonText option \<Rightarrow> 'a Draft" where
  "draft_load initial stored =
     \<lparr> draft_value = (case stored of
          None \<Rightarrow> initial
        | Some t \<Rightarrow> if text_truthy t then (case parse t of None \<Rightarrow> initial | Some v \<Rightarrow> v) else initial),
       hasDraft = (case stored of None \<Rightarrow> False | Some t \<Rightarrow> text_truthy t \<and> t \<noteq> stringify initial),
       draft_stored = stored \<rparr>"

text \<open>The debounced effect.\<close>

definition draft_save :: "'a \<Rightarrow> 'a Draft \<Rightarrow> 'a Draft" where
  "draft_save initial d =
     (if stringify (draft_value d) = stringify initial then d\<lparr>draft_stored := None, hasDraft := False\<rparr>
      else d\<lparr>draft_stored := Some (stringify (draft_value d)), hasDraft := True\<rparr>)"

definition overrideValue :: "('a \<Rightarrow> 'a) \<Rightarrow> 'a Draft \<Rightarrow> 'a Draft" where
  "overrideValue f d = d\<lparr>draft_value := f (draft_value d)\<rparr>"

definition clearDraft :: "'a \<Rightarrow> 'a Draft \<Rightarrow> 'a Draft" where
  "clearDraft initial d = d\<lparr>draft_stored := None, draft_value := initial, hasDraft := False\<rparr>"

lemma draft_survives_reload:
  "draft_load initial (draft_stored (draft_save initial d)) = draft_save initial d"
  "hasDraft (draft_save initial d) \<longleftrightarrow> draft_value d \<noteq> initial"
  by (simp_all add: draft_load_def draft_save_def stringify_def)

type_synonym columns = "string \<Rightarrow> bool option"

definition OPTIONAL_STREAM_COLUMNS :: "string list" where
  "OPTIONAL_STREAM_COLUMNS = [''assetCode'', ''duration'', ''ratePerSecond'', ''pausedDuration'']"

definition DEFAULT_VISIBILITY :: columns where
  "DEFAULT_VISIBILITY = (\<lambda>c. if c \<in> set OPTIONAL_STREAM_COLUMNS then Some False else None)"

definition loadVisibility :: "columns jsonText option \<Rightarrow> columns" where
  "loadVisibility raw =
     (case raw of
        None \<Rightarrow> DEFAULT_VISIBILITY
      | Some t \<Rightarrow> (case parse t of None \<Rightarrow> DEFAULT_VISIBILITY | Some p \<Rightarrow> DEFAULT_VISIBILITY ++ p))"

definition toggleColumn :: "string \<Rightarrow> columns \<Rightarrow> columns \<times> columns jsonText option" where
  "toggleColumn c v = (let next_v = v(c \<mapsto> (case v c of Some b \<Rightarrow> \<not> b | None \<Rightarrow> True)) in (next_v, Some (stringify next_v)))"

lemma columns_survive_reload:
  assumes "dom v = set OPTIONAL_STREAM_COLUMNS" "c \<in> set OPTIONAL_STREAM_COLUMNS"
  shows "loadVisibility (snd (toggleColumn c v)) = fst (toggleColumn c v)"
proof -
  have "dom (fst (toggleColumn c v)) = set OPTIONAL_STREAM_COLUMNS" using assms by (auto simp: toggleColumn_def Let_def)
  then have "DEFAULT_VISIBILITY ++ fst (toggleColumn c v) = fst (toggleColumn c v)"
    by (auto simp: fun_eq_iff map_add_def DEFAULT_VISIBILITY_def split: option.split)
  then show ?thesis by (simp add: loadVisibility_def toggleColumn_def Let_def)
qed

datatype Theme = Light | Dark

definition getInitialTheme :: "string option \<Rightarrow> bool \<Rightarrow> Theme" where
  "getInitialTheme stored prefersDark =
     (if stored = Some ''light'' then Light else if stored = Some ''dark'' then Dark
      else if prefersDark then Dark else Light)"

definition toggleTheme :: "Theme \<Rightarrow> Theme" where
  "toggleTheme t = (if t = Light then Dark else Light)"

section \<open>Toasts\<close>

record Toast =
  toast_id :: nat
  toast_message :: string
  toast_type :: string

record ToastState =
  toasts :: "Toast list"
  idRef :: nat

definition MAX_VISIBLE_TOASTS :: nat where "MAX_VISIBLE_TOASTS = 3"

definition showToast :: "string \<Rightarrow> string \<Rightarrow> ToastState \<Rightarrow> ToastState" where
  "showToast m ty s =
     \<lparr> toasts = take MAX_VISIBLE_TOASTS (\<lparr> toast_id = idRef s, toast_message = m, toast_type = ty \<rparr> # toasts s),
       idRef = idRef s + 1 \<rparr>"

definition dismissToast :: "nat \<Rightarrow> ToastState \<Rightarrow> ToastState" where
  "dismissToast k s = s\<lparr>toasts := filter (\<lambda>t. toast_id t \<noteq> k) (toasts s)\<rparr>"

definition toasts_ok :: "ToastState \<Rightarrow> bool" where
  "toasts_ok s =
     (length (toasts s) \<le> MAX_VISIBLE_TOASTS \<and> distinct (map toast_id (toasts s)) \<and>
      list_all (\<lambda>t. toast_id t < idRef s) (toasts s))"

lemma toasts_kept: "toasts_ok s \<Longrightarrow> toasts_ok (showToast m ty s)" "toasts_ok s \<Longrightarrow> toasts_ok (dismissToast k s)"
proof -
  assume ok: "toasts_ok s"
  have ids: "distinct (map toast_id (take 2 (toasts s)))"
    using ok by (simp add: toasts_ok_def take_map [symmetric] distinct_take)
  have less: "\<forall>t \<in> set (take 2 (toasts s)). toast_id t < idRef s"
    using ok by (auto simp: toasts_ok_def list_all_iff dest: in_set_takeD)
  have eq: "toasts (showToast m ty s) = \<lparr> toast_id = idRef s, toast_message = m, toast_type = ty \<rparr> # take 2 (toasts s)"
    "idRef (showToast m ty s) = idRef s + 1"
    by (simp_all add: showToast_def MAX_VISIBLE_TOASTS_def)
  show "toasts_ok (showToast m ty s)"
    unfolding toasts_ok_def eq using ids less
    by (auto simp: MAX_VISIBLE_TOASTS_def list_all_iff less_Suc_eq)
  show "toasts_ok (dismissToast k s)"
    using ok le_trans [OF length_filter_le]
    by (auto simp: toasts_ok_def dismissToast_def list_all_iff distinct_map_filter)
qed

section \<open>Reconnecting\<close>

record Socket =
  reconnectAttempt :: nat
  scheduled_waits :: "nat list"
  closedByUnmount :: bool

definition BACKOFF_MS :: "nat list" where "BACKOFF_MS = [1000, 2000, 4000]"

definition backoff :: "nat \<Rightarrow> nat" where
  "backoff n = BACKOFF_MS ! min n (length BACKOFF_MS - 1)"

definition on_open :: "Socket \<Rightarrow> Socket" where
  "on_open s = s\<lparr>reconnectAttempt := 0\<rparr>"

definition on_close :: "Socket \<Rightarrow> Socket" where
  "on_close s =
     (if closedByUnmount s then s
      else s\<lparr>reconnectAttempt := reconnectAttempt s + 1, scheduled_waits := scheduled_waits s @ [backoff (reconnectAttempt s)]\<rparr>)"

text \<open>A server that is away is called after one, two and then every four seconds, for ever.\<close>

lemma reconnect_schedule:
  "\<not> closedByUnmount s \<Longrightarrow>
     scheduled_waits ((on_close ^^ n) (on_open s)) = scheduled_waits s @ map backoff [0..<n] \<and>
     reconnectAttempt ((on_close ^^ n) (on_open s)) = n \<and> \<not> closedByUnmount ((on_close ^^ n) (on_open s))"
  by (induction n) (simp_all add: on_open_def on_close_def)

lemma backoff_cap: "2 \<le> n \<Longrightarrow> backoff n = 4000"
  by (simp add: backoff_def BACKOFF_MS_def min_def)

end
