(* ===== verification/ClientForm.thy ===== *)
theory ClientForm
  imports ClientTables
begin

text \<open>
  The form for a new stream: its validation (\<open>frontend/src/hooks/useFormValidation.ts\<close> over
  \<open>frontend/src/validation/schemas.ts\<close>), the payload, the split recipients and the reading of server errors
  (\<open>frontend/src/components/CreateStreamForm.tsx\<close>), and how the payload fares at the server. Dashes in
  messages are written as \<open>-\<close>.
\<close>

section \<open>Numbers of inputs\<close>

text \<open>\<open>Number(s)\<close> with its values that are not finite; \<open>Infinite True\<close> is the negative infinity.\<close>

datatype numval = NaN | Infinite bool | Num jsnum

definition js_Number :: "string \<Rightarrow> numval" where
  "js_Number s =
     (case number_of_string s of
        Some x \<Rightarrow> Num x
      | None \<Rightarrow>
          (let u = trim s; neg = (hd u = CHR ''-'');
               rest = (if hd u = CHR ''-'' \<or> hd u = CHR ''+'' then tl u else u)
           in if rest = ''Infinity'' \<or> unsigned_decimal rest \<noteq> None then Infinite neg else NaN))"

fun isNaN :: "numval \<Rightarrow> bool" where
  "isNaN NaN = True"
| "isNaN _ = False"

fun isInteger :: "numval \<Rightarrow> bool" where
  "isInteger (Num x) = (of_int \<lfloor>x\<rfloor> = x)"
| "isInteger _ = False"

text \<open>\<open>v < c\<close>, and \<open>a >= b\<close>; both are false of NaN.\<close>

fun less_than :: "numval \<Rightarrow> jsnum \<Rightarrow> bool" where
  "less_than (Num x) c = (x < c)"
| "less_than (Infinite neg) c = neg"
| "less_than NaN c = False"

fun at_least :: "numval \<Rightarrow> numval \<Rightarrow> bool" where
  "at_least (Num x) (Num y) = (y \<le> x)"
| "at_least (Num x) (Infinite neg) = neg"
| "at_least (Infinite neg) (Num y) = (\<not> neg)"
| "at_least (Infinite n1) (Infinite n2) = (\<not> n1 \<or> n2)"
| "at_least _ _ = False"

text \<open>A product with a positive constant.\<close>

fun num_times :: "numval \<Rightarrow> jsnum \<Rightarrow> numval" where
  "num_times (Num x) k = Num (fl (x * k))"
| "num_times v k = v"

section \<open>Fields\<close>

definition STELLAR_ACCOUNT_REGEX :: "string \<Rightarrow> bool" where
  "STELLAR_ACCOUNT_REGEX s =
     (length s = 56 \<and> hd s = CHR ''G'' \<and>
      list_all (\<lambda>c. (CHR ''A'' \<le> c \<and> c \<le> CHR ''Z'') \<or> (CHR ''2'' \<le> c \<and> c \<le> CHR ''7'')) (tl s))"

definition isStellarAccount :: "string \<Rightarrow> bool" where
  "isStellarAccount v = STELLAR_ACCOUNT_REGEX (trim v)"

text \<open>The message of the first issue of a schema, if the text fails it.\<close>

definition account_issue :: "string \<Rightarrow> string option" where
  "account_issue s =
     (let t = trim s in
      if t = [] then Some ''Account ID is required.''
      else if \<not> STELLAR_ACCOUNT_REGEX t
      then Some ''Must be a valid Stellar account ID (starts with G and is exactly 56 characters).''
      else None)"

definition asset_issue :: "string \<Rightarrow> string option" where
  "asset_issue s =
     (let t = trim s in
      if t = [] then Some ''Asset code is required.''
      else if \<not> asset_code_text t then Some ''Asset code must be 1-12 alphanumeric characters (e.g. USDC, XLM).''
      else None)"

text \<open>\<open>notNumber\<close> is the library's own message about a value that is no finite number.\<close>

definition amount_issue :: "(numval \<Rightarrow> string) \<Rightarrow> string \<Rightarrow> string option" where
  "amount_issue notNumber s =
     (case js_Number s of
        Num x \<Rightarrow> if 0 < x then None else Some ''Amount must be greater than zero.''
      | v \<Rightarrow> Some (notNumber v))"

section \<open>The form\<close>

record FormValues =
  fv_sender :: string
  fv_recipient :: string
  fv_assetCode :: string
  fv_totalAmount :: string
  fv_durationMinutes :: string
  fv_startInMinutes :: string
  fv_cliffDays :: string

definition INITIAL_VALUES :: FormValues where
  "INITIAL_VALUES = \<lparr> fv_sender = [], fv_recipient = [], fv_assetCode = ''USDC'', fv_totalAmount = ''150'',
     fv_durationMinutes = ''1440'', fv_startInMinutes = ''0'', fv_cliffDays = ''0'' \<rparr>"

record FieldErrors =
  fe_sender :: "string option"
  fe_recipient :: "string option"
  fe_assetCode :: "string option"
  fe_totalAmount :: "string option"
  fe_durationMinutes :: "string option"
  fe_startInMinutes :: "string option"
  fe_cliffDays :: "string option"

definition or_else :: "'a option \<Rightarrow> 'a option \<Rightarrow> 'a option" where
  "or_else a b = (case a of None \<Rightarrow> b | Some x \<Rightarrow> Some x)"

text \<open>
  The first issue that the schema of the whole payload has at \<open>recipient\<close>: one of the field, or, when every
  value had its type, the one about equal accounts. It overrides the message of the field's own check.
\<close>

definition recipient_issue :: "FormValues \<Rightarrow> string option" where
  "recipient_issue v =
     (let s = trim (fv_sender v); r = trim (fv_recipient v) in
      or_else (account_issue r)
        (if s = r \<and> (case js_Number (fv_totalAmount v) of Num x \<Rightarrow> True | _ \<Rightarrow> False)
         then Some ''Recipient must differ from the sender account.'' else None))"

definition validateForm :: "(numval \<Rightarrow> string) \<Rightarrow> FormValues \<Rightarrow> FieldErrors" where
  "validateForm notNumber v =
     (let s = trim (fv_sender v); r = trim (fv_recipient v); a = trim (fv_assetCode v); amt = trim (fv_totalAmount v);
          durationNum = js_Number (fv_durationMinutes v); startNum = js_Number (fv_startInMinutes v);
          cliffDaysStr = trim (fv_cliffDays v); cliffNum = js_Number cliffDaysStr
      in \<lparr> fe_sender = (if s = [] then Some ''Sender account is required.'' else account_issue s),
           fe_recipient = or_else (recipient_issue v)
             (if r = [] then Some ''Recipient account is required.''
              else or_else (account_issue r) (if r = s then Some ''Recipient cannot be the same as sender.'' else None)),
           fe_assetCode = (if a = [] then Some ''Asset code is required.'' else asset_issue a),
           fe_totalAmount = (if amt = [] then Some ''Total amount is required.'' else amount_issue notNumber amt),
           fe_durationMinutes =
             (if fv_durationMinutes v = [] \<or> isNaN durationNum then Some ''Duration is required.''
              else if \<not> isInteger durationNum \<or> less_than durationNum 1 then Some ''Duration must be at least 1 minute.''
              else None),
           fe_startInMinutes =
             (if fv_startInMinutes v = [] \<or> isNaN startNum
              then Some ''Enter 0 to start immediately, or a positive number of minutes.''
              else if \<not> isInteger startNum \<or> less_than startNum 0 then Some ''Must be 0 or a positive whole number.''
              else None),
           fe_cliffDays =
             (if cliffDaysStr = [] \<or> cliffDaysStr = ''0'' then None
              else if isNaN cliffNum \<or> less_than cliffNum 0 then Some ''Cliff must be 0 or a positive number.''
              else if \<not> isNaN durationNum \<and> \<not> less_than durationNum 1 \<and>
                at_least (num_times cliffNum 86400) (num_times durationNum 60)
              then Some ''Cliff must be less than the stream duration.''
              else None) \<rparr>)"

definition isFormValid :: "FieldErrors \<Rightarrow> bool" where
  "isFormValid e =
     (fe_sender e = None \<and> fe_recipient e = None \<and> fe_assetCode e = None \<and> fe_totalAmount e = None \<and>
      fe_durationMinutes e = None \<and> fe_startInMinutes e = None \<and> fe_cliffDays e = None)"

section \<open>The payload\<close>

text \<open>How \<open>JSON.stringify\<close> writes a number.\<close>

fun num_json :: "numval \<Rightarrow> json" where
  "num_json (Num x) = JNum x"
| "num_json v = JNull"

fun num_floor :: "numval \<Rightarrow> numval" where
  "num_floor (Num x) = Num (of_int \<lfloor>x\<rfloor>)"
| "num_floor v = v"

fun plus_int :: "int \<Rightarrow> numval \<Rightarrow> numval" where
  "plus_int n (Num x) = Num (fl (of_int n + x))"
| "plus_int n v = v"

definition positive :: "numval \<Rightarrow> bool" where
  "positive v = (case v of Num x \<Rightarrow> 0 < x | Infinite neg \<Rightarrow> \<not> neg | NaN \<Rightarrow> False)"

text \<open>\<open>now\<close> is the clock in seconds. A field that is \<open>undefined\<close> is left out of the JSON text.\<close>

definition buildCreateStreamPayload :: "int \<Rightarrow> FormValues \<Rightarrow> json" where
  "buildCreateStreamPayload now v =
     (let offsetMinutes = js_Number (fv_startInMinutes v);
          startAt = (if positive offsetMinutes then Some (plus_int now (num_floor (num_times offsetMinutes 60))) else None);
          cliffDays = js_Number (if fv_cliffDays v = [] then ''0'' else fv_cliffDays v);
          cliffSeconds = (if positive cliffDays then Some (num_floor (num_times cliffDays 86400)) else None)
      in JObj ([(''sender'', JStr (trim (fv_sender v))), (''recipient'', JStr (trim (fv_recipient v))),
           (''assetCode'', JStr (toUpperCase (trim (fv_assetCode v)))),
           (''totalAmount'', num_json (js_Number (fv_totalAmount v))),
           (''durationSeconds'', num_json (num_floor (num_times (js_Number (fv_durationMinutes v)) 60)))] @
          opt_field ''startAt'' num_json startAt @ opt_field ''cliffSeconds'' num_json cliffSeconds))"

section \<open>What the server makes of it\<close>

subsection \<open>Trimming and upper case\<close>

lemma dropWhile_id: "s = [] \<or> \<not> P (hd s) \<Longrightarrow> dropWhile P s = s"
  by (cases s) simp_all

lemma trim_id: "s = [] \<or> (\<not> is_space (hd s) \<and> \<not> is_space (last s)) \<Longrightarrow> trim s = s"
  by (cases "s = []") (simp_all add: trim_def dropWhile_id hd_rev)

lemma trim_ends: "trim s \<noteq> [] \<Longrightarrow> \<not> is_space (hd (trim s)) \<and> \<not> is_space (last (trim s))"
proof -
  assume ne: "trim s \<noteq> []"
  define t where "t = dropWhile is_space s"
  define u where "u = dropWhile is_space (rev t)"
  have u: "trim s = rev u" "u \<noteq> []" using ne by (simp_all add: trim_def t_def u_def del: dropWhile_eq_Nil_conv)
  then have t: "t \<noteq> []" by (auto simp: u_def)
  have "\<not> is_space (hd u)" using u(2) unfolding u_def by (rule hd_dropWhile)
  moreover have "last u = last (rev t)"
    using takeWhile_dropWhile_id [of is_space "rev t"] u(2) unfolding u_def [symmetric] by (metis last_appendR)
  moreover have "\<not> is_space (hd t)" using t unfolding t_def by (rule hd_dropWhile)
  ultimately show ?thesis using u t by (simp add: hd_rev last_rev)
qed

lemma trim_trim [simp]: "trim (trim s) = trim s"
  using trim_ends [of s] by (intro trim_id) blast

lemma js_Number_trim [simp]: "js_Number (trim s) = js_Number s"
proof -
  have "number_of_string (trim s) = number_of_string s" by (simp only: number_of_string_def trim_trim)
  then show ?thesis by (simp only: js_Number_def trim_trim)
qed

lemma js_Number_Num: "js_Number s = Num x \<longleftrightarrow> number_of_string s = Some x"
  by (simp add: js_Number_def Let_def split: option.split)

lemma alnum_not_space: "is_alnum c \<Longrightarrow> \<not> is_space c"
  by (auto simp: is_alnum_def is_digit_def is_space_def less_eq_char_def)

lemma alnum_upper: "is_alnum c \<Longrightarrow> is_alnum (upper_char c)"
proof (cases "97 \<le> (of_char c :: nat) \<and> (of_char c :: nat) \<le> 122")
  case True
  then have "(of_char c - 32) mod 256 = (of_char c - 32 :: nat)" by (intro mod_less) arith
  with True have "(of_char (upper_char c) :: nat) = of_char c - 32" by (simp add: upper_char_def Let_def)
  with True have "65 \<le> (of_char (upper_char c) :: nat) \<and> (of_char (upper_char c) :: nat) \<le> 90" by arith
  then show ?thesis by (simp add: is_alnum_def less_eq_char_def)
next
  case False
  then have "upper_char c = c" by (auto simp: upper_char_def Let_def)
  then show "is_alnum c \<Longrightarrow> is_alnum (upper_char c)" by simp
qed

lemma asset_text_upper:
  assumes "asset_code_text t"
  shows "asset_code_text (toUpperCase t)" "trim (toUpperCase t) = toUpperCase t"
proof -
  show up: "asset_code_text (toUpperCase t)"
    using assms alnum_upper by (simp add: asset_code_text_def toUpperCase_def list_all_iff)
  then have "toUpperCase t \<noteq> []" "\<forall>c \<in> set (toUpperCase t). is_alnum c"
    by (auto simp: asset_code_text_def list_all_iff)
  then have "\<not> is_space (hd (toUpperCase t))" "\<not> is_space (last (toUpperCase t))"
    using alnum_not_space by (meson hd_in_set last_in_set)+
  then show "trim (toUpperCase t) = toUpperCase t" by (intro trim_id) blast
qed

subsection \<open>Accepted\<close>

text \<open>
  What the server asks beyond the form: account keys with a valid checksum, an allowed asset, at most seven
  decimals, a start at most a year away; and the request must reach it within fifty seconds of the click.
\<close>

definition server_rules :: "(string \<Rightarrow> bool) \<Rightarrow> string list \<Rightarrow> int \<Rightarrow> int \<Rightarrow> FormValues \<Rightarrow> bool" where
  "server_rules valid allowed now arrival v =
     (valid (trim (fv_sender v)) \<and> valid (trim (fv_recipient v)) \<and>
      toUpperCase (trim (fv_assetCode v)) \<in> set (map (\<lambda>a. toUpperCase (trim a)) allowed) \<and>
      (case js_Number (fv_totalAmount v) of Num x \<Rightarrow> decimals_ok x | _ \<Rightarrow> False) \<and>
      0 \<le> now \<and> now < 2 ^ 40 \<and> now \<le> arrival \<and> arrival \<le> now + 50 \<and>
      \<not> at_least (js_Number (fv_startInMinutes v)) (Num 525601) \<and>
      \<not> at_least (js_Number (fv_durationMinutes v)) (Num (2 ^ 46)))"

lemma whole_minutes:
  assumes "isInteger w" "\<not> less_than w c"
  obtains m where "w = Num (of_int m)" "c \<le> of_int m"
  using assms by (cases w) auto

lemma coerce_int_whole: "\<bar>n\<bar> \<le> 2 ^ 53 - 1 \<Longrightarrow> coerce_int (Some (JNum (of_int n))) = Some n"
  by (simp add: coerce_int_def coerce_number_def as_int_def)

lemma seconds_of_minutes:
  assumes "0 \<le> m" "m < 2 ^ 46"
  shows "fl (of_int m * 60) = of_int (60 * m)"
proof -
  have "fl (of_int (60 * m)) = (of_int (60 * m) :: rat)" using assms by (intro fl_int) simp
  then show ?thesis by (simp add: mult.commute)
qed

lemma start_field:
  assumes "fe_startInMinutes (validateForm notNumber v) = None" "server_rules valid allowed now arrival v"
  shows "(js_Number (fv_startInMinutes v) = Num 0 \<and> \<not> positive (js_Number (fv_startInMinutes v))) \<or>
    (\<exists>k. 0 < k \<and> js_Number (fv_startInMinutes v) = Num (of_int k) \<and> positive (js_Number (fv_startInMinutes v)) \<and>
       plus_int now (num_floor (num_times (js_Number (fv_startInMinutes v)) 60)) = Num (of_int (now + 60 * k)) \<and>
       coerce_int (Some (JNum (of_int (now + 60 * k)))) = Some (now + 60 * k) \<and> start_at_ok arrival (now + 60 * k))"
proof -
  have "isInteger (js_Number (fv_startInMinutes v))" "\<not> less_than (js_Number (fv_startInMinutes v)) 0"
    using assms(1) by (simp_all add: validateForm_def Let_def split: if_splits)
  then obtain k where k: "js_Number (fv_startInMinutes v) = Num (of_int k)" "0 \<le> k"
    by (auto elim: whole_minutes)
  have "\<not> (525601 :: rat) \<le> of_int k" and now: "0 \<le> now" "now < 2 ^ 40" "now \<le> arrival" "arrival \<le> now + 50"
    using assms(2) k by (simp_all add: server_rules_def)
  then have small: "k \<le> 525600" by simp
  show ?thesis
  proof (cases "k = 0")
    case True
    then show ?thesis using k by (simp add: positive_def)
  next
    case False
    have "fl (of_int (now + 60 * k)) = (of_int (now + 60 * k) :: rat)"
      using now small k(2) by (intro fl_int) simp
    then have "plus_int now (num_floor (num_times (js_Number (fv_startInMinutes v)) 60)) = Num (of_int (now + 60 * k))"
      using seconds_of_minutes [of k] k small by simp
    moreover have "coerce_int (Some (JNum (of_int (now + 60 * k)))) = Some (now + 60 * k)"
      using now small k(2) by (intro coerce_int_whole) simp
    moreover have "start_at_ok arrival (now + 60 * k)"
      using now small k(2) False by (simp add: start_at_ok_def)
    ultimately show ?thesis using False k by (intro disjI2 exI [of _ k]) (simp add: positive_def)
  qed
qed

lemma duration_field:
  assumes "fe_durationMinutes (validateForm notNumber v) = None" "server_rules valid allowed now arrival v"
  obtains m where "1 \<le> m" "m < 2 ^ 46" "js_Number (fv_durationMinutes v) = Num (of_int m)"
    "num_floor (num_times (js_Number (fv_durationMinutes v)) 60) = Num (of_int (60 * m))"
    "durationSecondsSchema (Some (JNum (of_int (60 * m)))) = Some (60 * m)"
proof -
  have "isInteger (js_Number (fv_durationMinutes v))" "\<not> less_than (js_Number (fv_durationMinutes v)) 1"
    using assms(1) by (simp_all add: validateForm_def Let_def split: if_splits)
  then obtain m where m: "js_Number (fv_durationMinutes v) = Num (of_int m)" "1 \<le> m"
    by (auto elim: whole_minutes)
  have "\<not> (2 ^ 46 :: rat) \<le> of_int m" using assms(2) m by (simp add: server_rules_def)
  then have "(of_int m :: rat) < of_int (2 ^ 46)" by simp
  then have less: "m < 2 ^ 46" by (simp only: of_int_less_iff)
  have "coerce_int (Some (JNum (of_int (60 * m)))) = Some (60 * m)"
    using m less by (intro coerce_int_whole) simp
  then have "durationSecondsSchema (Some (JNum (of_int (60 * m)))) = Some (60 * m)"
    using m(2) unfolding durationSecondsSchema_def by (simp add: keep_if_def)
  then show ?thesis using that [of m] m less seconds_of_minutes [of m] by simp
qed

lemma cliff_field:
  assumes "fe_cliffDays (validateForm notNumber v) = None" "js_Number (fv_durationMinutes v) = Num (of_int m)"
    "1 \<le> m" "m < 2 ^ 46"
    and c: "c = js_Number (if fv_cliffDays v = [] then ''0'' else fv_cliffDays v)"
  shows "\<not> positive c \<or> (\<exists>k. positive c \<and> num_floor (num_times c 86400) = Num (of_int k) \<and>
    cliffSecondsSchema (Some (JNum (of_int k))) = Some k \<and> 0 \<le> k \<and> k < 60 * m)"
proof (cases "positive c")
  case True
  have zero: "js_Number ''0'' = Num 0" "js_Number [] = Num 0" by code_simp+
  then have ne: "fv_cliffDays v \<noteq> []" using True c by (auto simp: positive_def)
  then have cn: "c = js_Number (trim (fv_cliffDays v))" using c by simp
  then have "trim (fv_cliffDays v) \<noteq> []" "trim (fv_cliffDays v) \<noteq> ''0''"
    using True zero by (auto simp: positive_def simp del: js_Number_trim)
  then have less: "\<not> at_least (num_times c 86400) (num_times (js_Number (fv_durationMinutes v)) 60)"
    using assms(1-3) cn by (simp add: validateForm_def Let_def split: if_splits)
  obtain x where x: "c = Num x" "0 < x"
    using True less assms(2) by (cases c) (auto simp: positive_def)
  obtain k where fk: "\<lfloor>fl (x * 86400)\<rfloor> = k" by blast
  have "fl (x * 86400) < of_int (60 * m)"
    using less x(1) assms(2) seconds_of_minutes [of m] assms(3,4) by simp
  then have k: "k < 60 * m" using fk by (simp only: floor_less_iff [symmetric])
  have "0 \<le> fl (x * 86400)" using x(2) by (intro fl_nonneg) simp
  then have k0: "0 \<le> k" unfolding fk [symmetric] by simp
  then have "coerce_int (Some (JNum (of_int k))) = Some k"
    using k assms(4) by (intro coerce_int_whole) simp
  then have "cliffSecondsSchema (Some (JNum (of_int k))) = Some k"
    using k0 unfolding cliffSecondsSchema_def by (simp add: keep_if_def)
  then show ?thesis using True x fk k k0 by auto
qed simp

lemma account_field:
  "valid (trim s) \<Longrightarrow> trim s \<noteq> [] \<Longrightarrow> stellarAccountIdSchema valid (Some (JStr (trim s))) = Some (trim s)"
  by (simp add: stellarAccountIdSchema_def keep_if_def Suc_le_eq)

lemma payload_fields:
  "is_object (buildCreateStreamPayload now v)"
  "obj_field (buildCreateStreamPayload now v) ''sender'' = Some (JStr (trim (fv_sender v)))"
  "obj_field (buildCreateStreamPayload now v) ''recipient'' = Some (JStr (trim (fv_recipient v)))"
  "obj_field (buildCreateStreamPayload now v) ''assetCode'' = Some (JStr (toUpperCase (trim (fv_assetCode v))))"
  "obj_field (buildCreateStreamPayload now v) ''totalAmount'' = Some (num_json (js_Number (fv_totalAmount v)))"
  "obj_field (buildCreateStreamPayload now v) ''durationSeconds'' =
     Some (num_json (num_floor (num_times (js_Number (fv_durationMinutes v)) 60)))"
  "obj_field (buildCreateStreamPayload now v) ''startAt'' =
     (let w = js_Number (fv_startInMinutes v) in
      if positive w then Some (num_json (plus_int now (num_floor (num_times w 60)))) else None)"
  "obj_field (buildCreateStreamPayload now v) ''cliffSeconds'' =
     (let c = js_Number (if fv_cliffDays v = [] then ''0'' else fv_cliffDays v) in
      if positive c then Some (num_json (num_floor (num_times c 86400))) else None)"
  by (simp_all add: buildCreateStreamPayload_def Let_def opt_field_def)

lemma account_fields:
  assumes "isFormValid (validateForm notNumber v)"
  shows "trim (fv_sender v) \<noteq> []" "trim (fv_recipient v) \<noteq> []" "trim (fv_sender v) \<noteq> trim (fv_recipient v)"
    "asset_code_text (trim (fv_assetCode v))"
  using assms
  by (auto simp: isFormValid_def validateForm_def recipient_issue_def or_else_def account_issue_def asset_issue_def Let_def
      split: if_splits option.splits)

lemma amount_field:
  assumes "isFormValid (validateForm notNumber v)" "server_rules valid allowed now arrival v"
  obtains x where "js_Number (fv_totalAmount v) = Num x" "totalAmountSchema (Some (JNum x)) = Some x"
proof -
  obtain x where x: "js_Number (fv_totalAmount v) = Num x" "decimals_ok x"
    using assms(2) by (auto simp: server_rules_def split: numval.splits)
  have "amount_issue notNumber (trim (fv_totalAmount v)) = None"
    using assms(1) by (simp add: isFormValid_def validateForm_def Let_def split: if_splits)
  then have "0 < x" using x(1) by (simp add: amount_issue_def split: if_splits)
  then show ?thesis using that [of x] x by (simp add: totalAmountSchema_def coerce_number_def keep_if_def)
qed

lemma start_accepted:
  assumes "isFormValid (validateForm notNumber v)" "server_rules valid allowed now arrival v"
  obtains k where "js_Number (fv_startInMinutes v) = Num (of_int k)"
    "optional unixTimestampSchema (obj_field (buildCreateStreamPayload now v) ''startAt'') =
       Some (if k = 0 then None else Some (now + 60 * k))"
    "k \<noteq> 0 \<Longrightarrow> start_at_ok arrival (now + 60 * k)"
proof -
  have "fe_startInMinutes (validateForm notNumber v) = None" using assms(1) by (simp only: isFormValid_def)
  from start_field [OF this assms(2)]
  consider "js_Number (fv_startInMinutes v) = Num 0" "\<not> positive (js_Number (fv_startInMinutes v))"
    | k where "0 < k" "js_Number (fv_startInMinutes v) = Num (of_int k)" "positive (js_Number (fv_startInMinutes v))"
      "plus_int now (num_floor (num_times (js_Number (fv_startInMinutes v)) 60)) = Num (of_int (now + 60 * k))"
      "coerce_int (Some (JNum (of_int (now + 60 * k)))) = Some (now + 60 * k)" "start_at_ok arrival (now + 60 * k)"
    by blast
  then show ?thesis
  proof cases
    case 1
    have "obj_field (buildCreateStreamPayload now v) ''startAt'' = None"
      unfolding payload_fields(7) Let_def using 1(2) by (simp only: if_False)
    then show ?thesis using that [of 0] 1(1) by (simp add: optional_def)
  next
    case 2
    have "0 < now + 60 * k" using assms(2) 2(1) by (simp add: server_rules_def)
    then have "unixTimestampSchema (Some (JNum (of_int (now + 60 * k)))) = Some (now + 60 * k)"
      unfolding unixTimestampSchema_def 2(5) by (simp add: keep_if_def)
    moreover have "obj_field (buildCreateStreamPayload now v) ''startAt'' = Some (JNum (of_int (now + 60 * k)))"
      unfolding payload_fields(7) Let_def using 2(3,4) by (simp only: if_True num_json.simps)
    ultimately have "optional unixTimestampSchema (obj_field (buildCreateStreamPayload now v) ''startAt'') = Some (Some (now + 60 * k))"
      by (simp only: optional_def option.case option.map)
    then show ?thesis using that [of k] 2(1,2,6) by simp
  qed
qed

lemma cliff_accepted:
  assumes "isFormValid (validateForm notNumber v)" "js_Number (fv_durationMinutes v) = Num (of_int m)" "1 \<le> m" "m < 2 ^ 46"
  obtains cl where "optional cliffSecondsSchema (obj_field (buildCreateStreamPayload now v) ''cliffSeconds'') = Some cl"
    "case cl of None \<Rightarrow> True | Some c \<Rightarrow> 0 \<le> c \<and> c < 60 * m"
proof -
  define c where "c = js_Number (if fv_cliffDays v = [] then ''0'' else fv_cliffDays v)"
  have "fe_cliffDays (validateForm notNumber v) = None" using assms(1) by (simp only: isFormValid_def)
  from cliff_field [OF this assms(2-4) c_def]
  consider "\<not> positive c" | k where "positive c" "num_floor (num_times c 86400) = Num (of_int k)"
      "cliffSecondsSchema (Some (JNum (of_int k))) = Some k" "0 \<le> k" "k < 60 * m"
    by blast
  then show ?thesis
  proof cases
    case 1
    then have "obj_field (buildCreateStreamPayload now v) ''cliffSeconds'' = None"
      unfolding payload_fields(8) Let_def c_def [symmetric] by (simp only: if_False)
    then show ?thesis using that [of None] by (simp add: optional_def)
  next
    case 2
    have "obj_field (buildCreateStreamPayload now v) ''cliffSeconds'' = Some (JNum (of_int k))"
      unfolding payload_fields(8) Let_def c_def [symmetric] using 2(1,2) by (simp only: if_True num_json.simps)
    then have "optional cliffSecondsSchema (obj_field (buildCreateStreamPayload now v) ''cliffSeconds'') = Some (Some k)"
      using 2(3) by (simp only: optional_def option.case option.map)
    then show ?thesis using that [of "Some k"] 2(4,5) by simp
  qed
qed


definition sample_form :: FormValues where
  "sample_form = INITIAL_VALUES\<lparr>fv_sender := CHR '' '' # CHR ''G'' # replicate 55 (CHR ''A''),
     fv_recipient := CHR ''G'' # replicate 55 (CHR ''B''), fv_assetCode := '' usdc'', fv_startInMinutes := ''5'',
     fv_cliffDays := ''0.5''\<rparr>"

lemma sample_form_valid: "isFormValid (validateForm (\<lambda>w. ''no number'') sample_form)"
  by code_simp

lemma sample_form_rules: "server_rules (\<lambda>k. True) [''USDC''] 1000000 1000002 sample_form"
  by code_simp


section \<open>What the server says\<close>

text \<open>Title and hint, by the first word found in the message.\<close>

definition humaniseApiError :: "string \<Rightarrow> string \<times> string" where
  "humaniseApiError raw =
     (let lower = toLowerCase raw in
      if includes_str lower ''sender'' \<or> includes_str lower ''recipient''
      then (''Invalid account ID'', ''Double-check that both account IDs start with \"G\" and are exactly 56 characters. You can copy them from Stellar Laboratory.'')
      else if includes_str lower ''asset'' \<or> includes_str lower ''assetcode'' \<or> includes_str lower ''supported''
      then (''Invalid asset code'', raw)
      else if includes_str lower ''amount''
      then (''Invalid amount'', ''The total amount must be a positive number. Check that you haven'' @ [CHR 0x27] @ ''t entered zero or a negative value.'')
      else if includes_str lower ''duration'' \<or> includes_str lower ''seconds''
      then (''Invalid duration'', ''Stream duration must be at least 1 minute (60 seconds). Increase the duration and try again.'')
      else if includes_str lower ''not found''
      then (''Stream not found'', ''This stream may have already been cancelled or never existed. Refresh the page to see the latest state.'')
      else if includes_str lower ''network'' \<or> includes_str lower ''fetch''
      then (''Network error'', ''Could not reach the StellarStream API. Ensure the backend is running and your network connection is stable.'')
      else (''Something went wrong'', raw))"

text \<open>
  The words of a message mislead: a start that is too early, and an amount with too many decimals, are explained
  as a duration that is too short and an amount that is not positive.
\<close>

lemma misleading_hints:
  "fst (humaniseApiError ''startAt must be at least 10 seconds in the future.'') = ''Invalid duration'' \<and>
   fst (humaniseApiError ''Amount cannot have more than 7 decimal places.'') = ''Invalid amount''"
  by code_simp

section \<open>Split streams\<close>

record SplitRecipient =
  sr_address :: string
  sr_percentage :: string

fun num_plus :: "numval \<Rightarrow> numval \<Rightarrow> numval" where
  "num_plus (Num x) (Num y) = Num (fl (x + y))"
| "num_plus (Num x) (Infinite n) = Infinite n"
| "num_plus (Infinite n) (Num y) = Infinite n"
| "num_plus (Infinite n) (Infinite m) = (if n = m then Infinite n else NaN)"
| "num_plus _ _ = NaN"

text \<open>The messages, with what they are made of: the sum of the percentages, or the number of the recipient.\<close>

datatype splitError = SumNot100 numval | AddressRequired nat | AddressInvalid nat | PercentageNotPositive nat

definition split_total :: "SplitRecipient list \<Rightarrow> numval" where
  "split_total rs =
     foldl (\<lambda>sum r. num_plus sum (js_Number (if sr_percentage r = [] then ''0'' else sr_percentage r))) (Num 0) rs"

text \<open>\<open>Math.abs(total - 100) > 0.01\<close>.\<close>

definition off_100 :: "numval \<Rightarrow> bool" where
  "off_100 t = (case t of Num x \<Rightarrow> \<bar>fl (x - 100)\<bar> > fl (1 / 100) | Infinite n \<Rightarrow> True | NaN \<Rightarrow> False)"

fun check_recipients :: "nat \<Rightarrow> SplitRecipient list \<Rightarrow> splitError option" where
  "check_recipients i [] = None"
| "check_recipients i (r # rs) =
     (let addr = trim (sr_address r); pct = js_Number (sr_percentage r) in
      if addr = [] then Some (AddressRequired (i + 1))
      else if \<not> isStellarAccount addr then Some (AddressInvalid (i + 1))
      else if isNaN pct \<or> \<not> positive pct then Some (PercentageNotPositive (i + 1))
      else check_recipients (i + 1) rs)"

definition validateSplitRecipients :: "SplitRecipient list \<Rightarrow> splitError option" where
  "validateSplitRecipients rs =
     (if off_100 (split_total rs) then Some (SumNot100 (split_total rs)) else check_recipients 0 rs)"

definition addSplitRecipient :: "SplitRecipient list \<Rightarrow> SplitRecipient list" where
  "addSplitRecipient rs = (if 10 \<le> length rs then rs else rs @ [\<lparr> sr_address = [], sr_percentage = ''0'' \<rparr>])"

definition removeSplitRecipient :: "nat \<Rightarrow> SplitRecipient list \<Rightarrow> SplitRecipient list" where
  "removeSplitRecipient i rs = (if length rs \<le> 2 then rs else take i rs @ drop (Suc i) rs)"

definition updateSplitRecipient :: "nat \<Rightarrow> (SplitRecipient \<Rightarrow> SplitRecipient) \<Rightarrow> SplitRecipient list \<Rightarrow> SplitRecipient list" where
  "updateSplitRecipient i f rs = (if i < length rs then rs[i := f (rs ! i)] else rs)"

text \<open>There are always between two and ten recipients.\<close>

lemma split_size:
  assumes "2 \<le> length rs" "length rs \<le> 10"
  shows "2 \<le> length (addSplitRecipient rs) \<and> length (addSplitRecipient rs) \<le> 10"
    "2 \<le> length (removeSplitRecipient i rs) \<and> length (removeSplitRecipient i rs) \<le> 10"
    "length (updateSplitRecipient i f rs) = length rs"
  using assms by (auto simp: addSplitRecipient_def removeSplitRecipient_def updateSplitRecipient_def)

lemma check_recipients_ok:
  "check_recipients i rs = None \<Longrightarrow> r \<in> set rs \<Longrightarrow> isStellarAccount (sr_address r) \<and> positive (js_Number (sr_percentage r))"
  by (induction i rs rule: check_recipients.induct) (auto simp: isStellarAccount_def Let_def split: if_splits)

text \<open>
  The same account may be given twice; and the sum is only near a hundred, although the message asks for it exactly.
\<close>

lemma split_tolerance:
  "validateSplitRecipients
     [\<lparr> sr_address = CHR ''G'' # replicate 55 (CHR ''A''), sr_percentage = ''50'' \<rparr>,
      \<lparr> sr_address = CHR ''G'' # replicate 55 (CHR ''A''), sr_percentage = ''50.005'' \<rparr>] = None"
proof -
  have "Option.is_none (validateSplitRecipients
     [\<lparr> sr_address = CHR ''G'' # replicate 55 (CHR ''A''), sr_percentage = ''50'' \<rparr>,
      \<lparr> sr_address = CHR ''G'' # replicate 55 (CHR ''A''), sr_percentage = ''50.005'' \<rparr>])"
    by code_simp
  then show ?thesis by (simp add: Option.is_none_def)
qed

end
