(* ===== verification/ClientActions.thy ===== *)
theory ClientActions
  imports ClientSession ClientForm RouteTheorems
begin

text \<open>
  What the buttons of the dashboard do: the handlers of \<open>frontend/src/pages/DashboardPage.tsx\<close>, the submission of
  \<open>components/CreateStreamForm.tsx\<close> and of \<open>components/EditStartTimeModal.tsx\<close>, and the actions of
  \<open>components/StreamDetailDrawer.tsx\<close>; then one of them composed with the routes of the server. A call of the API
  is a function of the state behind it: an error or a value, and the state after it. Loads that are started without
  waiting are taken at once.
\<close>

section \<open>The page\<close>

text \<open>An \<open>ApiError\<close> with its status and message, another \<open>Error\<close>, or something else that was thrown.\<close>

datatype clientError = ApiFailure int string | OtherError string | NotAnError

type_synonym 'w listCall = "params \<Rightarrow> 'w \<Rightarrow> (clientError + ListResult) \<times> 'w"

type_synonym 'w apiCall = "'w \<Rightarrow> clientError option \<times> 'w"

record 'w Page =
  pg_dash :: DashState
  pg_total :: nat
  pg_toasts :: ToastState
  pg_formError :: "string option"
  pg_server :: 'w

definition load_streams :: "'w listCall \<Rightarrow> ListStreamsFilters \<Rightarrow> 'w Page \<Rightarrow> clientError option \<times> 'w Page" where
  "load_streams call f p =
     (case call (list_params (f\<lparr>f_limit := Some 20\<rparr>)) (pg_server p) of
        (Inl e, w) \<Rightarrow> (Some e, p\<lparr>pg_server := w\<rparr>)
      | (Inr r, w) \<Rightarrow> (None, p\<lparr>pg_server := w, pg_dash := refreshStreams (\<lambda>q. Some r) f (pg_dash p)\<rparr>))"

definition any_stream :: ListStreamsFilters where
  "any_stream =
     \<lparr> f_recipient = [], f_sender = [], f_status = [], f_asset = [], f_q = [], f_sort = [], f_page = None, f_limit = None \<rparr>"

definition refreshUnfilteredCount :: "'w listCall \<Rightarrow> 'w Page \<Rightarrow> 'w Page" where
  "refreshUnfilteredCount call p =
     (case call (list_params (any_stream\<lparr>f_limit := Some 1\<rparr>)) (pg_server p) of
        (Inl e, w) \<Rightarrow> p\<lparr>pg_server := w\<rparr>
      | (Inr r, w) \<Rightarrow> p\<lparr>pg_server := w, pg_total := lr_total r\<rparr>)"

definition page_toast :: "string \<Rightarrow> string \<Rightarrow> 'w Page \<Rightarrow> 'w Page" where
  "page_toast m ty p = p\<lparr>pg_toasts := showToast m ty (pg_toasts p)\<rparr>"

text \<open>The effect that loads the streams whenever the filters change.\<close>

definition load_effect :: "'w listCall \<Rightarrow> ListStreamsFilters \<Rightarrow> 'w Page \<Rightarrow> 'w Page" where
  "load_effect call f p =
     (case load_streams call f p of
        (None, p') \<Rightarrow> p'
      | (Some (ApiFailure code m), p') \<Rightarrow> page_toast (''Failed loading streams ('' @ int_to_string code @ '')'') ''error'' p'
      | (Some e, p') \<Rightarrow> page_toast ''Failed loading streams'' ''error'' p')"

section \<open>Actions\<close>

text \<open>The call, then the listing: whichever throws, the same \<open>catch\<close> sees it.\<close>

definition act_then_load :: "'w apiCall \<Rightarrow> 'w listCall \<Rightarrow> ListStreamsFilters \<Rightarrow> 'w Page \<Rightarrow> clientError option \<times> 'w Page" where
  "act_then_load act call f p =
     (case act (pg_server p) of
        (Some e, w) \<Rightarrow> (Some e, p\<lparr>pg_server := w\<rparr>)
      | (None, w) \<Rightarrow> load_streams call f (p\<lparr>pg_server := w\<rparr>))"

definition failure_text :: "string \<Rightarrow> int \<Rightarrow> string \<Rightarrow> string" where
  "failure_text verb code m = verb @ '' failed ('' @ int_to_string code @ ''): '' @ m"

definition handleCreate :: "'w apiCall \<Rightarrow> 'w listCall \<Rightarrow> ListStreamsFilters \<Rightarrow> 'w Page \<Rightarrow> 'w Page" where
  "handleCreate act call f p =
     (case act_then_load act call f (p\<lparr>pg_formError := None\<rparr>) of
        (None, p') \<Rightarrow> page_toast ''Stream created successfully'' ''success'' (refreshUnfilteredCount call p')
      | (Some (ApiFailure code m), p') \<Rightarrow>
          page_toast (failure_text ''Create'' code m) ''error'' (p'\<lparr>pg_formError := Some m\<rparr>)
      | (Some (OtherError m), p') \<Rightarrow> page_toast m ''error'' (p'\<lparr>pg_formError := Some m\<rparr>)
      | (Some NotAnError, p') \<Rightarrow>
          page_toast ''Failed to create stream.'' ''error'' (p'\<lparr>pg_formError := Some ''Failed to create stream.''\<rparr>))"

definition handleCancel :: "'w apiCall \<Rightarrow> 'w listCall \<Rightarrow> ListStreamsFilters \<Rightarrow> 'w Page \<Rightarrow> 'w Page" where
  "handleCancel act call f p =
     (case act_then_load act call f p of
        (None, p') \<Rightarrow> page_toast ''Stream canceled'' ''info'' (refreshUnfilteredCount call p')
      | (Some (ApiFailure code m), p') \<Rightarrow>
          refreshUnfilteredCount call (page_toast (failure_text ''Cancel'' code m) ''error'' p')
      | (Some (OtherError m), p') \<Rightarrow> page_toast m ''error'' p'
      | (Some NotAnError, p') \<Rightarrow> page_toast ''Failed to cancel the stream.'' ''error'' p')"

definition handlePause :: "'w apiCall \<Rightarrow> 'w listCall \<Rightarrow> ListStreamsFilters \<Rightarrow> 'w Page \<Rightarrow> 'w Page" where
  "handlePause act call f p =
     (case act_then_load act call f p of
        (None, p') \<Rightarrow> page_toast ''Stream paused'' ''info'' (refreshUnfilteredCount call p')
      | (Some (ApiFailure code m), p') \<Rightarrow> page_toast (failure_text ''Pause'' code m) ''error'' p'
      | (Some (OtherError m), p') \<Rightarrow> page_toast m ''error'' p'
      | (Some NotAnError, p') \<Rightarrow> page_toast ''Failed to pause the stream.'' ''error'' p')"

definition handleResume :: "'w apiCall \<Rightarrow> 'w listCall \<Rightarrow> ListStreamsFilters \<Rightarrow> 'w Page \<Rightarrow> 'w Page" where
  "handleResume act call f p =
     (case act_then_load act call f p of
        (None, p') \<Rightarrow> page_toast ''Stream resumed'' ''success'' (refreshUnfilteredCount call p')
      | (Some (ApiFailure code m), p') \<Rightarrow> page_toast (failure_text ''Resume'' code m) ''error'' p'
      | (Some (OtherError m), p') \<Rightarrow> page_toast m ''error'' p'
      | (Some NotAnError, p') \<Rightarrow> page_toast ''Failed to resume the stream.'' ''error'' p')"

definition handleUpdateStartTime :: "'w apiCall \<Rightarrow> 'w listCall \<Rightarrow> ListStreamsFilters \<Rightarrow> 'w Page \<Rightarrow> 'w Page" where
  "handleUpdateStartTime act call f p =
     (case act_then_load act call f p of
        (None, p') \<Rightarrow> page_toast ''Start time updated'' ''success'' p'
      | (Some (ApiFailure code m), p') \<Rightarrow>
          refreshUnfilteredCount call (page_toast (failure_text ''Update'' code m) ''error'' p')
      | (Some e, p') \<Rightarrow> page_toast ''Failed to update stream start time'' ''error'' p')"

text \<open>
  A cancellation that the server carried out is reported as failed when the listing after it fails; the page then
  goes on showing the stream as it was.
\<close>

lemma success_reported_as_failure:
  assumes "act (pg_server p) = (None, w)" "call (list_params (f\<lparr>f_limit := Some 20\<rparr>)) w = (Inl (ApiFailure code m), w')"
  shows "toasts (pg_toasts (handleCancel act call f p)) =
      toasts (showToast (failure_text ''Cancel'' code m) ''error'' (pg_toasts p))"
    "pg_dash (handleCancel act call f p) = pg_dash p"
  using assms
  by (simp_all add: handleCancel_def act_then_load_def load_streams_def refreshUnfilteredCount_def page_toast_def
      split: prod.split sum.split)

text \<open>Two loads race: the listing that arrives last is shown, also when it belongs to filters no longer set.\<close>

lemma late_listing_wins:
  assumes "call (list_params (f\<lparr>f_limit := Some 20\<rparr>)) (pg_server p) = (Inr old, w)"
  shows "ds_streams (pg_dash (load_effect call f p)) = lr_data old"
  using assms by (simp add: load_effect_def load_streams_def refreshStreams_def)

section \<open>The form for a new stream\<close>

record CreateForm =
  cf_draft :: "FormValues Draft"
  cf_submitAttempted :: bool
  cf_preview :: "(json \<times> json) option"
  cf_simulationError :: "string option"
  cf_splitErrors :: "splitError option"
  cf_splitRecipients :: "SplitRecipient list"

definition thrown_text :: "string \<Rightarrow> clientError \<Rightarrow> string" where
  "thrown_text fallback e = (case e of ApiFailure code m \<Rightarrow> m | OtherError m \<Rightarrow> m | NotAnError \<Rightarrow> fallback)"

definition blank_split :: "SplitRecipient list" where
  "blank_split = [\<lparr> sr_address = [], sr_percentage = ''50'' \<rparr>, \<lparr> sr_address = [], sr_percentage = ''50'' \<rparr>]"

text \<open>The list of allowed assets, once fetched, replaces an asset that is not on it.\<close>

definition apply_config :: "string list \<Rightarrow> FormValues \<Rightarrow> FormValues" where
  "apply_config allowedAssets v =
     (if fv_assetCode v \<in> set allowedAssets then v
      else if ''USDC'' \<in> set allowedAssets then v\<lparr>fv_assetCode := ''USDC''\<rparr>
      else (case allowedAssets of [] \<Rightarrow> v | a # as \<Rightarrow> v\<lparr>fv_assetCode := a\<rparr>))"

lemma config_asset_allowed: "allowedAssets \<noteq> [] \<Longrightarrow> fv_assetCode (apply_config allowedAssets v) \<in> set allowedAssets"
  by (simp add: apply_config_def split: list.split)

text \<open>A submission for one recipient asks for the fee; the answer opens the preview.\<close>

definition submit_single ::
  "(numval \<Rightarrow> string) \<Rightarrow> string option \<Rightarrow> int \<Rightarrow> (json \<Rightarrow> clientError + json) \<Rightarrow> CreateForm \<Rightarrow> CreateForm" where
  "submit_single notNumber walletAddress now estimateFee f0 =
     (let f = f0\<lparr>cf_submitAttempted := True, cf_simulationError := None, cf_splitErrors := None\<rparr>;
          vs = draft_value (cf_draft f) in
      if walletAddress = None \<or> walletAddress = Some [] then f
      else if \<not> isFormValid (validateForm notNumber vs) then f
      else let payload = buildCreateStreamPayload now vs in
        (case estimateFee payload of
           Inl e \<Rightarrow> f\<lparr>cf_simulationError := Some (thrown_text ''Failed to estimate network fee.'' e)\<rparr>
         | Inr estimate \<Rightarrow> f\<lparr>cf_preview := Some (payload, estimate)\<rparr>))"

definition splitPayload :: "int \<Rightarrow> FormValues \<Rightarrow> SplitRecipient list \<Rightarrow> json" where
  "splitPayload now v rs =
     (let offsetMinutes = js_Number (fv_startInMinutes v);
          startAt = (if positive offsetMinutes then Some (plus_int now (num_floor (num_times offsetMinutes 60))) else None)
      in JObj ([(''sender'', JStr (trim (fv_sender v))), (''assetCode'', JStr (toUpperCase (trim (fv_assetCode v)))),
           (''totalAmount'', num_json (js_Number (fv_totalAmount v))),
           (''durationSeconds'', num_json (num_floor (num_times (js_Number (fv_durationMinutes v)) 60)))] @
          opt_field ''startAt'' num_json startAt @
          [(''recipients'', JArr (map (\<lambda>r. JObj [(''address'', JStr (trim (sr_address r))),
              (''percentage'', num_json (js_Number (sr_percentage r)))]) rs))]))"

text \<open>A submission for several recipients; \<open>onCreateSplit\<close> is the callback of the page, if it gives one.\<close>

definition submit_split ::
  "(numval \<Rightarrow> string) \<Rightarrow> string option \<Rightarrow> int \<Rightarrow> (json \<Rightarrow> clientError option) option \<Rightarrow> CreateForm \<Rightarrow> CreateForm" where
  "submit_split notNumber walletAddress now onCreateSplit f0 =
     (let f = f0\<lparr>cf_submitAttempted := True, cf_simulationError := None, cf_splitErrors := None\<rparr>;
          vs = draft_value (cf_draft f) in
      if walletAddress = None \<or> walletAddress = Some [] then f
      else (case validateSplitRecipients (cf_splitRecipients f) of
              Some m \<Rightarrow> f\<lparr>cf_splitErrors := Some m\<rparr>
            | None \<Rightarrow>
                if \<not> isFormValid ((validateForm notNumber vs)\<lparr>fe_recipient := None\<rparr>) then f
                else (case onCreateSplit of
                        None \<Rightarrow> f\<lparr>cf_simulationError := Some ''Split stream creation is not supported yet.''\<rparr>
                      | Some create \<Rightarrow>
                          (case create (splitPayload now vs (cf_splitRecipients f)) of
                             Some e \<Rightarrow> f\<lparr>cf_simulationError := Some (thrown_text ''Failed to create split stream.'' e)\<rparr>
                           | None \<Rightarrow> f\<lparr>cf_draft := clearDraft INITIAL_VALUES (cf_draft f), cf_submitAttempted := False,
                                        cf_splitRecipients := blank_split\<rparr>))))"

definition confirmCreateStream ::
  "(json \<Rightarrow> 'w apiCall) \<Rightarrow> 'w listCall \<Rightarrow> ListStreamsFilters \<Rightarrow> CreateForm \<times> 'w Page \<Rightarrow> CreateForm \<times> 'w Page" where
  "confirmCreateStream create call filters fp =
     (case cf_preview (fst fp) of
        None \<Rightarrow> fp
      | Some (payload, estimate) \<Rightarrow>
          ((fst fp)\<lparr>cf_simulationError := None, cf_draft := clearDraft INITIAL_VALUES (cf_draft (fst fp)),
             cf_submitAttempted := False, cf_preview := None\<rparr>,
           handleCreate (create payload) call filters (snd fp)))"

text \<open>
  The handler of the page reports an error and returns, so that the form takes a refused creation for a success: the
  message is shown, and everything that was entered is gone, the stored draft included.
\<close>

lemma refused_creation_loses_draft:
  assumes "cf_preview f = Some (payload, estimate)" "create payload (pg_server p) = (Some (ApiFailure code m), w)"
    and "(f', p') = confirmCreateStream create call filters (f, p)"
  shows "pg_formError p' = Some m" "draft_value (cf_draft f') = INITIAL_VALUES" "draft_stored (cf_draft f') = None"
  using assms
  by (simp_all add: confirmCreateStream_def handleCreate_def act_then_load_def clearDraft_def page_toast_def)

text \<open>The page gives no callback for several recipients, so that no split stream is ever created.\<close>

lemma split_never_created:
  "cf_draft (submit_split notNumber w now None f) = cf_draft f \<and>
   cf_splitRecipients (submit_split notNumber w now None f) = cf_splitRecipients f"
  by (simp add: submit_split_def Let_def split: option.split)

text \<open>What is confirmed is what was valid when the fee was asked for.\<close>

lemma preview_of_valid_form:
  assumes "cf_preview f = None" "cf_preview (submit_single notNumber w now fee f) = Some (payload, estimate)"
  shows "isFormValid (validateForm notNumber (draft_value (cf_draft f))) \<and>
    payload = buildCreateStreamPayload now (draft_value (cf_draft f)) \<and> fee payload = Inr estimate"
  using assms by (auto simp: submit_single_def Let_def split: if_splits sum.splits)

section \<open>The dialog and the drawer\<close>

record Modal =
  md_open :: bool
  md_fieldError :: "string option"
  md_apiError :: "string option"

text \<open>\<open>onConfirm\<close> may throw.\<close>

definition submit_start :: "(int \<Rightarrow> 'p \<Rightarrow> clientError option \<times> 'p) \<Rightarrow> int \<Rightarrow> string \<Rightarrow> int option \<Rightarrow> Modal \<times> 'p \<Rightarrow> Modal \<times> 'p" where
  "submit_start onConfirm now v ts mp =
     (case validate_start now v ts of
        Inl m \<Rightarrow> ((fst mp)\<lparr>md_fieldError := Some m\<rparr>, snd mp)
      | Inr t \<Rightarrow>
          (case onConfirm t (snd mp) of
             (None, p) \<Rightarrow> ((fst mp)\<lparr>md_fieldError := None, md_apiError := None, md_open := False\<rparr>, p)
           | (Some e, p) \<Rightarrow> ((fst mp)\<lparr>md_fieldError := None,
                md_apiError := Some (thrown_text ''Failed to update start time.'' e)\<rparr>, p)))"

text \<open>The page's handler never throws: the dialog closes whatever the server answers, and shows no error of it.\<close>

lemma dialog_closes_on_failure:
  assumes "validate_start now v ts = Inr t"
  shows "md_open (fst (submit_start (\<lambda>t p. (None, handleUpdateStartTime (act t) call f p)) now v ts mp)) = False \<and>
    md_apiError (fst (submit_start (\<lambda>t p. (None, handleUpdateStartTime (act t) call f p)) now v ts mp)) = None"
  using assms by (simp add: submit_start_def)

text \<open>Which actions the drawer offers.\<close>

definition drawer_sender :: "string option \<Rightarrow> StreamRecord \<Rightarrow> bool" where
  "drawer_sender walletAddress s = (walletAddress \<noteq> Some [] \<and> walletAddress = Some (sender s))"

definition showPause :: "string option \<Rightarrow> ListItem \<Rightarrow> bool" where
  "showPause walletAddress i = (drawer_sender walletAddress (item_stream i) \<and> status (item_progress i) = Active)"

definition showResume :: "string option \<Rightarrow> ListItem \<Rightarrow> bool" where
  "showResume walletAddress i = (drawer_sender walletAddress (item_stream i) \<and> status (item_progress i) = Paused)"

text \<open>
  Pausing and resuming from the drawer ask the wallet to sign first; its refusal is the error that is shown.
  Cancelling asks for no signature, and keeps its error in a variable of its own.
\<close>

record 'a DrawerActions =
  da_drawer :: "'a Drawer"
  da_actionError :: "string option"

definition drawer_action ::
  "clientError option \<Rightarrow> ('p \<Rightarrow> clientError option \<times> 'p) \<Rightarrow> string \<Rightarrow> 'a DrawerActions \<times> 'p \<Rightarrow> 'a DrawerActions \<times> 'p" where
  "drawer_action signed onAction fallback dp =
     (case dr_stream (da_drawer (fst dp)) of
        None \<Rightarrow> dp
      | Some s \<Rightarrow>
          (case signed of
             Some e \<Rightarrow> ((fst dp)\<lparr>da_actionError := Some (thrown_text fallback e)\<rparr>, snd dp)
           | None \<Rightarrow>
               (case onAction (snd dp) of
                  (Some e, p) \<Rightarrow> ((fst dp)\<lparr>da_actionError := Some (thrown_text fallback e)\<rparr>, p)
                | (None, p) \<Rightarrow> ((fst dp)\<lparr>da_actionError := None, da_drawer := drawer_fetch (da_drawer (fst dp))\<rparr>, p))))"

text \<open>What the drawer offers is what the server's guards on owner and status let through.\<close>

lemma pause_offered_when_allowed:
  "showPause w (with_progress now s) \<Longrightarrow> w = Some (sender s) \<and> computeStatus s now = Active"
  "showResume w (with_progress now s) \<Longrightarrow> w = Some (sender s) \<and> computeStatus s now = Paused"
  by (simp_all add: showPause_def showResume_def drawer_sender_def with_progress_def)

section \<open>Through the server\<close>

text \<open>The calls of the API on the server's routes: the body of an answer, or its error as the client reads it.\<close>

definition api_error :: "payload response \<Rightarrow> clientError" where
  "api_error r =
     ApiFailure (resp_status r) (case resp_body r of Inl e \<Rightarrow> ae_error e | Inr b \<Rightarrow> ''Unexpected API error'')"

definition server_list :: "RequestContext \<Rightarrow> ZodIssue list \<Rightarrow> int \<Rightarrow> int \<Rightarrow> int \<Rightarrow> App listCall" where
  "server_list req issues t1 t2 t3 p app =
     (let (r, app') = streams_route req issues (server_query p) t1 t2 t3 app
      in (case resp_body r of Inr (PageBody pg) \<Rightarrow> Inr pg | _ \<Rightarrow> Inl (api_error r), app'))"

definition server_cancel ::
  "AuthLibs \<Rightarrow> Config \<Rightarrow> TxIO \<Rightarrow> int \<Rightarrow> int \<Rightarrow> int \<Rightarrow> int \<Rightarrow> Request \<Rightarrow> App apiCall" where
  "server_cancel libs cfg io t0 t1 t2 t3 rq app =
     (let (r, app') = cancel_route libs cfg io t0 t1 t2 t3 rq app
      in (if 200 \<le> resp_status r \<and> resp_status r < 300 then None else Some (api_error r), app'))"

lemma includes_own_prefix: "includes_str (u @ v) u"
  by (auto simp: includes_str_def)

lemma cancel_clears_listings:
  assumes "cancel_commit cfg sid s t app = (r, app')"
  shows "cache_peek t' (''streams:list:'' @ k) (cache app') = None"
  using assms includes_own_prefix [of "''streams:list:''" k]
  by (auto simp: cancel_commit_def invalidate_stream_def invalidateCache_def Let_def fire_webhook_def cache_peek_del
      split: sum.splits)

lemma cancel_call:
  assumes "server_cancel libs cfg io t0 t1 t2 t3 rq app = (None, app')"
    and "parseStreamId (rq_issues rq) (rq_params rq ''id'') = Inr sid" "getStream sid (db app) = Some s" "canceledAt s = None"
  shows "cancel_commit cfg sid (cancel_chain cfg io (s\<lparr>canceledAt := Some t1\<rparr>)) t2 app =
    (Inr (Some (cancel_chain cfg io (s\<lparr>canceledAt := Some t1\<rparr>))), app')"
proof -
  let ?s = "cancel_chain cfg io (s\<lparr>canceledAt := Some t1\<rparr>)"
  obtain r app1 where c: "cancel_commit cfg sid ?s t2 app = (r, app1)" by fastforce
  then have "r = Inr (Some ?s)" using cancel_commit_saved by blast
  moreover from this have "app1 = app'"
    using assms c
    by (auto simp: server_cancel_def cancel_route_def owned_def authed_def with_stream_def authMiddleware_def rejected_token_def cancelStream_def
        cancel_read_def send_error_def Let_def split: if_splits sum.splits option.splits prod.splits)
  ultimately show ?thesis using c by simp
qed

lemma fresh_load:
  assumes "filters_accepted f" "f_page f = None" "\<And>k. cache_peek t1 (''streams:list:'' @ k) (cache (pg_server p)) = None"
  shows "\<exists>w. load_streams (server_list req issues t1 t2 t3) f p =
    (None, p\<lparr>pg_server := w, pg_dash := loaded (whole_listing t2 (db (pg_server p)) f) 0\<rparr>)"
proof -
  let ?d = "db (pg_server p)" and ?q = "list_params (f\<lparr>f_limit := Some 20\<rparr>)"
  have "listStreamsQuerySchema (server_query ?q) \<noteq> None" using server_reads_first [OF assms(1,2), of 20] by simp
  then obtain r where r: "list_answer t2 ?d ?q = Some r" by (auto simp: list_answer_def Let_def)
  have shown: "refreshStreams (\<lambda>q. Some r) f (pg_dash p) = loaded (whole_listing t2 ?d f) 0"
    using first_answer [OF assms(1,2), of t2 ?d "pg_dash p"] r by (simp add: refreshStreams_def)
  have "fst (streams_route req issues (server_query ?q) t1 t2 t3 (pg_server p)) = sendJson 200 (PageBody r)"
    using assms(3) by (intro list_answer_route [OF r]) simp
  then have "\<exists>w. server_list req issues t1 t2 t3 ?q (pg_server p) = (Inr r, w)"
    by (simp add: server_list_def Let_def case_prod_beta)
  then show ?thesis using shown by (auto simp: load_streams_def)
qed

lemma listed_is_stored:
  assumes "keys_ok d" "i \<in> set (whole_listing now d f)"
  shows "getStream (stream_id (item_stream i)) d = Some (item_stream i)"
    "item_progress i = calculateProgress (item_stream i) now"
proof -
  obtain s where s: "i = with_progress now s" "s \<in> set (listStreams False (query_sort (client_query f)) (query_order (client_query f)) d)"
    using assms(2) by (auto simp: whole_listing_def Let_def)
  then obtain row where "row \<in> set (streams d)" "s = rowToRecord row"
    using set_mset_mset by (auto simp: listStreams_def mset_eq_setD [OF mset_order_rows])
  then show "getStream (stream_id (item_stream i)) d = Some (item_stream i)"
    "item_progress i = calculateProgress (item_stream i) now"
    using s(1) assms(1) by (simp_all add: with_progress_def getStream_def find_stream_def keys_ok_def lookup_by_mem)
qed


definition sample_page :: "App Page" where
  "sample_page =
     \<lparr> pg_dash = loaded [] 0, pg_total = 0, pg_toasts = \<lparr> toasts = [], idRef = 1 \<rparr>, pg_formError = None,
       pg_server = sample_app \<rparr>"


end
