(* ===== verification/ClientClaims.thy ===== *)
theory ClientClaims
  imports ClientTables
begin

text \<open>
  Claiming in the browser: the transaction of \<open>frontend/src/services/soroban.ts\<close>, the hook for one claim
  (\<open>hooks/useClaimStream.ts\<close>) and the one for a batch (\<open>hooks/useClaimBatch.ts\<close>). The wallet and the RPC
  server are parameters; the two hooks are state machines whose steps are the events of the browser.
\<close>

section \<open>One claim on chain\<close>

datatype claimError =
    SorobanClaimError string string
  | OtherError string

fun claim_message :: "claimError \<Rightarrow> string" where
  "claim_message (SorobanClaimError m code) = m"
| "claim_message (OtherError m) = m"

record ClaimResult =
  claimedAmount :: jsnum
  cr_assetCode :: string
  txHash :: string

record ClaimResponse =
  cr_result :: ClaimResult
  cr_history :: "StreamEvent list"

record ClaimTx =
  tx_stream :: int
  tx_recipient :: string
  tx_amount :: int

text \<open>What the wallet returns: a text, or an object with one of three fields.\<close>

datatype signedTransaction = SignedText string | SignedObject "string option" "string option" "string option"

fun normalizeSignedXdr :: "signedTransaction \<Rightarrow> claimError + string" where
  "normalizeSignedXdr (SignedText s) = Inr s"
| "normalizeSignedXdr (SignedObject a b c) =
     (case (case a of Some x \<Rightarrow> Some x | None \<Rightarrow> (case b of Some x \<Rightarrow> Some x | None \<Rightarrow> c)) of
        Some (x # xs) \<Rightarrow> Inr (x # xs)
      | _ \<Rightarrow> Inl (SorobanClaimError ''Freighter did not return a signed transaction.'' ''FREIGHTER_SIGNING_FAILED''))"

text \<open>The amount is a finite number.\<close>

definition toContractI128Amount :: "jsnum \<Rightarrow> claimError + int" where
  "toContractI128Amount amt =
     (if amt \<le> 0 then Inl (SorobanClaimError ''No claimable amount available.'' ''NO_CLAIMABLE_AMOUNT'')
      else if of_int \<lfloor>amt\<rfloor> \<noteq> amt
      then Inl (SorobanClaimError ''Claim amount must be an integer contract amount.'' ''INVALID_CLAIM_AMOUNT'')
      else Inr \<lfloor>amt\<rfloor>)"

definition claimStreamNumber :: "string \<Rightarrow> claimError + int" where
  "claimStreamNumber sid =
     (case number_of_string sid of
        Some x \<Rightarrow> if of_int \<lfloor>x\<rfloor> = x \<and> \<bar>x\<bar> \<le> 2 ^ 53 - 1 \<and> 0 < x then Inr \<lfloor>x\<rfloor>
                  else Inl (SorobanClaimError ''Invalid stream ID.'' ''INVALID_STREAM_ID'')
      | None \<Rightarrow> Inl (SorobanClaimError ''Invalid stream ID.'' ''INVALID_STREAM_ID''))"

definition TX_POLL_ATTEMPTS :: nat where "TX_POLL_ATTEMPTS = 30"

text \<open>\<open>getTransaction\<close> at each poll: the status, or \<open>None\<close> where the request fails.\<close>

fun wait_polls :: "nat \<Rightarrow> nat \<Rightarrow> (nat \<Rightarrow> string option) \<Rightarrow> claimError + unit" where
  "wait_polls 0 poll getTransaction = Inr ()"
| "wait_polls (Suc left) poll getTransaction =
     (let st = (case getTransaction poll of Some s \<Rightarrow> s | None \<Rightarrow> ''NOT_FOUND'') in
      if st = ''SUCCESS'' then Inr ()
      else if st = ''FAILED'' then Inl (SorobanClaimError ''Soroban claim transaction failed.'' ''TRANSACTION_FAILED'')
      else wait_polls left (Suc poll) getTransaction)"

definition waitForFinalTransactionStatus :: "(nat \<Rightarrow> string option) \<Rightarrow> claimError + unit" where
  "waitForFinalTransactionStatus getTransaction = wait_polls TX_POLL_ATTEMPTS 0 getTransaction"

text \<open>The network and the wallet; a \<open>Left\<close> is the message of what they throw.\<close>

record ClaimLibs =
  lib_contractId :: string
  lib_getAccount :: "string \<Rightarrow> string + unit"
  lib_prepare :: "ClaimTx \<Rightarrow> string + string"
  lib_sign :: "string \<Rightarrow> string \<Rightarrow> string + signedTransaction"
  lib_fromXDR :: "string \<Rightarrow> string + ClaimTx"
  lib_send :: "ClaimTx \<Rightarrow> string + (string option \<times> string)"
  lib_getTransaction :: "string \<Rightarrow> nat \<Rightarrow> string option"
  lib_reconcile :: "string \<Rightarrow> string \<Rightarrow> StreamEvent list option"

definition lift_error :: "string + 'a \<Rightarrow> claimError + 'a" where
  "lift_error r = (case r of Inl m \<Rightarrow> Inl (OtherError m) | Inr x \<Rightarrow> Inr x)"

definition bind_claim :: "claimError + 'a \<Rightarrow> ('a \<Rightarrow> claimError + 'b) \<Rightarrow> claimError + 'b" where
  "bind_claim r f = (case r of Inl e \<Rightarrow> Inl e | Inr x \<Rightarrow> f x)"

text \<open>Everything up to the signed transaction.\<close>

definition signed_claim :: "ClaimLibs \<Rightarrow> string \<Rightarrow> string \<Rightarrow> jsnum \<Rightarrow> claimError + ClaimTx" where
  "signed_claim libs sid recipientAddress amt =
     (if lib_contractId libs = []
      then Inl (SorobanClaimError ''Missing VITE_CONTRACT_ID; cannot submit Soroban claim.'' ''MISSING_CONTRACT_ID'')
      else bind_claim (claimStreamNumber sid) (\<lambda>n.
        bind_claim (toContractI128Amount amt) (\<lambda>contractAmount.
        bind_claim (lift_error (lib_getAccount libs recipientAddress)) (\<lambda>u.
        bind_claim (lift_error (lib_prepare libs
          \<lparr> tx_stream = n, tx_recipient = recipientAddress, tx_amount = contractAmount \<rparr>)) (\<lambda>xdr.
        bind_claim (lift_error (lib_sign libs recipientAddress xdr)) (\<lambda>signed.
        bind_claim (normalizeSignedXdr signed) (\<lambda>signedXdr.
        lift_error (lib_fromXDR libs signedXdr))))))))"

text \<open>From the submission on.\<close>

definition submitted_claim :: "ClaimLibs \<Rightarrow> string \<Rightarrow> jsnum \<Rightarrow> string \<Rightarrow> ClaimTx \<Rightarrow> claimError + ClaimResponse" where
  "submitted_claim libs sid amt code tx =
     bind_claim (lift_error (lib_send libs tx)) (\<lambda>(hash, sendStatus).
       case hash of
         Some (h # hs) \<Rightarrow>
           if sendStatus \<noteq> [] \<and> sendStatus \<noteq> ''PENDING''
           then Inl (SorobanClaimError (''Soroban claim submission failed: '' @ sendStatus) ''TRANSACTION_SUBMISSION_FAILED'')
           else bind_claim (waitForFinalTransactionStatus (lib_getTransaction libs (h # hs))) (\<lambda>u.
             Inr \<lparr> cr_result = \<lparr> claimedAmount = amt, cr_assetCode = code, txHash = h # hs \<rparr>,
                    cr_history = (case lib_reconcile libs sid (h # hs) of None \<Rightarrow> [] | Some es \<Rightarrow> es) \<rparr>)
       | _ \<Rightarrow> Inl (SorobanClaimError ''Soroban RPC did not return a transaction hash.'' ''MISSING_TRANSACTION_HASH''))"

text \<open>The outcome, and the transactions handed to \<open>sendTransaction\<close>.\<close>

definition claimWithFreighter ::
  "ClaimLibs \<Rightarrow> string \<Rightarrow> string \<Rightarrow> jsnum \<Rightarrow> string \<Rightarrow> (claimError + ClaimResponse) \<times> ClaimTx list" where
  "claimWithFreighter libs sid recipientAddress amt code =
     (case signed_claim libs sid recipientAddress amt of
        Inl e \<Rightarrow> (Inl e, [])
      | Inr tx \<Rightarrow> (submitted_claim libs sid amt code tx, [tx]))"

text \<open>A wallet that signs what it is given.\<close>

definition faithful_wallet :: "ClaimLibs \<Rightarrow> bool" where
  "faithful_wallet libs =
     (\<forall>tx xdr signed signedXdr tx'. lib_prepare libs tx = Inr xdr \<longrightarrow> lib_sign libs (tx_recipient tx) xdr = Inr signed \<longrightarrow>
        normalizeSignedXdr signed = Inr signedXdr \<longrightarrow> lib_fromXDR libs signedXdr = Inr tx' \<longrightarrow> tx' = tx)"

lemma bind_claim_Inr: "bind_claim r f = Inr y \<longleftrightarrow> (\<exists>x. r = Inr x \<and> f x = Inr y)"
  by (cases r) (simp_all add: bind_claim_def)

lemma lift_error_Inr [simp]: "lift_error r = Inr x \<longleftrightarrow> r = Inr x"
  by (cases r) (simp_all add: lift_error_def)

lemma signed_claim_Inr:
  assumes "signed_claim libs sid who amt = Inr tx" "faithful_wallet libs"
  shows "number_of_string sid = Some (of_int (tx_stream tx)) \<and> 0 < tx_stream tx \<and> tx_recipient tx = who \<and>
    amt = of_int (tx_amount tx) \<and> 0 < tx_amount tx"
proof -
  obtain n a xdr signed signedXdr where
    "claimStreamNumber sid = Inr n" "toContractI128Amount amt = Inr a"
    "lib_prepare libs \<lparr> tx_stream = n, tx_recipient = who, tx_amount = a \<rparr> = Inr xdr"
    "lib_sign libs who xdr = Inr signed" "normalizeSignedXdr signed = Inr signedXdr" "lib_fromXDR libs signedXdr = Inr tx"
    using assms(1) by (auto simp: signed_claim_def bind_claim_Inr split: if_splits)
  moreover from this have "tx = \<lparr> tx_stream = n, tx_recipient = who, tx_amount = a \<rparr>"
    using assms(2) unfolding faithful_wallet_def by (metis ClaimTx.select_convs(2))
  ultimately show ?thesis
    by (auto simp: claimStreamNumber_def toContractI128Amount_def not_le split: option.splits if_splits)
qed

lemma submitted_claim_Inr:
  assumes "submitted_claim libs sid amt code tx = Inr resp"
  shows "claimedAmount (cr_result resp) = amt \<and> txHash (cr_result resp) \<noteq> [] \<and>
    (\<exists>st. lib_send libs tx = Inr (Some (txHash (cr_result resp)), st))"
proof (cases "lib_send libs tx")
  case (Inr answer)
  obtain hash st where answer: "answer = (hash, st)" by fastforce
  show ?thesis
  proof (cases hash)
    case (Some h)
    then show ?thesis
      using assms Inr answer
      by (cases h) (auto simp: submitted_claim_def bind_claim_def lift_error_def split: if_splits sum.splits)
  qed (use assms Inr answer in \<open>simp add: submitted_claim_def bind_claim_def lift_error_def\<close>)
qed (use assms in \<open>simp add: submitted_claim_def bind_claim_def lift_error_def\<close>)

text \<open>C22: One claim sends at most one transaction, and the right one: whatever the network answers, with a wallet
  that signs what it is shown, a claim submits nothing or exactly the transaction for the stream of
  that number, the recipient of the dashboard and the whole amount that was shown, a positive integer;
  a success is only reported for a submitted one, with that amount and a hash of the network.\<close>

theorem claim_submits_what_is_shown:
  assumes "faithful_wallet libs" "claimWithFreighter libs sid who amt code = (r, txs)"
  shows "(txs = [] \<and> isl r) \<or>
    (\<exists>n a. txs = [\<lparr> tx_stream = n, tx_recipient = who, tx_amount = a \<rparr>] \<and> 0 < n \<and> 0 < a \<and>
       number_of_string sid = Some (of_int n) \<and> amt = of_int a \<and>
       (case r of Inl e \<Rightarrow> True
        | Inr resp \<Rightarrow> claimedAmount (cr_result resp) = amt \<and> txHash (cr_result resp) \<noteq> [] \<and>
            (\<exists>st. lib_send libs \<lparr> tx_stream = n, tx_recipient = who, tx_amount = a \<rparr> =
               Inr (Some (txHash (cr_result resp)), st))))"
proof (cases "signed_claim libs sid who amt")
  case (Inl e)
  then show ?thesis using assms(2) by (auto simp: claimWithFreighter_def)
next
  case (Inr tx)
  note s = signed_claim_Inr [OF Inr assms(1)]
  obtain n a where tx: "tx = \<lparr> tx_stream = n, tx_recipient = who, tx_amount = a \<rparr>"
    using s by (cases tx) auto
  have r: "r = submitted_claim libs sid amt code tx" "txs = [tx]"
    using assms(2) by (simp_all add: claimWithFreighter_def Inr)
  have "case r of Inl e \<Rightarrow> True
      | Inr resp \<Rightarrow> claimedAmount (cr_result resp) = amt \<and> txHash (cr_result resp) \<noteq> [] \<and>
          (\<exists>st. lib_send libs tx = Inr (Some (txHash (cr_result resp)), st))"
    using submitted_claim_Inr [of libs sid amt code tx] by (cases r) (simp_all add: r(1))
  then show ?thesis
    using s r(2) unfolding tx by (intro disjI2 exI [of _ n] exI [of _ a]) simp
qed

definition sample_tx :: ClaimTx where
  "sample_tx = \<lparr> tx_stream = 7, tx_recipient = ''GR'', tx_amount = 50 \<rparr>"

definition sample_libs :: ClaimLibs where
  "sample_libs =
     \<lparr> lib_contractId = ''CABC'', lib_getAccount = (\<lambda>a. Inr ()),
       lib_prepare = (\<lambda>tx. if tx_stream tx = 7 \<and> tx_recipient tx = ''GR'' \<and> tx_amount tx = 50 then Inr ''XDR'' else Inl ''no''),
       lib_sign = (\<lambda>who xdr. Inr (SignedObject None (Some xdr) None)),
       lib_fromXDR = (\<lambda>xdr. if xdr = ''XDR'' then Inr sample_tx else Inl ''bad''),
       lib_send = (\<lambda>tx. Inr (Some ''hash'', ''PENDING'')),
       lib_getTransaction = (\<lambda>h k. if k < 2 then None else Some ''SUCCESS''),
       lib_reconcile = (\<lambda>sid h. None) \<rparr>"

lemma sample_wallet: "faithful_wallet sample_libs"
  by (auto simp: faithful_wallet_def sample_libs_def sample_tx_def split: if_splits)

definition sample_claim :: "(claimError + ClaimResponse) \<times> ClaimTx list" where
  "sample_claim = claimWithFreighter sample_libs ''7'' ''GR'' 50 ''USDC''"

lemma sample_claim_ok: "\<not> isl (fst sample_claim)"
  by code_simp

theorem claim_submits_what_is_shown_witness:
  "snd sample_claim \<noteq> [] \<and> map tx_amount (snd sample_claim) = [50]"
proof -
  have "claimWithFreighter sample_libs ''7'' ''GR'' 50 ''USDC'' = (fst sample_claim, snd sample_claim)"
    by (simp add: sample_claim_def)
  from claim_submits_what_is_shown [OF sample_wallet this] sample_claim_ok
  obtain n a where txs: "snd sample_claim = [\<lparr> tx_stream = n, tx_recipient = ''GR'', tx_amount = a \<rparr>]" and "(50 :: rat) = of_int a"
    by blast
  then have "of_int a = (50 :: rat)" by simp
  then have "a = 50" by (simp only: of_int_eq_numeral_iff)
  with txs show ?thesis by simp
qed

text \<open>
  A transaction of which nothing is heard in thirty polls is treated as final: the claim is reported as a
  success without the network having confirmed it.
\<close>

lemma wait_gives_up:
  assumes "\<And>k. getTransaction k = None \<or> getTransaction k = Some ''NOT_FOUND''"
  shows "waitForFinalTransactionStatus getTransaction = Inr ()"
proof -
  have "wait_polls left poll getTransaction = Inr ()" for left poll
  proof (induction left arbitrary: poll)
    case (Suc left)
    then show ?case using assms [of poll] by (auto simp: Let_def)
  qed simp
  then show ?thesis by (simp add: waitForFinalTransactionStatus_def)
qed

text \<open>
  The button claims the vested amount, in units of the asset: whenever that is no whole number, nothing is submitted.
\<close>

lemma fraction_not_claimed:
  "of_int \<lfloor>amt\<rfloor> \<noteq> amt \<Longrightarrow> snd (claimWithFreighter libs sid who amt code) = [] \<and> isl (fst (claimWithFreighter libs sid who amt code))"
  by (simp add: claimWithFreighter_def signed_claim_def bind_claim_def toContractI128Amount_def split: sum.split)

text \<open>
  The dashboard offers the button for the streams of its active table; one whose time is over is not among them,
  claimed or not.
\<close>

lemma ended_not_claimable:
  assumes "startAt s + durationSeconds s + pausedDuration s \<le> now" "startAt s \<le> now"
  shows "with_progress now s \<notin> set (rf_active (recipient_figures items))"
  using assms by (auto simp: recipient_figures_def with_status_def with_progress_def computeStatus_def Let_def)

end
