(* ===== verification/ClientHooks.thy ===== *)
theory ClientHooks
  imports ClientClaims
begin

text \<open>
  The hooks around claiming, \<open>frontend/src/hooks/useClaimStream.ts\<close> and \<open>useClaimBatch.ts\<close>, as state
  machines: a step is a click, an answer of the network or a timer, and runs everything up to the next
  \<open>await\<close>. React renders the state of a click before the next one, so a handler sees the current state.
\<close>

section \<open>One claim\<close>

datatype ClaimStatus = Idle | Pending | Confirmed | Failed

record ClaimState =
  cs_streamId :: "string option"
  cs_status :: ClaimStatus
  cs_error :: "string option"

record ClaimInput =
  ci_streamId :: string
  ci_recipient :: string
  ci_amount :: jsnum
  ci_assetCode :: "string option"

text \<open>\<open>inFlight\<close> are the claims whose answer is awaited, \<open>fading\<close> the pending timers, by claim id.\<close>

record ClaimHook =
  claimState :: ClaimState
  claimIdRef :: nat
  inFlight :: "(nat \<times> ClaimInput) list"
  fading :: "nat list"

definition idle_claim :: ClaimState where
  "idle_claim = \<lparr> cs_streamId = None, cs_status = Idle, cs_error = None \<rparr>"

definition claim_hook :: ClaimHook where
  "claim_hook = \<lparr> claimState = idle_claim, claimIdRef = 0, inFlight = [], fading = [] \<rparr>"

definition start_claim :: "ClaimInput \<Rightarrow> ClaimHook \<Rightarrow> ClaimHook" where
  "start_claim i h =
     (if cs_status (claimState h) = Pending then h
      else if ci_amount i = 0 then h
      else let claimId = claimIdRef h + 1 in
        h\<lparr>claimState := \<lparr> cs_streamId = Some (ci_streamId i), cs_status = Pending, cs_error = None \<rparr>,
          claimIdRef := claimId, inFlight := inFlight h @ [(claimId, i)]\<rparr>)"

text \<open>The answer to a claim; the callbacks \<open>onSuccess\<close> and \<open>onFailure\<close> only refresh lists and show toasts.\<close>

definition claim_confirmed :: "nat \<times> ClaimInput \<Rightarrow> ClaimHook \<Rightarrow> ClaimHook" where
  "claim_confirmed c h =
     (let h1 = h\<lparr>inFlight := removeAll c (inFlight h)\<rparr> in
      if claimIdRef h \<noteq> fst c then h1
      else h1\<lparr>claimState := \<lparr> cs_streamId = Some (ci_streamId (snd c)), cs_status = Confirmed, cs_error = None \<rparr>,
              fading := fading h @ [fst c]\<rparr>)"

definition claim_failed :: "nat \<times> ClaimInput \<Rightarrow> string \<Rightarrow> ClaimHook \<Rightarrow> ClaimHook" where
  "claim_failed c m h =
     (let h1 = h\<lparr>inFlight := removeAll c (inFlight h)\<rparr> in
      if claimIdRef h \<noteq> fst c then h1
      else h1\<lparr>claimState := \<lparr> cs_streamId = Some (ci_streamId (snd c)), cs_status = Failed, cs_error = Some m \<rparr>\<rparr>)"

definition claim_faded :: "nat \<Rightarrow> ClaimHook \<Rightarrow> ClaimHook" where
  "claim_faded k h =
     (let h1 = h\<lparr>fading := removeAll k (fading h)\<rparr> in
      if claimIdRef h = k then h1\<lparr>claimState := idle_claim\<rparr> else h1)"

inductive claim_reaches :: "ClaimHook \<Rightarrow> bool" where
  Mount: "claim_reaches claim_hook"
| Click: "claim_reaches h \<Longrightarrow> claim_reaches (start_claim i h)"
| Confirm: "claim_reaches h \<Longrightarrow> c \<in> set (inFlight h) \<Longrightarrow> claim_reaches (claim_confirmed c h)"
| Fail: "claim_reaches h \<Longrightarrow> c \<in> set (inFlight h) \<Longrightarrow> claim_reaches (claim_failed c m h)"
| Fade: "claim_reaches h \<Longrightarrow> k \<in> set (fading h) \<Longrightarrow> claim_reaches (claim_faded k h)"

text \<open>
  A button is disabled while its own stream is being claimed, and when there is nothing to claim. Its label is
  without the tick and the ellipsis, which are no ASCII characters.
\<close>

record ClaimButton =
  cb_disabled :: bool
  cb_label :: string

definition claim_button :: "ClaimState \<Rightarrow> bool \<Rightarrow> string \<Rightarrow> jsnum \<Rightarrow> string \<Rightarrow> ClaimButton" where
  "claim_button cs walletConnected sid claimableAmount code =
     (let isPending = (cs_streamId cs = Some sid \<and> cs_status cs = Pending);
          isConfirmed = (cs_streamId cs = Some sid \<and> cs_status cs = Confirmed)
      in \<lparr> cb_disabled = (\<not> walletConnected \<or> isPending \<or> claimableAmount \<le> 0),
           cb_label = (if isConfirmed then ''Claimed'' else if isPending then ''Claiming''
             else if \<not> walletConnected then ''Connect wallet''
             else ''Claim '' @ num_toString claimableAmount @ '' '' @ code) \<rparr>)"

text \<open>What holds of the hook: one claim at most is awaited, it is the newest, and the state is about it.\<close>

definition hook_ok :: "ClaimHook \<Rightarrow> bool" where
  "hook_ok h =
     (if cs_status (claimState h) = Pending
      then (case inFlight h of [c] \<Rightarrow> fst c = claimIdRef h \<and> cs_streamId (claimState h) = Some (ci_streamId (snd c)) | _ \<Rightarrow> False)
        \<and> claimIdRef h \<notin> set (fading h)
      else inFlight h = []) "

definition fading_ok :: "ClaimHook \<Rightarrow> bool" where
  "fading_ok h = (\<forall>k \<in> set (fading h). k \<le> claimIdRef h)"

lemma claim_reaches_ok: "claim_reaches h \<Longrightarrow> hook_ok h \<and> fading_ok h"
proof (induction rule: claim_reaches.induct)
  case Mount
  show ?case by (simp add: hook_ok_def fading_ok_def claim_hook_def idle_claim_def)
next
  case (Click h i)
  then show ?case by (fastforce simp: hook_ok_def fading_ok_def start_claim_def Let_def)
next
  case (Confirm h c)
  then show ?case
    by (auto simp: hook_ok_def fading_ok_def claim_confirmed_def Let_def split: if_splits list.splits)
next
  case (Fail h c m)
  then show ?case
    by (auto simp: hook_ok_def fading_ok_def claim_failed_def Let_def split: if_splits list.splits)
next
  case (Fade h k)
  then show ?case
    by (auto simp: hook_ok_def fading_ok_def claim_faded_def idle_claim_def Let_def split: if_splits list.splits)
qed

text \<open>One claim at a time: however often the buttons are clicked and whenever answers and timers arrive, at
  most one claim is awaited, exactly while the state is pending; it is the newest one, and the state and
  the disabled button are those of its stream.\<close>

theorem one_claim_in_flight:
  assumes "claim_reaches h"
  shows "length (inFlight h) \<le> 1 \<and> (inFlight h \<noteq> [] \<longleftrightarrow> cs_status (claimState h) = Pending) \<and>
    (\<forall>c \<in> set (inFlight h). fst c = claimIdRef h \<and> cs_streamId (claimState h) = Some (ci_streamId (snd c)) \<and>
       cb_disabled (claim_button (claimState h) True (ci_streamId (snd c)) (ci_amount (snd c)) code))"
  using claim_reaches_ok [OF assms]
  by (auto simp: hook_ok_def claim_button_def Let_def split: if_splits list.splits)

definition sample_input :: ClaimInput where
  "sample_input = \<lparr> ci_streamId = ''7'', ci_recipient = ''GR'', ci_amount = 50, ci_assetCode = Some ''USDC'' \<rparr>"

theorem one_claim_in_flight_witness:
  "inFlight (start_claim sample_input (start_claim sample_input claim_hook)) = [(1, sample_input)] \<and>
   length (inFlight (start_claim sample_input (start_claim sample_input claim_hook))) \<le> 1"
proof -
  have "claim_reaches (start_claim sample_input (start_claim sample_input claim_hook))"
    by (intro Click Mount)
  moreover have "inFlight (start_claim sample_input (start_claim sample_input claim_hook)) = [(1, sample_input)]"
    by (simp add: start_claim_def claim_hook_def idle_claim_def sample_input_def Let_def)
  ultimately show ?thesis using one_claim_in_flight by blast
qed

section \<open>A batch\<close>

datatype BatchClaimPhase = BatchIdle | Fetching | Ready | Claiming | Complete

record BatchClaimInput =
  bi_streamId :: string
  bi_amount :: jsnum
  bi_assetCode :: string

record BatchClaimState =
  bc_phase :: BatchClaimPhase
  bc_claimable :: "string \<Rightarrow> jsnum option"
  bc_totalClaimable :: jsnum
  bc_assetLabel :: string
  bc_progress :: "nat \<times> nat"
  bc_failures :: "(string \<times> string) list"
  bc_successCount :: nat
  bc_error :: "string option"

definition initial_batch :: BatchClaimState where
  "initial_batch =
     \<lparr> bc_phase = BatchIdle, bc_claimable = Map.empty, bc_totalClaimable = 0, bc_assetLabel = ''XLM'',
       bc_progress = (0, 0), bc_failures = [], bc_successCount = 0, bc_error = None \<rparr>"

text \<open>The amounts of the contract replace the shown ones; what has nothing to claim is left out.\<close>

definition claimable_of :: "(string \<Rightarrow> jsnum option) \<Rightarrow> BatchClaimInput list \<Rightarrow> BatchClaimInput list" where
  "claimable_of amounts inputs =
     filter (\<lambda>i. 0 < bi_amount i)
       (map (\<lambda>i. i\<lparr>bi_amount := (case amounts (bi_streamId i) of None \<Rightarrow> 0 | Some v \<Rightarrow> v)\<rparr>) inputs)"

definition ready_state :: "BatchClaimInput list \<Rightarrow> BatchClaimState" where
  "ready_state claimable =
     \<lparr> bc_phase = Ready, bc_claimable = foldl (\<lambda>m i. m(bi_streamId i \<mapsto> bi_amount i)) Map.empty claimable,
       bc_totalClaimable = foldl (\<lambda>sum i. fl (sum + bi_amount i)) 0 claimable,
       bc_assetLabel = (case remdups (map bi_assetCode claimable) of [a] \<Rightarrow> a | _ \<Rightarrow> ''tokens''),
       bc_progress = (0, length claimable), bc_failures = [], bc_successCount = 0, bc_error = None \<rparr>"

text \<open>A call of \<open>executeBatch\<close>: its input, what is left of it, the claim it awaits, and its counters.\<close>

record BatchRun =
  given :: "BatchClaimInput list"
  todo :: "BatchClaimInput list"
  awaiting :: "BatchClaimInput option"
  run_failures :: "(string \<times> string) list"
  run_successes :: nat
  over :: bool

text \<open>\<open>claims\<close> are the calls of \<open>claimStream\<close> in order, with the run each belongs to.\<close>

record BatchHook =
  bstate :: BatchClaimState
  runIdRef :: nat
  brun :: "nat \<Rightarrow> BatchRun option"
  fetches :: "nat \<Rightarrow> BatchClaimInput list option"
  claims :: "(nat \<times> BatchClaimInput) list"

definition batch_hook :: BatchHook where
  "batch_hook = \<lparr> bstate = initial_batch, runIdRef = 0, brun = Map.empty, fetches = Map.empty, claims = [] \<rparr>"

definition reset :: "BatchHook \<Rightarrow> BatchHook" where
  "reset h = h\<lparr>runIdRef := runIdRef h + 1, bstate := initial_batch\<rparr>"

definition fetchClaimable :: "BatchClaimInput list \<Rightarrow> BatchHook \<Rightarrow> BatchHook" where
  "fetchClaimable inputs h =
     (if inputs = [] then h
      else let runId = runIdRef h + 1 in
        h\<lparr>runIdRef := runId, fetches := (fetches h)(runId \<mapsto> inputs),
          bstate := (bstate h)\<lparr>bc_phase := Fetching, bc_error := None\<rparr>\<rparr>)"

text \<open>The amounts of the server, or the message of the error, for the call \<open>k\<close>.\<close>

definition fetch_answer :: "nat \<Rightarrow> string + (string \<Rightarrow> jsnum option) \<Rightarrow> BatchHook \<Rightarrow> BatchHook" where
  "fetch_answer k r h =
     (case fetches h k of
        None \<Rightarrow> h
      | Some inputs \<Rightarrow>
          let h1 = h\<lparr>fetches := (fetches h)(k := None)\<rparr> in
          if runIdRef h \<noteq> k then h1
          else (case r of
                  Inr amounts \<Rightarrow> h1\<lparr>bstate := ready_state (claimable_of amounts inputs)\<rparr>
                | Inl m \<Rightarrow> h1\<lparr>bstate := (bstate h)\<lparr>bc_phase := BatchIdle, bc_error := Some m\<rparr>\<rparr>))"

definition executeBatch :: "BatchClaimInput list \<Rightarrow> BatchHook \<Rightarrow> BatchHook" where
  "executeBatch claimable h =
     (if claimable = [] then h
      else let runId = runIdRef h + 1 in
        h\<lparr>runIdRef := runId,
          brun := (brun h)(runId \<mapsto> \<lparr> given = claimable, todo = claimable, awaiting = None, run_failures = [],
                                      run_successes = 0, over = False \<rparr>),
          bstate := (bstate h)\<lparr>bc_phase := Claiming, bc_progress := (0, length claimable), bc_failures := [],
                                bc_successCount := 0\<rparr>\<rparr>)"

text \<open>The head of the loop of run \<open>k\<close>, and what follows the loop.\<close>

definition batch_turn :: "nat \<Rightarrow> BatchHook \<Rightarrow> BatchHook" where
  "batch_turn k h =
     (case brun h k of
        None \<Rightarrow> h
      | Some r \<Rightarrow>
          if over r \<or> awaiting r \<noteq> None then h
          else if runIdRef h \<noteq> k then h\<lparr>brun := (brun h)(k \<mapsto> r\<lparr>over := True\<rparr>)\<rparr>
          else (case todo r of
                  [] \<Rightarrow> h\<lparr>brun := (brun h)(k \<mapsto> r\<lparr>over := True\<rparr>),
                         bstate := (bstate h)\<lparr>bc_phase := Complete, bc_failures := run_failures r,
                           bc_successCount := run_successes r, bc_progress := (length (given r), length (given r))\<rparr>\<rparr>
                | i # rest \<Rightarrow>
                    h\<lparr>brun := (brun h)(k \<mapsto> r\<lparr>todo := rest, awaiting := Some i\<rparr>), claims := claims h @ [(k, i)],
                      bstate := (bstate h)\<lparr>bc_progress := (length (given r) - length rest, length (given r))\<rparr>\<rparr>))"

text \<open>How a claim ends: it and \<open>onSuccess\<close> succeed, it fails, or \<open>onSuccess\<close> throws after it succeeded.\<close>

datatype claimEnd = ClaimDone | ClaimThrew string | CallbackThrew string

definition batch_answer :: "nat \<Rightarrow> claimEnd \<Rightarrow> BatchHook \<Rightarrow> BatchHook" where
  "batch_answer k e h =
     (case brun h k of
        None \<Rightarrow> h
      | Some r \<Rightarrow>
          (case awaiting r of
             None \<Rightarrow> h
           | Some i \<Rightarrow>
               h\<lparr>brun := (brun h)(k \<mapsto> r\<lparr>awaiting := None,
                   run_successes := (case e of ClaimThrew m \<Rightarrow> run_successes r | _ \<Rightarrow> run_successes r + 1),
                   run_failures := (case e of ClaimDone \<Rightarrow> run_failures r
                     | ClaimThrew m \<Rightarrow> run_failures r @ [(bi_streamId i, m)]
                     | CallbackThrew m \<Rightarrow> run_failures r @ [(bi_streamId i, m)])\<rparr>)\<rparr>))"

inductive batch_step :: "BatchHook \<Rightarrow> BatchHook \<Rightarrow> bool" where
  Reset: "batch_step h (reset h)"
| Fetch: "batch_step h (fetchClaimable inputs h)"
| Fetched: "batch_step h (fetch_answer k r h)"
| Execute: "batch_step h (executeBatch claimable h)"
| Turn: "batch_step h (batch_turn k h)"
| Answer: "batch_step h (batch_answer k e h)"

inductive batch_reaches :: "BatchHook \<Rightarrow> bool" where
  BatchMount: "batch_reaches batch_hook"
| BatchStep: "batch_reaches h \<Longrightarrow> batch_step h h' \<Longrightarrow> batch_reaches h'"

definition claims_of :: "nat \<Rightarrow> BatchHook \<Rightarrow> BatchClaimInput list" where
  "claims_of k h = map snd (filter (\<lambda>c. fst c = k) (claims h))"

definition batch_ok :: "BatchHook \<Rightarrow> bool" where
  "batch_ok h =
     ((\<forall>k r. brun h k = Some r \<longrightarrow> k \<le> runIdRef h \<and> given r = claims_of k h @ todo r) \<and>
      (\<forall>c \<in> set (claims h). fst c \<le> runIdRef h \<and> brun h (fst c) \<noteq> None) \<and> sorted (map fst (claims h)))"

lemma batch_turn_ok: "batch_ok h \<Longrightarrow> batch_ok (batch_turn k h)"
  by (auto simp: batch_ok_def batch_turn_def claims_of_def sorted_append split: option.split list.split)

lemma batch_execute_ok:
  assumes "batch_ok h"
  shows "batch_ok (executeBatch claimable h)"
proof (cases "claimable = []")
  case False
  have "filter (\<lambda>c. fst c = Suc (runIdRef h)) (claims h) = []"
    using assms by (fastforce simp: batch_ok_def filter_empty_conv)
  then show ?thesis
    using assms False by (fastforce simp: batch_ok_def executeBatch_def claims_of_def Let_def)
qed (use assms in \<open>simp add: executeBatch_def\<close>)

lemma batch_step_ok: "batch_step h h' \<Longrightarrow> batch_ok h \<Longrightarrow> batch_ok h'"
proof (induction rule: batch_step.induct)
  case (Fetch h inputs)
  then show ?case by (fastforce simp: batch_ok_def fetchClaimable_def claims_of_def Let_def)
next
  case (Fetched h k r)
  then show ?case
    by (cases "fetches h k"; cases r; fastforce simp: batch_ok_def fetch_answer_def claims_of_def Let_def)
next
  case (Answer h k e)
  then show ?case by (auto simp: batch_ok_def batch_answer_def claims_of_def split: option.split)
next
  case (Reset h)
  then show ?case by (fastforce simp: batch_ok_def reset_def claims_of_def)
qed (simp_all add: batch_turn_ok batch_execute_ok)

lemma batch_new_claim:
  "batch_step h h' \<Longrightarrow> claims h' = claims h \<or> (\<exists>i. claims h' = claims h @ [(runIdRef h, i)])"
  by (induction rule: batch_step.induct)
    (simp_all add: reset_def fetchClaimable_def fetch_answer_def executeBatch_def batch_turn_def batch_answer_def Let_def
      split: option.split list.split sum.split)

text \<open>C23: A batch claims each of its streams once, in order: whatever is clicked, closed, fetched and answered in
  whatever order, the claims of a run are an initial part of what it was given (all of it when nothing is
  left to do), runs never mix, and only the newest one claims: a run that was superseded or whose window was
  closed claims nothing more.\<close>

theorem batch_claims_in_order:
  assumes "batch_reaches h" "batch_step h h'"
  shows "sorted (map fst (claims h)) \<and>
    (\<forall>k. case brun h k of None \<Rightarrow> claims_of k h = [] | Some r \<Rightarrow> given r = claims_of k h @ todo r) \<and>
    (claims h' = claims h \<or> (\<exists>i. claims h' = claims h @ [(runIdRef h, i)]))"
proof -
  have ok: "batch_ok h"
    using assms(1)
  proof (induction rule: batch_reaches.induct)
    case BatchMount
    show ?case by (simp add: batch_ok_def batch_hook_def)
  qed (use batch_step_ok in blast)
  have "case brun h k of None \<Rightarrow> claims_of k h = [] | Some r \<Rightarrow> given r = claims_of k h @ todo r" for k
    using ok by (auto simp: batch_ok_def claims_of_def filter_empty_conv split: option.split)
  then show ?thesis using ok batch_new_claim [OF assms(2)] by (simp add: batch_ok_def)
qed

definition two_inputs :: "BatchClaimInput list" where
  "two_inputs = [\<lparr> bi_streamId = ''7'', bi_amount = 50, bi_assetCode = ''USDC'' \<rparr>,
     \<lparr> bi_streamId = ''8'', bi_amount = 20, bi_assetCode = ''USDC'' \<rparr>]"

definition first_claimed :: BatchHook where
  "first_claimed = batch_answer 1 ClaimDone (batch_turn 1 (executeBatch two_inputs batch_hook))"

lemma first_claimed_reached: "batch_reaches first_claimed"
  unfolding first_claimed_def
  by (rule BatchStep [OF BatchStep [OF BatchStep [OF BatchMount Execute] Turn] Answer])

theorem batch_claims_in_order_witness:
  "map (\<lambda>c. (fst c, bi_streamId (snd c))) (claims (batch_turn 1 first_claimed)) = [(1, ''7''), (1, ''8'')] \<and>
   claims (batch_turn 1 (reset first_claimed)) = claims first_claimed \<and>
   (claims (batch_turn 1 first_claimed) = claims first_claimed \<or>
    claims (batch_turn 1 first_claimed) = claims first_claimed @ [(runIdRef first_claimed, two_inputs ! 1)])"
proof -
  have "map (\<lambda>c. (fst c, bi_streamId (snd c))) (claims (batch_turn 1 first_claimed)) = [(1, ''7''), (1, ''8'')]"
    "claims (batch_turn 1 first_claimed) = claims first_claimed @ [(1, two_inputs ! 1)]" "runIdRef first_claimed = 1"
    "claims (batch_turn 1 (reset first_claimed)) = claims first_claimed"
    by (simp_all add: first_claimed_def batch_turn_def batch_answer_def executeBatch_def batch_hook_def two_inputs_def
        reset_def Let_def)
  then show ?thesis
    using batch_claims_in_order [OF first_claimed_reached Turn [of _ 1]] by simp
qed

end
