(* ===== verification/ClientPages.thy ===== *)
theory ClientPages
  imports ClientActions ClientHooks StreamTheorems
begin

text \<open>
  The pages of a sender and of a recipient: \<open>frontend/src/pages/SenderDashboard.tsx\<close> with its loading, its polling
  every five seconds and its confirmed actions, the handlers of \<open>components/SenderDashboard.tsx\<close>, and the batch
  dialog of \<open>components/RecipientDashboard.tsx\<close> with \<open>components/ClaimBatchModal.tsx\<close>. The page of the sender is a
  machine: requests that are under way are kept with the effect that sent them, since an effect that was cleaned up
  ignores its answers. What the server lists for an address is any list that satisfies the parameter \<open>listed\<close>.
\<close>

section \<open>The page of a sender\<close>

record PageState =
  ps_address :: "string option"
  ps_streams :: "ListItem list"
  ps_loading :: bool
  ps_error :: "string option"
  ps_effect :: nat
  ps_first :: "(nat \<times> string) list"
  ps_polls :: "(nat \<times> string) list"
  ps_confirm :: "(string \<times> string) option"
  ps_busy :: bool
  ps_acting :: "(string \<times> string) list"
  ps_reloads :: "string list"

definition blank_page :: PageState where
  "blank_page =
     \<lparr> ps_address = None, ps_streams = [], ps_loading = True, ps_error = None, ps_effect = 0, ps_first = [],
       ps_polls = [], ps_confirm = None, ps_busy = False, ps_acting = [], ps_reloads = [] \<rparr>"

text \<open>The effect for an address: the one before is cleaned up, which only its number tells apart from now on.\<close>

definition page_address :: "string option \<Rightarrow> PageState \<Rightarrow> PageState" where
  "page_address a st =
     (case a of
        None \<Rightarrow> st\<lparr>ps_address := None, ps_effect := ps_effect st + 1, ps_loading := False, ps_streams := [], ps_error := None\<rparr>
      | Some x \<Rightarrow> st\<lparr>ps_address := Some x, ps_effect := ps_effect st + 1, ps_loading := True, ps_error := None,
                    ps_first := ps_first st @ [(ps_effect st + 1, x)]\<rparr>)"

definition page_tick :: "PageState \<Rightarrow> PageState" where
  "page_tick st = (case ps_address st of None \<Rightarrow> st | Some x \<Rightarrow> st\<lparr>ps_polls := ps_polls st @ [(ps_effect st, x)]\<rparr>)"

definition first_answer :: "nat \<times> string \<Rightarrow> string + ListItem list \<Rightarrow> PageState \<Rightarrow> PageState" where
  "first_answer req r st =
     (let st1 = st\<lparr>ps_first := remove1 req (ps_first st)\<rparr> in
      if fst req \<noteq> ps_effect st then st1
      else (case r of Inr items \<Rightarrow> st1\<lparr>ps_streams := items, ps_loading := False\<rparr>
                    | Inl m \<Rightarrow> st1\<lparr>ps_error := Some m, ps_loading := False\<rparr>))"

definition poll_answer :: "nat \<times> string \<Rightarrow> string + ListItem list \<Rightarrow> PageState \<Rightarrow> PageState" where
  "poll_answer req r st =
     (let st1 = st\<lparr>ps_polls := remove1 req (ps_polls st)\<rparr> in
      case r of Inr items \<Rightarrow> (if fst req = ps_effect st then st1\<lparr>ps_streams := items\<rparr> else st1) | Inl m \<Rightarrow> st1)"

text \<open>\<open>runAction\<close>: the call, then the listing for the address of the click; no effect guards their answers.\<close>

definition run_action :: "PageState \<Rightarrow> PageState" where
  "run_action st =
     (case (ps_confirm st, ps_address st) of
        (Some (sid, act), Some x) \<Rightarrow> if ps_busy st then st else st\<lparr>ps_busy := True, ps_acting := ps_acting st @ [(act, x)]\<rparr>
      | _ \<Rightarrow> st)"

definition action_answer :: "string \<times> string \<Rightarrow> string option \<Rightarrow> PageState \<Rightarrow> PageState" where
  "action_answer a err st =
     (let st1 = st\<lparr>ps_acting := remove1 a (ps_acting st)\<rparr> in
      case err of None \<Rightarrow> st1\<lparr>ps_reloads := ps_reloads st @ [snd a]\<rparr>
                | Some m \<Rightarrow> st1\<lparr>ps_error := Some m, ps_busy := False\<rparr>)"

definition reload_answer :: "string \<Rightarrow> string + ListItem list \<Rightarrow> PageState \<Rightarrow> PageState" where
  "reload_answer x r st =
     (let st1 = st\<lparr>ps_reloads := remove1 x (ps_reloads st), ps_busy := False\<rparr> in
      case r of Inr items \<Rightarrow> st1\<lparr>ps_streams := items, ps_confirm := None\<rparr> | Inl m \<Rightarrow> st1\<lparr>ps_error := Some m\<rparr>)"

definition ask_confirm :: "(string \<times> string) option \<Rightarrow> PageState \<Rightarrow> PageState" where
  "ask_confirm c st = st\<lparr>ps_confirm := c\<rparr>"

datatype pageView = NotConnected | Skeletons | LoadFailed string | NoStreams | Rows "ListItem list"

definition page_view :: "PageState \<Rightarrow> pageView" where
  "page_view st =
     (if ps_address st = None then NotConnected
      else if ps_loading st then Skeletons
      else (case ps_error st of
              Some m \<Rightarrow> LoadFailed m
            | None \<Rightarrow> if ps_streams st = [] then NoStreams else Rows (ps_streams st)))"

section \<open>Its runs\<close>

inductive load_step :: "(string \<Rightarrow> ListItem list \<Rightarrow> bool) \<Rightarrow> PageState \<Rightarrow> PageState \<Rightarrow> bool"
  for listed :: "string \<Rightarrow> ListItem list \<Rightarrow> bool" where
  Address: "load_step listed st (page_address a st)"
| Tick: "load_step listed st (page_tick st)"
| Loaded: "req \<in> set (ps_first st) \<Longrightarrow> listed (snd req) items \<Longrightarrow> load_step listed st (first_answer req (Inr items) st)"
| LoadError: "req \<in> set (ps_first st) \<Longrightarrow> load_step listed st (first_answer req (Inl m) st)"
| Polled: "req \<in> set (ps_polls st) \<Longrightarrow> listed (snd req) items \<Longrightarrow> load_step listed st (poll_answer req (Inr items) st)"
| PollError: "req \<in> set (ps_polls st) \<Longrightarrow> load_step listed st (poll_answer req (Inl m) st)"
| Ask: "load_step listed st (ask_confirm c st)"

inductive act_step :: "(string \<Rightarrow> ListItem list \<Rightarrow> bool) \<Rightarrow> PageState \<Rightarrow> PageState \<Rightarrow> bool"
  for listed :: "string \<Rightarrow> ListItem list \<Rightarrow> bool" where
  Run: "act_step listed st (run_action st)"
| Acted: "a \<in> set (ps_acting st) \<Longrightarrow> act_step listed st (action_answer a err st)"
| Reloaded: "x \<in> set (ps_reloads st) \<Longrightarrow> listed x items \<Longrightarrow> act_step listed st (reload_answer x (Inr items) st)"
| ReloadError: "x \<in> set (ps_reloads st) \<Longrightarrow> act_step listed st (reload_answer x (Inl m) st)"

inductive page_reaches :: "(string \<Rightarrow> ListItem list \<Rightarrow> bool) \<Rightarrow> PageState \<Rightarrow> bool"
  for listed :: "string \<Rightarrow> ListItem list \<Rightarrow> bool" where
  Mount: "page_reaches listed (page_address a blank_page)"
| Step: "page_reaches listed st \<Longrightarrow> load_step listed st st' \<Longrightarrow> page_reaches listed st'"

text \<open>Requests of the effect in force ask for the address in force, and what is shown was listed for it.\<close>

definition requests_ok :: "nat \<Rightarrow> string option \<Rightarrow> (nat \<times> string) list \<Rightarrow> bool" where
  "requests_ok k a reqs = (\<forall>req\<in>set reqs. fst req \<le> k \<and> (fst req = k \<longrightarrow> a = Some (snd req)))"

definition page_ok :: "(string \<Rightarrow> ListItem list \<Rightarrow> bool) \<Rightarrow> PageState \<Rightarrow> bool" where
  "page_ok listed st =
     (requests_ok (ps_effect st) (ps_address st) (ps_first st) \<and> requests_ok (ps_effect st) (ps_address st) (ps_polls st) \<and>
      (\<not> ps_loading st \<and> ps_error st = None \<longrightarrow> (\<forall>x. ps_address st = Some x \<longrightarrow> listed x (ps_streams st))))"

lemma requests_ok_simps [simp]:
  "requests_ok k a []"
  "requests_ok k a (reqs @ [(k, x)]) \<longleftrightarrow> requests_ok k a reqs \<and> a = Some x"
  by (auto simp: requests_ok_def)

lemma requests_ok_next: "requests_ok k a reqs \<Longrightarrow> requests_ok (Suc k) b reqs"
  by (fastforce simp: requests_ok_def)

lemma requests_ok_remove: "requests_ok k a reqs \<Longrightarrow> requests_ok k a (remove1 req reqs)"
  using set_remove1_subset [of req reqs] by (auto simp: requests_ok_def)

lemma requests_ok_now: "requests_ok k a reqs \<Longrightarrow> req \<in> set reqs \<Longrightarrow> fst req = k \<Longrightarrow> a = Some (snd req)"
  by (auto simp: requests_ok_def)

lemma page_ok_address: "page_ok listed st \<Longrightarrow> page_ok listed (page_address a st)"
  using requests_ok_next [of "ps_effect st" "ps_address st"]
  by (simp add: page_ok_def page_address_def split: option.split)

lemma load_step_ok:
  assumes "load_step listed st st'" "page_ok listed st"
  shows "page_ok listed st'"
  using assms
proof (induction rule: load_step.induct)
  case (Address st a)
  then show ?case by (rule page_ok_address)
next
  case (Tick st)
  then show ?case by (auto simp: page_ok_def page_tick_def split: option.split)
next
  case (Loaded req st items)
  then show ?case
    using requests_ok_now [of "ps_effect st" "ps_address st" "ps_first st" req]
    by (auto simp: page_ok_def first_answer_def Let_def intro: requests_ok_remove)
next
  case (LoadError req st m)
  then show ?case by (auto simp: page_ok_def first_answer_def Let_def intro: requests_ok_remove)
next
  case (Polled req st items)
  then show ?case
    using requests_ok_now [of "ps_effect st" "ps_address st" "ps_polls st" req]
    by (auto simp: page_ok_def poll_answer_def Let_def intro: requests_ok_remove)
next
  case (PollError req st m)
  then show ?case by (auto simp: page_ok_def poll_answer_def Let_def intro: requests_ok_remove)
next
  case (Ask st c)
  then show ?case by (simp add: page_ok_def ask_confirm_def)
qed

lemma page_reaches_ok: "page_reaches listed st \<Longrightarrow> page_ok listed st"
proof (induction rule: page_reaches.induct)
  case (Mount a)
  show ?case by (rule page_ok_address) (simp add: page_ok_def blank_page_def)
next
  case (Step st st')
  then show ?case by (blast intro: load_step_ok)
qed


definition row_of :: "string \<Rightarrow> ListItem" where
  "row_of x = with_progress 150 (sample_stream\<lparr>sender := x\<rparr>)"

definition all_from :: "string \<Rightarrow> ListItem list \<Rightarrow> bool" where
  "all_from x items = list_all (\<lambda>i. sender (item_stream i) = x) items"

text \<open>The wallet is changed from one account to another, whose listing arrives before the late one of the first.\<close>

definition switched :: PageState where
  "switched =
     first_answer (1, ''GA'') (Inr [row_of ''GA''])
       (first_answer (2, ''GB'') (Inr [row_of ''GB'']) (page_address (Some ''GB'') (page_address (Some ''GA'') blank_page)))"


text \<open>The reload after an action is guarded by no effect: after a change of the wallet it brings back the other rows.\<close>

lemma late_reload_shows_others:
  "page_view (reload_answer ''GA'' (Inr [row_of ''GA'']) (first_answer (2, ''GB'') (Inr [row_of ''GB''])
     (page_address (Some ''GB'') (action_answer (''cancel'', ''GA'') None (run_action (ask_confirm (Some (''7'', ''cancel''))
       (first_answer (1, ''GA'') (Inr [row_of ''GA'']) (page_address (Some ''GA'') blank_page))))))))
   = Rows [row_of ''GA'']"
  by (simp add: page_view_def page_address_def blank_page_def first_answer_def reload_answer_def action_answer_def
      run_action_def ask_confirm_def)

definition page_step :: "(string \<Rightarrow> ListItem list \<Rightarrow> bool) \<Rightarrow> PageState \<Rightarrow> PageState \<Rightarrow> bool" where
  "page_step listed st st' = ((load_step listed st st' \<or> act_step listed st st') \<and> ps_effect st' = ps_effect st)"

definition failed_view :: "PageState \<Rightarrow> bool" where
  "failed_view st = (ps_address st \<noteq> None \<and> \<not> ps_loading st \<and> ps_error st \<noteq> None)"

lemma failed_view_load: "load_step listed st st' \<Longrightarrow> ps_effect st' = ps_effect st \<Longrightarrow> failed_view st \<Longrightarrow> failed_view st'"
  by (induction rule: load_step.induct)
    (auto simp: failed_view_def page_address_def page_tick_def first_answer_def poll_answer_def ask_confirm_def Let_def
      split: option.splits)

lemma failed_view_act: "act_step listed st st' \<Longrightarrow> failed_view st \<Longrightarrow> failed_view st'"
  by (induction rule: act_step.induct)
    (auto simp: failed_view_def run_action_def action_answer_def reload_answer_def Let_def split: option.splits)

text \<open>One failure hides the page for good: once a load, a reload or an action has failed, the page shows that loading
  failed, and no poll, action or reload that succeeds later brings its rows back; only another address does.\<close>

theorem load_failure_sticks:
  assumes "(page_step listed)\<^sup>*\<^sup>* st st'" "page_view st = LoadFailed m"
  shows "\<exists>m'. page_view st' = LoadFailed m'"
proof -
  have "failed_view st" using assms(2) by (auto simp: failed_view_def page_view_def split: if_splits option.splits)
  with assms(1) have "failed_view st'"
    by (induction rule: rtranclp_induct) (auto simp: page_step_def intro: failed_view_load failed_view_act)
  then show ?thesis by (auto simp: failed_view_def page_view_def)
qed

text \<open>A refused action, then a poll that succeeds.\<close>

definition refused :: PageState where
  "refused =
     action_answer (''pause'', ''GA'') (Some ''Failed to pause stream.'')
       (run_action (ask_confirm (Some (''7'', ''pause''))
         (page_tick (first_answer (1, ''GA'') (Inr [row_of ''GA'']) (page_address (Some ''GA'') blank_page)))))"

theorem load_failure_sticks_witness:
  "page_view (poll_answer (1, ''GA'') (Inr [row_of ''GA'']) refused) = LoadFailed ''Failed to pause stream.''"
proof -
  let ?st' = "poll_answer (1, ''GA'') (Inr [row_of ''GA'']) refused"
  note ops = refused_def page_address_def blank_page_def first_answer_def page_tick_def ask_confirm_def run_action_def
    action_answer_def poll_answer_def
  have "page_view refused = LoadFailed ''Failed to pause stream.''" by (simp add: ops page_view_def)
  moreover have "load_step all_from refused ?st'"
    by (rule load_step.Polled) (simp_all add: ops all_from_def row_of_def with_progress_def)
  then have "page_step all_from refused ?st'" by (simp add: page_step_def ops)
  ultimately have "\<exists>m'. page_view ?st' = LoadFailed m'" by (intro load_failure_sticks [OF r_into_rtranclp])
  then show ?thesis by (simp add: ops page_view_def)
qed

section \<open>The handlers of the sender dashboard\<close>

text \<open>
  \<open>components/SenderDashboard.tsx\<close>: the calls of the API act on a world of which the server is a part. Every call of
  a bulk cancellation is started before any answers; the dialog of the browser is an argument.
\<close>

record 'w Panel =
  pn_streams :: "ListItem list"
  pn_events :: "StreamEvent list"
  pn_selected :: "string list"
  pn_showCreate :: bool
  pn_createError :: "string option"
  pn_alerts :: "string list"
  pn_world :: 'w

definition panel_alert :: "string \<Rightarrow> 'w Panel \<Rightarrow> 'w Panel" where
  "panel_alert m p = p\<lparr>pn_alerts := pn_alerts p @ [m]\<rparr>"

definition panel_create :: "('w \<Rightarrow> clientError option \<times> 'w) \<Rightarrow> 'w Panel \<Rightarrow> clientError option \<times> 'w Panel" where
  "panel_create create p =
     (case create (pn_world p) of
        (None, w) \<Rightarrow> (None, p\<lparr>pn_world := w, pn_createError := None, pn_showCreate := False\<rparr>)
      | (Some e, w) \<Rightarrow> (Some e, p\<lparr>pn_world := w, pn_createError := Some (thrown_text ''Failed to create stream.'' e)\<rparr>))"

text \<open>The reload after a success: the listing, then the events; a listing that arrived stays when the events fail.\<close>

definition panel_reload ::
  "('w \<Rightarrow> clientError + ListItem list) \<Rightarrow> ('w \<Rightarrow> clientError + StreamEvent list) \<Rightarrow> bool \<Rightarrow> string \<Rightarrow> 'w Panel \<Rightarrow> 'w Panel" where
  "panel_reload list events clear failure p =
     (case list (pn_world p) of
        Inl e \<Rightarrow> panel_alert (thrown_text failure e) p
      | Inr items \<Rightarrow>
          (let p1 = p\<lparr>pn_streams := items, pn_selected := (if clear then [] else pn_selected p)\<rparr> in
           case events (pn_world p) of
             Inl e \<Rightarrow> panel_alert (thrown_text failure e) p1
           | Inr es \<Rightarrow> p1\<lparr>pn_events := es\<rparr>))"

definition panel_cancel ::
  "bool \<Rightarrow> (string \<Rightarrow> 'w \<Rightarrow> clientError option \<times> 'w) \<Rightarrow> ('w \<Rightarrow> clientError + ListItem list) \<Rightarrow>
   ('w \<Rightarrow> clientError + StreamEvent list) \<Rightarrow> string \<Rightarrow> 'w Panel \<Rightarrow> 'w Panel" where
  "panel_cancel confirmed cancel list events sid p =
     (if \<not> confirmed then p
      else (case cancel sid (pn_world p) of
              (Some e, w) \<Rightarrow> panel_alert (thrown_text ''Failed to cancel stream'' e) (p\<lparr>pn_world := w\<rparr>)
            | (None, w) \<Rightarrow> panel_reload list events False ''Failed to cancel stream'' (p\<lparr>pn_world := w\<rparr>)))"

text \<open>The answers of all calls, in the order in which the server takes them, and the world after them.\<close>

fun all_calls :: "(string \<Rightarrow> 'w \<Rightarrow> clientError option \<times> 'w) \<Rightarrow> string list \<Rightarrow> 'w \<Rightarrow> clientError option list \<times> 'w" where
  "all_calls cancel [] w = ([], w)"
| "all_calls cancel (k # ks) w =
     (let (r, w1) = cancel k w; (rs, w2) = all_calls cancel ks w1 in (r # rs, w2))"

definition panel_bulk_cancel ::
  "bool \<Rightarrow> (string \<Rightarrow> 'w \<Rightarrow> clientError option \<times> 'w) \<Rightarrow> ('w \<Rightarrow> clientError + ListItem list) \<Rightarrow>
   ('w \<Rightarrow> clientError + StreamEvent list) \<Rightarrow> 'w Panel \<Rightarrow> 'w Panel" where
  "panel_bulk_cancel confirmed cancel list events p =
     (if pn_selected p = [] then panel_alert ''Please select at least one stream to cancel'' p
      else if \<not> confirmed then p
      else (let (rs, w) = all_calls cancel (pn_selected p) (pn_world p); p1 = p\<lparr>pn_world := w\<rparr> in
            case List.find (\<lambda>r. r \<noteq> None) rs of
              Some (Some e) \<Rightarrow> panel_alert (thrown_text ''Failed to bulk cancel streams'' e) p1
            | _ \<Rightarrow> panel_reload list events True ''Failed to bulk cancel streams'' p1))"

text \<open>The checkboxes of the table of active and scheduled streams.\<close>

definition panel_rows :: "ListItem list \<Rightarrow> ListItem list" where
  "panel_rows items = with_status [Scheduled] items @ with_status [Active] items"

definition select_all_checked :: "'w Panel \<Rightarrow> bool" where
  "select_all_checked p = (length (pn_selected p) = length (panel_rows (pn_streams p)))"

definition select_all :: "bool \<Rightarrow> 'w Panel \<Rightarrow> 'w Panel" where
  "select_all checked p =
     p\<lparr>pn_selected := (if checked then remdups (map (\<lambda>i. stream_id (item_stream i))
         (with_status [Active] (pn_streams p) @ with_status [Scheduled] (pn_streams p))) else [])\<rparr>"

definition select_one :: "string \<Rightarrow> bool \<Rightarrow> 'w Panel \<Rightarrow> 'w Panel" where
  "select_one sid checked p =
     p\<lparr>pn_selected := (if checked then add_to sid (pn_selected p) else removeAll sid (pn_selected p))\<rparr>"

text \<open>A created stream is not shown by the handler, whatever its comment says: the rows stay as they were.\<close>

lemma create_shows_nothing: "pn_streams (snd (panel_create create p)) = pn_streams p"
  by (simp add: panel_create_def split: prod.split option.split)

text \<open>
  One refusal keeps a bulk cancellation off the screen: what the other calls canceled has changed the world, but the rows
  and the selection stay.
\<close>

lemma partial_bulk_unseen:
  assumes "all_calls cancel (pn_selected p) (pn_world p) = (rs, w)" "Some e \<in> set rs" "pn_selected p \<noteq> []"
  shows "pn_streams (panel_bulk_cancel True cancel list events p) = pn_streams p"
    "pn_selected (panel_bulk_cancel True cancel list events p) = pn_selected p"
    "pn_world (panel_bulk_cancel True cancel list events p) = w"
proof -
  have "List.find (\<lambda>r. r \<noteq> None) rs \<noteq> None" unfolding find_None_iff using assms(2) by blast
  then obtain r where r: "List.find (\<lambda>r. r \<noteq> None) rs = Some r" by blast
  then have "r \<noteq> None" by (auto simp: find_Some_iff)
  with r obtain e' where "List.find (\<lambda>r. r \<noteq> None) rs = Some (Some e')" by blast
  with assms(1, 3) have "panel_bulk_cancel True cancel list events p =
      panel_alert (thrown_text ''Failed to bulk cancel streams'' e') (p\<lparr>pn_world := w\<rparr>)"
    by (simp add: panel_bulk_cancel_def)
  then show "pn_streams (panel_bulk_cancel True cancel list events p) = pn_streams p"
    "pn_selected (panel_bulk_cancel True cancel list events p) = pn_selected p"
    "pn_world (panel_bulk_cancel True cancel list events p) = w" by (simp_all add: panel_alert_def)
qed

text \<open>The box for all rows compares numbers only: a selection of other streams counts as one of all rows.\<close>

lemma select_all_counts_only:
  "select_all_checked (p\<lparr>pn_streams := [row_of ''GA''], pn_selected := [''gone'']\<rparr>) \<and>
   ''gone'' \<notin> set (map (\<lambda>i. stream_id (item_stream i)) (panel_rows [row_of ''GA'']))"
proof -
  have "status (item_progress (row_of ''GA'')) = Active" "stream_id (item_stream (row_of ''GA'')) \<noteq> ''gone''" by code_simp+
  then show ?thesis by (simp add: select_all_checked_def panel_rows_def with_status_def)
qed

section \<open>Claiming all\<close>

text \<open>The dialog of the recipient dashboard: the inputs of the click, and the hook of theory \<open>ClientHooks\<close>.\<close>

record BatchDialog =
  bd_open :: bool
  bd_inputs :: "BatchClaimInput list"
  bd_hook :: BatchHook

definition claim_all :: "ListItem list \<Rightarrow> BatchDialog \<Rightarrow> BatchDialog" where
  "claim_all items d =
     (let inputs = map (\<lambda>i. \<lparr> bi_streamId = stream_id (item_stream i), bi_amount = vested_of i,
            bi_assetCode = assetCode (item_stream i) \<rparr>) (rf_active (recipient_figures items))
      in d\<lparr>bd_open := True, bd_inputs := inputs, bd_hook := fetchClaimable inputs (bd_hook d)\<rparr>)"

definition confirm_inputs :: "BatchDialog \<Rightarrow> BatchClaimInput list" where
  "confirm_inputs d = claimable_of (bc_claimable (bstate (bd_hook d))) (bd_inputs d)"

definition confirm_batch :: "BatchDialog \<Rightarrow> BatchDialog" where
  "confirm_batch d = d\<lparr>bd_hook := executeBatch (confirm_inputs d) (bd_hook d)\<rparr>"

definition close_batch :: "BatchDialog \<Rightarrow> BatchDialog" where
  "close_batch d = d\<lparr>bd_open := False, bd_inputs := [], bd_hook := reset (bd_hook d)\<rparr>"

text \<open>The three dots of the labels, as UTF-8 bytes.\<close>

definition ellipsis :: string where
  "ellipsis = [CHR 0xE2, CHR 0x80, CHR 0xA6]"

text \<open>The buttons of the dialog in each phase, and the click beside it, which closes it unless claims are under way.\<close>

definition dialog_buttons :: "BatchClaimPhase \<Rightarrow> string list" where
  "dialog_buttons ph =
     (if ph = Ready then [''Cancel'', ''Confirm claim''] else []) @ (if ph = Claiming then [''Claiming'' @ ellipsis] else []) @
     (if ph = Complete then [''Close''] else []) @ (if ph = Fetching then [''Cancel''] else [])"

definition click_beside :: "BatchDialog \<Rightarrow> BatchDialog" where
  "click_beside d = (if bc_phase (bstate (bd_hook d)) \<noteq> Claiming then close_batch d else d)"

definition dialog_summary :: "BatchDialog \<Rightarrow> jsnum \<times> string \<times> nat" where
  "dialog_summary d =
     (bc_totalClaimable (bstate (bd_hook d)), bc_assetLabel (bstate (bd_hook d)), length (bd_inputs d))"

lemma lookup_claimable:
  "distinct (map bi_streamId cs) \<Longrightarrow> i \<in> set cs \<Longrightarrow>
   foldl (\<lambda>m i. m(bi_streamId i \<mapsto> bi_amount i)) m0 cs (bi_streamId i) = Some (bi_amount i)"
proof (induction cs arbitrary: m0 rule: rev_induct)
  case (snoc c cs)
  then show ?case by (cases "i = c") (auto simp: image_iff)
qed simp

lemma lookup_claimable_None:
  "k \<notin> bi_streamId ` set cs \<Longrightarrow> foldl (\<lambda>m i. m(bi_streamId i \<mapsto> bi_amount i)) m0 cs k = m0 k"
  by (induction cs rule: rev_induct) auto

lemma filter_clamped:
  "filter (\<lambda>i. 0 < bi_amount i) (map (\<lambda>i. i\<lparr>bi_amount := (let a = f i in if 0 < a then a else 0)\<rparr>) ins) =
   filter (\<lambda>i. 0 < bi_amount i) (map (\<lambda>i. i\<lparr>bi_amount := f i\<rparr>) ins)"
  by (induction ins) (simp_all add: Let_def)

lemma ready_amount:
  assumes "distinct (map bi_streamId ins)" "i \<in> set ins"
  shows "(case bc_claimable (ready_state (claimable_of amounts ins)) (bi_streamId i) of None \<Rightarrow> 0 | Some v \<Rightarrow> v) =
    (let a = (case amounts (bi_streamId i) of None \<Rightarrow> 0 | Some v \<Rightarrow> v) in if 0 < a then a else 0)"
proof -
  let ?cs = "claimable_of amounts ins"
  define a where "a = (case amounts (bi_streamId i) of None \<Rightarrow> 0 | Some v \<Rightarrow> v)"
  have distinct: "distinct (map bi_streamId ?cs)"
    using assms(1) by (simp add: claimable_of_def distinct_map_filter comp_def)
  show ?thesis
  proof (cases "0 < a")
    case True
    with assms(2) have "i\<lparr>bi_amount := a\<rparr> \<in> set ?cs" by (force simp: claimable_of_def a_def)
    from lookup_claimable [OF distinct this] True show ?thesis by (simp add: ready_state_def a_def [symmetric])
  next
    case False
    then have "bi_streamId i \<notin> bi_streamId ` set ?cs" by (auto simp: claimable_of_def a_def)
    from lookup_claimable_None [OF this] False show ?thesis by (simp add: ready_state_def a_def [symmetric])
  qed
qed

text \<open>C24: What is confirmed is what was summarised: when the amounts of the contract have arrived for the streams of the
  click, confirming starts a run of exactly the streams that have something to claim, with those amounts, whose sum is
  the total the dialog shows; nothing is claimed twice and nothing with an amount of zero.\<close>

theorem confirmed_is_summarised:
  assumes "distinct (map bi_streamId (bd_inputs d))" "runIdRef (bd_hook d) = k" "fetches (bd_hook d) k = Some (bd_inputs d)"
    "d' = d\<lparr>bd_hook := fetch_answer k (Inr amounts) (bd_hook d)\<rparr>" "claimable_of amounts (bd_inputs d) \<noteq> []"
  shows "confirm_inputs d' = claimable_of amounts (bd_inputs d) \<and>
    map_option given (brun (bd_hook (confirm_batch d')) (k + 1)) = Some (claimable_of amounts (bd_inputs d)) \<and>
    fst (dialog_summary d') = foldl (\<lambda>sum i. fl (sum + bi_amount i)) 0 (claimable_of amounts (bd_inputs d)) \<and>
    distinct (map bi_streamId (confirm_inputs d')) \<and> list_all (\<lambda>i. 0 < bi_amount i) (confirm_inputs d')"
proof (intro conjI)
  let ?cs = "claimable_of amounts (bd_inputs d)" and ?ins = "bd_inputs d"
  have st: "bstate (bd_hook d') = ready_state ?cs" "runIdRef (bd_hook d') = k" "bd_inputs d' = ?ins"
    using assms(2-4) by (simp_all add: fetch_answer_def Let_def)
  have "confirm_inputs d' = filter (\<lambda>i. 0 < bi_amount i) (map (\<lambda>i. i\<lparr>bi_amount :=
      (let a = (case amounts (bi_streamId i) of None \<Rightarrow> 0 | Some v \<Rightarrow> v) in if 0 < a then a else 0)\<rparr>) ?ins)"
    unfolding confirm_inputs_def st claimable_of_def [of "bc_claimable _"]
    using ready_amount [OF assms(1)] by (simp cong: map_cong)
  also have "\<dots> = ?cs"
    unfolding claimable_of_def by (rule filter_clamped)
  finally show confirmed: "confirm_inputs d' = ?cs" .
  show "map_option given (brun (bd_hook (confirm_batch d')) (k + 1)) = Some ?cs"
    using assms(5) by (simp add: confirm_batch_def confirmed executeBatch_def st Let_def)
  show "fst (dialog_summary d') = foldl (\<lambda>sum i. fl (sum + bi_amount i)) 0 ?cs"
    by (simp add: dialog_summary_def st ready_state_def)
  show "distinct (map bi_streamId (confirm_inputs d'))"
    using assms(1) by (simp add: confirmed claimable_of_def distinct_map_filter comp_def)
  show "list_all (\<lambda>i. 0 < bi_amount i) (confirm_inputs d')" by (simp add: confirmed claimable_of_def list_all_iff)
qed

text \<open>Two streams, of which the contract has something to claim for one: the dialog counts both.\<close>

definition two_claims :: "BatchClaimInput list" where
  "two_claims =
     [\<lparr> bi_streamId = ''1'', bi_amount = 9, bi_assetCode = ''USDC'' \<rparr>, \<lparr> bi_streamId = ''2'', bi_amount = 4, bi_assetCode = ''XLM'' \<rparr>]"

definition asked :: BatchDialog where
  "asked = \<lparr> bd_open = True, bd_inputs = two_claims, bd_hook = fetchClaimable two_claims batch_hook \<rparr>"

definition answered :: BatchDialog where
  "answered = asked\<lparr>bd_hook := fetch_answer 1 (Inr [''1'' \<mapsto> 3]) (bd_hook asked)\<rparr>"

theorem confirmed_is_summarised_witness:
  "confirm_inputs answered = [\<lparr> bi_streamId = ''1'', bi_amount = 3, bi_assetCode = ''USDC'' \<rparr>] \<and>
   snd (dialog_summary answered) = (''USDC'', 2)"
proof -
  have cs: "claimable_of [''1'' \<mapsto> 3] two_claims = [\<lparr> bi_streamId = ''1'', bi_amount = 3, bi_assetCode = ''USDC'' \<rparr>]"
    by (simp add: claimable_of_def two_claims_def)
  have "confirm_inputs answered = claimable_of [''1'' \<mapsto> 3] (bd_inputs asked)"
    by (rule confirmed_is_summarised [OF _ _ _ answered_def, THEN conjunct1])
      (simp_all add: asked_def fetchClaimable_def batch_hook_def Let_def cs, simp_all add: two_claims_def)
  moreover have "snd (dialog_summary answered) = (''USDC'', 2)"
    by (simp add: dialog_summary_def answered_def asked_def fetchClaimable_def fetch_answer_def batch_hook_def Let_def cs
        ready_state_def) (simp add: two_claims_def)
  ultimately show ?thesis by (simp add: asked_def cs)
qed

end
