(* ===== verification/ApiDoc.thy ===== *)
theory ApiDoc
  imports Validation
begin

text \<open>
  The API document the server publishes (\<open>swaggerDocument\<close> of \<open>backend/src/swagger.ts\<close>, served at
  \<open>/api/docs/openapi.json\<close>) as a JSON value, and what it says: the operations it lists, the references it makes,
  the security it asks for, and which JSON values a schema describes. Characters outside ASCII are written as the
  bytes of their UTF-8 encoding. How the document compares with the server is stated in theory
  \<open>ApiConformance\<close>.
\<close>

section \<open>The document\<close>

definition schema_StreamInput :: json where
  "schema_StreamInput =
    JObj [
      (''type'', JStr ''object''),
      (''required'', JArr [
          JStr ''sender'',
          JStr ''recipient'',
          JStr ''assetCode'',
          JStr ''totalAmount'',
          JStr ''durationSeconds'']),
      (''properties'', JObj [
          (''sender'', JObj [
              (''type'', JStr ''string''),
              (''description'', JStr ''Public key of the sender.''),
              (''example'', JStr ''GC7Y4M77LNYKYF4K4V5A737W3G3L3T7XQWZJZL4R64Z43W3T7XZQK2L4'')]),
          (''recipient'', JObj [
              (''type'', JStr ''string''),
              (''description'', JStr ''Public key of the recipient.''),
              (''example'', JStr ''GB4Z3ZK3X24Z3T7XZQK2L4R64Z43W3T7XZQK2L4R64Z43W3T7XZQK2L4'')]),
          (''assetCode'', JObj [
              (''type'', JStr ''string''),
              (''description'', JStr ''Asset code (2-12 characters).''),
              (''example'', JStr ''USDC''),
              (''minLength'', JNum 2),
              (''maxLength'', JNum 12)]),
          (''totalAmount'', JObj [
              (''type'', JStr ''number''),
              (''description'', JStr ''Total amount to stream.''),
              (''example'', JNum 1000),
              (''minimum'', JNum 0),
              (''exclusiveMinimum'', JBool True)]),
          (''durationSeconds'', JObj [
              (''type'', JStr ''number''),
              (''description'', JStr ''Duration of the stream in seconds (minimum 60).''),
              (''example'', JNum 3600),
              (''minimum'', JNum 60)]),
          (''startAt'', JObj [
              (''type'', JStr ''number''),
              (''description'', JStr ''Optional start time as a UNIX timestamp in seconds.''),
              (''example'', JNum 1716382000)])])]"

definition schema_Stream :: json where
  "schema_Stream =
    JObj [
      (''type'', JStr ''object''),
      (''properties'', JObj [
          (''id'', JObj [
              (''type'', JStr ''string''),
              (''description'', JStr ''Unique identifier for the stream.''),
              (''example'', JStr ''uuid-v4-string'')]),
          (''sender'', JObj [
              (''type'', JStr ''string''),
              (''example'', JStr ''GC7Y4M77LNYKYF4K4V5A737W3G3L3T7XQWZJZL4R64Z43W3T7XZQK2L4'')]),
          (''recipient'', JObj [
              (''type'', JStr ''string''),
              (''example'', JStr ''GB4Z3ZK3X24Z3T7XZQK2L4R64Z43W3T7XZQK2L4R64Z43W3T7XZQK2L4'')]),
          (''assetCode'', JObj [(''type'', JStr ''string''), (''example'', JStr ''USDC'')]),
          (''totalAmount'', JObj [(''type'', JStr ''number''), (''example'', JNum 1000)]),
          (''durationSeconds'', JObj [(''type'', JStr ''number''), (''example'', JNum 3600)]),
          (''startAt'', JObj [(''type'', JStr ''number''), (''example'', JNum 1716382000)]),
          (''createdAt'', JObj [(''type'', JStr ''number''), (''example'', JNum 1716378400)]),
          (''status'', JObj [
              (''type'', JStr ''string''),
              (''enum'', JArr [JStr ''active'', JStr ''cancelled'', JStr ''completed'']),
              (''example'', JStr ''active'')]),
          (''progress'', JObj [
              (''type'', JStr ''number''),
              (''description'', JStr ''Amount streamed so far.''),
              (''example'', JNum 250)])])]"

definition schema_StreamWithProgress :: json where
  "schema_StreamWithProgress =
    JObj [
      (''type'', JStr ''object''),
      (''properties'', JObj [
          (''id'', JObj [
              (''type'', JStr ''string''),
              (''description'', JStr ''Unique identifier for the stream.''),
              (''example'', JStr ''uuid-v4-string'')]),
          (''sender'', JObj [
              (''type'', JStr ''string''),
              (''example'', JStr ''GC7Y4M77LNYKYF4K4V5A737W3G3L3T7XQWZJZL4R64Z43W3T7XZQK2L4'')]),
          (''recipient'', JObj [
              (''type'', JStr ''string''),
              (''example'', JStr ''GB4Z3ZK3X24Z3T7XZQK2L4R64Z43W3T7XZQK2L4R64Z43W3T7XZQK2L4'')]),
          (''assetCode'', JObj [(''type'', JStr ''string''), (''example'', JStr ''USDC'')]),
          (''totalAmount'', JObj [(''type'', JStr ''number''), (''example'', JNum 1000)]),
          (''durationSeconds'', JObj [(''type'', JStr ''number''), (''example'', JNum 3600)]),
          (''startAt'', JObj [(''type'', JStr ''number''), (''example'', JNum 1716382000)]),
          (''createdAt'', JObj [(''type'', JStr ''number''), (''example'', JNum 1716378400)]),
          (''canceledAt'', JObj [(''type'', JStr ''number''), (''example'', JNum 1716385600)]),
          (''completedAt'', JObj [(''type'', JStr ''number''), (''example'', JNum 1716389200)]),
          (''refundedAmount'', JObj [(''type'', JStr ''number''), (''example'', JNum 500)]),
          (''pausedAt'', JObj [(''type'', JStr ''number''), (''example'', JNum 1716384000)]),
          (''pausedDuration'', JObj [(''type'', JStr ''number''), (''example'', JNum 300)]),
          (''progress'', JObj [(''$ref'', JStr ''#/components/schemas/StreamProgress'')])])]"

definition schema_StreamProgress :: json where
  "schema_StreamProgress =
    JObj [
      (''type'', JStr ''object''),
      (''properties'', JObj [
          (''status'', JObj [
              (''type'', JStr ''string''),
              (''enum'', JArr [JStr ''scheduled'', JStr ''active'', JStr ''completed'', JStr ''canceled'']),
              (''example'', JStr ''active'')]),
          (''ratePerSecond'', JObj [
              (''type'', JStr ''number''),
              (''description'', JStr ''Amount streamed per second.''),
              (''example'', JNum (277778 / 1000000))]),
          (''elapsedSeconds'', JObj [
              (''type'', JStr ''number''),
              (''description'', JStr ''Seconds elapsed since stream started.''),
              (''example'', JNum 900)]),
          (''vestedAmount'', JObj [
              (''type'', JStr ''number''),
              (''description'', JStr ''Amount vested so far.''),
              (''example'', JNum 250)]),
          (''remainingAmount'', JObj [
              (''type'', JStr ''number''),
              (''description'', JStr ''Amount remaining to be streamed.''),
              (''example'', JNum 750)]),
          (''percentComplete'', JObj [
              (''type'', JStr ''number''),
              (''description'', JStr ''Percentage of stream completed.''),
              (''example'', JNum 25)])])]"

definition schema_StreamEvent :: json where
  "schema_StreamEvent =
    JObj [
      (''type'', JStr ''object''),
      (''properties'', JObj [
          (''id'', JObj [
              (''type'', JStr ''number''),
              (''description'', JStr ''Unique event identifier.''),
              (''example'', JNum 1)]),
          (''streamId'', JObj [
              (''type'', JStr ''string''),
              (''description'', JStr ''ID of the stream this event belongs to.''),
              (''example'', JStr ''1'')]),
          (''eventType'', JObj [
              (''type'', JStr ''string''),
              (''enum'', JArr [
                  JStr ''created'',
                  JStr ''claimed'',
                  JStr ''canceled'',
                  JStr ''start_time_updated'',
                  JStr ''paused'',
                  JStr ''resumed'',
                  JStr ''completed'']),
              (''example'', JStr ''created'')]),
          (''timestamp'', JObj [
              (''type'', JStr ''number''),
              (''description'', JStr ''UNIX timestamp when the event occurred.''),
              (''example'', JNum 1716378400)]),
          (''actor'', JObj [
              (''type'', JStr ''string''),
              (''description'', JStr ''Account that triggered the event.''),
              (''example'', JStr ''GC7Y4M77LNYKYF4K4V5A737W3G3L3T7XQWZJZL4R64Z43W3T7XZQK2L4'')]),
          (''amount'', JObj [
              (''type'', JStr ''number''),
              (''description'', JStr ''Amount associated with the event (if applicable).''),
              (''example'', JNum 1000)]),
          (''metadata'', JObj [
              (''type'', JStr ''object''),
              (''description'', JStr ''Additional event metadata.''),
              (''example'', JObj [
                  (''recipient'', JStr ''GB4Z3ZK3X24Z3T7XZQK2L4R64Z43W3T7XZQK2L4R64Z43W3T7XZQK2L4''),
                  (''assetCode'', JStr ''USDC''),
                  (''durationSeconds'', JNum 3600)])])])]"

definition schema_StreamSnapshot :: json where
  "schema_StreamSnapshot =
    JObj [
      (''type'', JStr ''object''),
      (''properties'', JObj [
          (''stream'', JObj [
              (''type'', JStr ''object''),
              (''description'', JStr ''Stream data with progress information.''),
              (''properties'', JObj [
                  (''id'', JObj [
                      (''type'', JStr ''string''),
                      (''description'', JStr ''Unique identifier for the stream.''),
                      (''example'', JStr ''1'')]),
                  (''sender'', JObj [
                      (''type'', JStr ''string''),
                      (''example'', JStr ''GC7Y4M77LNYKYF4K4V5A737W3G3L3T7XQWZJZL4R64Z43W3T7XZQK2L4'')]),
                  (''recipient'', JObj [
                      (''type'', JStr ''string''),
                      (''example'', JStr ''GB4Z3ZK3X24Z3T7XZQK2L4R64Z43W3T7XZQK2L4R64Z43W3T7XZQK2L4'')]),
                  (''assetCode'', JObj [(''type'', JStr ''string''), (''example'', JStr ''USDC'')]),
                  (''totalAmount'', JObj [(''type'', JStr ''number''), (''example'', JNum 1000)]),
                  (''durationSeconds'', JObj [(''type'', JStr ''number''), (''example'', JNum 3600)]),
                  (''startAt'', JObj [(''type'', JStr ''number''), (''example'', JNum 1716382000)]),
                  (''createdAt'', JObj [(''type'', JStr ''number''), (''example'', JNum 1716378400)]),
                  (''canceledAt'', JObj [(''type'', JStr ''number''), (''example'', JNum 1716385600)]),
                  (''completedAt'', JObj [(''type'', JStr ''number''), (''example'', JNum 1716385600)]),
                  (''progress'', JObj [(''$ref'', JStr ''#/components/schemas/StreamProgress'')])])]),
          (''history'', JObj [
              (''type'', JStr ''array''),
              (''description'', JStr ''Chronological history of stream events.''),
              (''items'', JObj [(''$ref'', JStr ''#/components/schemas/StreamEvent'')])])])]"

definition schema_GlobalStats :: json where
  "schema_GlobalStats =
    JObj [
      (''type'', JStr ''object''),
      (''properties'', JObj [
          (''total'', JObj [
              (''type'', JStr ''integer''),
              (''description'', JStr ''Total number of streams.''),
              (''example'', JNum 42)]),
          (''active'', JObj [
              (''type'', JStr ''integer''),
              (''description'', JStr ''Streams currently streaming (started, not paused, not yet ended or canceled).''),
              (''example'', JNum 10)]),
          (''scheduled'', JObj [
              (''type'', JStr ''integer''),
              (''description'', JStr (''Streams that are scheduled but haven'' @ [CHR 0x27] @ ''t started yet.'')),
              (''example'', JNum 5)]),
          (''paused'', JObj [
              (''type'', JStr ''integer''),
              (''description'', JStr ''Streams that are currently paused.''),
              (''example'', JNum 3)]),
          (''completed'', JObj [
              (''type'', JStr ''integer''),
              (''description'', JStr ''Streams that have fully completed.''),
              (''example'', JNum 20)]),
          (''canceled'', JObj [
              (''type'', JStr ''integer''),
              (''description'', JStr ''Streams that were canceled.''),
              (''example'', JNum 4)]),
          (''totalVested'', JObj [
              (''type'', JStr ''number''),
              (''description'', JStr ''Total tokens vested across all active and completed streams.''),
              (''example'', JNum (984325 / 10))]),
          (''totalAmount'', JObj [
              (''type'', JStr ''number''),
              (''description'', JStr ''Total amount of tokens committed across all streams.''),
              (''example'', JNum 150000)]),
          (''uniqueSenders'', JObj [
              (''type'', JStr ''integer''),
              (''description'', JStr ''Number of distinct sender accounts.''),
              (''example'', JNum 18)]),
          (''uniqueRecipients'', JObj [
              (''type'', JStr ''integer''),
              (''description'', JStr ''Number of distinct recipient accounts.''),
              (''example'', JNum 31)]),
          (''localStreamCount'', JObj [
              (''type'', JStr ''integer''),
              (''description'', JStr ''Total streams known to the local database.''),
              (''example'', JNum 42)]),
          (''onChainStreamCount'', JObj [
              (''type'', JStr ''integer''),
              (''nullable'', JBool True),
              (''description'', JStr ''Canonical stream count read from the on-chain NextStreamId. Null when the Soroban RPC is unavailable.''),
              (''example'', JNum 42)])])]"

definition schema_StreamMetrics :: json where
  "schema_StreamMetrics =
    JObj [
      (''type'', JStr ''object''),
      (''properties'', JObj [
          (''total_streams'', JObj [
              (''type'', JStr ''integer''),
              (''description'', JStr ''Total number of streams in the database.''),
              (''example'', JNum 42)]),
          (''active_streams'', JObj [
              (''type'', JStr ''integer''),
              (''description'', JStr ''Streams currently streaming (started, not paused, not yet ended or canceled).''),
              (''example'', JNum 10)]),
          (''total_vested_usdc'', JObj [
              (''type'', JStr ''number''),
              (''description'', JStr ''Total USDC vested across active and completed streams.''),
              (''example'', JNum (50005 / 10))]),
          (''total_vested_xlm'', JObj [
              (''type'', JStr ''number''),
              (''description'', JStr ''Total XLM vested across active and completed streams.''),
              (''example'', JNum (120025 / 100))]),
          (''streams_completed_today'', JObj [
              (''type'', JStr ''integer''),
              (''description'', JStr ''Number of streams completed since UTC midnight today.''),
              (''example'', JNum 3)])])]"

definition schema_Error :: json where
  "schema_Error =
    JObj [
      (''type'', JStr ''object''),
      (''required'', JArr [JStr ''error'', JStr ''statusCode'']),
      (''properties'', JObj [
          (''error'', JObj [(''type'', JStr ''string''), (''example'', JStr ''Stream not found.'')]),
          (''statusCode'', JObj [(''type'', JStr ''integer''), (''example'', JNum 404)]),
          (''requestId'', JObj [(''type'', JStr ''string''), (''example'', JStr ''req_123456789'')]),
          (''code'', JObj [(''type'', JStr ''string''), (''example'', JStr ''NOT_FOUND'')]),
          (''details'', JObj [
              (''type'', JStr ''array''),
              (''items'', JObj [
                  (''type'', JStr ''object''),
                  (''required'', JArr [JStr ''field'', JStr ''message'']),
                  (''properties'', JObj [
                      (''field'', JObj [(''type'', JStr ''string''), (''example'', JStr ''startAt'')]),
                      (''message'', JObj [
                          (''type'', JStr ''string''),
                          (''example'', JStr ''startAt must be in the future.'')])])])])])]"

definition path_health_get :: json where
  "path_health_get =
    JObj [
      (''summary'', JStr ''Check API Health''),
      (''description'', JStr ''Returns the health status of the API.''),
      (''responses'', JObj [
          (''200'', JObj [
              (''description'', JStr ''API is healthy''),
              (''content'', JObj [
                  (''application/json'', JObj [
                      (''schema'', JObj [
                          (''type'', JStr ''object''),
                          (''properties'', JObj [
                              (''service'', JObj [
                                  (''type'', JStr ''string''),
                                  (''example'', JStr ''stellar-stream-backend'')]),
                              (''status'', JObj [(''type'', JStr ''string''), (''example'', JStr ''ok'')]),
                              (''timestamp'', JObj [
                                  (''type'', JStr ''string''),
                                  (''example'', JStr ''2024-05-22T10:06:40.000Z'')])])])])])])])]"

definition path_auth_refresh_post :: json where
  "path_auth_refresh_post =
    JObj [
      (''summary'', JStr ''Refresh JWT''),
      (''description'', JStr (''Accepts a still-valid Bearer JWT and returns a new token with a fresh 24h expiry. '' @
              ''Use this to avoid forcing users to re-sign a Stellar challenge transaction every day.'')),
      (''security'', JArr [JObj [(''bearerAuth'', JArr [])]]),
      (''responses'', JObj [
          (''200'', JObj [
              (''description'', JStr ''New JWT issued''),
              (''content'', JObj [
                  (''application/json'', JObj [
                      (''schema'', JObj [
                          (''type'', JStr ''object''),
                          (''properties'', JObj [
                              (''token'', JObj [
                                  (''type'', JStr ''string''),
                                  (''description'', JStr ''New JWT valid for 24 hours.''),
                                  (''example'', JStr ''eyJhbGciOiJIUzI1NiIsInR5cCI6IkpXVCJ9...'')])])])])])]),
          (''401'', JObj [
              (''description'', JStr ''Missing, invalid, or expired token''),
              (''content'', JObj [
                  (''application/json'', JObj [
                      (''schema'', JObj [
                          (''type'', JStr ''object''),
                          (''properties'', JObj [
                              (''error'', JObj [
                                  (''type'', JStr ''string''),
                                  (''example'', JStr ''Invalid or expired authorization token.'')]),
                              (''code'', JObj [(''type'', JStr ''string''), (''example'', JStr ''UNAUTHORIZED'')])])])])])])])]"

definition path_assets_get :: json where
  "path_assets_get =
    JObj [
      (''summary'', JStr ''List allowed assets''),
      (''description'', JStr ''Returns the normalized list of allowed asset codes.''),
      (''responses'', JObj [
          (''200'', JObj [
              (''description'', JStr ''Allowed assets list.''),
              (''content'', JObj [
                  (''application/json'', JObj [
                      (''schema'', JObj [
                          (''type'', JStr ''object''),
                          (''properties'', JObj [
                              (''data'', JObj [
                                  (''type'', JStr ''array''),
                                  (''items'', JObj [(''type'', JStr ''string''), (''example'', JStr ''USDC'')])])])])])])])])]"

definition path_stats_get :: json where
  "path_stats_get =
    JObj [
      (''summary'', JStr ''Get aggregate stream statistics''),
      (''description'', JStr (''Returns aggregate statistics across all streams. '' @
              ''Result is cached for 30 seconds. Useful for admin dashboards and monitoring.'')),
      (''responses'', JObj [
          (''200'', JObj [
              (''description'', JStr ''Aggregate stream statistics.''),
              (''content'', JObj [
                  (''application/json'', JObj [
                      (''schema'', JObj [
                          (''type'', JStr ''object''),
                          (''properties'', JObj [(''data'', JObj [(''$ref'', JStr ''#/components/schemas/GlobalStats'')])])])])])]),
          (''500'', JObj [
              (''description'', JStr ''Failed to compute stats.''),
              (''content'', JObj [
                  (''application/json'', JObj [(''schema'', JObj [(''$ref'', JStr ''#/components/schemas/Error'')])])])])])]"

definition path_metrics_get :: json where
  "path_metrics_get =
    JObj [
      (''summary'', JStr ''Get aggregated stream metrics''),
      (''description'', JStr (''Returns aggregated stream metrics including counts and vested amounts by asset. '' @
              ''Result is cached for 60 seconds. Requires a valid admin JWT (Bearer token).'')),
      (''security'', JArr [JObj [(''bearerAuth'', JArr [])]]),
      (''responses'', JObj [
          (''200'', JObj [
              (''description'', JStr ''Aggregated stream metrics.''),
              (''content'', JObj [
                  (''application/json'', JObj [
                      (''schema'', JObj [
                          (''type'', JStr ''object''),
                          (''properties'', JObj [(''data'', JObj [(''$ref'', JStr ''#/components/schemas/StreamMetrics'')])])])])])]),
          (''401'', JObj [
              (''description'', JStr ''Missing, invalid, or expired JWT.''),
              (''content'', JObj [
                  (''application/json'', JObj [(''schema'', JObj [(''$ref'', JStr ''#/components/schemas/Error'')])])])]),
          (''500'', JObj [
              (''description'', JStr ''Failed to compute metrics.''),
              (''content'', JObj [
                  (''application/json'', JObj [(''schema'', JObj [(''$ref'', JStr ''#/components/schemas/Error'')])])])])])]"

definition path_streams_get_parameters :: json where
  "path_streams_get_parameters =
    JArr [
      JObj [
        (''name'', JStr ''status''),
        (''in'', JStr ''query''),
        (''required'', JBool False),
        (''description'', JStr ''Filter by stream status. Combines with AND logic alongside all other filters.''),
        (''schema'', JObj [
            (''type'', JStr ''string''),
            (''enum'', JArr [
                JStr ''scheduled'',
                JStr ''active'',
                JStr ''paused'',
                JStr ''completed'',
                JStr ''canceled''])])],
      JObj [
        (''name'', JStr ''sender''),
        (''in'', JStr ''query''),
        (''required'', JBool False),
        (''description'', JStr ''Exact sender account ID match (case-insensitive). Combines with AND logic.''),
        (''schema'', JObj [(''type'', JStr ''string'')])],
      JObj [
        (''name'', JStr ''recipient''),
        (''in'', JStr ''query''),
        (''required'', JBool False),
        (''description'', JStr ''Exact recipient account ID match (case-insensitive). Combines with AND logic.''),
        (''schema'', JObj [(''type'', JStr ''string'')])],
      JObj [
        (''name'', JStr ''asset''),
        (''in'', JStr ''query''),
        (''required'', JBool False),
        (''description'', JStr (''Exact asset code match (case-insensitive). Combines with AND logic alongside all other filters. '' @
                ''When asset is set, the q parameter searches only across id, sender, and recipient '' @ [CHR 0xE2, CHR 0x80, CHR 0x94] @ '' not asset code.'')),
        (''schema'', JObj [(''type'', JStr ''string''), (''example'', JStr ''USDC'')])],
      JObj [
        (''name'', JStr ''assetCode''),
        (''in'', JStr ''query''),
        (''required'', JBool False),
        (''description'', JStr (''Filter by one or more asset codes (comma-separated, case-insensitive). Example: ?assetCode=USDC,XLM. '' @
                ''Combines with AND logic alongside all other filters. '' @
                ''When assetCode is set, the q parameter searches only across id, sender, and recipient '' @ [CHR 0xE2, CHR 0x80, CHR 0x94] @ '' not asset code.'')),
        (''schema'', JObj [(''type'', JStr ''string''), (''example'', JStr ''USDC,XLM'')])],
      JObj [
        (''name'', JStr ''q''),
        (''in'', JStr ''query''),
        (''required'', JBool False),
        (''description'', JStr (''General search term (case-insensitive substring match). '' @
                ''Searches across stream id, sender, recipient, and '' @ [CHR 0xE2, CHR 0x80, CHR 0x94] @ '' when no explicit asset/assetCode filter is active '' @ [CHR 0xE2, CHR 0x80, CHR 0x94] @ '' asset code. '' @
                ''Combines with AND logic with all other filters. '' @
                ''Examples: '' @
                ''q alone '' @ [CHR 0xE2, CHR 0x86, CHR 0x92] @ '' any stream whose id/sender/recipient/assetCode contains the term; '' @
                ''q + asset '' @ [CHR 0xE2, CHR 0x86, CHR 0x92] @ '' asset filter governs asset matching, q searches id/sender/recipient only; '' @
                ''q + status '' @ [CHR 0xE2, CHR 0x86, CHR 0x92] @ '' streams matching both the status AND the search term.'')),
        (''schema'', JObj [(''type'', JStr ''string'')])],
      JObj [
        (''name'', JStr ''minAmount''),
        (''in'', JStr ''query''),
        (''required'', JBool False),
        (''description'', JStr ''Filter streams whose totalAmount is greater than or equal to this value. Combines with AND logic.''),
        (''schema'', JObj [(''type'', JStr ''number''), (''minimum'', JNum 0)])],
      JObj [
        (''name'', JStr ''maxAmount''),
        (''in'', JStr ''query''),
        (''required'', JBool False),
        (''description'', JStr ''Filter streams whose totalAmount is less than or equal to this value. Combines with AND logic.''),
        (''schema'', JObj [(''type'', JStr ''number''), (''minimum'', JNum 0)])],
      JObj [
        (''name'', JStr ''include_archived''),
        (''in'', JStr ''query''),
        (''required'', JBool False),
        (''description'', JStr (''Set to '' @ [CHR 0x27] @ ''true'' @ [CHR 0x27] @ '' to include soft-deleted (archived) streams in results. Defaults to false.'')),
        (''schema'', JObj [(''type'', JStr ''string''), (''enum'', JArr [JStr ''true'', JStr ''false''])])],
      JObj [
        (''name'', JStr ''sort''),
        (''in'', JStr ''query''),
        (''required'', JBool False),
        (''description'', JStr ''Field to sort by. Defaults to createdAt.''),
        (''schema'', JObj [
            (''type'', JStr ''string''),
            (''enum'', JArr [JStr ''totalAmount'', JStr ''startAt'', JStr ''createdAt'', JStr ''durationSeconds''])])],
      JObj [
        (''name'', JStr ''order''),
        (''in'', JStr ''query''),
        (''required'', JBool False),
        (''description'', JStr ''Sort direction. Defaults to desc.''),
        (''schema'', JObj [(''type'', JStr ''string''), (''enum'', JArr [JStr ''asc'', JStr ''desc''])])]]"

definition path_streams_get_responses :: json where
  "path_streams_get_responses =
    JObj [
      (''200'', JObj [
          (''description'', JStr ''A list of streams with pagination metadata.''),
          (''content'', JObj [
              (''application/json'', JObj [
                  (''schema'', JObj [
                      (''type'', JStr ''object''),
                      (''properties'', JObj [
                          (''data'', JObj [
                              (''type'', JStr ''array''),
                              (''items'', JObj [(''$ref'', JStr ''#/components/schemas/Stream'')])]),
                          (''total'', JObj [
                              (''type'', JStr ''number''),
                              (''description'', JStr ''Total streams matching filters (before pagination).''),
                              (''example'', JNum 42)]),
                          (''page'', JObj [
                              (''type'', JStr ''number''),
                              (''description'', JStr ''Applied page number.''),
                              (''example'', JNum 1)]),
                          (''limit'', JObj [
                              (''type'', JStr ''number''),
                              (''description'', JStr ''Applied page size.''),
                              (''example'', JNum 20)])])])])])]),
      (''400'', JObj [
          (''description'', JStr ''Invalid query parameter.''),
          (''content'', JObj [
              (''application/json'', JObj [(''schema'', JObj [(''$ref'', JStr ''#/components/schemas/Error'')])])])])]"

definition path_streams_get :: json where
  "path_streams_get =
    JObj [
      (''summary'', JStr ''List all streams''),
      (''description'', JStr (''Retrieves streams with optional filtering and pagination. '' @
              ''All filter parameters combine with AND logic: a stream must satisfy every supplied filter to appear in results. '' @
              ''Filter combination semantics:'' @ [CHR 0x0A] @
              ''- **q only** '' @ [CHR 0xE2, CHR 0x86, CHR 0x92] @ '' substring match across id, sender, recipient, and asset code.'' @ [CHR 0x0A] @
              ''- **asset only** '' @ [CHR 0xE2, CHR 0x86, CHR 0x92] @ '' exact asset code match (case-insensitive).'' @ [CHR 0x0A] @
              ''- **assetCode only** '' @ [CHR 0xE2, CHR 0x86, CHR 0x92] @ '' multi-asset match (comma-separated, case-insensitive).'' @ [CHR 0x0A] @
              ''- **q + asset (AND)** '' @ [CHR 0xE2, CHR 0x86, CHR 0x92] @ '' asset filter pins the asset; q searches id, sender, and recipient only (not asset code).'' @ [CHR 0x0A] @
              ''- **q + assetCode (AND)** '' @ [CHR 0xE2, CHR 0x86, CHR 0x92] @ '' same as q + asset but for multi-asset.'' @ [CHR 0x0A] @
              ''- **any combination** '' @ [CHR 0xE2, CHR 0x86, CHR 0x92] @ '' every supplied filter must be satisfied simultaneously.'')),
      (''parameters'', path_streams_get_parameters),
      (''responses'', path_streams_get_responses)]"

definition path_streams_post :: json where
  "path_streams_post =
    JObj [
      (''summary'', JStr ''Create a new stream''),
      (''description'', JStr ''Creates a new stream with the given inputs.''),
      (''requestBody'', JObj [
          (''required'', JBool True),
          (''content'', JObj [
              (''application/json'', JObj [(''schema'', JObj [(''$ref'', JStr ''#/components/schemas/StreamInput'')])])])]),
      (''responses'', JObj [
          (''201'', JObj [
              (''description'', JStr ''Stream created successfully.''),
              (''content'', JObj [
                  (''application/json'', JObj [
                      (''schema'', JObj [
                          (''type'', JStr ''object''),
                          (''properties'', JObj [(''data'', JObj [(''$ref'', JStr ''#/components/schemas/Stream'')])])])])])]),
          (''400'', JObj [
              (''description'', JStr ''Invalid input.''),
              (''content'', JObj [
                  (''application/json'', JObj [(''schema'', JObj [(''$ref'', JStr ''#/components/schemas/Error'')])])])]),
          (''500'', JObj [
              (''description'', JStr ''Server error during creation.''),
              (''content'', JObj [
                  (''application/json'', JObj [(''schema'', JObj [(''$ref'', JStr ''#/components/schemas/Error'')])])])])])]"

definition path_streams_search_get :: json where
  "path_streams_search_get =
    JObj [
      (''summary'', JStr ''Full-text search for streams''),
      (''description'', JStr (''Searches streams using a case-insensitive substring match of `q` across stream id, '' @
              ''sender, recipient, and assetCode fields.  An optional `asset` query parameter '' @
              ''applies an additional exact asset-code filter (AND-composed with `q`).'' @ [CHR 0x0A, CHR 0x0A] @
              ''**Boundary behaviour**'' @ [CHR 0x0A] @
              ''- Missing or empty `q` '' @ [CHR 0xE2, CHR 0x86, CHR 0x92] @ '' 400 VALIDATION_ERROR'' @ [CHR 0x0A] @
              ''- `asset` with invalid format (non-alphanumeric or >12 chars) '' @ [CHR 0xE2, CHR 0x86, CHR 0x92] @ '' 400 VALIDATION_ERROR'' @ [CHR 0x0A] @
              ''- Valid `q` that matches nothing '' @ [CHR 0xE2, CHR 0x86, CHR 0x92] @ '' 200, data: [], total: 0'' @ [CHR 0x0A] @
              ''- Valid `q` + `asset` combination '' @ [CHR 0xE2, CHR 0x86, CHR 0x92] @ '' 200, intersection of both filters'' @ [CHR 0x0A, CHR 0x0A] @
              ''The `total` field always reflects the number of matched rows returned; '' @
              ''`data` and `total` are always consistent.'')),
      (''parameters'', JArr [
          JObj [
            (''name'', JStr ''q''),
            (''in'', JStr ''query''),
            (''required'', JBool True),
            (''description'', JStr (''Non-empty search term. Case-insensitive substring match across stream id, '' @
                    ''sender, recipient, and assetCode.'')),
            (''schema'', JObj [(''type'', JStr ''string''), (''minLength'', JNum 1)])],
          JObj [
            (''name'', JStr ''asset''),
            (''in'', JStr ''query''),
            (''required'', JBool False),
            (''description'', JStr (''Optional exact asset-code filter (case-insensitive, 1'' @ [CHR 0xE2, CHR 0x80, CHR 0x93] @ ''12 alphanumeric characters). '' @
                    ''When provided, only streams matching BOTH `q` AND this asset code are returned. '' @
                    ''Values outside the 1'' @ [CHR 0xE2, CHR 0x80, CHR 0x93] @ ''12 alphanumeric character range return a 400.'')),
            (''schema'', JObj [
                (''type'', JStr ''string''),
                (''pattern'', JStr ''^[A-Za-z0-9]{1,12}$''),
                (''example'', JStr ''USDC'')])]]),
      (''responses'', JObj [
          (''200'', JObj [
              (''description'', JStr ''Search results with total count and echoed query context.''),
              (''content'', JObj [
                  (''application/json'', JObj [
                      (''schema'', JObj [
                          (''type'', JStr ''object''),
                          (''properties'', JObj [
                              (''data'', JObj [
                                  (''type'', JStr ''array''),
                                  (''items'', JObj [(''$ref'', JStr ''#/components/schemas/Stream'')])]),
                              (''total'', JObj [
                                  (''type'', JStr ''number''),
                                  (''description'', JStr ''Number of streams in the result set (equals data.length).''),
                                  (''example'', JNum 3)]),
                              (''query'', JObj [
                                  (''type'', JStr ''string''),
                                  (''description'', JStr ''The search term that was applied.''),
                                  (''example'', JStr ''GABC'')]),
                              (''asset'', JObj [
                                  (''type'', JStr ''string''),
                                  (''description'', JStr ''The asset filter that was applied (only present when ?asset was supplied).''),
                                  (''example'', JStr ''USDC'')])])])])])]),
          (''400'', JObj [
              (''description'', JStr ''Missing, empty, or invalid query parameters.''),
              (''content'', JObj [
                  (''application/json'', JObj [(''schema'', JObj [(''$ref'', JStr ''#/components/schemas/Error'')])])])]),
          (''500'', JObj [
              (''description'', JStr ''Unexpected server error during search.''),
              (''content'', JObj [
                  (''application/json'', JObj [(''schema'', JObj [(''$ref'', JStr ''#/components/schemas/Error'')])])])])])]"

definition path_streams_id_get :: json where
  "path_streams_id_get =
    JObj [
      (''summary'', JStr ''Get a specific stream''),
      (''description'', JStr ''Retrieves a stream by its unique ID.''),
      (''parameters'', JArr [
          JObj [
            (''name'', JStr ''id''),
            (''in'', JStr ''path''),
            (''required'', JBool True),
            (''description'', JStr ''The unique ID of the stream.''),
            (''schema'', JObj [(''type'', JStr ''string'')])]]),
      (''responses'', JObj [
          (''200'', JObj [
              (''description'', JStr ''Stream data.''),
              (''content'', JObj [
                  (''application/json'', JObj [
                      (''schema'', JObj [
                          (''type'', JStr ''object''),
                          (''properties'', JObj [(''data'', JObj [(''$ref'', JStr ''#/components/schemas/Stream'')])])])])])]),
          (''404'', JObj [
              (''description'', JStr ''Stream not found.''),
              (''content'', JObj [
                  (''application/json'', JObj [(''schema'', JObj [(''$ref'', JStr ''#/components/schemas/Error'')])])])])])]"

definition path_streams_id_claimable_get :: json where
  "path_streams_id_claimable_get =
    JObj [
      (''summary'', JStr ''Get real-time claimable amount''),
      (''description'', JStr ''Retrieves the current real-time claimable amount for a stream using Soroban contract simulation. Returns 0 if paused, canceled, or before the cliff.''),
      (''parameters'', JArr [
          JObj [
            (''name'', JStr ''id''),
            (''in'', JStr ''path''),
            (''required'', JBool True),
            (''description'', JStr ''The unique ID of the stream.''),
            (''schema'', JObj [(''type'', JStr ''string'')])]]),
      (''responses'', JObj [
          (''200'', JObj [
              (''description'', JStr ''Real-time claimable amount and query context.''),
              (''content'', JObj [
                  (''application/json'', JObj [
                      (''schema'', JObj [
                          (''type'', JStr ''object''),
                          (''properties'', JObj [
                              (''streamId'', JObj [(''type'', JStr ''string''), (''example'', JStr ''1'')]),
                              (''claimableAmount'', JObj [(''type'', JStr ''number''), (''example'', JNum (450123456 / 1000000))]),
                              (''assetCode'', JObj [(''type'', JStr ''string''), (''example'', JStr ''USDC'')]),
                              (''at'', JObj [
                                  (''type'', JStr ''integer''),
                                  (''description'', JStr ''Ledger timestamp at which query was simulated''),
                                  (''example'', JNum 1716812160)])])])])])]),
          (''404'', JObj [
              (''description'', JStr ''Stream not found.''),
              (''content'', JObj [
                  (''application/json'', JObj [(''schema'', JObj [(''$ref'', JStr ''#/components/schemas/Error'')])])])]),
          (''500'', JObj [
              (''description'', JStr ''Failed to simulate claimable amount.''),
              (''content'', JObj [
                  (''application/json'', JObj [(''schema'', JObj [(''$ref'', JStr ''#/components/schemas/Error'')])])])])])]"

definition path_recipients_accountId_streams_get :: json where
  "path_recipients_accountId_streams_get =
    JObj [
      (''summary'', JStr ''Get recipient streams''),
      (''description'', JStr (''Retrieves all streams for a specific recipient with optional filtering, search, and pagination. '' @
              ''All filter parameters combine with AND logic. See GET /api/streams for full q + asset combination semantics.'')),
      (''parameters'', JArr [
          JObj [
            (''name'', JStr ''accountId''),
            (''in'', JStr ''path''),
            (''required'', JBool True),
            (''description'', JStr ''The Stellar account ID of the recipient (starts with G, exactly 56 characters).''),
            (''schema'', JObj [(''type'', JStr ''string''), (''pattern'', JStr ''^G[A-Z2-7]{55}$'')])],
          JObj [
            (''name'', JStr ''status''),
            (''in'', JStr ''query''),
            (''required'', JBool False),
            (''description'', JStr ''Filter by stream status. Combines with AND logic.''),
            (''schema'', JObj [
                (''type'', JStr ''string''),
                (''enum'', JArr [
                    JStr ''scheduled'',
                    JStr ''active'',
                    JStr ''paused'',
                    JStr ''completed'',
                    JStr ''canceled''])])],
          JObj [
            (''name'', JStr ''sender''),
            (''in'', JStr ''query''),
            (''required'', JBool False),
            (''description'', JStr ''Filter by sender account ID (case-insensitive). Combines with AND logic.''),
            (''schema'', JObj [(''type'', JStr ''string'')])],
          JObj [
            (''name'', JStr ''asset''),
            (''in'', JStr ''query''),
            (''required'', JBool False),
            (''description'', JStr (''Exact asset code match (case-insensitive). Combines with AND logic. '' @
                    ''When asset is set, the q parameter searches only across id, sender, and recipient '' @ [CHR 0xE2, CHR 0x80, CHR 0x94] @ '' not asset code.'')),
            (''schema'', JObj [(''type'', JStr ''string'')])],
          JObj [
            (''name'', JStr ''q''),
            (''in'', JStr ''query''),
            (''required'', JBool False),
            (''description'', JStr (''General search term (case-insensitive substring match). Combines with AND logic with all other filters. '' @
                    ''When an explicit asset/assetCode filter is active, q searches id, sender, and recipient only.'')),
            (''schema'', JObj [(''type'', JStr ''string'')])],
          JObj [
            (''name'', JStr ''page''),
            (''in'', JStr ''query''),
            (''required'', JBool False),
            (''description'', JStr ''Page number for pagination (defaults to 1).''),
            (''schema'', JObj [(''type'', JStr ''integer''), (''minimum'', JNum 1)])],
          JObj [
            (''name'', JStr ''limit''),
            (''in'', JStr ''query''),
            (''required'', JBool False),
            (''description'', JStr ''Number of items per page (defaults to 20, max 100). If both page and limit are omitted, all results are returned.''),
            (''schema'', JObj [(''type'', JStr ''integer''), (''minimum'', JNum 1), (''maximum'', JNum 100)])]]),
      (''responses'', JObj [
          (''200'', JObj [
              (''description'', JStr ''A paginated list of streams for the recipient with progress data.''),
              (''content'', JObj [
                  (''application/json'', JObj [
                      (''schema'', JObj [
                          (''type'', JStr ''object''),
                          (''properties'', JObj [
                              (''data'', JObj [
                                  (''type'', JStr ''array''),
                                  (''items'', JObj [(''$ref'', JStr ''#/components/schemas/Stream'')])]),
                              (''total'', JObj [
                                  (''type'', JStr ''integer''),
                                  (''description'', JStr ''Total number of streams matching the filters (before pagination).'')]),
                              (''page'', JObj [
                                  (''type'', JStr ''integer''),
                                  (''description'', JStr ''Current page number.'')]),
                              (''limit'', JObj [
                                  (''type'', JStr ''integer''),
                                  (''description'', JStr ''Number of items per page.'')])])])])])]),
          (''400'', JObj [
              (''description'', JStr ''Invalid request.''),
              (''content'', JObj [
                  (''application/json'', JObj [(''schema'', JObj [(''$ref'', JStr ''#/components/schemas/Error'')])])])])])]"

definition path_senders_accountId_streams_get :: json where
  "path_senders_accountId_streams_get =
    JObj [
      (''summary'', JStr ''Get sender streams''),
      (''description'', JStr (''Retrieves all streams for a specific sender with optional filtering and pagination. '' @
              ''All filter parameters combine with AND logic; see GET /api/streams for full q + asset combination semantics.'')),
      (''parameters'', JArr [
          JObj [
            (''name'', JStr ''accountId''),
            (''in'', JStr ''path''),
            (''required'', JBool True),
            (''description'', JStr ''The Stellar account ID of the sender (starts with G, exactly 56 characters).''),
            (''schema'', JObj [(''type'', JStr ''string''), (''pattern'', JStr ''^G[A-Z2-7]{55}$'')])],
          JObj [
            (''name'', JStr ''status''),
            (''in'', JStr ''query''),
            (''required'', JBool False),
            (''description'', JStr ''Filter by stream status. Combines with AND logic.''),
            (''schema'', JObj [
                (''type'', JStr ''string''),
                (''enum'', JArr [
                    JStr ''scheduled'',
                    JStr ''active'',
                    JStr ''paused'',
                    JStr ''completed'',
                    JStr ''canceled''])])],
          JObj [
            (''name'', JStr ''recipient''),
            (''in'', JStr ''query''),
            (''required'', JBool False),
            (''description'', JStr ''Filter by recipient account ID (case-insensitive). Combines with AND logic.''),
            (''schema'', JObj [(''type'', JStr ''string'')])],
          JObj [
            (''name'', JStr ''asset''),
            (''in'', JStr ''query''),
            (''required'', JBool False),
            (''description'', JStr (''Exact asset code match (case-insensitive). Combines with AND logic. '' @
                    ''When asset is set, q searches id, sender, and recipient only '' @ [CHR 0xE2, CHR 0x80, CHR 0x94] @ '' not asset code.'')),
            (''schema'', JObj [(''type'', JStr ''string''), (''example'', JStr ''USDC'')])],
          JObj [
            (''name'', JStr ''q''),
            (''in'', JStr ''query''),
            (''required'', JBool False),
            (''description'', JStr (''General search term (case-insensitive substring match). Combines with AND logic with all other filters. '' @
                    ''When an explicit asset filter is active, q searches id, sender, and recipient only.'')),
            (''schema'', JObj [(''type'', JStr ''string'')])],
          JObj [
            (''name'', JStr ''page''),
            (''in'', JStr ''query''),
            (''required'', JBool False),
            (''description'', JStr ''Page number (>=1). Pagination is enabled when either page or limit is provided.''),
            (''schema'', JObj [(''type'', JStr ''integer''), (''minimum'', JNum 1)])],
          JObj [
            (''name'', JStr ''limit''),
            (''in'', JStr ''query''),
            (''required'', JBool False),
            (''description'', JStr ''Page size (1..100). Defaults to 20 in pagination mode.''),
            (''schema'', JObj [(''type'', JStr ''integer''), (''minimum'', JNum 1), (''maximum'', JNum 100)])]]),
      (''responses'', JObj [
          (''200'', JObj [
              (''description'', JStr ''A list of streams for the sender with pagination metadata.''),
              (''content'', JObj [
                  (''application/json'', JObj [
                      (''schema'', JObj [
                          (''type'', JStr ''object''),
                          (''properties'', JObj [
                              (''data'', JObj [
                                  (''type'', JStr ''array''),
                                  (''items'', JObj [(''$ref'', JStr ''#/components/schemas/Stream'')])]),
                              (''total'', JObj [(''type'', JStr ''number''), (''example'', JNum 10)]),
                              (''page'', JObj [(''type'', JStr ''number''), (''example'', JNum 1)]),
                              (''limit'', JObj [(''type'', JStr ''number''), (''example'', JNum 20)])])])])])]),
          (''400'', JObj [
              (''description'', JStr ''Invalid input or account ID.''),
              (''content'', JObj [
                  (''application/json'', JObj [(''schema'', JObj [(''$ref'', JStr ''#/components/schemas/Error'')])])])])])]"

definition path_streams_sender_address_get :: json where
  "path_streams_sender_address_get =
    JObj [
      (''summary'', JStr ''List streams by sender address''),
      (''description'', JStr (''Returns all streams where the given Stellar account is the sender. '' @
              ''Supports the same pagination, filtering, and search parameters as GET /api/streams. '' @
              ''All filter parameters combine with AND logic; see GET /api/streams for full q + asset combination semantics. '' @
              ''Results are cached for 5 seconds per address.'')),
      (''parameters'', JArr [
          JObj [
            (''name'', JStr ''address''),
            (''in'', JStr ''path''),
            (''required'', JBool True),
            (''description'', JStr (''Stellar account address of the sender. Must be a valid Ed25519 public key '' @
                    ''starting with '' @ [CHR 0x27] @ ''G'' @ [CHR 0x27] @ '' and exactly 56 characters long.'')),
            (''schema'', JObj [
                (''type'', JStr ''string''),
                (''pattern'', JStr ''^G[A-Z2-7]{55}$''),
                (''example'', JStr ''GAAAAAAAAAAAAAAAAAAAAAAAAAAAAAAAAAAAAAAAAAAAAAAAAAAAAWHF'')])],
          JObj [
            (''name'', JStr ''status''),
            (''in'', JStr ''query''),
            (''required'', JBool False),
            (''description'', JStr ''Filter by stream status. Combines with AND logic.''),
            (''schema'', JObj [
                (''type'', JStr ''string''),
                (''enum'', JArr [
                    JStr ''scheduled'',
                    JStr ''active'',
                    JStr ''paused'',
                    JStr ''completed'',
                    JStr ''canceled''])])],
          JObj [
            (''name'', JStr ''recipient''),
            (''in'', JStr ''query''),
            (''required'', JBool False),
            (''description'', JStr ''Filter by recipient account ID (case-insensitive). Combines with AND logic.''),
            (''schema'', JObj [(''type'', JStr ''string'')])],
          JObj [
            (''name'', JStr ''asset''),
            (''in'', JStr ''query''),
            (''required'', JBool False),
            (''description'', JStr (''Exact asset code match (case-insensitive). Combines with AND logic. '' @
                    ''When asset is set, the q parameter searches only across id, sender, and recipient '' @ [CHR 0xE2, CHR 0x80, CHR 0x94] @ '' not asset code.'')),
            (''schema'', JObj [(''type'', JStr ''string''), (''example'', JStr ''USDC'')])],
          JObj [
            (''name'', JStr ''assetCode''),
            (''in'', JStr ''query''),
            (''required'', JBool False),
            (''description'', JStr (''Filter by one or more asset codes (comma-separated, case-insensitive). Example: ?assetCode=USDC,XLM. '' @
                    ''Combines with AND logic. When assetCode is set, q searches id, sender, and recipient only.'')),
            (''schema'', JObj [(''type'', JStr ''string''), (''example'', JStr ''USDC,XLM'')])],
          JObj [
            (''name'', JStr ''q''),
            (''in'', JStr ''query''),
            (''required'', JBool False),
            (''description'', JStr (''General search term (case-insensitive substring match). Combines with AND logic with all other filters. '' @
                    ''When an explicit asset/assetCode filter is active, q searches id, sender, and recipient only.'')),
            (''schema'', JObj [(''type'', JStr ''string'')])],
          JObj [
            (''name'', JStr ''minAmount''),
            (''in'', JStr ''query''),
            (''required'', JBool False),
            (''description'', JStr ''Filter streams with totalAmount >= minAmount. Combines with AND logic.''),
            (''schema'', JObj [(''type'', JStr ''number''), (''minimum'', JNum 0)])],
          JObj [
            (''name'', JStr ''maxAmount''),
            (''in'', JStr ''query''),
            (''required'', JBool False),
            (''description'', JStr ''Filter streams with totalAmount <= maxAmount. Combines with AND logic.''),
            (''schema'', JObj [(''type'', JStr ''number''), (''minimum'', JNum 0)])],
          JObj [
            (''name'', JStr ''page''),
            (''in'', JStr ''query''),
            (''required'', JBool False),
            (''description'', JStr ''Page number (>=1). Pagination is enabled when either page or limit is provided.''),
            (''schema'', JObj [(''type'', JStr ''integer''), (''minimum'', JNum 1)])],
          JObj [
            (''name'', JStr ''limit''),
            (''in'', JStr ''query''),
            (''required'', JBool False),
            (''description'', JStr ''Page size (1..100). Defaults to 20 in pagination mode.''),
            (''schema'', JObj [(''type'', JStr ''integer''), (''minimum'', JNum 1), (''maximum'', JNum 100)])]]),
      (''responses'', JObj [
          (''200'', JObj [
              (''description'', JStr ''Paginated list of streams for the sender.''),
              (''content'', JObj [
                  (''application/json'', JObj [
                      (''schema'', JObj [
                          (''type'', JStr ''object''),
                          (''properties'', JObj [
                              (''data'', JObj [
                                  (''type'', JStr ''array''),
                                  (''items'', JObj [(''$ref'', JStr ''#/components/schemas/Stream'')])]),
                              (''total'', JObj [(''type'', JStr ''integer''), (''example'', JNum 5)]),
                              (''page'', JObj [(''type'', JStr ''integer''), (''example'', JNum 1)]),
                              (''limit'', JObj [(''type'', JStr ''integer''), (''example'', JNum 20)])])])])])]),
          (''400'', JObj [
              (''description'', JStr ''Invalid Stellar address format or query parameter.''),
              (''content'', JObj [
                  (''application/json'', JObj [(''schema'', JObj [(''$ref'', JStr ''#/components/schemas/Error'')])])])])])]"

definition path_streams_recipient_address_get :: json where
  "path_streams_recipient_address_get =
    JObj [
      (''summary'', JStr ''List streams by recipient address''),
      (''description'', JStr (''Returns all streams where the given Stellar account is the recipient. '' @
              ''Supports the same pagination, filtering, and search parameters as GET /api/streams. '' @
              ''All filter parameters combine with AND logic; see GET /api/streams for full q + asset combination semantics. '' @
              ''Results are cached for 5 seconds per address.'')),
      (''parameters'', JArr [
          JObj [
            (''name'', JStr ''address''),
            (''in'', JStr ''path''),
            (''required'', JBool True),
            (''description'', JStr (''Stellar account address of the recipient. Must be a valid Ed25519 public key '' @
                    ''starting with '' @ [CHR 0x27] @ ''G'' @ [CHR 0x27] @ '' and exactly 56 characters long.'')),
            (''schema'', JObj [
                (''type'', JStr ''string''),
                (''pattern'', JStr ''^G[A-Z2-7]{55}$''),
                (''example'', JStr ''GBBBBBBBBBBBBBBBBBBBBBBBBBBBBBBBBBBBBBBBBBBBBBBBBBBBBBBB'')])],
          JObj [
            (''name'', JStr ''status''),
            (''in'', JStr ''query''),
            (''required'', JBool False),
            (''description'', JStr ''Filter by stream status. Combines with AND logic.''),
            (''schema'', JObj [
                (''type'', JStr ''string''),
                (''enum'', JArr [
                    JStr ''scheduled'',
                    JStr ''active'',
                    JStr ''paused'',
                    JStr ''completed'',
                    JStr ''canceled''])])],
          JObj [
            (''name'', JStr ''sender''),
            (''in'', JStr ''query''),
            (''required'', JBool False),
            (''description'', JStr ''Filter by sender account ID (case-insensitive). Combines with AND logic.''),
            (''schema'', JObj [(''type'', JStr ''string'')])],
          JObj [
            (''name'', JStr ''asset''),
            (''in'', JStr ''query''),
            (''required'', JBool False),
            (''description'', JStr (''Exact asset code match (case-insensitive). Combines with AND logic. '' @
                    ''When asset is set, q searches id, sender, and recipient only '' @ [CHR 0xE2, CHR 0x80, CHR 0x94] @ '' not asset code.'')),
            (''schema'', JObj [(''type'', JStr ''string''), (''example'', JStr ''USDC'')])],
          JObj [
            (''name'', JStr ''assetCode''),
            (''in'', JStr ''query''),
            (''required'', JBool False),
            (''description'', JStr (''Filter by one or more asset codes (comma-separated, case-insensitive). Example: ?assetCode=USDC,XLM. '' @
                    ''Combines with AND logic. When assetCode is set, q searches id, sender, and recipient only.'')),
            (''schema'', JObj [(''type'', JStr ''string''), (''example'', JStr ''USDC,XLM'')])],
          JObj [
            (''name'', JStr ''q''),
            (''in'', JStr ''query''),
            (''required'', JBool False),
            (''description'', JStr (''General search term (case-insensitive substring match). Combines with AND logic with all other filters. '' @
                    ''When an explicit asset/assetCode filter is active, q searches id, sender, and recipient only.'')),
            (''schema'', JObj [(''type'', JStr ''string'')])],
          JObj [
            (''name'', JStr ''minAmount''),
            (''in'', JStr ''query''),
            (''required'', JBool False),
            (''description'', JStr ''Filter streams with totalAmount >= minAmount. Combines with AND logic.''),
            (''schema'', JObj [(''type'', JStr ''number''), (''minimum'', JNum 0)])],
          JObj [
            (''name'', JStr ''maxAmount''),
            (''in'', JStr ''query''),
            (''required'', JBool False),
            (''description'', JStr ''Filter streams with totalAmount <= maxAmount. Combines with AND logic.''),
            (''schema'', JObj [(''type'', JStr ''number''), (''minimum'', JNum 0)])],
          JObj [
            (''name'', JStr ''page''),
            (''in'', JStr ''query''),
            (''required'', JBool False),
            (''description'', JStr ''Page number (>=1). Pagination is enabled when either page or limit is provided.''),
            (''schema'', JObj [(''type'', JStr ''integer''), (''minimum'', JNum 1)])],
          JObj [
            (''name'', JStr ''limit''),
            (''in'', JStr ''query''),
            (''required'', JBool False),
            (''description'', JStr ''Page size (1..100). Defaults to 20 in pagination mode.''),
            (''schema'', JObj [(''type'', JStr ''integer''), (''minimum'', JNum 1), (''maximum'', JNum 100)])]]),
      (''responses'', JObj [
          (''200'', JObj [
              (''description'', JStr ''Paginated list of streams for the recipient.''),
              (''content'', JObj [
                  (''application/json'', JObj [
                      (''schema'', JObj [
                          (''type'', JStr ''object''),
                          (''properties'', JObj [
                              (''data'', JObj [
                                  (''type'', JStr ''array''),
                                  (''items'', JObj [(''$ref'', JStr ''#/components/schemas/Stream'')])]),
                              (''total'', JObj [(''type'', JStr ''integer''), (''example'', JNum 3)]),
                              (''page'', JObj [(''type'', JStr ''integer''), (''example'', JNum 1)]),
                              (''limit'', JObj [(''type'', JStr ''integer''), (''example'', JNum 20)])])])])])]),
          (''400'', JObj [
              (''description'', JStr ''Invalid Stellar address format or query parameter.''),
              (''content'', JObj [
                  (''application/json'', JObj [(''schema'', JObj [(''$ref'', JStr ''#/components/schemas/Error'')])])])])])]"

definition path_streams_id_cancel_post :: json where
  "path_streams_id_cancel_post =
    JObj [
      (''summary'', JStr ''Cancel a Stream''),
      (''description'', JStr ''Cancels an active stream by its ID.''),
      (''parameters'', JArr [
          JObj [
            (''name'', JStr ''id''),
            (''in'', JStr ''path''),
            (''required'', JBool True),
            (''description'', JStr ''The unique ID of the stream to cancel.''),
            (''schema'', JObj [(''type'', JStr ''string'')])]]),
      (''responses'', JObj [
          (''200'', JObj [
              (''description'', JStr ''Stream cancelled successfully.''),
              (''content'', JObj [
                  (''application/json'', JObj [
                      (''schema'', JObj [
                          (''type'', JStr ''object''),
                          (''properties'', JObj [(''data'', JObj [(''$ref'', JStr ''#/components/schemas/Stream'')])])])])])]),
          (''404'', JObj [
              (''description'', JStr ''Stream not found.''),
              (''content'', JObj [
                  (''application/json'', JObj [(''schema'', JObj [(''$ref'', JStr ''#/components/schemas/Error'')])])])]),
          (''500'', JObj [
              (''description'', JStr ''Failed to cancel stream.''),
              (''content'', JObj [
                  (''application/json'', JObj [(''schema'', JObj [(''$ref'', JStr ''#/components/schemas/Error'')])])])])])]"

definition path_streams_id_reconcile_post :: json where
  "path_streams_id_reconcile_post =
    JObj [
      (''summary'', JStr ''Reconcile stream with on-chain state''),
      (''description'', JStr (''Forces an immediate Soroban get_stream call to sync the local SQLite record with the on-chain state. '' @
              ''Useful when a transaction (claim, cancel) has been submitted but the indexer hasn'' @ [CHR 0x27] @ ''t polled yet. '' @
              ''Rate limited to 5 calls per stream per minute.'')),
      (''parameters'', JArr [
          JObj [
            (''name'', JStr ''id''),
            (''in'', JStr ''path''),
            (''required'', JBool True),
            (''description'', JStr ''The unique ID of the stream to reconcile.''),
            (''schema'', JObj [(''type'', JStr ''string'')])]]),
      (''security'', JArr [JObj [(''bearerAuth'', JArr [])]]),
      (''responses'', JObj [
          (''200'', JObj [
              (''description'', JStr ''Stream reconciled successfully.''),
              (''content'', JObj [
                  (''application/json'', JObj [
                      (''schema'', JObj [
                          (''type'', JStr ''object''),
                          (''properties'', JObj [
                              (''data'', JObj [(''$ref'', JStr ''#/components/schemas/StreamWithProgress'')])])])])])]),
          (''404'', JObj [
              (''description'', JStr ''Stream not found on-chain.''),
              (''content'', JObj [
                  (''application/json'', JObj [(''schema'', JObj [(''$ref'', JStr ''#/components/schemas/Error'')])])])]),
          (''429'', JObj [
              (''description'', JStr ''Rate limit exceeded (5 calls per stream per minute).''),
              (''content'', JObj [
                  (''application/json'', JObj [(''schema'', JObj [(''$ref'', JStr ''#/components/schemas/Error'')])])])]),
          (''500'', JObj [
              (''description'', JStr ''Failed to reconcile stream.''),
              (''content'', JObj [
                  (''application/json'', JObj [(''schema'', JObj [(''$ref'', JStr ''#/components/schemas/Error'')])])])])])]"

definition path_streams_id_mark_complete_post :: json where
  "path_streams_id_mark_complete_post =
    JObj [
      (''summary'', JStr ''Manually complete a stream''),
      (''description'', JStr ''Marks a fully-vested stream as completed. Only the sender can call this when vestedAmount >= totalAmount.''),
      (''parameters'', JArr [
          JObj [
            (''name'', JStr ''id''),
            (''in'', JStr ''path''),
            (''required'', JBool True),
            (''description'', JStr ''The unique ID of the stream to mark as complete.''),
            (''schema'', JObj [(''type'', JStr ''string'')])]]),
      (''responses'', JObj [
          (''200'', JObj [
              (''description'', JStr ''Stream completed successfully.''),
              (''content'', JObj [
                  (''application/json'', JObj [
                      (''schema'', JObj [
                          (''type'', JStr ''object''),
                          (''properties'', JObj [(''data'', JObj [(''$ref'', JStr ''#/components/schemas/Stream'')])])])])])]),
          (''400'', JObj [
              (''description'', JStr ''Stream is not fully vested, already completed, or already canceled.''),
              (''content'', JObj [
                  (''application/json'', JObj [(''schema'', JObj [(''$ref'', JStr ''#/components/schemas/Error'')])])])]),
          (''404'', JObj [
              (''description'', JStr ''Stream not found.''),
              (''content'', JObj [
                  (''application/json'', JObj [(''schema'', JObj [(''$ref'', JStr ''#/components/schemas/Error'')])])])]),
          (''500'', JObj [
              (''description'', JStr ''Failed to mark stream complete.''),
              (''content'', JObj [
                  (''application/json'', JObj [(''schema'', JObj [(''$ref'', JStr ''#/components/schemas/Error'')])])])])])]"

definition path_streams_id_history_get :: json where
  "path_streams_id_history_get =
    JObj [
      (''summary'', JStr ''Get Stream History''),
      (''description'', JStr ''Retrieves the complete event history for a specific stream.''),
      (''parameters'', JArr [
          JObj [
            (''name'', JStr ''id''),
            (''in'', JStr ''path''),
            (''required'', JBool True),
            (''description'', JStr ''The unique ID of the stream.''),
            (''schema'', JObj [(''type'', JStr ''string'')])]]),
      (''responses'', JObj [
          (''200'', JObj [
              (''description'', JStr ''Stream event history.''),
              (''content'', JObj [
                  (''application/json'', JObj [
                      (''schema'', JObj [
                          (''type'', JStr ''object''),
                          (''properties'', JObj [
                              (''data'', JObj [
                                  (''type'', JStr ''array''),
                                  (''items'', JObj [(''$ref'', JStr ''#/components/schemas/StreamEvent'')])])])])])])]),
          (''404'', JObj [
              (''description'', JStr ''Stream not found.''),
              (''content'', JObj [
                  (''application/json'', JObj [(''schema'', JObj [(''$ref'', JStr ''#/components/schemas/Error'')])])])])])]"

definition path_streams_id_history_summary_get :: json where
  "path_streams_id_history_summary_get =
    JObj [
      (''summary'', JStr ''Get stream event count summary''),
      (''description'', JStr ''Returns aggregated event counts per type for a stream. Useful for dashboard badges. Uses a single GROUP BY query; missing event types return 0.''),
      (''parameters'', JArr [
          JObj [
            (''name'', JStr ''id''),
            (''in'', JStr ''path''),
            (''required'', JBool True),
            (''description'', JStr ''The unique ID of the stream.''),
            (''schema'', JObj [(''type'', JStr ''string'')])]]),
      (''responses'', JObj [
          (''200'', JObj [
              (''description'', JStr ''Event count summary.''),
              (''content'', JObj [
                  (''application/json'', JObj [
                      (''schema'', JObj [
                          (''type'', JStr ''object''),
                          (''properties'', JObj [
                              (''data'', JObj [
                                  (''type'', JStr ''object''),
                                  (''required'', JArr [
                                      JStr ''created'',
                                      JStr ''claimed'',
                                      JStr ''canceled'',
                                      JStr ''start_time_updated'',
                                      JStr ''paused'',
                                      JStr ''resumed'',
                                      JStr ''completed'']),
                                  (''properties'', JObj [
                                      (''created'', JObj [(''type'', JStr ''integer''), (''example'', JNum 1)]),
                                      (''claimed'', JObj [(''type'', JStr ''integer''), (''example'', JNum 3)]),
                                      (''canceled'', JObj [(''type'', JStr ''integer''), (''example'', JNum 0)]),
                                      (''start_time_updated'', JObj [(''type'', JStr ''integer''), (''example'', JNum 1)]),
                                      (''paused'', JObj [(''type'', JStr ''integer''), (''example'', JNum 0)]),
                                      (''resumed'', JObj [(''type'', JStr ''integer''), (''example'', JNum 0)]),
                                      (''completed'', JObj [(''type'', JStr ''integer''), (''example'', JNum 1)])])])])])])])]),
          (''404'', JObj [
              (''description'', JStr ''Stream not found.''),
              (''content'', JObj [
                  (''application/json'', JObj [(''schema'', JObj [(''$ref'', JStr ''#/components/schemas/Error'')])])])])])]"

definition path_streams_id_snapshot_get :: json where
  "path_streams_id_snapshot_get =
    JObj [
      (''summary'', JStr ''Get Stream Snapshot''),
      (''description'', JStr ''Retrieves a complete snapshot of a stream including its data, progress, and history in one payload.''),
      (''parameters'', JArr [
          JObj [
            (''name'', JStr ''id''),
            (''in'', JStr ''path''),
            (''required'', JBool True),
            (''description'', JStr ''The unique ID of the stream.''),
            (''schema'', JObj [(''type'', JStr ''string'')])]]),
      (''responses'', JObj [
          (''200'', JObj [
              (''description'', JStr ''Complete stream snapshot.''),
              (''content'', JObj [
                  (''application/json'', JObj [
                      (''schema'', JObj [
                          (''type'', JStr ''object''),
                          (''properties'', JObj [
                              (''data'', JObj [(''$ref'', JStr ''#/components/schemas/StreamSnapshot'')])])])])])]),
          (''404'', JObj [
              (''description'', JStr ''Stream not found.''),
              (''content'', JObj [
                  (''application/json'', JObj [(''schema'', JObj [(''$ref'', JStr ''#/components/schemas/Error'')])])])])])]"

definition path_events_get :: json where
  "path_events_get =
    JObj [
      (''summary'', JStr ''List All Events''),
      (''description'', JStr ''Retrieves all stream events across all streams with pagination and optional filtering by event type, stream ID, and timestamp.''),
      (''parameters'', JArr [
          JObj [
            (''name'', JStr ''page''),
            (''in'', JStr ''query''),
            (''required'', JBool False),
            (''description'', JStr ''Page number (default: 1).''),
            (''schema'', JObj [(''type'', JStr ''integer''), (''minimum'', JNum 1)])],
          JObj [
            (''name'', JStr ''pageSize''),
            (''in'', JStr ''query''),
            (''required'', JBool False),
            (''description'', JStr ''Number of events per page (default: 20, max: 100).''),
            (''schema'', JObj [(''type'', JStr ''integer''), (''minimum'', JNum 1), (''maximum'', JNum 100)])],
          JObj [
            (''name'', JStr ''limit''),
            (''in'', JStr ''query''),
            (''required'', JBool False),
            (''description'', JStr ''Alias for pageSize. If both are provided, pageSize takes precedence.''),
            (''schema'', JObj [(''type'', JStr ''integer''), (''minimum'', JNum 1), (''maximum'', JNum 100)])],
          JObj [
            (''name'', JStr ''eventType''),
            (''in'', JStr ''query''),
            (''required'', JBool False),
            (''description'', JStr ''Filter by event type: created, claimed, canceled, paused, resumed, start_time_updated, completed.''),
            (''schema'', JObj [
                (''type'', JStr ''string''),
                (''enum'', JArr [
                    JStr ''created'',
                    JStr ''claimed'',
                    JStr ''canceled'',
                    JStr ''paused'',
                    JStr ''resumed'',
                    JStr ''start_time_updated'',
                    JStr ''completed''])])],
          JObj [
            (''name'', JStr ''streamId''),
            (''in'', JStr ''query''),
            (''required'', JBool False),
            (''description'', JStr ''Filter by stream ID.''),
            (''schema'', JObj [(''type'', JStr ''string'')])],
          JObj [
            (''name'', JStr ''since''),
            (''in'', JStr ''query''),
            (''required'', JBool False),
            (''description'', JStr ''Filter to events after this unix timestamp (in seconds).''),
            (''schema'', JObj [(''type'', JStr ''integer'')])],
          JObj [
            (''name'', JStr ''cursor''),
            (''in'', JStr ''query''),
            (''required'', JBool False),
            (''description'', JStr ''Cursor for cursor-based pagination (event ID).''),
            (''schema'', JObj [(''type'', JStr ''integer'')])]]),
      (''responses'', JObj [
          (''200'', JObj [
              (''description'', JStr ''Paginated list of events.''),
              (''content'', JObj [
                  (''application/json'', JObj [
                      (''schema'', JObj [
                          (''type'', JStr ''object''),
                          (''properties'', JObj [
                              (''data'', JObj [
                                  (''type'', JStr ''array''),
                                  (''items'', JObj [(''$ref'', JStr ''#/components/schemas/StreamEvent'')])]),
                              (''total'', JObj [
                                  (''type'', JStr ''integer''),
                                  (''description'', JStr ''Total number of events matching the filters.'')]),
                              (''page'', JObj [
                                  (''type'', JStr ''integer''),
                                  (''description'', JStr ''Current page number.'')]),
                              (''pageSize'', JObj [
                                  (''type'', JStr ''integer''),
                                  (''description'', JStr ''Number of events per page.'')])])])])])]),
          (''400'', JObj [
              (''description'', JStr (''Validation error '' @ [CHR 0xE2, CHR 0x80, CHR 0x94] @ '' invalid query parameters.'')),
              (''content'', JObj [
                  (''application/json'', JObj [(''schema'', JObj [(''$ref'', JStr ''#/components/schemas/Error'')])])])])])]"

definition path_open_issues_get :: json where
  "path_open_issues_get =
    JObj [
      (''summary'', JStr ''Get Open Issues''),
      (''description'', JStr ''Retrieves a list of open issues.''),
      (''responses'', JObj [
          (''200'', JObj [
              (''description'', JStr ''List of open issues.''),
              (''content'', JObj [
                  (''application/json'', JObj [
                      (''schema'', JObj [
                          (''type'', JStr ''object''),
                          (''properties'', JObj [
                              (''data'', JObj [
                                  (''type'', JStr ''array''),
                                  (''items'', JObj [
                                      (''type'', JStr ''object''),
                                      (''description'', JStr ''Issue details'')])])])])])])])])]"

definition swaggerDocument :: json where
  "swaggerDocument =
    JObj [
      (''openapi'', JStr ''3.0.0''),
      (''info'', JObj [
          (''title'', JStr ''StellarStream API''),
          (''version'', JStr ''1.0.0''),
          (''description'', JStr ''API for managing money streams on the Stellar network'')]),
      (''servers'', JArr [
          JObj [
            (''url'', JStr ''http://localhost:3001''),
            (''description'', JStr ''Local development server'')]]),
      (''components'', JObj [
          (''schemas'', JObj [
              (''StreamInput'', schema_StreamInput),
              (''Stream'', schema_Stream),
              (''StreamWithProgress'', schema_StreamWithProgress),
              (''StreamProgress'', schema_StreamProgress),
              (''StreamEvent'', schema_StreamEvent),
              (''StreamSnapshot'', schema_StreamSnapshot),
              (''GlobalStats'', schema_GlobalStats),
              (''StreamMetrics'', schema_StreamMetrics),
              (''Error'', schema_Error)])]),
      (''paths'', JObj [
          (''/api/health'', JObj [(''get'', path_health_get)]),
          (''/api/auth/refresh'', JObj [(''post'', path_auth_refresh_post)]),
          (''/api/assets'', JObj [(''get'', path_assets_get)]),
          (''/api/stats'', JObj [(''get'', path_stats_get)]),
          (''/api/metrics'', JObj [(''get'', path_metrics_get)]),
          (''/api/streams'', JObj [(''get'', path_streams_get), (''post'', path_streams_post)]),
          (''/api/streams/search'', JObj [(''get'', path_streams_search_get)]),
          (''/api/streams/{id}'', JObj [(''get'', path_streams_id_get)]),
          (''/api/streams/{id}/claimable'', JObj [(''get'', path_streams_id_claimable_get)]),
          (''/api/recipients/{accountId}/streams'', JObj [(''get'', path_recipients_accountId_streams_get)]),
          (''/api/senders/{accountId}/streams'', JObj [(''get'', path_senders_accountId_streams_get)]),
          (''/api/streams/sender/{address}'', JObj [(''get'', path_streams_sender_address_get)]),
          (''/api/streams/recipient/{address}'', JObj [(''get'', path_streams_recipient_address_get)]),
          (''/api/streams/{id}/cancel'', JObj [(''post'', path_streams_id_cancel_post)]),
          (''/api/streams/{id}/reconcile'', JObj [(''post'', path_streams_id_reconcile_post)]),
          (''/api/streams/{id}/mark-complete'', JObj [(''post'', path_streams_id_mark_complete_post)]),
          (''/api/streams/{id}/history'', JObj [(''get'', path_streams_id_history_get)]),
          (''/api/streams/{id}/history/summary'', JObj [(''get'', path_streams_id_history_summary_get)]),
          (''/api/streams/{id}/snapshot'', JObj [(''get'', path_streams_id_snapshot_get)]),
          (''/api/events'', JObj [(''get'', path_events_get)]),
          (''/api/open-issues'', JObj [(''get'', path_open_issues_get)])])]"

section \<open>Reading the document\<close>

fun obj_entries :: "json \<Rightarrow> (string \<times> json) list" where
  "obj_entries (JObj kvs) = kvs"
| "obj_entries _ = []"

fun arr_items :: "json \<Rightarrow> json list" where
  "arr_items (JArr xs) = xs"
| "arr_items _ = []"

definition field_or :: "json \<Rightarrow> string \<Rightarrow> json \<Rightarrow> json" where
  "field_or d k j = (case obj_field j k of None \<Rightarrow> d | Some v \<Rightarrow> v)"

definition documented_operations :: "json \<Rightarrow> (string \<times> string \<times> json) list" where
  "documented_operations doc =
     concat (map (\<lambda>(p, item). map (\<lambda>(m, op). (m, p, op)) (obj_entries item)) (obj_entries (field_or JNull ''paths'' doc)))"

fun references :: "json \<Rightarrow> string list" where
  "references (JArr xs) = concat (map references xs)"
| "references (JObj kvs) =
     concat (map (\<lambda>(k, v). if k = ''$ref'' then (case v of JStr r \<Rightarrow> [r] | _ \<Rightarrow> []) else references v) kvs)"
| "references _ = []"

text \<open>A reference names a part of the document by the keys that lead to it.\<close>

fun descend :: "json \<Rightarrow> string list \<Rightarrow> json option" where
  "descend j [] = Some j"
| "descend j (k # ks) = (case obj_field j k of None \<Rightarrow> None | Some v \<Rightarrow> descend v ks)"

definition resolve :: "json \<Rightarrow> string \<Rightarrow> json option" where
  "resolve doc r = (case split_on CHR ''/'' r of k # ks \<Rightarrow> if k = ''#'' then descend doc ks else None | [] \<Rightarrow> None)"

definition security_schemes :: "json \<Rightarrow> string list" where
  "security_schemes op = concat (map (\<lambda>s. map fst (obj_entries s)) (arr_items (field_or JNull ''security'' op)))"

section \<open>The values a schema describes\<close>

text \<open>
  The keywords the document uses, as OpenAPI 3.0 defines them, apart from \<open>pattern\<close>, which only occurs in
  parameters. The first argument bounds how many schemas are entered below one another.
\<close>

definition type_ok :: "json \<Rightarrow> json \<Rightarrow> bool" where
  "type_ok s v =
     (case obj_field s ''type'' of
        Some (JStr t) \<Rightarrow>
          (case v of
             JNull \<Rightarrow> False
           | JBool b \<Rightarrow> t = ''boolean''
           | JNum n \<Rightarrow> t = ''number'' \<or> t = ''integer'' \<and> of_int \<lfloor>n\<rfloor> = n
           | JStr x \<Rightarrow> t = ''string''
           | JArr xs \<Rightarrow> t = ''array''
           | JObj kvs \<Rightarrow> t = ''object'')
      | _ \<Rightarrow> True)"

definition enum_ok :: "json \<Rightarrow> json \<Rightarrow> bool" where
  "enum_ok s v = (case obj_field s ''enum'' of Some (JArr xs) \<Rightarrow> v \<in> set xs | _ \<Rightarrow> True)"

definition bounds_ok :: "json \<Rightarrow> json \<Rightarrow> bool" where
  "bounds_ok s v =
     (case v of
        JNum n \<Rightarrow>
          (case obj_field s ''minimum'' of
             Some (JNum l) \<Rightarrow> if obj_field s ''exclusiveMinimum'' = Some (JBool True) then l < n else l \<le> n
           | _ \<Rightarrow> True) \<and>
          (case obj_field s ''maximum'' of Some (JNum u) \<Rightarrow> n \<le> u | _ \<Rightarrow> True)
      | JStr x \<Rightarrow>
          (case obj_field s ''minLength'' of Some (JNum l) \<Rightarrow> l \<le> of_nat (length x) | _ \<Rightarrow> True) \<and>
          (case obj_field s ''maxLength'' of Some (JNum u) \<Rightarrow> of_nat (length x) \<le> u | _ \<Rightarrow> True)
      | _ \<Rightarrow> True)"

definition required_ok :: "json \<Rightarrow> json \<Rightarrow> bool" where
  "required_ok s v =
     (case v of
        JObj kvs \<Rightarrow> list_all (\<lambda>k. case k of JStr x \<Rightarrow> x \<in> set (map fst kvs) | _ \<Rightarrow> True)
          (arr_items (field_or JNull ''required'' s))
      | _ \<Rightarrow> True)"

fun conforms :: "nat \<Rightarrow> json \<Rightarrow> json \<Rightarrow> json \<Rightarrow> bool" where
  "conforms 0 doc s v = False"
| "conforms (Suc n) doc s v =
     (case obj_field s ''$ref'' of
        Some (JStr r) \<Rightarrow> (case resolve doc r of None \<Rightarrow> False | Some s' \<Rightarrow> conforms n doc s' v)
      | _ \<Rightarrow>
          (v = JNull \<and> obj_field s ''nullable'' = Some (JBool True)) \<or>
          (type_ok s v \<and> enum_ok s v \<and> bounds_ok s v \<and> required_ok s v \<and>
           list_all (\<lambda>(k, s'). case obj_field v k of None \<Rightarrow> True | Some w \<Rightarrow> conforms n doc s' w)
             (obj_entries (field_or JNull ''properties'' s)) \<and>
           (case obj_field s ''items'' of None \<Rightarrow> True | Some s' \<Rightarrow> list_all (conforms n doc s') (arr_items v))))"

definition describes :: "string \<Rightarrow> json \<Rightarrow> bool" where
  "describes nm v = conforms 8 swaggerDocument (JObj [(''$ref'', JStr (''#/components/schemas/'' @ nm))]) v"

section \<open>The parts of the document\<close>

text \<open>The operations it lists, and the schemas its references name: the references between schemas lead to one of them.\<close>

lemma documented_operations_eq:
  "map (\<lambda>(m, p, op). (m, p)) (documented_operations swaggerDocument) =
    [(''get'', ''/api/health''), (''post'', ''/api/auth/refresh''), (''get'', ''/api/assets''), (''get'', ''/api/stats''),
     (''get'', ''/api/metrics''), (''get'', ''/api/streams''), (''post'', ''/api/streams''),
     (''get'', ''/api/streams/search''), (''get'', ''/api/streams/{id}''), (''get'', ''/api/streams/{id}/claimable''),
     (''get'', ''/api/recipients/{accountId}/streams''), (''get'', ''/api/senders/{accountId}/streams''),
     (''get'', ''/api/streams/sender/{address}''), (''get'', ''/api/streams/recipient/{address}''),
     (''post'', ''/api/streams/{id}/cancel''), (''post'', ''/api/streams/{id}/reconcile''),
     (''post'', ''/api/streams/{id}/mark-complete''), (''get'', ''/api/streams/{id}/history''),
     (''get'', ''/api/streams/{id}/history/summary''), (''get'', ''/api/streams/{id}/snapshot''),
     (''get'', ''/api/events''), (''get'', ''/api/open-issues'')]"
  by (simp add: documented_operations_def field_or_def swaggerDocument_def)

lemma schema_resolves [simp]:
  "resolve swaggerDocument ''#/components/schemas/StreamInput'' = Some schema_StreamInput"
  "resolve swaggerDocument ''#/components/schemas/Stream'' = Some schema_Stream"
  "resolve swaggerDocument ''#/components/schemas/StreamWithProgress'' = Some schema_StreamWithProgress"
  "resolve swaggerDocument ''#/components/schemas/StreamProgress'' = Some schema_StreamProgress"
  "resolve swaggerDocument ''#/components/schemas/StreamEvent'' = Some schema_StreamEvent"
  "resolve swaggerDocument ''#/components/schemas/StreamSnapshot'' = Some schema_StreamSnapshot"
  "resolve swaggerDocument ''#/components/schemas/GlobalStats'' = Some schema_GlobalStats"
  "resolve swaggerDocument ''#/components/schemas/StreamMetrics'' = Some schema_StreamMetrics"
  "resolve swaggerDocument ''#/components/schemas/Error'' = Some schema_Error"
  by (simp_all add: resolve_def swaggerDocument_def)

lemma no_security_schemes: "descend swaggerDocument [''components'', ''securitySchemes''] = None"
  by (simp add: swaggerDocument_def)

lemma closed_schemas:
  "list_all (\<lambda>s. list_all (\<lambda>r. resolve swaggerDocument r \<noteq> None) (references s))
    [schema_StreamInput, schema_Stream, schema_StreamWithProgress, schema_StreamProgress, schema_StreamEvent,
     schema_StreamSnapshot, schema_GlobalStats, schema_StreamMetrics, schema_Error]"
  by (simp add: schema_StreamInput_def schema_Stream_def schema_StreamWithProgress_def schema_StreamProgress_def
      schema_StreamEvent_def schema_StreamSnapshot_def schema_GlobalStats_def schema_StreamMetrics_def schema_Error_def)

end
