(* ===== verification/Edge.thy ===== *)
theory Edge
  imports Auth
begin

text \<open>
  The edge of the server: the origins it grants (the CORS middleware of \<open>index.ts\<close>), the requests it turns away
  before a handler runs (the check of the content type, the errors of the body parser, the answer of the rate
  limiters, the password of \<open>/metrics\<close>), and the list of open
  issues it fetches from GitHub (\<open>services/openIssues.ts\<close>). The headers a response is given are a list of
  names and values.
\<close>

section \<open>Origins\<close>

type_synonym headers = "(string \<times> string) list"

datatype corsOutcome = Ended nat headers | Passed headers

definition truthy :: "string option \<Rightarrow> bool" where
  "truthy v = (v \<noteq> None \<and> v \<noteq> Some [])"

definition allowedOrigins :: "string \<Rightarrow> string list" where
  "allowedOrigins s = map trim (split_on (CHR '','') s)"

definition cors_listed ::
  "string list \<Rightarrow> string \<Rightarrow> string option \<Rightarrow> string option \<Rightarrow> string option \<Rightarrow> corsOutcome" where
  "cors_listed origins meth origin requestMethod requestHeaders =
     (if meth = ''OPTIONS'' \<and> truthy requestMethod then
        (if \<not> truthy origin \<or> the origin \<notin> set origins then Ended 403 []
         else Ended 204
           [(''Access-Control-Allow-Origin'', the origin), (''Vary'', ''Origin''),
            (''Access-Control-Allow-Methods'', ''GET,HEAD,PUT,PATCH,POST,DELETE''),
            (''Access-Control-Allow-Headers'', if truthy requestHeaders then the requestHeaders else []),
            (''Content-Length'', ''0'')])
      else Passed
        (if truthy origin \<and> the origin \<in> set origins
         then [(''Access-Control-Allow-Origin'', the origin), (''Vary'', ''Origin'')] else []))"

text \<open>Without the variable the \<open>cors\<close> library answers as it does by default.\<close>

definition cors_middleware ::
  "(string \<Rightarrow> string option \<Rightarrow> string option \<Rightarrow> string option \<Rightarrow> corsOutcome) \<Rightarrow> string option \<Rightarrow>
   string \<Rightarrow> string option \<Rightarrow> string option \<Rightarrow> string option \<Rightarrow> corsOutcome" where
  "cors_middleware cors ALLOWED_ORIGINS =
     (if truthy ALLOWED_ORIGINS then cors_listed (allowedOrigins (the ALLOWED_ORIGINS)) else cors)"

definition response_headers :: "corsOutcome \<Rightarrow> headers" where
  "response_headers r = (case r of Ended code h \<Rightarrow> h | Passed h \<Rightarrow> h)"

text \<open>The methods a browser may use after a preflight cover those of the routes.\<close>

lemma preflight_allows_routes:
  assumes "meth \<in> {''GET'', ''POST'', ''PATCH'', ''DELETE''}" "o' \<in> set origins" "o' \<noteq> []"
  shows "\<exists>h ms. cors_listed origins ''OPTIONS'' (Some o') (Some meth) rh = Ended 204 h \<and>
    map_of h ''Access-Control-Allow-Methods'' = Some ms \<and> meth \<in> set (split_on (CHR '','') ms)"
proof -
  have "set (split_on (CHR '','') ''GET,HEAD,PUT,PATCH,POST,DELETE'') =
      {''GET'', ''HEAD'', ''PUT'', ''PATCH'', ''POST'', ''DELETE''}" by simp
  then show ?thesis using assms by (auto simp: cors_listed_def truthy_def)
qed

text \<open>Only listed origins are granted: with a list of origins configured, a response names as allowed nothing but
  the origin of the request, and that only when, trimmed as the list is, it stands in the list; a preflight of any
  other origin, or of none, ends with 403 and no header.\<close>

theorem cors_grants_listed_only:
  assumes "origins \<noteq> []" "r = cors_middleware cors (Some origins) meth origin requestMethod requestHeaders"
  shows "(\<forall>v. (''Access-Control-Allow-Origin'', v) \<in> set (response_headers r) \<longrightarrow>
      origin = Some v \<and> v \<noteq> [] \<and> v \<in> trim ` set (split_on (CHR '','') origins)) \<and>
    (meth = ''OPTIONS'' \<and> truthy requestMethod \<and> (\<forall>v. origin = Some v \<longrightarrow> v \<notin> trim ` set (split_on (CHR '','') origins))
      \<longrightarrow> r = Ended 403 [])"
  using assms
  by (auto simp: cors_middleware_def cors_listed_def response_headers_def truthy_def allowedOrigins_def)

theorem cors_grants_listed_only_witness:
  "cors_middleware (\<lambda>m o' q h. Passed []) (Some ''http://a, http://b'') ''OPTIONS'' (Some ''http://c'') (Some ''GET'') None =
     Ended 403 [] \<and>
   cors_middleware (\<lambda>m o' q h. Passed []) (Some ''http://a, http://b'') ''GET'' (Some ''http://b'') None None =
     Passed [(''Access-Control-Allow-Origin'', ''http://b''), (''Vary'', ''Origin'')]"
proof -
  have "''http://c'' \<notin> trim ` set (split_on (CHR '','') ''http://a, http://b'')" by (simp add: trim_def is_space_def less_eq_char_def)
  then have "cors_middleware (\<lambda>m o' q h. Passed []) (Some ''http://a, http://b'') ''OPTIONS'' (Some ''http://c'') (Some ''GET'') None =
     Ended 403 []"
    using cors_grants_listed_only [of "''http://a, http://b''" _ "\<lambda>m o' q h. Passed []" "''OPTIONS''" "Some ''http://c''" "Some ''GET''" None]
    by (simp add: truthy_def)
  moreover have "''http://b'' \<in> set (allowedOrigins ''http://a, http://b'')"
    by (simp add: allowedOrigins_def trim_def is_space_def less_eq_char_def)
  ultimately show ?thesis by (simp add: cors_middleware_def cors_listed_def truthy_def)
qed

section \<open>Bodies\<close>

record parserError =
  pe_type :: "string option"
  pe_status :: "int option"
  pe_syntax :: bool

definition body_error :: "parserError \<Rightarrow> (nat \<times> string) option" where
  "body_error e =
     (if pe_type e = Some ''entity.too.large'' then Some (413, ''Payload too large'')
      else if pe_type e = Some ''entity.parse.failed'' \<or> pe_status e = Some 400 \<or> pe_syntax e then Some (400, ''Invalid JSON'')
      else None)"

text \<open>
  From the content type to the handler: an answer, an error that is passed on to Express, or a body. The parser is a
  parameter.
\<close>

datatype admission = Refused nat string | ExpressError parserError | Admitted json

definition admit_body ::
  "(parserError + json) \<Rightarrow> string \<Rightarrow> (string \<Rightarrow> string option) \<Rightarrow> admission" where
  "admit_body parsed meth reqHeaders =
     (if \<not> requireJsonContentType meth reqHeaders then Refused 415 ''Content-Type must be application/json''
      else (case parsed of
              Inr b \<Rightarrow> Admitted b
            | Inl e \<Rightarrow> (case body_error e of Some (code, m) \<Rightarrow> Refused code m | None \<Rightarrow> ExpressError e)))"

text \<open>
  Only the prefix is looked at: \<open>application/jsonp\<close> passes the check, after which the body parser of the
  library decides on its own whether it reads the body.
\<close>

lemma content_type_prefix:
  "requireJsonContentType ''POST'' [''content-length'' \<mapsto> ''2'', ''content-type'' \<mapsto> ''application/jsonp'']"
  by (simp add: requireJsonContentType_def startsWith_def)

lemma too_large_before_parse:
  "pe_type e = Some ''entity.too.large'' \<Longrightarrow> requireJsonContentType m h \<Longrightarrow>
    admit_body (Inl e) m h = Refused 413 ''Payload too large''"
  by (simp add: admit_body_def body_error_def)

section \<open>Metrics and limits\<close>

definition b64_char :: "nat \<Rightarrow> char" where
  "b64_char n =
     (if n < 26 then char_of (n + 65) else if n < 52 then char_of (n + 71) else if n < 62 then char_of (n - 4)
      else if n = 62 then CHR ''+'' else CHR ''/'')"

fun base64 :: "nat list \<Rightarrow> string" where
  "base64 [] = []"
| "base64 [a] = [b64_char (a div 4), b64_char (a mod 4 * 16), CHR ''='', CHR ''='']"
| "base64 [a, b] = [b64_char (a div 4), b64_char (a mod 4 * 16 + b div 16), b64_char (b mod 16 * 4), CHR ''='']"
| "base64 (a # b # c # r) =
     b64_char (a div 4) # b64_char (a mod 4 * 16 + b div 16) # b64_char (b mod 16 * 4 + c div 64) # b64_char (c mod 64) #
     base64 r"

text \<open>Whether the scrape is answered; otherwise 401. \<open>METRICS_AUTH\<close> is the variable as it was set.\<close>

definition metrics_admitted :: "string option \<Rightarrow> string option \<Rightarrow> bool" where
  "metrics_admitted METRICS_AUTH authorization =
     (case METRICS_AUTH of
        None \<Rightarrow> True
      | Some v \<Rightarrow> trim v = [] \<or> authorization = Some (''Basic '' @ base64 (map of_char (trim v))))"

lemma metrics_sample:
  "metrics_admitted (Some '' user:pass '') (Some ''Basic dXNlcjpwYXNz'')"
  "\<not> metrics_admitted (Some ''user:pass'') None" "metrics_admitted None None"
  by code_simp+

text \<open>The seconds a limited client is told to wait; times in milliseconds.\<close>

definition retry_after :: "int option \<Rightarrow> int \<Rightarrow> int" where
  "retry_after resetTime now = max 1 (case resetTime of None \<Rightarrow> 60 | Some r \<Rightarrow> - ((now - r) div 1000))"

definition limited :: "RequestContext \<Rightarrow> int option \<Rightarrow> int \<Rightarrow> string \<Rightarrow> 'b response \<times> (string \<times> string)" where
  "limited req resetTime now msg =
     (sendApiError req 429 msg (Some ''RATE_LIMIT_EXCEEDED'') None, (''Retry-After'', int_to_string (retry_after resetTime now)))"

text \<open>Who waits as told comes back after the window has ended, and is never told to wait longer than it takes.\<close>

lemma retry_after_suffices:
  "r \<le> now + 1000 * retry_after (Some r) now" "now < r \<Longrightarrow> 1000 * retry_after (Some r) now < r - now + 1000"
proof -
  define d where "d = (now - r) div 1000"
  have "1000 * d + (now - r) mod 1000 = now - r" "0 \<le> (now - r) mod 1000" "(now - r) mod 1000 < 1000"
    unfolding d_def by (simp_all only: mult_div_mod_eq pos_mod_sign pos_mod_bound zero_less_numeral)
  then have d: "1000 * d \<le> now - r" "now - r < 1000 * d + 1000" by linarith+
  have eq: "retry_after (Some r) now = max 1 (- d)" by (simp add: retry_after_def d_def)
  show "r \<le> now + 1000 * retry_after (Some r) now" "now < r \<Longrightarrow> 1000 * retry_after (Some r) now < r - now + 1000"
    unfolding eq using d by (simp_all add: max_def)
qed

section \<open>Open issues\<close>

text \<open>
  An issue of the answer. Fields that are absent are \<open>None\<close>; reading on from an absent number or list of labels
  throws, and so does the body when it is no list.
\<close>

record GithubIssue =
  gi_number :: "nat option"
  gi_title :: "string option"
  gi_labels :: "string option list option"
  gi_body :: "string option"

datatype Complexity = Trivial | Medium | High

record OpenIssue =
  oi_id :: string
  oi_title :: "string option"
  oi_labels :: "string option list"
  oi_summary :: string
  oi_complexity :: Complexity
  oi_points :: nat

definition issue_complexity :: "string list \<Rightarrow> Complexity \<times> nat" where
  "issue_complexity labels =
     (if ''good first issue'' \<in> set labels \<or> ''trivial'' \<in> set labels then (Trivial, 100)
      else if ''complex'' \<in> set labels \<or> ''hard'' \<in> set labels then (High, 200)
      else (Medium, 150))"

definition open_issue :: "GithubIssue \<Rightarrow> OpenIssue option" where
  "open_issue i =
     (case (gi_labels i, gi_number i) of
        (Some ls, Some n) \<Rightarrow>
          (let (complexity, points) = issue_complexity (map (\<lambda>l. case l of None \<Rightarrow> [] | Some s \<Rightarrow> toLowerCase s) ls)
           in Some \<lparr> oi_id = nat_to_string n, oi_title = gi_title i, oi_labels = ls,
                oi_summary = (if truthy (gi_body i) then take 150 (the (gi_body i)) @ ''...'' else ''No description provided.''),
                oi_complexity = complexity, oi_points = points \<rparr>)
      | _ \<Rightarrow> None)"

datatype githubAnswer = FetchThrew | NotOk nat | IssueRows "GithubIssue list option"

definition fetchOpenIssues :: "githubAnswer \<Rightarrow> OpenIssue list" where
  "fetchOpenIssues answer =
     (case answer of
        FetchThrew \<Rightarrow> []
      | NotOk code \<Rightarrow> []
      | IssueRows rows \<Rightarrow>
          (case rows of
             None \<Rightarrow> []
           | Some rs \<Rightarrow> (case those (map open_issue rs) of None \<Rightarrow> [] | Some found \<Rightarrow> found)))"

text \<open>All issues are listed, in their order, or none: one that cannot be read empties the list.\<close>

lemma issues_all_or_none:
  "map oi_id (fetchOpenIssues (IssueRows (Some rows))) =
     (if \<exists>i \<in> set rows. gi_labels i = None \<or> gi_number i = None then []
      else map (\<lambda>i. nat_to_string (the (gi_number i))) rows)"
proof (cases "\<exists>i \<in> set rows. gi_labels i = None \<or> gi_number i = None")
  case True
  then have "None \<in> set (map open_issue rows)" by (force simp: open_issue_def split: option.split)
  then have "those (map open_issue rows) = None" by (induction rows) (auto split: option.split)
  then show ?thesis using True by (simp add: fetchOpenIssues_def)
next
  case False
  then have "\<exists>found. those (map open_issue rows) = Some found \<and> map oi_id found = map (\<lambda>i. nat_to_string (the (gi_number i))) rows"
    by (induction rows) (auto simp: open_issue_def Let_def split: prod.split)
  then show ?thesis using False by (auto simp: fetchOpenIssues_def)
qed

text \<open>A label that says how easy an issue is counts before one that says how hard it is.\<close>

lemma easy_label_wins: "''trivial'' \<in> set ls \<Longrightarrow> issue_complexity ls = (Trivial, 100)"
  by (simp add: issue_complexity_def)

end
