(* ===== verification/Routes.thy ===== *)
theory Routes
  imports Edge Validation
begin

text \<open>
  The routes of \<open>backend/src/index.ts\<close>: one entry per \<open>app.get\<close>, \<open>app.post\<close>, \<open>app.patch\<close> and \<open>app.delete\<close>, in
  the order of registration, with the middleware that stands before the handler. A request is served by the first
  entry that matches its method and path; the middleware is run in order and may answer itself, and only then is
  the handler reached. How Express compares a path with a pattern is a parameter; what its documentation says of
  it is the predicate \<open>documented_matching\<close>. Express uses a route for GET also for HEAD.
\<close>

section \<open>Guards\<close>

datatype guard =
    ReadLimiter
  | MutationLimiter
  | ClaimableLimiter
  | ReconcileLimiter
  | AuthChallengeLimiter
  | AuthMiddleware
  | AdminJwtAuth
  | AdminAuth

text \<open>The handlers, by what they do; the theories of the read and mutation routes model their bodies.\<close>

datatype endpoint =
    OpenApi | Health | StatsE | Scrape | MetricsE | MetricsHistory | Assets | AdminAssets | AddAsset | RemoveAsset
  | AdminLogin | ListStreams | SearchStreams | ListEvents | ExportCsv | ClaimableBatch | BySender | ByRecipient
  | CompareE | ShowStream | RecipientStreams | SenderStreams | AuthChallenge | AuthToken | AuthRefresh | FeeEstimate
  | CreateE | CancelE | BulkCancel | PauseE | ResumeE | ClaimE | ReconcileE | SetStartTime | HistoryE
  | HistorySummary | SnapshotE | OpenIssues | IndexerMonitoring | WebhookMonitoring | DeadLetters
  | DeadLetterCount | RequeueE | ClearDeadLetters | DeleteE

text \<open>
  A request as it arrives: its headers by lower-case name, what the body parser makes of its body, and, for its
  sender and the limiters, the verdict of each of them (\<open>None\<close>: admitted, otherwise the end of its window). The
  clock is in milliseconds.
\<close>

record httpRequest =
  hq_method :: string
  hq_path :: string
  hq_headers :: "string \<Rightarrow> string option"
  hq_parsed :: "parserError + json"
  hq_ctx :: RequestContext
  hq_limited :: "guard \<Rightarrow> int option option"
  hq_now :: int

record site =
  st_libs :: AuthLibs
  st_adminApiKey :: "string option"
  st_allowedOrigins :: "string option"

definition limit_message :: "guard \<Rightarrow> string" where
  "limit_message g =
     (if g = ReconcileLimiter then ''Too many reconcile requests for this stream. Please try again later.''
      else ''Too many requests. Please try again later.'')"

text \<open>A middleware answers the request itself, or passes it on with the user it found.\<close>

definition run_guard :: "site \<Rightarrow> httpRequest \<Rightarrow> guard \<Rightarrow> AuthUser option \<Rightarrow> json response + AuthUser option" where
  "run_guard st rq g user =
     (case g of
        AuthMiddleware \<Rightarrow>
          (case authMiddleware (st_libs st) (hq_ctx rq) (hq_headers rq ''authorization'') (hq_now rq div 1000) of
             Inl r \<Rightarrow> Inl r | Inr u \<Rightarrow> Inr (Some u))
      | AdminJwtAuth \<Rightarrow>
          (case adminJwtAuth (st_libs st) (hq_ctx rq) (hq_headers rq ''authorization'') (hq_now rq div 1000) of
             Inl r \<Rightarrow> Inl r | Inr u \<Rightarrow> Inr (Some u))
      | AdminAuth \<Rightarrow>
          (if adminAuth (st_adminApiKey st) (hq_headers rq ''x-admin-key'') then Inr user
           else Inl (sendJson 401 (JObj [(''message'', JStr ''Unauthorized'')])))
      | _ \<Rightarrow>
          (case hq_limited rq g of
             None \<Rightarrow> Inr user
           | Some resetTime \<Rightarrow> Inl (fst (limited (hq_ctx rq) resetTime (hq_now rq) (limit_message g)))))"

primrec run_guards :: "site \<Rightarrow> httpRequest \<Rightarrow> guard list \<Rightarrow> AuthUser option \<Rightarrow> json response + AuthUser option" where
  "run_guards st rq [] user = Inr user"
| "run_guards st rq (g # gs) user =
     (case run_guard st rq g user of Inl r \<Rightarrow> Inl r | Inr user' \<Rightarrow> run_guards st rq gs user')"

section \<open>The table\<close>

record route =
  r_method :: string
  r_pattern :: string
  r_guards :: "guard list"
  r_endpoint :: endpoint

definition entry :: "string \<Rightarrow> string \<Rightarrow> guard list \<Rightarrow> endpoint \<Rightarrow> route" where
  "entry m p gs e = \<lparr> r_method = m, r_pattern = p, r_guards = gs, r_endpoint = e \<rparr>"

definition routes_public :: "route list" where
  "routes_public =
     [entry ''GET'' ''/api/docs/openapi.json'' [] OpenApi,
      entry ''GET'' ''/api/health'' [] Health,
      entry ''GET'' ''/api/stats'' [] StatsE,
      entry ''GET'' ''/metrics'' [] Scrape,
      entry ''GET'' ''/api/metrics'' [AuthMiddleware] MetricsE,
      entry ''GET'' ''/api/metrics/history'' [ReadLimiter] MetricsHistory]"

definition routes_assets :: "route list" where
  "routes_assets =
     [entry ''GET'' ''/api/assets'' [] Assets,
      entry ''GET'' ''/api/admin/assets'' [AdminJwtAuth] AdminAssets,
      entry ''POST'' ''/api/admin/assets'' [AdminJwtAuth] AddAsset,
      entry ''DELETE'' ''/api/admin/assets/:code'' [AdminJwtAuth] RemoveAsset,
      entry ''POST'' ''/api/admin/auth'' [] AdminLogin,
      entry ''POST'' ''/api/auth/admin'' [] AdminLogin]"

definition routes_read :: "route list" where
  "routes_read =
     [entry ''GET'' ''/api/streams'' [ReadLimiter] ListStreams,
      entry ''GET'' ''/api/streams/search'' [ReadLimiter] SearchStreams,
      entry ''GET'' ''/api/events'' [ReadLimiter] ListEvents,
      entry ''GET'' ''/api/streams/export.csv'' [ReadLimiter] ExportCsv,
      entry ''POST'' ''/api/streams/claimable/batch'' [ClaimableLimiter] ClaimableBatch,
      entry ''GET'' ''/api/streams/sender/:address'' [ReadLimiter] BySender,
      entry ''GET'' ''/api/streams/recipient/:address'' [ReadLimiter] ByRecipient,
      entry ''GET'' ''/api/streams/compare'' [ReadLimiter] CompareE,
      entry ''GET'' ''/api/streams/:id'' [ReadLimiter] ShowStream,
      entry ''GET'' ''/api/recipients/:accountId/streams'' [ReadLimiter] RecipientStreams,
      entry ''GET'' ''/api/senders/:accountId/streams'' [ReadLimiter] SenderStreams]"

definition routes_auth :: "route list" where
  "routes_auth =
     [entry ''GET'' ''/api/auth/challenge'' [AuthChallengeLimiter] AuthChallenge,
      entry ''POST'' ''/api/auth/token'' [] AuthToken,
      entry ''POST'' ''/api/auth/refresh'' [] AuthRefresh]"

definition routes_mutation :: "route list" where
  "routes_mutation =
     [entry ''POST'' ''/api/streams/fee-estimate'' [MutationLimiter, AuthMiddleware] FeeEstimate,
      entry ''POST'' ''/api/streams'' [MutationLimiter, AuthMiddleware] CreateE,
      entry ''POST'' ''/api/streams/:id/cancel'' [MutationLimiter, AuthMiddleware] CancelE,
      entry ''POST'' ''/api/streams/bulk-cancel'' [MutationLimiter, AuthMiddleware] BulkCancel,
      entry ''POST'' ''/api/streams/:id/pause'' [MutationLimiter, AuthMiddleware] PauseE,
      entry ''POST'' ''/api/streams/:id/resume'' [MutationLimiter, AuthMiddleware] ResumeE,
      entry ''POST'' ''/api/streams/:id/claim'' [MutationLimiter, AuthMiddleware] ClaimE,
      entry ''POST'' ''/api/streams/:id/reconcile'' [ReconcileLimiter, AuthMiddleware] ReconcileE,
      entry ''PATCH'' ''/api/streams/:id/start-time'' [AuthMiddleware] SetStartTime]"

definition routes_rest :: "route list" where
  "routes_rest =
     [entry ''GET'' ''/api/streams/:id/history'' [ReadLimiter] HistoryE,
      entry ''GET'' ''/api/streams/:id/history/summary'' [ReadLimiter] HistorySummary,
      entry ''GET'' ''/api/streams/:id/snapshot'' [ReadLimiter] SnapshotE,
      entry ''GET'' ''/api/open-issues'' [] OpenIssues,
      entry ''GET'' ''/api/indexer/monitoring'' [AuthMiddleware] IndexerMonitoring,
      entry ''GET'' ''/api/webhooks/monitoring'' [AuthMiddleware] WebhookMonitoring,
      entry ''GET'' ''/api/webhooks/dead-letters'' [AuthMiddleware] DeadLetters,
      entry ''GET'' ''/api/webhooks/dead-letters/count'' [AuthMiddleware] DeadLetterCount,
      entry ''POST'' ''/api/webhooks/dead-letters/:id/requeue'' [AuthMiddleware] RequeueE,
      entry ''DELETE'' ''/api/admin/webhooks/dead-letters'' [AdminAuth] ClearDeadLetters,
      entry ''DELETE'' ''/api/streams/:id'' [AdminAuth] DeleteE]"

definition all_routes :: "route list" where
  "all_routes = routes_public @ routes_assets @ routes_read @ routes_auth @ routes_mutation @ routes_rest"

section \<open>Dispatch\<close>

text \<open>
  The library: the comparison of a pattern with a path, the answer of the \<open>cors\<close> package, and whether the pages of
  the document under \<open>/api/docs\<close>, mounted before the routes, answer a path themselves.
\<close>

record expressLib =
  x_matches :: "string \<Rightarrow> string \<Rightarrow> bool"
  x_cors :: "string \<Rightarrow> string option \<Rightarrow> string option \<Rightarrow> string option \<Rightarrow> corsOutcome"
  x_docsPages :: "string \<Rightarrow> bool"

definition route_matches :: "(string \<Rightarrow> string \<Rightarrow> bool) \<Rightarrow> string \<Rightarrow> string \<Rightarrow> route \<Rightarrow> bool" where
  "route_matches matches meth p r =
     ((r_method r = meth \<or> meth = ''HEAD'' \<and> r_method r = ''GET'') \<and> matches (r_pattern r) p)"

definition dispatch :: "(string \<Rightarrow> string \<Rightarrow> bool) \<Rightarrow> string \<Rightarrow> string \<Rightarrow> route option" where
  "dispatch matches meth p = find (route_matches matches meth p) all_routes"

datatype served =
    CorsEnded nat headers
  | BodyRefused nat string
  | BodyFailed parserError
  | DocsPage
  | Unrouted
  | Answered "json response"
  | Reached endpoint "AuthUser option" json

text \<open>The whole way of a request, in the order in which the middleware is registered.\<close>

definition handle_request :: "expressLib \<Rightarrow> site \<Rightarrow> httpRequest \<Rightarrow> served" where
  "handle_request x st rq =
     (case cors_middleware (x_cors x) (st_allowedOrigins st) (hq_method rq) (hq_headers rq ''origin'')
             (hq_headers rq ''access-control-request-method'') (hq_headers rq ''access-control-request-headers'') of
        Ended code h \<Rightarrow> CorsEnded code h
      | Passed h \<Rightarrow>
          (case admit_body (hq_parsed rq) (hq_method rq) (hq_headers rq) of
             Refused code m \<Rightarrow> BodyRefused code m
           | ExpressError e \<Rightarrow> BodyFailed e
           | Admitted body \<Rightarrow>
               (if x_docsPages x (hq_path rq) then DocsPage
                else (case dispatch (x_matches x) (hq_method rq) (hq_path rq) of
                        None \<Rightarrow> Unrouted
                      | Some r \<Rightarrow>
                          (case run_guards st rq (r_guards r) None of
                             Inl resp \<Rightarrow> Answered resp
                           | Inr user \<Rightarrow> Reached (r_endpoint r) user body)))))"

lemma reached_through_guards:
  assumes "handle_request x st rq = Reached e user body"
  obtains r where "r \<in> set all_routes" "r_endpoint r = e" "run_guards st rq (r_guards r) None = Inr user"
    "r_method r = hq_method rq \<or> hq_method rq = ''HEAD'' \<and> r_method r = ''GET''"
    "x_matches x (r_pattern r) (hq_path rq)"
proof -
  from assms obtain r where "dispatch (x_matches x) (hq_method rq) (hq_path rq) = Some r"
    and g: "r_endpoint r = e" "run_guards st rq (r_guards r) None = Inr user"
    by (auto simp: handle_request_def split: corsOutcome.splits admission.splits if_splits option.splits sum.splits)
  then have "r \<in> set all_routes" "route_matches (x_matches x) (hq_method rq) (hq_path rq) r"
    by (auto simp: dispatch_def find_Some_iff)
  with g show thesis by (intro that) (auto simp: route_matches_def)
qed

lemma run_guards_append:
  "run_guards st rq (gs @ hs) user =
     (case run_guards st rq gs user of Inl r \<Rightarrow> Inl r | Inr user' \<Rightarrow> run_guards st rq hs user')"
  by (induction gs arbitrary: user) (auto split: sum.splits)

lemma last_guard_ran:
  assumes "run_guards st rq gs user = Inr u" "gs \<noteq> []" "last gs = g"
  obtains w where "run_guard st rq g w = Inr u"
proof -
  from assms have "gs = butlast gs @ [g]" by auto
  with assms(1) have "run_guards st rq (butlast gs @ [g]) user = Inr u" by simp
  then show thesis by (auto simp: run_guards_append split: sum.splits intro: that)
qed

section \<open>What a handler can rely on\<close>

definition bearer_user :: "site \<Rightarrow> httpRequest \<Rightarrow> AuthUser \<Rightarrow> bool" where
  "bearer_user st rq u =
     (case bearer_token (hq_headers rq ''authorization'') of
        None \<Rightarrow> False
      | Some token \<Rightarrow> jwt_verify (st_libs st) (hq_now rq div 1000) token = Inr u)"

definition is_admin :: "AuthUser \<Rightarrow> bool" where
  "is_admin u = (role u = Some ''admin'' \<or> accountId u = Some ''admin'' \<or> isAdmin u)"

lemma auth_guard_passes: "run_guard st rq AuthMiddleware w = Inr user \<Longrightarrow> \<exists>u. user = Some u \<and> bearer_user st rq u"
  by (auto simp: run_guard_def authMiddleware_def bearer_user_def split: option.splits sum.splits)

lemma admin_guard_passes:
  "run_guard st rq AdminJwtAuth w = Inr user \<Longrightarrow> \<exists>u. user = Some u \<and> bearer_user st rq u \<and> is_admin u"
  by (auto simp: run_guard_def adminJwtAuth_def bearer_user_def is_admin_def split: option.splits sum.splits if_splits)

lemma key_guard_passes:
  "run_guard st rq AdminAuth w = Inr user \<Longrightarrow> adminAuth (st_adminApiKey st) (hq_headers rq ''x-admin-key'')"
  by (auto simp: run_guard_def split: if_splits)

definition open_to_all :: "endpoint list" where
  "open_to_all = [ClaimableBatch, AuthToken, AuthRefresh, AdminLogin]"

definition key_endpoints :: "endpoint list" where
  "key_endpoints = [ClearDeadLetters, DeleteE]"

definition admin_endpoints :: "endpoint list" where
  "admin_endpoints = [AdminAssets, AddAsset, RemoveAsset]"

definition last_guard :: "guard \<Rightarrow> route \<Rightarrow> bool" where
  "last_guard g r = (r_guards r \<noteq> [] \<and> last (r_guards r) = g)"

text \<open>The audit of the table: how each route that is not merely read ends its middleware.\<close>

lemma table_audit:
  "list_all (\<lambda>r. r_method r = ''GET'' \<or> r_endpoint r \<in> set open_to_all \<or>
     (if r_endpoint r \<in> set key_endpoints then last_guard AdminAuth r
      else if r_endpoint r \<in> set admin_endpoints then last_guard AdminJwtAuth r
      else last_guard AuthMiddleware r)) all_routes"
  by code_simp

text \<open>C5: No change without credentials: however Express compares paths, a request other than GET or HEAD that reaches a
  handler has reached one of the three token handlers or the pure computation of claimable amounts, or it carried
  what that handler asks for: the key of the administrator for removing streams and dead letters, a valid token of
  an administrator for the list of assets, and for everything else a valid token, whose user the handler is given.\<close>

theorem changes_need_credentials:
  assumes "handle_request x st rq = Reached e user body" "hq_method rq \<noteq> ''GET''" "hq_method rq \<noteq> ''HEAD''"
    "e \<notin> set open_to_all"
  shows "if e \<in> set key_endpoints then adminAuth (st_adminApiKey st) (hq_headers rq ''x-admin-key'')
    else \<exists>u. user = Some u \<and> bearer_user st rq u \<and> (e \<in> set admin_endpoints \<longrightarrow> is_admin u)"
proof -
  obtain r where r: "r \<in> set all_routes" "r_endpoint r = e" "run_guards st rq (r_guards r) None = Inr user"
    "r_method r \<noteq> ''GET''"
    using reached_through_guards [OF assms(1)] assms(2, 3) by metis
  note audit = bspec [OF table_audit [unfolded list_all_iff] r(1)]
  show ?thesis
  proof (cases "e \<in> set key_endpoints")
    case True
    with audit r assms(4) have "last_guard AdminAuth r" by simp
    then show ?thesis using True r(3) last_guard_ran key_guard_passes unfolding last_guard_def by metis
  next
    case False
    show ?thesis
    proof (cases "e \<in> set admin_endpoints")
      case True
      with audit r assms(4) False have "last_guard AdminJwtAuth r" by simp
      then show ?thesis using False r(3) last_guard_ran admin_guard_passes unfolding last_guard_def by metis
    next
      case token: False
      with audit r assms(4) False have "last_guard AuthMiddleware r" by simp
      then show ?thesis using False token r(3) last_guard_ran auth_guard_passes unfolding last_guard_def by metis
    qed
  qed
qed

section \<open>Every route is reached\<close>

text \<open>
  What Express documents of its patterns: a pattern of letters, digits, dots, dashes and named parameters is compared
  piece by piece, parameters take any piece that is not empty, letter case does not count, nor does a slash at the end
  of the path.
\<close>

definition is_param :: "string \<Rightarrow> bool" where
  "is_param s = (s \<noteq> [] \<and> hd s = CHR '':'')"

definition seg_match :: "string \<Rightarrow> string \<Rightarrow> bool" where
  "seg_match pat s = (if is_param pat then s \<noteq> [] else toLowerCase pat = toLowerCase s)"

definition path_segs :: "string \<Rightarrow> string list" where
  "path_segs p = split_on CHR ''/'' (if 1 < length p \<and> last p = CHR ''/'' then butlast p else p)"

definition documented_matching :: "(string \<Rightarrow> string \<Rightarrow> bool) \<Rightarrow> bool" where
  "documented_matching matches =
     (\<forall>pat p. list_all (\<lambda>c. is_alnum c \<or> c \<in> {CHR ''/'', CHR '':'', CHR ''-'', CHR ''.''}) pat \<longrightarrow>
        matches pat p = list_all2 seg_match (split_on CHR ''/'' pat) (path_segs p))"

text \<open>The path a client writes for a pattern and values of its parameters.\<close>

definition fill_seg :: "(string \<Rightarrow> string) \<Rightarrow> string \<Rightarrow> string" where
  "fill_seg val s = (if is_param s then val (tl s) else s)"

definition fill :: "(string \<Rightarrow> string) \<Rightarrow> string \<Rightarrow> string" where
  "fill val pat = join_with ''/'' (map (fill_seg val) (split_on CHR ''/'' pat))"

text \<open>
  Two patterns, written in lower case but for the names of parameters, that no path fits both, where the parameter
  \<open>id\<close> only takes digits.
\<close>

definition lower_case :: "string list \<Rightarrow> bool" where
  "lower_case ps = list_all (\<lambda>p. is_param p \<or> toLowerCase p = p) ps"

definition seg_clash :: "string \<Rightarrow> string \<Rightarrow> bool" where
  "seg_clash p q =
     (\<not> is_param p \<and> (if is_param q then q = '':id'' \<and> \<not> list_all is_digit p else p \<noteq> q))"

definition clash :: "string list \<Rightarrow> string list \<Rightarrow> bool" where
  "clash ps qs = (length ps \<noteq> length qs \<or> list_ex (\<lambda>(p, q). seg_clash p q) (zip ps qs))"

lemma split_on_join:
  "segs \<noteq> [] \<Longrightarrow> \<forall>s\<in>set segs. c \<notin> set s \<Longrightarrow> split_on c (join_with [c] segs) = segs"
proof (induction "[c]" segs rule: join_with.induct)
  case (3 x y xs)
  then show ?case by (simp add: split_on_append)
qed (simp_all add: split_on_no_sep)

lemma digit_lower: "is_digit c \<Longrightarrow> lower_char c = c"
  by (simp add: is_digit_def lower_char_def less_eq_char_def Let_def)

lemma lower_digit: "is_digit (lower_char c) \<Longrightarrow> is_digit c"
proof -
  have "(of_char c + 32) mod 256 = (of_char c + 32 :: nat)" if "of_char c \<le> (90::nat)" using that by (intro mod_less) arith
  then show "is_digit (lower_char c) \<Longrightarrow> is_digit c"
    by (auto simp: is_digit_def lower_char_def less_eq_char_def Let_def split: if_splits)
qed

lemma lower_digits: "list_all is_digit v \<Longrightarrow> toLowerCase p = toLowerCase v \<Longrightarrow> list_all is_digit p"
proof (induction v arbitrary: p)
  case (Cons c v)
  then obtain d q where "p = d # q" "lower_char d = lower_char c" "toLowerCase q = toLowerCase v"
    by (cases p) (auto simp: toLowerCase_def)
  with Cons show ?case by (auto simp: digit_lower intro: lower_digit)
qed (simp add: toLowerCase_def)

lemma clash_no_match:
  assumes "clash ps qs" "lower_case ps" "lower_case qs" "list_all is_digit (val ''id'')" "\<forall>k. val k \<noteq> []"
  shows "\<not> list_all2 seg_match ps (map (fill_seg val) qs)"
proof
  assume m: "list_all2 seg_match ps (map (fill_seg val) qs)"
  then have "length ps = length qs" by (auto dest: list_all2_lengthD)
  with assms(1) obtain p q where pq: "(p, q) \<in> set (zip ps qs)" "seg_clash p q"
    by (auto simp: clash_def list_ex_iff)
  from m pq(1) have match: "seg_match p (fill_seg val q)"
    by (auto simp: list_all2_iff zip_map2)
  from pq(1) assms(2, 3) have "is_param p \<or> toLowerCase p = p" "is_param q \<or> toLowerCase q = q"
    by (auto simp: lower_case_def list_all_iff dest: set_zip_leftD set_zip_rightD)
  with match pq(2) assms(4) lower_digits show False
    by (auto simp: seg_clash_def seg_match_def fill_seg_def split: if_splits)
qed

lemma fill_matches: "\<forall>k. val k \<noteq> [] \<Longrightarrow> list_all2 seg_match ps (map (fill_seg val) ps)"
  by (induction ps) (auto simp: seg_match_def fill_seg_def)

text \<open>The table: patterns are rooted and plain, and no earlier route fits a path of a later one of its method.\<close>

definition pattern_segs :: "route \<Rightarrow> string list" where
  "pattern_segs r = split_on CHR ''/'' (r_pattern r)"

lemma table_plain:
  "list_all (\<lambda>r. list_all (\<lambda>c. is_alnum c \<or> c \<in> {CHR ''/'', CHR '':'', CHR ''-'', CHR ''.''}) (r_pattern r)) all_routes"
  by code_simp

lemma table_segs:
  "list_all (\<lambda>r. r_method r \<noteq> ''HEAD'' \<and> (let ps = pattern_segs r in lower_case ps \<and> 1 < length ps \<and> last ps \<noteq> [])) all_routes"
  by code_simp

definition apart :: "string \<times> string list \<Rightarrow> string \<times> string list \<Rightarrow> bool" where
  "apart a b = (if fst a = fst b then clash (snd a) (snd b) else True)"

lemma table_unshadowed: "sorted_wrt apart (map (\<lambda>r. (r_method r, pattern_segs r)) all_routes)"
  by code_simp

lemma unshadowed_found:
  assumes "sorted_wrt apart (map (\<lambda>r. (r_method r, pattern_segs r)) rs)" "r \<in> set rs" "Q r"
    "\<And>r'. r' \<in> set rs \<Longrightarrow> apart (r_method r', pattern_segs r') (r_method r, pattern_segs r) \<Longrightarrow> \<not> Q r'"
  shows "find Q rs = Some r"
  using assms by (induction rs) (auto simp: find_Some_iff)

lemma no_slash_in_piece: "c \<notin> \<Union> (set ` set (split_on c s))"
  by (induction s) (auto split: list.splits)

lemma last_of_join: "segs \<noteq> [] \<Longrightarrow> last segs \<noteq> [] \<Longrightarrow> last (join_with sep segs) = last (last segs) \<and> join_with sep segs \<noteq> []"
  by (induction sep segs rule: join_with.induct) auto

lemma path_segs_join:
  assumes "\<forall>s\<in>set segs. CHR ''/'' \<notin> set s" "segs \<noteq> []" "last segs \<noteq> []"
  shows "path_segs (join_with ''/'' segs) = segs"
proof -
  have "last (join_with ''/'' segs) \<noteq> CHR ''/''" using assms last_of_join [of segs] by (metis last_in_set)
  then show ?thesis using assms by (simp add: path_segs_def split_on_join)
qed

lemma path_segs_fill:
  assumes "\<forall>k. val k \<noteq> [] \<and> CHR ''/'' \<notin> set (val k)" "last (split_on CHR ''/'' pat) \<noteq> []"
  shows "path_segs (fill val pat) = map (fill_seg val) (split_on CHR ''/'' pat)"
  unfolding fill_def
proof (rule path_segs_join)
  show "\<forall>s\<in>set (map (fill_seg val) (split_on CHR ''/'' pat)). CHR ''/'' \<notin> set s"
    using assms(1) no_slash_in_piece [of "CHR ''/''" pat] by (auto simp: fill_seg_def)
  show "last (map (fill_seg val) (split_on CHR ''/'' pat)) \<noteq> []"
    using assms by (simp add: last_map fill_seg_def)
qed simp


definition express_sample :: "string \<Rightarrow> string \<Rightarrow> bool" where
  "express_sample pat p = list_all2 seg_match (split_on CHR ''/'' pat) (path_segs p)"

lemma express_sample_documented: "documented_matching express_sample"
  by (simp add: documented_matching_def express_sample_def)


definition sample_express :: expressLib where
  "sample_express =
     \<lparr> x_matches = express_sample, x_cors = (\<lambda>meth origin reqMeth reqHeaders. Passed []), x_docsPages = (\<lambda>p. False) \<rparr>"

definition sample_site :: site where
  "sample_site = \<lparr> st_libs = sample_libs, st_adminApiKey = Some ''key'', st_allowedOrigins = None \<rparr>"

definition sample_deletion :: httpRequest where
  "sample_deletion =
     \<lparr> hq_method = ''DELETE'', hq_path = ''/api/streams/42'',
       hq_headers = (\<lambda>h. if h = ''x-admin-key'' then Some ''key'' else None), hq_parsed = Inr (JObj []),
       hq_ctx = \<lparr> requestId = None, correlationId = None \<rparr>, hq_limited = (\<lambda>g. None), hq_now = 0 \<rparr>"

theorem changes_need_credentials_witness:
  "handle_request sample_express sample_site sample_deletion = Reached DeleteE None (JObj []) \<and>
   adminAuth (st_adminApiKey sample_site) (hq_headers sample_deletion ''x-admin-key'')"
proof -
  have h: "handle_request sample_express sample_site sample_deletion = Reached DeleteE None (JObj [])" by code_simp
  moreover have "hq_method sample_deletion \<noteq> ''GET''" "hq_method sample_deletion \<noteq> ''HEAD''" "DeleteE \<notin> set open_to_all"
    by code_simp+
  then have "adminAuth (st_adminApiKey sample_site) (hq_headers sample_deletion ''x-admin-key'')"
    using changes_need_credentials [OF h] by (simp add: key_endpoints_def)
  ultimately show ?thesis by simp
qed

section \<open>The handlers of the administrator\<close>

text \<open>
  The list of allowed assets is read and changed by functions that \<open>services/db.ts\<close> is asked for but does not define:
  they are parameters.
\<close>

definition assets_body :: "string list \<Rightarrow> json response" where
  "assets_body codes = sendJson 200 (JObj [(''data'', JArr (map JStr codes))])"

definition add_asset_route ::
  "('w \<Rightarrow> string list) \<Rightarrow> (string \<Rightarrow> 'w \<Rightarrow> 'w) \<Rightarrow> RequestContext \<Rightarrow> json \<Rightarrow> 'w \<Rightarrow> json response \<times> 'w" where
  "add_asset_route getAllowedAssets addAllowedAsset ctx body w =
     (case obj_field body ''code'' of
        Some (JStr code) \<Rightarrow>
          if trim code = [] then (sendApiError ctx 400 ''Asset code is required.'' (Some ''VALIDATION_ERROR'') None, w)
          else (let cleanCode = toUpperCase (trim code) in
                if \<not> asset_code_text cleanCode
                then (sendApiError ctx 400
                        (''Asset code must be 1'' @ [CHR 0xE2, CHR 0x80, CHR 0x93] @ ''12 alphanumeric characters.'')
                        (Some ''VALIDATION_ERROR'') None, w)
                else (let w' = addAllowedAsset cleanCode w in (assets_body (getAllowedAssets w'), w')))
      | _ \<Rightarrow> (sendApiError ctx 400 ''Asset code is required.'' (Some ''VALIDATION_ERROR'') None, w))"

definition remove_asset_route ::
  "('w \<Rightarrow> string list) \<Rightarrow> (string \<Rightarrow> 'w \<Rightarrow> 'w) \<Rightarrow> RequestContext \<Rightarrow> string \<Rightarrow> 'w \<Rightarrow> json response \<times> 'w" where
  "remove_asset_route getAllowedAssets removeAllowedAsset ctx code w =
     (if code = [] then (sendApiError ctx 400 ''Asset code is required.'' (Some ''VALIDATION_ERROR'') None, w)
      else (let w' = removeAllowedAsset (toUpperCase (trim code)) w in (assets_body (getAllowedAssets w'), w')))"

text \<open>\<open>req.body?.apiKey || req.header("X-Admin-Key")\<close>, compared with the configured key: another truthy value differs from it.\<close>

fun json_truthy :: "json \<Rightarrow> bool" where
  "json_truthy JNull = False"
| "json_truthy (JBool b) = b"
| "json_truthy (JNum n) = (n \<noteq> 0)"
| "json_truthy (JStr s) = (s \<noteq> [])"
| "json_truthy _ = True"

definition login_key :: "json \<Rightarrow> string option \<Rightarrow> json option" where
  "login_key body header =
     (case obj_field body ''apiKey'' of
        Some v \<Rightarrow> if json_truthy v then Some v else map_option JStr header
      | None \<Rightarrow> map_option JStr header)"

definition admin_user :: AuthUser where
  "admin_user = \<lparr> accountId = Some ''admin'', signer_count = None, threshold = None, role = Some ''admin'', isAdmin = True \<rparr>"

definition admin_login :: "site \<Rightarrow> httpRequest \<Rightarrow> json \<Rightarrow> json response" where
  "admin_login st rq body =
     (let apiKey = login_key body (hq_headers rq ''x-admin-key'') in
      if apiKey = None \<or> \<not> json_truthy (the apiKey) \<or> apiKey \<noteq> map_option JStr (st_adminApiKey st)
      then sendApiError (hq_ctx rq) 401 ''Invalid Admin API Key.'' (Some ''UNAUTHORIZED'') None
      else sendJson 200 (JObj [(''token'', JStr (jwt_sign (st_libs st) admin_user (hq_now rq div 1000)))]))"

text \<open>Only a normalised code is added, and a login needs the key of the administrator that the other middleware asks for.\<close>

lemma added_code_normal:
  assumes "add_asset_route getA addA ctx body w = (r, w')" "resp_status r = 200"
  obtains c where "asset_code_text c" "toUpperCase c = c" "w' = addA c w"
  using assms by (fastforce simp: add_asset_route_def Let_def split: option.splits json.splits if_splits)

lemma login_needs_key:
  "resp_status (admin_login st rq body) = 200 \<Longrightarrow>
     \<exists>k. st_adminApiKey st = Some k \<and> k \<noteq> [] \<and> (obj_field body ''apiKey'' = Some (JStr k) \<or> hq_headers rq ''x-admin-key'' = Some k)"
  by (cases "st_adminApiKey st") (auto simp: admin_login_def login_key_def Let_def split: option.splits if_splits)

section \<open>The limit of reconciliations\<close>

text \<open>\<open>keyGenerator\<close> counts per identifier as it stands in the path, before the spaces around it are removed.\<close>

definition reconcile_key :: "string \<Rightarrow> string" where
  "reconcile_key raw = ''reconcile:'' @ raw"

lemma trim_spaces [simp]: "trim (replicate n CHR '' '' @ raw) = trim raw"
  by (induction n) (auto simp: trim_def is_space_def)

text \<open>The limit of reconciliations per stream is none: every identifier of a stream has as many spellings as one likes
  that the handler reads as the same stream and the limiter counts apart.\<close>

theorem reconcile_limit_evaded:
  assumes "streamIdSchema (Some (JStr raw)) = Some sid"
  shows "streamIdSchema (Some (JStr (replicate n CHR '' '' @ raw))) = Some sid"
    "reconcile_key (replicate n CHR '' '' @ raw) = reconcile_key (replicate m CHR '' '' @ raw) \<longleftrightarrow> n = m"
proof -
  show "streamIdSchema (Some (JStr (replicate n CHR '' '' @ raw))) = Some sid"
    using assms by (simp add: streamIdSchema_def)
  show "reconcile_key (replicate n CHR '' '' @ raw) = reconcile_key (replicate m CHR '' '' @ raw) \<longleftrightarrow> n = m"
    by (auto simp: reconcile_key_def dest: arg_cong [of _ _ length])
qed

theorem reconcile_limit_evaded_witness:
  "streamIdSchema (Some (JStr ''   42'')) = Some ''42'' \<and> reconcile_key ''   42'' \<noteq> reconcile_key '' 42''"
proof -
  have h: "streamIdSchema (Some (JStr ''42'')) = Some ''42''" by code_simp
  have eq: "replicate 3 CHR '' '' @ ''42'' = ''   42''" "replicate 1 CHR '' '' @ ''42'' = '' 42''"
    by (simp_all add: numeral_3_eq_3)
  show ?thesis using reconcile_limit_evaded(1) [OF h, of 3] reconcile_limit_evaded(2) [OF h, of 3 1]
    unfolding eq by simp
qed

end
