(* ===== verification/ApiConformance.thy ===== *)
theory ApiConformance
  imports ApiDoc Routes StreamTheorems Listing
begin

text \<open>
  The published document against the server: which of its operations the routes serve, which routes it leaves out,
  which of its security requirements the routes enforce, and whether the bodies the handlers send are among those its
  schemas describe. A body is rendered as \<open>res.json\<close> renders it: fields that are undefined are left out.
\<close>

section \<open>Bodies as they are sent\<close>

definition error_json :: "ApiErrorResponse \<Rightarrow> json" where
  "error_json e = JObj
     ([(''error'', JStr (ae_error e)), (''statusCode'', JNum (of_int (ae_statusCode e)))] @
      opt_field ''requestId'' JStr (ae_requestId e) @
      opt_field ''correlationId'' JStr (ae_correlationId e) @
      opt_field ''code'' JStr (ae_code e) @
      opt_field ''details''
        (\<lambda>ds. JArr (map (\<lambda>d. JObj [(''field'', JStr (vi_field d)), (''message'', JStr (vi_message d))]) ds))
        (ae_details e))"

text \<open>JSON has no infinity: it is sent as \<open>null\<close>.\<close>

definition rate_json :: "rate \<Rightarrow> json" where
  "rate_json r = (case r of Finite v \<Rightarrow> JNum v | PosInfinity \<Rightarrow> JNull)"

definition progress_json :: "StreamProgress \<Rightarrow> json" where
  "progress_json p = JObj
     [(''status'', JStr (status_name (status p))), (''ratePerSecond'', rate_json (ratePerSecond p)),
      (''elapsedSeconds'', JNum (of_int (elapsedSeconds p))), (''vestedAmount'', JNum (vestedAmount p)),
      (''remainingAmount'', JNum (remainingAmount p)), (''percentComplete'', JNum (percentComplete p))]"

definition item_json :: "ListItem \<Rightarrow> json" where
  "item_json i = JObj (obj_entries (stream_json (item_stream i)) @ [(''progress'', progress_json (item_progress i))])"

definition stats_json :: "GlobalStats \<Rightarrow> int option \<Rightarrow> json" where
  "stats_json g onChain = JObj
     [(''total'', JNum (of_nat (gs_total g))), (''active'', JNum (of_nat (gs_active g))),
      (''scheduled'', JNum (of_nat (gs_scheduled g))), (''paused'', JNum (of_nat (gs_paused g))),
      (''completed'', JNum (of_nat (gs_completed g))), (''canceled'', JNum (of_nat (gs_canceled g))),
      (''totalVested'', JNum (gs_totalVested g)), (''totalAmount'', JNum (gs_totalAmount g)),
      (''uniqueSenders'', JNum (of_nat (gs_uniqueSenders g))),
      (''uniqueRecipients'', JNum (of_nat (gs_uniqueRecipients g))),
      (''localStreamCount'', JNum (of_nat (gs_total g))),
      (''onChainStreamCount'', case onChain of None \<Rightarrow> JNull | Some n \<Rightarrow> JNum (of_int n))]"

definition metrics_json :: "StreamMetrics \<Rightarrow> json" where
  "metrics_json m = JObj
     [(''total_streams'', JNum (of_nat (sm_total_streams m))), (''active_streams'', JNum (of_nat (sm_active_streams m))),
      (''total_vested_usdc'', JNum (sm_total_vested_usdc m)), (''total_vested_xlm'', JNum (sm_total_vested_xlm m)),
      (''streams_completed_today'', JNum (of_nat (sm_streams_completed_today m)))]"

section \<open>Schemas, unfolded\<close>

lemma conforms_ref:
  "conforms (Suc n) doc (JObj [(''$ref'', JStr r)]) v =
     (case resolve doc r of None \<Rightarrow> False | Some s \<Rightarrow> conforms n doc s v)"
  by simp

lemmas schema_simps = describes_def type_ok_def enum_ok_def bounds_ok_def required_ok_def field_or_def opt_field_def
  eval_nat_numeral

lemma map_of_opt_field: "map_of (opt_field k f v) k' = (if k = k' then map_option f v else None)"
  by (auto simp: opt_field_def split: option.split)

text \<open>An error body, by its fields.\<close>

lemma error_json_fields:
  obtains kvs where "error_json e = JObj kvs" "{''error'', ''statusCode''} \<subseteq> set (map fst kvs)"
    "map_of kvs ''error'' = Some (JStr (ae_error e))" "map_of kvs ''statusCode'' = Some (JNum (of_int (ae_statusCode e)))"
    "map_of kvs ''requestId'' = map_option JStr (ae_requestId e)" "map_of kvs ''code'' = map_option JStr (ae_code e)"
    "map_of kvs ''details'' = map_option (\<lambda>ds. JArr (map (\<lambda>d.
       JObj [(''field'', JStr (vi_field d)), (''message'', JStr (vi_message d))]) ds)) (ae_details e)"
  by (rule that [OF error_json_def]) (simp_all add: opt_field_def map_add_def split: option.split)


text \<open>The body of a stream, by the fields its two schemas name.\<close>

lemma item_json_fields:
  obtains kvs where "item_json i = JObj kvs"
    "map_of kvs ''id'' = Some (JStr (stream_id (item_stream i)))"
    "map_of kvs ''sender'' = Some (JStr (sender (item_stream i)))"
    "map_of kvs ''recipient'' = Some (JStr (recipient (item_stream i)))"
    "map_of kvs ''assetCode'' = Some (JStr (assetCode (item_stream i)))"
    "map_of kvs ''totalAmount'' = Some (JNum (totalAmount (item_stream i)))"
    "map_of kvs ''durationSeconds'' = Some (JNum (of_int (durationSeconds (item_stream i))))"
    "map_of kvs ''startAt'' = Some (JNum (of_int (startAt (item_stream i))))"
    "map_of kvs ''createdAt'' = Some (JNum (of_int (createdAt (item_stream i))))"
    "map_of kvs ''canceledAt'' = map_option (JNum \<circ> of_int) (canceledAt (item_stream i))"
    "map_of kvs ''completedAt'' = map_option (JNum \<circ> of_int) (completedAt (item_stream i))"
    "map_of kvs ''refundedAmount'' = map_option JNum (refundedAmount (item_stream i))"
    "map_of kvs ''pausedAt'' = map_option (JNum \<circ> of_int) (pausedAt (item_stream i))"
    "map_of kvs ''pausedDuration'' = Some (JNum (of_int (pausedDuration (item_stream i))))"
    "map_of kvs ''progress'' = Some (progress_json (item_progress i))" "map_of kvs ''status'' = None"
  by (rule that [OF item_json_def]) (simp_all add: stream_json_def map_of_opt_field map_add_def split: option.split)

text \<open>A stream is answered as the document describes it unless it is paused: the body of a stream with a positive
  duration meets the schema for streams with progress exactly when its status is not \<open>paused\<close>, which the schema does
  not list, and it never meets the other schema, under which the listings are documented and whose progress is a
  number.\<close>

theorem paused_streams_undocumented:
  assumes "0 < durationSeconds s"
  shows "describes ''StreamWithProgress'' (item_json (with_progress now s)) = (computeStatus s now \<noteq> Paused)"
    "\<not> describes ''Stream'' (item_json (with_progress now s))"
proof -obtain r e v m pc where progress:
    "calculateProgress s now = \<lparr> status = computeStatus s now, ratePerSecond = Finite r, elapsedSeconds = e,
       vestedAmount = v, remainingAmount = m, percentComplete = pc \<rparr>"
    using assms by (simp add: calculateProgress_def Let_def)
  show "describes ''StreamWithProgress'' (item_json (with_progress now s)) = (computeStatus s now \<noteq> Paused)"
    by (rule item_json_fields [of "with_progress now s"], cases "computeStatus s now")
      (simp_all add: schema_simps schema_StreamWithProgress_def schema_StreamProgress_def with_progress_def progress
        progress_json_def rate_json_def split: option.split)
  show "\<not> describes ''Stream'' (item_json (with_progress now s))"
    by (rule item_json_fields [of "with_progress now s"])
      (simp add: schema_simps schema_Stream_def with_progress_def progress_json_def split: option.split)
qed

theorem paused_streams_undocumented_witness:
  "describes ''StreamWithProgress'' (item_json (with_progress 150 sample_stream)) \<and>
   \<not> describes ''StreamWithProgress'' (item_json (with_progress 150 (sample_stream\<lparr>pausedAt := Some 120\<rparr>)))"
proof -have "0 < durationSeconds sample_stream" "0 < durationSeconds (sample_stream\<lparr>pausedAt := Some 120\<rparr>)"
    by (simp_all add: sample_stream_def)
  note this [THEN paused_streams_undocumented(1)]
  moreover have "computeStatus sample_stream 150 = Active" "computeStatus (sample_stream\<lparr>pausedAt := Some 120\<rparr>) 150 = Paused"
    by code_simp+
  ultimately show ?thesis by simp
qed

section \<open>Operations and routes\<close>

text \<open>A path of the document as a pattern of Express.\<close>

definition express_path :: "string \<Rightarrow> string" where
  "express_path p = concat (map (\<lambda>c. if c = CHR ''{'' then '':'' else if c = CHR ''}'' then [] else [c]) p)"

definition operations :: "(string \<times> string) list" where
  "operations = map (\<lambda>(m, p, op). (m, p)) (documented_operations swaggerDocument)"

definition operation_key :: "string \<times> string \<Rightarrow> string \<times> string" where
  "operation_key op = (toUpperCase (fst op), express_path (snd op))"

definition route_key :: "route \<Rightarrow> string \<times> string" where
  "route_key r = (r_method r, r_pattern r)"

lemma operation_keys_eq:
  "map operation_key operations = 
    [(''GET'', ''/api/health''), (''POST'', ''/api/auth/refresh''), (''GET'', ''/api/assets''),
     (''GET'', ''/api/stats''), (''GET'', ''/api/metrics''), (''GET'', ''/api/streams''),
     (''POST'', ''/api/streams''), (''GET'', ''/api/streams/search''), (''GET'', ''/api/streams/:id''),
     (''GET'', ''/api/streams/:id/claimable''), (''GET'', ''/api/recipients/:accountId/streams''),
     (''GET'', ''/api/senders/:accountId/streams''), (''GET'', ''/api/streams/sender/:address''),
     (''GET'', ''/api/streams/recipient/:address''), (''POST'', ''/api/streams/:id/cancel''),
     (''POST'', ''/api/streams/:id/reconcile''), (''POST'', ''/api/streams/:id/mark-complete''),
     (''GET'', ''/api/streams/:id/history''), (''GET'', ''/api/streams/:id/history/summary''),
     (''GET'', ''/api/streams/:id/snapshot''), (''GET'', ''/api/events''), (''GET'', ''/api/open-issues'')]"
  unfolding operations_def documented_operations_eq by code_simp

lemma route_keys_eq: "map route_key all_routes = 
    [(''GET'', ''/api/docs/openapi.json''), (''GET'', ''/api/health''), (''GET'', ''/api/stats''),
     (''GET'', ''/metrics''), (''GET'', ''/api/metrics''), (''GET'', ''/api/metrics/history''),
     (''GET'', ''/api/assets''), (''GET'', ''/api/admin/assets''), (''POST'', ''/api/admin/assets''),
     (''DELETE'', ''/api/admin/assets/:code''), (''POST'', ''/api/admin/auth''),
     (''POST'', ''/api/auth/admin''), (''GET'', ''/api/streams''), (''GET'', ''/api/streams/search''),
     (''GET'', ''/api/events''), (''GET'', ''/api/streams/export.csv''),
     (''POST'', ''/api/streams/claimable/batch''), (''GET'', ''/api/streams/sender/:address''),
     (''GET'', ''/api/streams/recipient/:address''), (''GET'', ''/api/streams/compare''),
     (''GET'', ''/api/streams/:id''), (''GET'', ''/api/recipients/:accountId/streams''),
     (''GET'', ''/api/senders/:accountId/streams''), (''GET'', ''/api/auth/challenge''),
     (''POST'', ''/api/auth/token''), (''POST'', ''/api/auth/refresh''), (''POST'', ''/api/streams/fee-estimate''), (''POST'', ''/api/streams''), (''POST'', ''/api/streams/:id/cancel''),
     (''POST'', ''/api/streams/bulk-cancel''), (''POST'', ''/api/streams/:id/pause''),
     (''POST'', ''/api/streams/:id/resume''), (''POST'', ''/api/streams/:id/claim''),
     (''POST'', ''/api/streams/:id/reconcile''), (''PATCH'', ''/api/streams/:id/start-time''),
     (''GET'', ''/api/streams/:id/history''), (''GET'', ''/api/streams/:id/history/summary''),
     (''GET'', ''/api/streams/:id/snapshot''), (''GET'', ''/api/open-issues''),
     (''GET'', ''/api/indexer/monitoring''), (''GET'', ''/api/webhooks/monitoring''),
     (''GET'', ''/api/webhooks/dead-letters''), (''GET'', ''/api/webhooks/dead-letters/count''),
     (''POST'', ''/api/webhooks/dead-letters/:id/requeue''), (''DELETE'', ''/api/admin/webhooks/dead-letters''),
     (''DELETE'', ''/api/streams/:id'')]"
  by code_simp

text \<open>The document and the routes: of the operations the document lists, exactly two are served by no route, the
  claimable amount of one stream and the manual completion.\<close>

theorem unserved_operations:
  "filter (\<lambda>k. k \<notin> route_key ` set all_routes) (map operation_key operations) =
     [(''GET'', ''/api/streams/:id/claimable''), (''POST'', ''/api/streams/:id/mark-complete'')]"
  unfolding list.set_map [symmetric] operation_keys_eq route_keys_eq by simp

text \<open>Routes the document leaves out, and operations it lists without security although their routes ask for a token.\<close>

lemma undocumented_routes:
  "filter (\<lambda>k. k \<notin> operation_key ` set operations) (map route_key all_routes) = 
    [(''GET'', ''/api/docs/openapi.json''), (''GET'', ''/metrics''), (''GET'', ''/api/metrics/history''),
     (''GET'', ''/api/admin/assets''), (''POST'', ''/api/admin/assets''),
     (''DELETE'', ''/api/admin/assets/:code''), (''POST'', ''/api/admin/auth''),
     (''POST'', ''/api/auth/admin''), (''GET'', ''/api/streams/export.csv''),
     (''POST'', ''/api/streams/claimable/batch''), (''GET'', ''/api/streams/compare''),
     (''GET'', ''/api/auth/challenge''), (''POST'', ''/api/auth/token''), (''POST'', ''/api/streams/fee-estimate''), (''POST'', ''/api/streams/bulk-cancel''), (''POST'', ''/api/streams/:id/pause''),
     (''POST'', ''/api/streams/:id/resume''), (''POST'', ''/api/streams/:id/claim''),
     (''PATCH'', ''/api/streams/:id/start-time''), (''GET'', ''/api/indexer/monitoring''),
     (''GET'', ''/api/webhooks/monitoring''), (''GET'', ''/api/webhooks/dead-letters''),
     (''GET'', ''/api/webhooks/dead-letters/count''), (''POST'', ''/api/webhooks/dead-letters/:id/requeue''),
     (''DELETE'', ''/api/admin/webhooks/dead-letters''), (''DELETE'', ''/api/streams/:id'')]"
  unfolding list.set_map [symmetric] operation_keys_eq route_keys_eq by simp

lemma token_without_security:
  "security_schemes path_streams_post = []" "security_schemes path_streams_id_cancel_post = []"
  "list_all (\<lambda>r. r_endpoint r = CreateE \<or> r_endpoint r = CancelE \<longrightarrow> last_guard AuthMiddleware r) all_routes"
  by (simp_all add: security_schemes_def field_or_def path_streams_post_def path_streams_id_cancel_post_def
      all_routes_def routes_public_def routes_assets_def routes_read_def routes_auth_def routes_mutation_def
      routes_rest_def entry_def last_guard_def)

end
