(* ===== verification/ClientWidgets.thy ===== *)
theory ClientWidgets
  imports ClientPages ApiConformance ClientSession
begin

text \<open>
  Smaller parts of the client with a decision in them: which page and which wallet button is shown (\<open>App.tsx\<close>,
  \<open>WalletButton.tsx\<close>), the texts of events, addresses and empty lists, the marker of the cliff, the trap that keeps the
  keyboard focus in a dialog (\<open>hooks/useFocusTrap.ts\<close>), and the loading of the chart's statistics and history
  (\<open>StreamMetricsChart.tsx\<close>, \<open>hooks/useMetricsHistory.ts\<close>). Characters outside ASCII are written as UTF-8 bytes.
\<close>

section \<open>Pages and the wallet button\<close>

definition known_paths :: "string list" where
  "known_paths = [''/'', ''/sender'', ''/recipient'', ''/my-streams'']"

definition redirect :: "string \<Rightarrow> string" where
  "redirect p = (if p \<notin> set known_paths then ''/'' else p)"

definition currentTab :: "string \<Rightarrow> string" where
  "currentTab p = (if p = ''/sender'' then ''sender'' else if p = ''/recipient'' then ''recipient'' else ''dashboard'')"

lemma redirect_known: "redirect p \<in> set known_paths" "redirect (redirect p) = redirect p"
  by (auto simp: redirect_def known_paths_def)

lemma my_streams_tab: "redirect ''/my-streams'' = ''/my-streams''" "currentTab ''/my-streams'' = currentTab ''/''"
  by (simp_all add: redirect_def known_paths_def currentTab_def)

definition ends_of :: "nat \<Rightarrow> nat \<Rightarrow> string \<Rightarrow> string" where
  "ends_of m n s = take m s @ ellipsis @ drop (length s - n) s"

datatype walletView = WalletShown string | WalletConnecting | WalletOffer "string option" string

definition wallet_view :: "Session \<Rightarrow> walletView" where
  "wallet_view w =
     (if wallet_status w = WConnected \<and> address w \<noteq> None \<and> address w \<noteq> Some [] then WalletShown (ends_of 4 4 (the (address w)))
      else if wallet_status w = WConnecting then WalletConnecting
      else WalletOffer (if wallet_error w = Some [] then None else wallet_error w)
             (if \<not> installed w then ''Install Freighter'' else ''Connect Wallet''))"

section \<open>Texts\<close>

definition truncatedAddress :: "bool \<Rightarrow> string \<Rightarrow> string" where
  "truncatedAddress middle s =
     (if length s \<le> 12 then s else if middle then ends_of 8 4 s else take 8 s @ ''...'')"

definition tx_link_text :: "string \<Rightarrow> string" where
  "tx_link_text hash = ends_of 8 8 hash"

definition status_class :: "StreamStatus \<Rightarrow> string" where
  "status_class st = ''badge badge-'' @ status_name st"

definition optional_amount :: "jsnum option \<Rightarrow> string" where
  "optional_amount a = (case a of None \<Rightarrow> ''undefined'' | Some v \<Rightarrow> num_toString v)"

definition optional_text :: "string option \<Rightarrow> string" where
  "optional_text a = (case a of None \<Rightarrow> ''undefined'' | Some v \<Rightarrow> v)"

definition getEventLabel :: "string \<Rightarrow> jsnum option \<Rightarrow> string option \<Rightarrow> string" where
  "getEventLabel ty a code =
     (if ty = ''created'' then ''Stream created'' @
        (if a \<noteq> None \<and> a \<noteq> Some 0 then '' ('' @ optional_amount a @ '' '' @ optional_text code @ '')'' else [])
      else if ty = ''claimed'' then ''Claimed '' @ optional_amount a @ '' '' @ optional_text code
      else if ty = ''canceled'' then ''Stream canceled''
      else if ty = ''paused'' then ''Stream paused''
      else if ty = ''resumed'' then ''Stream resumed''
      else if ty = ''start_time_updated'' then ''Start time updated''
      else ty)"

definition drawer_labels :: "(string \<times> string) list" where
  "drawer_labels =
     [(''created'', ''Stream created''), (''claimed'', ''Tokens claimed''), (''canceled'', ''Stream canceled''),
      (''start_time_updated'', ''Start time updated''), (''paused'', ''Stream paused''), (''resumed'', ''Stream resumed'')]"

definition eventLabel :: "string \<Rightarrow> string" where
  "eventLabel ty = (case map_of drawer_labels ty of Some l \<Rightarrow> l | None \<Rightarrow> ty)"

text \<open>Of the events a stream can have, both label all but its completion, which is shown by its bare name.\<close>

lemma completion_unlabelled:
  "filter (\<lambda>ty. eventLabel ty = ty) VALID_EVENT_TYPES = [''completed'']"
  "filter (\<lambda>ty. getEventLabel ty None None = ty) VALID_EVENT_TYPES = [''completed'']"
  by code_simp+

text \<open>Without an asset code among its metadata, the feed of the sender dashboard names a claim's asset \<open>undefined\<close>.\<close>

lemma claim_without_asset: "getEventLabel ''claimed'' (Some 5) None = ''Claimed 5 undefined''"
  by code_simp

definition getEmptyMessage :: "ListStreamsFilters \<Rightarrow> bool \<Rightarrow> string" where
  "getEmptyMessage f hasAnyStreams =
     (if f_status f \<noteq> [] then
        (if f_status f \<in> set VALID_STATUSES then ''No '' @ f_status f @ '' streams''
         else ''No streams with status '' @ [CHR 0x22] @ f_status f @ [CHR 0x22])
      else if f_sender f \<noteq> [] then ''No streams from this sender''
      else if f_recipient f \<noteq> [] then ''No streams to this recipient''
      else if f_asset f \<noteq> [] then ''No streams with asset '' @ [CHR 0x22] @ f_asset f @ [CHR 0x22]
      else if f_q f \<noteq> [] then ''No streams match your search''
      else if hasAnyStreams then ''No streams match your filters'' else ''No streams yet'')"

section \<open>The cliff\<close>

record CliffView =
  cliff_percentage :: jsnum
  cliff_reached :: bool
  cliff_days :: int

definition cliff_marker :: "int \<Rightarrow> int \<Rightarrow> int \<Rightarrow> int \<Rightarrow> CliffView option" where
  "cliff_marker start cliff duration now =
     (if cliff = 0 then None
      else Some \<lparr> cliff_percentage = fl (fl (of_int cliff / of_int duration) * 100),
             cliff_reached = (start + cliff \<le> now), cliff_days = - ((- cliff) div (24 * 3600)) \<rparr>)"

lemma cliff_days_cover:
  assumes "cliff_marker start cliff duration now = Some v"
  shows "cliff \<le> cliff_days v * 86400" "cliff_days v * 86400 < cliff + 86400"
proof -
  have v: "cliff_days v = - ((- cliff) div 86400)" using assms by (auto simp: cliff_marker_def split: if_splits)
  have "86400 * ((- cliff) div 86400) + (- cliff) mod 86400 = - cliff" "0 \<le> (- cliff) mod 86400" "(- cliff) mod 86400 < 86400"
    by (simp_all only: mult_div_mod_eq pos_mod_sign pos_mod_bound zero_less_numeral)
  then show "cliff \<le> cliff_days v * 86400" "cliff_days v * 86400 < cliff + 86400" unfolding v by linarith+
qed

section \<open>The focus trap\<close>

text \<open>
  What Tab does to the focus, \<open>None\<close> when it is outside the container or nowhere. Where the handler does not
  intervene the browser moves the focus to the neighbour, which inside the container is the next focusable element.
\<close>

datatype focusMove = Prevented | FocusOn string | Browser

definition trap_key :: "string list \<Rightarrow> bool \<Rightarrow> string option \<Rightarrow> focusMove" where
  "trap_key focusable shift active =
     (if focusable = [] then Prevented
      else if shift then (if active = None \<or> active = Some (hd focusable) then FocusOn (List.last focusable) else Browser)
      else (if active = None \<or> active = Some (List.last focusable) then FocusOn (hd focusable) else Browser))"

definition neighbour :: "string list \<Rightarrow> bool \<Rightarrow> string \<Rightarrow> string option" where
  "neighbour focusable shift x =
     (let xs = (if shift then rev focusable else focusable) in
      case dropWhile (\<lambda>y. y \<noteq> x) xs of y # z # zs \<Rightarrow> Some z | _ \<Rightarrow> None)"

definition press_tab :: "string list \<Rightarrow> bool \<Rightarrow> string option \<Rightarrow> string option" where
  "press_tab focusable shift active =
     (case trap_key focusable shift active of
        Prevented \<Rightarrow> active
      | FocusOn x \<Rightarrow> Some x
      | Browser \<Rightarrow> (case active of None \<Rightarrow> None | Some x \<Rightarrow> neighbour focusable shift x))"

lemma neighbour_inside:
  assumes "x \<in> set xs" "x \<noteq> List.last xs"
  shows "\<exists>z zs. dropWhile (\<lambda>y. y \<noteq> x) xs = x # z # zs \<and> z \<in> set xs"
  using assms by (induction xs) (auto split: if_splits simp: neq_Nil_conv)

text \<open>The focus stays in the dialog: from wherever it is, inside or out, every press of Tab or Shift and Tab leaves it on a
  focusable element of the container, as long as there is one.\<close>

theorem focus_stays_inside:
  assumes "focusable \<noteq> []" "active = None \<or> (\<exists>x\<in>set focusable. active = Some x)"
  shows "\<exists>x\<in>set focusable. press_tab focusable shift active = Some x"
proof (cases "trap_key focusable shift active")
  case Browser
  then obtain x where x: "active = Some x" "x \<in> set focusable"
    "shift \<Longrightarrow> x \<noteq> hd focusable" "\<not> shift \<Longrightarrow> x \<noteq> List.last focusable"
    using assms by (auto simp: trap_key_def split: if_splits)
  let ?xs = "if shift then rev focusable else focusable"
  have "x \<in> set ?xs" "x \<noteq> List.last ?xs" using x assms(1) by (auto simp: last_rev)
  from neighbour_inside [OF this] obtain z zs where "dropWhile (\<lambda>y. y \<noteq> x) ?xs = x # z # zs" "z \<in> set focusable"
    by (auto split: if_splits)
  then show ?thesis using Browser x(1) by (auto simp: press_tab_def neighbour_def Let_def)
qed (use assms in \<open>auto simp: trap_key_def press_tab_def split: if_splits\<close>)

theorem focus_stays_inside_witness:
  "press_tab [''input'', ''cancel'', ''confirm''] False (Some ''cancel'') = Some ''confirm'' \<and>
   (\<exists>x\<in>{''input'', ''cancel'', ''confirm''}. press_tab [''input'', ''cancel'', ''confirm''] True (Some ''input'') = Some x)"
proof -
  have "press_tab [''input'', ''cancel'', ''confirm''] False (Some ''cancel'') = Some ''confirm''" by code_simp
  moreover have "\<exists>x\<in>set [''input'', ''cancel'', ''confirm'']. press_tab [''input'', ''cancel'', ''confirm''] True (Some ''input'') = Some x"
    by (rule focus_stays_inside) simp_all
  ultimately show ?thesis by simp
qed

section \<open>The statistics of the chart\<close>

text \<open>
  \<open>fetchStats\<close> hands on what stands under \<open>data\<close> of the answer; the bars read three of its fields. An answer that comes
  after the chart was unmounted changes nothing, except that of a retry.
\<close>

record ChartStats =
  ch_stats :: "json option"
  ch_loading :: bool
  ch_error :: "string option"

definition stats_arrived :: "bool \<Rightarrow> string + json \<Rightarrow> ChartStats \<Rightarrow> ChartStats" where
  "stats_arrived mounted r c =
     (if \<not> mounted then c
      else (case r of Inr v \<Rightarrow> c\<lparr>ch_stats := Some v, ch_loading := False\<rparr> | Inl m \<Rightarrow> c\<lparr>ch_error := Some m, ch_loading := False\<rparr>))"

definition load_stats :: "ChartStats \<Rightarrow> ChartStats" where
  "load_stats c = c\<lparr>ch_error := None\<rparr>"

definition handleRetry :: "ChartStats \<Rightarrow> ChartStats" where
  "handleRetry c = c\<lparr>ch_loading := True, ch_error := None\<rparr>"

datatype chartView = ChartLoading | ChartFailed string bool | ChartEmpty | ChartShown

fun first_message :: "string option list \<Rightarrow> string" where
  "first_message [] = ''An error occurred while fetching metrics history.''"
| "first_message (m # ms) = (case m of Some (c # cs) \<Rightarrow> c # cs | _ \<Rightarrow> first_message ms)"

definition chart_view :: "nat \<Rightarrow> bool \<Rightarrow> string option \<Rightarrow> ChartStats \<Rightarrow> chartView" where
  "chart_view points loading error c =
     (if loading \<or> ch_loading c then ChartLoading
      else if error \<noteq> None \<or> ch_error c \<noteq> None
        then ChartFailed (first_message [error, ch_error c]) (ch_error c \<noteq> None)
      else if points = 0 then ChartEmpty else ChartShown)"

definition bar_data :: "ChartStats \<Rightarrow> (string \<times> json option) list" where
  "bar_data c =
     (case ch_stats c of
        None \<Rightarrow> []
      | Some v \<Rightarrow> [(''Active'', obj_field v ''active_streams''), (''Completed'', obj_field v ''completed_streams''),
                  (''Canceled'', obj_field v ''canceled_streams'')])"

text \<open>The server names its statistics otherwise, so that the bars of the chart have no heights.\<close>

lemma bars_without_heights:
  "map snd (bar_data (stats_arrived True (Inr (stats_json g onChain)) c)) = [None, None, None]"
  by (simp add: bar_data_def stats_arrived_def stats_json_def)

section \<open>The history of the chart\<close>

datatype timeRange = Days7 | Days30 | AllTime

definition startTimestamp :: "timeRange \<Rightarrow> int \<Rightarrow> int" where
  "startTimestamp tr now =
     (case tr of Days7 \<Rightarrow> now - 7 * 24 * 60 * 60 * 1000 | Days30 \<Rightarrow> now - 30 * 24 * 60 * 60 * 1000 | AllTime \<Rightarrow> 0)"

record 'a History =
  mh_data :: "'a list"
  mh_loading :: bool
  mh_error :: "string option"

definition history_fetch :: "'a History \<Rightarrow> 'a History" where
  "history_fetch h = h\<lparr>mh_loading := True, mh_error := None\<rparr>"

definition history_arrived :: "string + 'a list \<Rightarrow> 'a History \<Rightarrow> 'a History" where
  "history_arrived r h =
     (case r of Inr xs \<Rightarrow> \<lparr> mh_data = xs, mh_loading = False, mh_error = None \<rparr>
              | Inl m \<Rightarrow> \<lparr> mh_data = [], mh_loading = False, mh_error = Some m \<rparr>)"

text \<open>No answer is ignored: after a change of the range, the one that arrives last is shown, to whichever range it belongs.\<close>

lemma late_history_wins: "mh_data (history_arrived (Inr old) (history_arrived (Inr new) h)) = old"
  by (simp add: history_arrived_def)

end
