(* ===== verification/ClientScreens.thy ===== *)
theory ClientScreens
  imports ClientWidgets
begin

text \<open>
  What the tables of the client say: \<open>components/StreamsTable.tsx\<close>, the tables of \<open>pages/SenderDashboard.tsx\<close>,
  \<open>components/SenderDashboard.tsx\<close> and \<open>components/RecipientDashboard.tsx\<close>, with their headings, their cells and the
  buttons in them. Markup, styles and pictograms are left out; how the browser writes numbers and dates for its locale
  is not used in a cell.
\<close>

section \<open>Cells\<close>

text \<open>A text in pieces, a checkbox (ticked, disabled), buttons with whether they are disabled, or a cell whose rendering throws.\<close>

datatype cell = Says "string list" | Checkbox bool bool | Buttons "(string \<times> bool) list" | Throws

record tableView =
  tv_title :: string
  tv_columns :: "string list"
  tv_rows :: "cell list list"

definition rectangular :: "tableView \<Rightarrow> bool" where
  "rectangular t = list_all (\<lambda>r. length r = length (tv_columns t)) (tv_rows t)"

text \<open>\<open>toFixed(d)\<close> with \<open>d > 0\<close>, of a number that is not negative and below $10^{21}$.\<close>

definition toFixed :: "nat \<Rightarrow> jsnum \<Rightarrow> string" where
  "toFixed d x =
     (let n = nat \<lfloor>x * 10 ^ d + 1 / 2\<rfloor>
      in nat_to_string (n div 10 ^ d) @ ''.'' @ pad_zeros d (nat_to_string (n mod 10 ^ d)))"

definition formatDuration :: "int \<Rightarrow> string" where
  "formatDuration seconds =
     (if seconds < 3600 then int_to_string \<lfloor>fl (of_int seconds / 60) + 1 / 2\<rfloor> @ ''m''
      else if seconds < 86400 then toFixed 1 (fl (of_int seconds / 3600)) @ ''h''
      else toFixed 1 (fl (of_int seconds / 86400)) @ ''d'')"

lemma formatDuration_samples:
  "formatDuration 90 = ''2m''" "formatDuration 5400 = ''1.5h''" "formatDuration 129600 = ''1.5d''"
  by code_simp+

definition amount_text :: "jsnum \<Rightarrow> ListItem \<Rightarrow> string" where
  "amount_text a i = num_toString a @ '' '' @ assetCode (item_stream i)"

definition percent_text :: "ListItem \<Rightarrow> string" where
  "percent_text i = num_toString (percentComplete (item_progress i)) @ ''%''"

definition item_status :: "ListItem \<Rightarrow> StreamStatus" where
  "item_status i = status (item_progress i)"

section \<open>The table of streams\<close>

definition VIRTUALIZATION_THRESHOLD :: nat where "VIRTUALIZATION_THRESHOLD = 50"
definition SKELETON_ROW_COUNT :: nat where "SKELETON_ROW_COUNT = 6"
definition ESTIMATE_ROW_HEIGHT_PX :: nat where "ESTIMATE_ROW_HEIGHT_PX = 52"
definition STREAMS_TABLE_VIRTUAL_OVERSCAN :: nat where "STREAMS_TABLE_VIRTUAL_OVERSCAN = 5"

definition shouldVirtualize :: "bool \<Rightarrow> 'a list \<Rightarrow> bool" where
  "shouldVirtualize loading sorted_items = (\<not> loading \<and> VIRTUALIZATION_THRESHOLD \<le> length sorted_items)"

text \<open>The rows mounted before the virtualiser has measured: a viewport of 480 pixels of rows, rounded up, and some more.\<close>

definition fallback_rows :: "'a list \<Rightarrow> (nat \<times> nat \<times> nat) list" where
  "fallback_rows sorted_items =
     map (\<lambda>i. (i, i * ESTIMATE_ROW_HEIGHT_PX, (i + 1) * ESTIMATE_ROW_HEIGHT_PX))
       [0..<min (length sorted_items)
          ((480 + ESTIMATE_ROW_HEIGHT_PX - 1) div ESTIMATE_ROW_HEIGHT_PX + STREAMS_TABLE_VIRTUAL_OVERSCAN)]"

text \<open>\<open>sort((a, b) => a.id.localeCompare(b.id))\<close>; \<open>rank\<close> is the order of the locale. Then the figures of frames.\<close>

definition sortedStreams :: "(string \<Rightarrow> 'o :: linorder) \<Rightarrow> ListItem list \<Rightarrow> ListItem list" where
  "sortedStreams rank items = sort_key (\<lambda>i. rank (stream_id (item_stream i))) items"

definition streamsWithProgress :: "(string \<Rightarrow> StreamProgress option) \<Rightarrow> ListItem list \<Rightarrow> ListItem list" where
  "streamsWithProgress updates items =
     map (\<lambda>i. case updates (stream_id (item_stream i)) of None \<Rightarrow> i | Some p \<Rightarrow> i\<lparr>item_progress := p\<rparr>) items"

definition column_headings :: "(string \<times> string) list" where
  "column_headings =
     [(''assetCode'', ''Asset''), (''duration'', ''Duration''), (''ratePerSecond'', ''Rate / sec''), (''pausedDuration'', ''Paused'')]"

definition visible_columns :: "(string \<Rightarrow> bool) \<Rightarrow> string list" where
  "visible_columns isVisible = filter isVisible OPTIONAL_STREAM_COLUMNS"

definition colCount :: "(string \<Rightarrow> bool) \<Rightarrow> nat" where
  "colCount isVisible = 7 + length (visible_columns isVisible)"

definition table_columns :: "(string \<Rightarrow> bool) \<Rightarrow> string list" where
  "table_columns isVisible =
     [[], ''ID'', ''Sender'', ''Recipient''] @ map snd (filter (\<lambda>c. isVisible (fst c)) column_headings) @
     [''Progress'', ''Status'', ''Actions'']"

definition optional_cell :: "ListItem \<Rightarrow> string \<Rightarrow> cell" where
  "optional_cell i col =
     (if col = ''assetCode'' then Says [assetCode (item_stream i)]
      else if col = ''duration'' then Says [formatDuration (durationSeconds (item_stream i))]
      else if col = ''ratePerSecond'' then
        (case ratePerSecond (item_progress i) of Finite v \<Rightarrow> Says [toFixed 6 v] | PosInfinity \<Rightarrow> Throws)
      else Says [int_to_string (pausedDuration (item_stream i)) @ ''s''])"

definition finalised :: "ListItem \<Rightarrow> bool" where
  "finalised i = (item_status i = Completed \<or> item_status i = Canceled)"

definition table_row :: "int \<Rightarrow> (string \<Rightarrow> bool) \<Rightarrow> string list \<Rightarrow> string option \<Rightarrow> ListItem \<Rightarrow> cell list" where
  "table_row now isVisible selected_ids expanded i =
     [Checkbox (stream_id (item_stream i) \<in> set selected_ids) (finalised i),
      Buttons [((if expanded = Some (stream_id (item_stream i)) then ''Hide timeline '' else ''Show timeline '') @
                stream_id (item_stream i), False)],
      Says [truncatedAddress False (sender (item_stream i))],
      Says [truncatedAddress False (recipient (item_stream i))]] @
     map (optional_cell i) (visible_columns isVisible) @
     [Says [toFixed 2 (percentComplete (item_progress i)) @ ''%'', ''Vested: '' @ toFixed 2 (vested_of i) @ '' '' @ assetCode (item_stream i)],
      Says (status_name (item_status i) # map hb_label (getHealthBadges i now)),
      Buttons ((if item_status i = Scheduled then [(''Edit'', False)] else []) @
        (if item_status i = Active then [(''Pause'', False)] else []) @
        (if item_status i = Paused then [(''Resume'', False)] else []) @ [(''Cancel'', finalised i)])]"

definition streams_table ::
  "(string \<Rightarrow> 'o :: linorder) \<Rightarrow> int \<Rightarrow> (string \<Rightarrow> bool) \<Rightarrow> string list \<Rightarrow> string option \<Rightarrow> (string \<Rightarrow> StreamProgress option) \<Rightarrow>
   bool \<Rightarrow> ListItem list \<Rightarrow> tableView" where
  "streams_table rank now isVisible selected_ids expanded updates loading items =
     \<lparr> tv_title = ''Live Streams'', tv_columns = table_columns isVisible,
       tv_rows = (if loading then replicate SKELETON_ROW_COUNT (replicate (colCount isVisible) (Says []))
                  else (let shown = streamsWithProgress updates (sortedStreams rank items) in
                        map (table_row now isVisible selected_ids expanded)
                          (if shouldVirtualize loading items then map (\<lambda>(k, a, b). shown ! k) (fallback_rows items) else shown))) \<rparr>"

definition plural_streams :: "nat \<Rightarrow> string" where
  "plural_streams n = (if n \<noteq> 1 then ''s'' else [])"

definition bulk_bar :: "nat \<Rightarrow> bool \<Rightarrow> nat \<times> nat \<Rightarrow> string \<times> string \<times> bool" where
  "bulk_bar n canceling progress =
     (nat_to_string n @ '' stream'' @ plural_streams n @ '' selected'',
      (if canceling then ''Canceling '' @ nat_to_string (fst progress) @ ''/'' @ nat_to_string (snd progress) @ ''...''
       else ''Cancel '' @ nat_to_string n @ '' Stream'' @ plural_streams n), canceling)"

text \<open>The keys the table listens to, outside of text fields.\<close>

datatype tableKey = SelectAllKey | EscapeKey | DeleteKey | OtherKey

definition table_key :: "bool \<Rightarrow> tableKey \<Rightarrow> TableState \<Rightarrow> TableState \<times> bool" where
  "table_key inTextField k st =
     (if inTextField then (st, False)
      else (case k of
              SelectAllKey \<Rightarrow> (handleSelectAllToggle st, False)
            | EscapeKey \<Rightarrow> (clear_selection st, False)
            | DeleteKey \<Rightarrow> (st, selected st \<noteq> [])
            | OtherKey \<Rightarrow> (st, False)))"

lemma optional_columns_match:
  "length (filter (\<lambda>c. isVisible (fst c)) column_headings) = length (visible_columns isVisible)"
  by (simp add: column_headings_def visible_columns_def OPTIONAL_STREAM_COLUMNS_def)

lemma table_columns_count: "length (table_columns isVisible) = colCount isVisible"
  using optional_columns_match [of isVisible] by (simp add: table_columns_def colCount_def)

lemma table_row_count: "length (table_row now isVisible sel expanded i) = colCount isVisible"
  by (simp add: table_row_def colCount_def)

lemma fallback_in_range: "(k, a, b) \<in> set (fallback_rows items) \<Longrightarrow> k < length items \<and> k < 15"
  by (auto simp: fallback_rows_def ESTIMATE_ROW_HEIGHT_PX_def STREAMS_TABLE_VIRTUAL_OVERSCAN_def)

text \<open>The order the server listed in is lost: two listings of the same streams give the same table.\<close>

lemma table_ignores_order:
  assumes "mset items = mset items'" "inj rank" "distinct (map (\<lambda>i. stream_id (item_stream i)) items)"
  shows "sortedStreams rank items = sortedStreams rank items'"
proof -
  let ?f = "\<lambda>i. rank (stream_id (item_stream i))"
  have "inj_on ?f (set items)"
    using assms(2, 3) by (auto simp: inj_on_def distinct_map dest: injD)
  moreover have "mset (sort_key ?f items') = mset items" using assms(1) by simp
  ultimately show ?thesis unfolding sortedStreams_def
    by (intro sort_key_inj_key_eq) simp_all
qed

section \<open>The page of a sender\<close>

definition sender_columns :: "string list" where
  "sender_columns = [''To'', ''Asset'', ''Total'', ''Status'', ''Progress'', ''Actions'']"

definition action_label :: "string \<Rightarrow> string" where
  "action_label act = (if act = ''pause'' then ''Pause'' else if act = ''resume'' then ''Resume'' else ''Cancel'')"

definition sender_row :: "ListItem \<Rightarrow> cell list" where
  "sender_row i =
     [Says [ends_of 8 4 (recipient (item_stream i))], Says [assetCode (item_stream i)],
      Says [amount_text (totalAmount (item_stream i)) i], Says [status_name (item_status i)], Says [percent_text i],
      Buttons (map (\<lambda>a. (action_label a, False)) (row_actions (item_status i)))]"

definition sender_page_tables :: "ListItem list \<Rightarrow> tableView list" where
  "sender_page_tables items =
     map (\<lambda>(title, its). \<lparr> tv_title = title, tv_columns = sender_columns, tv_rows = map sender_row its \<rparr>) (sender_tables items)"

definition page_texts :: "pageView \<Rightarrow> string list" where
  "page_texts v = ''My Streams'' #
     (case v of
        NotConnected \<Rightarrow> [''Wallet Not Connected'', ''Connect your wallet to view your outgoing streams.'']
      | Skeletons \<Rightarrow> []
      | LoadFailed m \<Rightarrow> [''Dashboard Load Failed'', m]
      | NoStreams \<Rightarrow> [''No Streams Found'', ''You haven'' @ [CHR 0x27] @ ''t created any streams yet.'', ''Create a Stream'']
      | Rows items \<Rightarrow> ''View all your outgoing streams and manage them.'' # map tv_title (sender_page_tables items))"

definition confirm_dialog :: "string \<times> string \<Rightarrow> bool \<Rightarrow> string list \<times> (string \<times> bool) list" where
  "confirm_dialog c busy =
     ([(if snd c = ''pause'' then ''Pause stream?'' else if snd c = ''resume'' then ''Resume stream?'' else ''Cancel stream?''),
       ''Are you sure you want to '' @ snd c @ '' stream #'' @ fst c @ ''?''],
      [(''Close'', busy), (if busy then ''Working'' @ ellipsis else ''Confirm'', busy)])"

section \<open>The sender dashboard\<close>

definition panel_row :: "string list \<Rightarrow> ListItem \<Rightarrow> cell list" where
  "panel_row selected_ids i =
     [Checkbox (stream_id (item_stream i) \<in> set selected_ids) False, Says [ends_of 8 4 (recipient (item_stream i))],
      Says [assetCode (item_stream i)], Says [amount_text (totalAmount (item_stream i)) i],
      Says [status_name (item_status i)], Says [percent_text i],
      Buttons ((if item_status i = Scheduled then [(''Edit'', False)] else []) @ [(''Cancel'', item_status i = Canceled)])]"

definition panel_history_row :: "ListItem \<Rightarrow> cell list" where
  "panel_history_row i =
     [Says [ends_of 8 4 (recipient (item_stream i))], Says [assetCode (item_stream i)],
      Says [amount_text (totalAmount (item_stream i)) i], Says [status_name (item_status i)]]"

definition panel_tables :: "'w Panel \<Rightarrow> tableView list" where
  "panel_tables p =
     (let act = panel_rows (pn_streams p); hist = with_status [Completed, Canceled] (pn_streams p) in
      (if act \<noteq> [] then [\<lparr> tv_title = ''Active & Scheduled'',
          tv_columns = [[], ''To'', ''Asset'', ''Total'', ''Status'', ''Progress'', ''Actions''],
          tv_rows = map (panel_row (pn_selected p)) act \<rparr>] else []) @
      (if hist \<noteq> [] then [\<lparr> tv_title = ''History'', tv_columns = [''To'', ''Asset'', ''Total'', ''Status''],
          tv_rows = map panel_history_row hist \<rparr>] else []))"

text \<open>The colour of a bar is looked up by its place and its written name, which no status has: every bar is grey.\<close>

definition statusColor :: "string \<Rightarrow> string" where
  "statusColor st =
     (if st = ''active'' then ''#10b981'' else if st = ''scheduled'' then ''#f59e0b'' else if st = ''completed'' then ''#3b82f6''
      else if st = ''canceled'' then ''#ef4444'' else if st = ''paused'' then ''#8b5cf6'' else ''#6b7280'')"

definition bar_colors :: "(string \<times> nat) list \<Rightarrow> string list" where
  "bar_colors bars =
     map (\<lambda>k. statusColor ([''Scheduled'', ''Active'', ''Paused'', ''Completed'', ''Canceled''] ! k)) [0..<length bars]"

lemma bars_grey: "set (bar_colors (chart_data s)) \<subseteq> {''#6b7280''}"
proof -
  have "length (chart_data s) \<le> 5" by (simp add: chart_data_def)
  moreover have "k < 5 \<Longrightarrow> statusColor ([''Scheduled'', ''Active'', ''Paused'', ''Completed'', ''Canceled''] ! k) = ''#6b7280''" for k
    by (auto simp: statusColor_def numeral_eq_Suc less_Suc_eq)
  ultimately show ?thesis by (auto simp: bar_colors_def)
qed

section \<open>The recipient dashboard\<close>

definition recipient_active_row :: "ClaimState \<Rightarrow> ListItem \<Rightarrow> cell list" where
  "recipient_active_row cs i =
     (let b = claim_button cs True (stream_id (item_stream i)) (vested_of i) (assetCode (item_stream i)) in
      [Says [truncatedAddress False (sender (item_stream i))], Says [assetCode (item_stream i)],
       Says [amount_text (vested_of i) i], Says [amount_text (totalAmount (item_stream i)) i],
       Says [status_name (item_status i)], Says [percent_text i], Buttons [(cb_label b, cb_disabled b)]])"

definition recipient_completed_row :: "ListItem \<Rightarrow> cell list" where
  "recipient_completed_row i =
     [Says [truncatedAddress False (sender (item_stream i))], Says [assetCode (item_stream i)],
      Says [amount_text (vested_of i) i], Says [amount_text (totalAmount (item_stream i)) i],
      Says [status_name (item_status i)]]"

definition recipient_tables :: "ClaimState \<Rightarrow> ListItem list \<Rightarrow> tableView list" where
  "recipient_tables cs items =
     (let f = recipient_figures items in
      (if rf_active f \<noteq> [] then [\<lparr> tv_title = ''Active streams'',
          tv_columns = [''From'', ''Asset'', ''Claimable'', ''Total'', ''Status'', ''Progress'', ''Action''],
          tv_rows = map (recipient_active_row cs) (rf_active f) \<rparr>] else []) @
      (if rf_completed f \<noteq> [] then [\<lparr> tv_title = ''Completed streams'',
          tv_columns = [''From'', ''Asset'', ''Claimed'', ''Total'', ''Status''],
          tv_rows = map recipient_completed_row (rf_completed f) \<rparr>] else []))"

definition claim_all_offered :: "ListItem list \<Rightarrow> bool" where
  "claim_all_offered items = (1 < length (rf_active (recipient_figures items)))"

text \<open>Every table is well formed: whatever streams are listed, selected or expanded, while loading or windowed, each
  row of each table of the client has as many cells as the table has headings, and no table of the three dashboards is
  empty.\<close>

theorem tables_rectangular:
  "rectangular (streams_table rank now isVisible sel expanded updates loading items) \<and>
   list_all (\<lambda>t. rectangular t \<and> tv_rows t \<noteq> []) (sender_page_tables items) \<and>
   list_all (\<lambda>t. rectangular t \<and> tv_rows t \<noteq> []) (panel_tables p) \<and>
   list_all (\<lambda>t. rectangular t \<and> tv_rows t \<noteq> []) (recipient_tables cs items)"
proof (intro conjI)
  show "rectangular (streams_table rank now isVisible sel expanded updates loading items)"
    by (auto simp: rectangular_def streams_table_def list_all_iff table_columns_count table_row_count Let_def)
  show "list_all (\<lambda>t. rectangular t \<and> tv_rows t \<noteq> []) (sender_page_tables items)"
    by (auto simp: rectangular_def sender_page_tables_def sender_tables_def sender_columns_def sender_row_def list_all_iff)
  show "list_all (\<lambda>t. rectangular t \<and> tv_rows t \<noteq> []) (panel_tables p)"
    by (auto simp: rectangular_def panel_tables_def panel_row_def panel_history_row_def list_all_iff Let_def)
  show "list_all (\<lambda>t. rectangular t \<and> tv_rows t \<noteq> []) (recipient_tables cs items)"
    by (auto simp: rectangular_def recipient_tables_def recipient_active_row_def recipient_completed_row_def list_all_iff
        Let_def)
qed

end
