(* ===== verification/Spec2Isabelle.thy ===== *)
theory Spec2Isabelle
  imports Process EnvConfig Postgres Jobs RedisCache Logging ClientChart ClientScreens
begin

text \<open>
  A verification development for stellar-stream: payment streams that vest linearly over time, kept in a
  SQLite database, mirrored from a Soroban contract, announced to webhooks and WebSocket clients, served
  by an HTTP API (\<open>backend/src/\<close>) and shown, created and claimed in a browser (\<open>frontend/src/\<close>).

  \<^bold>\<open>The program and its theories.\<close> The server is one process. Its shared state is the database and two
  module-level caches; the handlers of the API, the interval jobs and the start-up code all work on
  it through the service modules. Theories follow the modules:

  \<^item> \<open>Prelude\<close>, \<open>JsNumber\<close>: strings, JSON, lists; doubles as rationals with rounding written out
    (\<open>fl\<close>), \<open>parseInt\<close>, \<open>Math.round\<close>.
  \<^item> \<open>Tables\<close>: the database, one list of rows per table with the constraints of the schema
    (primary keys, the foreign key of events, the index that drops repeated ledger events); the
    locale \<open>keyed_table\<close> with its interpretations on the tables; the invariant \<open>db_ok\<close>.
  \<^item> \<open>Streams\<close>: records, rows, \<open>computeStatus\<close> and \<open>calculateProgress\<close> of \<open>services/streamStore.ts\<close>.
    \<open>StreamStore\<close>, \<open>StreamTheorems\<close>: its operations (create, cancel, pause, resume, reschedule,
    complete, archive, list, compare), with and without Soroban. \<open>ChainSync\<close>: start-up sync,
    reconciliation and batched claimable amounts, with \<open>services/reconciliationJob.ts\<close>.
  \<^item> \<open>EventHistory\<close> (\<open>services/eventHistory.ts\<close>): the append-only log and its queries.
  \<^item> \<open>Indexer\<close>, \<open>IndexerTheorems\<close> (\<open>services/indexer.ts\<close>): circuit breaker, checkpoint, event
    decoding, polling. \<open>SorobanRetry\<close> (\<open>utils/sorobanRetry.ts\<close>): retries with backoff.
  \<^item> \<open>Webhook\<close>, \<open>WebhookSecurity\<close> (\<open>services/webhook*.ts\<close>): queue, worker, dead letters, URL check,
    signatures. \<open>Monitoring\<close>: outcomes of indexer and webhook queue.
  \<^item> \<open>Stats\<close>, \<open>CacheAdapter\<close>: the statistics with their caches; the in-memory cache adapter and the
    locale that states what a cache promises. \<open>RedisCache\<close>: the adapter for Redis, a refinement of the one in
    memory when Redis answers as documented (\<open>redis_documented\<close>), and the module that chooses between them.
  \<^item> \<open>Auth\<close>, \<open>ApiErrors\<close>, \<open>Validation\<close>: challenges, tokens and middleware; errors; the schemas.
  \<^item> \<open>Listing\<close>, \<open>ReadRoutes\<close>, \<open>MutationRoutes\<close>, \<open>RouteTheorems\<close> (\<open>index.ts\<close>): the handlers.
  \<^item> \<open>Realtime\<close>: WebSocket server and progress broadcaster. \<open>Migrations\<close>, \<open>SqlTranslate\<close>: opening and
    migrating the database, restore outcomes, translation of statements. \<open>Postgres\<close> (\<open>services/db.ts\<close>): the
    bridge to the worker thread as an interleaving of two threads, statements and transactions.
    \<open>EnvConfig\<close>: the environment.
  \<^item> \<open>Jobs\<close>: the timers of the background jobs, what starts and stops them and what keeps their cycles apart,
    with \<open>startServer\<close>; the locale that states what a job promises, interpreted for each of the six.
    \<open>Logging\<close> (\<open>logger.ts\<close>, \<open>services/metrics.ts\<close>): the redaction of log entries, the registry, the signing key.
    \<open>Edge\<close>: granted origins, refused bodies (\<open>index.ts\<close>), open issues (\<open>services/openIssues.ts\<close>).
  \<^item> \<open>Routes\<close> (\<open>index.ts\<close>): the table of routes with their guards in the order of registration, dispatch by the
    first entry that matches, the way of a request through CORS, body parser, guards. How Express compares
    paths is a parameter, documented by \<open>documented_matching\<close>. \<open>ApiDoc\<close> (\<open>swagger.ts\<close>): the OpenAPI document as a JSON
    value and the meaning of its schemas. \<open>ApiConformance\<close>: the answers of the model against the document.
  \<^item> \<open>Process\<close>: the composition. A state holds the application, the indexer, the used nonces and the
    requests that wait for the network; the relation \<open>step\<close> has one rule per operation that changes
    state, with the waits of cancel and claim as separate steps, and a rule for crash and restart.

  The client's theories follow its folders; each works on the answers of the server's own definitions.

  \<^item> \<open>ClientUrls\<close> (\<open>hooks/useUrlFilters.ts\<close>, \<open>hooks/useStreamFilter.ts\<close>): the state kept in the URL and the
    filters of the tables. \<open>ClientDashboard\<close> (\<open>pages/DashboardPage.tsx\<close>): the query sent, reloading and
    loading more, composed with the listing route. \<open>ClientView\<close> (\<open>services/api.ts\<close>): merged histories.
  \<^item> \<open>ClientTables\<close>: frames of the WebSocket on the screen, selection and bulk cancellation
    (\<open>components/StreamsTable.tsx\<close>), badges (\<open>utils/streamHealthBadges.ts\<close>), timeline, figures of the sender
    and recipient pages. \<open>ClientChart\<close> (\<open>components/StreamMetricsChart.tsx\<close>): the window of the chart.
  \<^item> \<open>ClientClaims\<close> (\<open>services/soroban.ts\<close>), \<open>ClientHooks\<close> (\<open>hooks/useClaimStream.ts\<close>,
    \<open>hooks/useClaimBatch.ts\<close>): the claim transaction, and its hooks as machines of clicks, answers, timers.
  \<^item> \<open>ClientForm\<close> (\<open>components/CreateStreamForm.tsx\<close>, \<open>hooks/useFormValidation.ts\<close>): the form and its payload,
    composed with the schemas of the server. \<open>ClientSession\<close>: request cache, wallet session, history of
    the URL, drawer, drafts, columns, theme, toasts and reconnection. \<open>ClientActions\<close>: the handlers of the
    dashboard, the submissions of form and dialog, the actions of the drawer, and a cancellation all the way
    through the routes of the server back to the screen.
  \<^item> \<open>ClientPages\<close>: the page of a sender (\<open>pages/SenderDashboard.tsx\<close>) as a machine of wallet changes, polls, actions and
    late answers, the panel of the sender (\<open>components/SenderDashboard.tsx\<close>) and the dialog for batch claims.
    \<open>ClientWidgets\<close>: navigation, wallet button, labels, cliff marker, focus trap, loading of the chart.
    \<open>ClientScreens\<close>: what the tables of all dashboards say, cell by cell.

  \<^bold>\<open>Modelling.\<close> An operation is a function from the clock readings it makes (in order), the answers of
  the outside world and the state to a result and the new state; a thrown error is \<open>Inl\<close>. Records have
  the fields of the interfaces, absent or null fields are \<open>None\<close>, a transaction that fails returns the
  state it started from. Amounts and ratios are doubles; counters, page numbers and times are exact
  integers, which agree with JavaScript below $2^{53}$. The Stellar SDK, the JWT library, Horizon, the
  RPC server, the HTTP post of a webhook, HMAC, URL parsing, the SQL engine of migration scripts and
  the summation order of SQLite are parameters. Issue texts of Zod are parameters of the handlers.

  \<^bold>\<open>What is proved.\<close> For the whole server: the schema rules, the position of the checkpoint and the
  uniqueness of claims hold in every reachable state, and history only grows. For streams: bounds and
  monotony of vesting, the order of the states, what each operation changes and that a refused one
  changes nothing. For the outside interfaces: no operation of a stream without its owner's token,
  challenges are used once, pages of a listing form the listing, frames reach subscribers only. For
  the jobs: retry budget and conservation of webhooks, idempotence of event processing, equality of the
  two polling modes, the breaker, repair by reconciliation, migrations that run once, and that no job ever
  has two timers or two cycles at once. For the edge: no handler that changes something is reached without
  the credentials it asks for, every route is reached, errors and figures have the documented form, and
  nothing that is logged shows a secret key. The bridge to Postgres is shown to be a function call. Several theorems
  describe what the code does where that differs from its comments: overlapping cancellations,
  archiving after a cancel, events of unknown streams, the newest stream of the contract, batches on Postgres.
  For the client: the URL and the form round-trip through what reads them (the server's schemas for the
  form), scrolling ends with the server's listing, frames put the server's figures on the screen, a claim
  submits what was shown, batches claim in order, selection, tables and chart stay within what is shown,
  a sender is shown its own streams whatever the order of answers, and what is confirmed is what was summarised.

  \<^bold>\<open>Bounds and fuel.\<close> The pages of the indexer are read with fuel; an amount of fuel above the number of
  pages is shown to be enough, and running out is \<open>None\<close>. The retry loop and the loops over lists are
  structural. Shortest decimal digits of a double are searched up to seventeen digits, which suffice.
  The polls for a transaction are bounded by the thirty of the source.

  \<^bold>\<open>Not modelled.\<close> The windows of the rate limiters and the security headers (middleware of libraries; the
  verdict of a limiter is a parameter), the transport of log lines and the exposition format of Prometheus, the
  functions of the asset list (they are missing from the module they are imported from and are parameters of their
  routes), and the Rust contract. Of the client: markup, styles, pictograms, numbers and dates as the
  browser writes them for its locale, the window of rows a virtualised table shows once it has been measured, the
  tour, drawing and image export of the chart. A state update of React is taken at once, and
  a frame is taken to be rendered before the next one arrives.
\<close>

end
